(* ===== verification/Prelude.thy ===== *)
theory Prelude
  imports Main "HOL-Library.Word"
begin

text \<open>
  What the component theories share: machine integer types, the C string
  functions the sources call (strtok over a separator, strchr, strcasecmp,
  strtol with base 0), sequencing of fallible loop bodies, and the two
  collections of rewrite rules the proofs of the components carry.

  A C string is a \<^typ>\<open>string\<close>, its characters up to the terminating NUL.
  A process exit is the left summand of a result; the right summand is the
  state after a normal return.
\<close>

unbundle bit_operations_syntax

named_theorems emit_simps \<open>unfolding of the code emitted by the filter generators\<close>
named_theorems cstr_simps \<open>evaluation of the C string functions\<close>

type_synonym u8 = "8 word"
type_synonym u16 = "16 word"
type_synonym u32 = "32 word"
type_synonym u64 = "64 word"

section \<open>Fallible loops\<close>

text \<open>A loop over a list whose body may leave the process: the first failure ends the loop.\<close>

primrec fold_res :: "('a \<Rightarrow> 's \<Rightarrow> 'e + 's) \<Rightarrow> 'a list \<Rightarrow> 's \<Rightarrow> 'e + 's" where
  "fold_res f [] s = Inr s"
| "fold_res f (x # xs) s = (case f x s of Inl e \<Rightarrow> Inl e | Inr s' \<Rightarrow> fold_res f xs s')"

lemma fold_res_cong [fundef_cong]:
  assumes "xs = ys" and "s = t" and "\<And>x s. x \<in> set ys \<Longrightarrow> f x s = g x s"
  shows "fold_res f xs s = fold_res g ys t"
proof -
  have "(\<And>x s. x \<in> set ys \<Longrightarrow> f x s = g x s) \<Longrightarrow> fold_res f ys t = fold_res g ys t"
  proof (induction ys arbitrary: t)
    case Nil
    then show ?case by simp
  next
    case (Cons y ys)
    have eq: "f y t = g y t" by (rule Cons.prems) simp
    have IH: "fold_res f ys t' = fold_res g ys t'" for t'
      by (rule Cons.IH) (rule Cons.prems, simp)
    show ?case by (simp add: eq IH split: sum.split)
  qed
  then show ?thesis using assms by simp
qed

lemma fold_res_append:
  "fold_res f (xs @ ys) s = (case fold_res f xs s of Inl e \<Rightarrow> Inl e | Inr s' \<Rightarrow> fold_res f ys s')"
  by (induction xs arbitrary: s) (auto split: sum.split)

lemma fold_res_total: "(\<And>x s. x \<in> set xs \<Longrightarrow> f x s = Inr (g x s)) \<Longrightarrow> fold_res f xs s = Inr (fold g xs s)"
  by (induction xs arbitrary: s) auto

lemma fold_res_invariant:
  assumes "\<And>x s s'. x \<in> set xs \<Longrightarrow> I s \<Longrightarrow> f x s = Inr s' \<Longrightarrow> I s'"
    and "I s" and "fold_res f xs s = Inr s'"
  shows "I s'"
  using assms by (induction xs arbitrary: s) (auto split: sum.splits)

text \<open>Sequencing of two steps, the second of which runs only if the first returns.\<close>

definition bind_res :: "'e + 'a \<Rightarrow> ('a \<Rightarrow> 'e + 'b) \<Rightarrow> 'e + 'b" where
  "bind_res m f = (case m of Inl e \<Rightarrow> Inl e | Inr x \<Rightarrow> f x)"

lemma bind_res_simps [simp]: "bind_res (Inl e) f = Inl e" "bind_res (Inr x) f = f x"
  by (simp_all add: bind_res_def)

lemma bind_res_Inr: "bind_res m f = Inr y \<longleftrightarrow> (\<exists>x. m = Inr x \<and> f x = Inr y)"
  by (cases m) auto

text \<open>The same loop when the bodies only produce lists of items.\<close>

primrec collect :: "('a \<Rightarrow> 'e + 'b list) \<Rightarrow> 'a list \<Rightarrow> 'e + 'b list" where
  "collect f [] = Inr []"
| "collect f (x # xs) =
     (case f x of Inl e \<Rightarrow> Inl e
      | Inr a \<Rightarrow> (case collect f xs of Inl e \<Rightarrow> Inl e | Inr b \<Rightarrow> Inr (a @ b)))"

lemma collect_cong [fundef_cong]:
  assumes "xs = ys" and "\<And>x. x \<in> set ys \<Longrightarrow> f x = g x"
  shows "collect f xs = collect g ys"
  using assms(2) unfolding assms(1) by (induction ys) (auto split: sum.split)

lemma collect_InrD:
  "collect f xs = Inr ys \<Longrightarrow>
     (\<forall>x \<in> set xs. f x = Inr (projr (f x))) \<and> ys = concat (map (\<lambda>x. projr (f x)) xs)"
  by (induction xs arbitrary: ys) (auto split: sum.splits)

lemma collect_total: "(\<And>x. x \<in> set xs \<Longrightarrow> f x = Inr (g x)) \<Longrightarrow> collect f xs = Inr (concat (map g xs))"
  by (induction xs) auto

lemma fold_invariant: "(\<And>x s. x \<in> set xs \<Longrightarrow> I s \<Longrightarrow> I (f x s)) \<Longrightarrow> I s \<Longrightarrow> I (fold f xs s)"
  by (induction xs arbitrary: s) auto

lemma fold_res_collect:
  assumes body: "\<And>x s. x \<in> set xs \<Longrightarrow> I s \<Longrightarrow>
      body x s = (case items x of Inl e \<Rightarrow> Inl e | Inr is \<Rightarrow> Inr (fold emit is s))"
    and emit: "\<And>e s. I s \<Longrightarrow> I (emit e s)" and "I s"
  shows "fold_res body xs s = (case collect items xs of Inl e \<Rightarrow> Inl e | Inr is \<Rightarrow> Inr (fold emit is s))"
  using body \<open>I s\<close>
proof (induction xs arbitrary: s)
  case Nil
  show ?case by simp
next
  case (Cons x xs)
  have step: "body x s = (case items x of Inl e \<Rightarrow> Inl e | Inr is \<Rightarrow> Inr (fold emit is s))"
    using Cons.prems by simp
  show ?case
  proof (cases "items x")
    case (Inl e)
    with step show ?thesis by simp
  next
    case (Inr "is")
    have "I (fold emit is s)"
      by (rule fold_invariant [where I = I]) (use emit Cons.prems(2) in auto)
    then have "fold_res body xs (fold emit is s) =
        (case collect items xs of Inl e \<Rightarrow> Inl e | Inr js \<Rightarrow> Inr (fold emit js (fold emit is s)))"
      using Cons.prems(1) by (intro Cons.IH) simp_all
    with Inr step show ?thesis by (simp split: sum.split)
  qed
qed

section \<open>C strings\<close>

text \<open>
  \<^verbatim>\<open>strtok\<close> and \<^verbatim>\<open>strtok_r\<close> with a one-character separator, called until they
  return NULL: the maximal runs of characters other than the separator.
\<close>

fun split_on :: "char \<Rightarrow> string \<Rightarrow> string list" where
  "split_on d [] = [[]]"
| "split_on d (c # s) =
     (if c = d then [] # split_on d s
      else (case split_on d s of [] \<Rightarrow> [[c]] | p # ps \<Rightarrow> (c # p) # ps))"

definition strtok_all :: "char \<Rightarrow> string \<Rightarrow> string list" where
  "strtok_all d s = filter (\<lambda>t. t \<noteq> []) (split_on d s)"

lemma split_on_not_Nil [simp]: "split_on d s \<noteq> []"
  by (induction s) (auto split: list.split)

lemma split_on_free: "d \<notin> set s \<Longrightarrow> split_on d s = [s]"
  by (induction s) auto

lemma split_on_append: "d \<notin> set s \<Longrightarrow> split_on d (s @ d # t) = s # split_on d t"
  by (induction s) auto

lemma split_on_pieces: "p \<in> set (split_on d s) \<Longrightarrow> d \<notin> set p"
proof (induction s arbitrary: p)
  case Nil
  then show ?case by simp
next
  case (Cons c s)
  obtain q qs where q: "split_on d s = q # qs" by (cases "split_on d s") auto
  with Cons show ?case by (auto split: if_splits)
qed

lemma strtok_all_pieces: "t \<in> set (strtok_all d s) \<Longrightarrow> t \<noteq> [] \<and> d \<notin> set t"
  by (auto simp: strtok_all_def dest: split_on_pieces)

lemma strtok_all_Nil [simp]: "strtok_all d [] = []"
  by (simp add: strtok_all_def)

lemma strtok_all_append: "d \<notin> set s \<Longrightarrow> s \<noteq> [] \<Longrightarrow> strtok_all d (s @ d # t) = s # strtok_all d t"
  by (simp add: strtok_all_def split_on_append)

lemma strtok_all_last: "d \<notin> set s \<Longrightarrow> s \<noteq> [] \<Longrightarrow> strtok_all d s = [s]"
  by (simp add: strtok_all_def split_on_free)

text \<open>
  Joining words with the separator, the way \<^verbatim>\<open>asprintf(&list, "%s,%s", old, new)\<close> grows a
  comma separated list, and cutting the result into tokens again gives the words back.
\<close>

fun join_on :: "char \<Rightarrow> string list \<Rightarrow> string" where
  "join_on d [] = []"
| "join_on d [w] = w"
| "join_on d (w # ws) = w @ d # join_on d ws"

lemma join_on_snoc: "ws \<noteq> [] \<Longrightarrow> join_on d (ws @ [w]) = join_on d ws @ d # w"
proof (induction ws rule: join_on.induct)
  case (3 d w v va)
  then show ?case by (cases va) auto
qed auto

lemma strtok_all_join:
  "(\<And>w. w \<in> set ws \<Longrightarrow> w \<noteq> [] \<and> d \<notin> set w) \<Longrightarrow> strtok_all d (join_on d ws) = ws"
  by (induction d ws rule: join_on.induct) (auto simp: strtok_all_append strtok_all_last)

text \<open>\<^verbatim>\<open>strchr(s, c)\<close> followed by writing a NUL there: the text before and after the first \<open>c\<close>.\<close>

definition strchr_cut :: "char \<Rightarrow> string \<Rightarrow> string \<times> string option" where
  "strchr_cut d s =
     (takeWhile (\<lambda>c. c \<noteq> d) s,
      (case dropWhile (\<lambda>c. c \<noteq> d) s of [] \<Rightarrow> None | _ # t \<Rightarrow> Some t))"

lemma strchr_cut_free: "d \<notin> set s \<Longrightarrow> strchr_cut d s = (s, None)"
proof -
  assume "d \<notin> set s"
  then have all: "\<forall>c \<in> set s. c \<noteq> d" by auto
  then have "takeWhile (\<lambda>c. c \<noteq> d) s = s" and "dropWhile (\<lambda>c. c \<noteq> d) s = []"
    by (simp_all only: takeWhile_eq_all_conv dropWhile_eq_Nil_conv)
  then show ?thesis by (simp only: strchr_cut_def list.case)
qed

lemma strchr_cut_append: "d \<notin> set s \<Longrightarrow> strchr_cut d (s @ d # t) = (s, Some t)"
  by (auto simp: strchr_cut_def takeWhile_append dropWhile_append)

text \<open>\<^verbatim>\<open>tolower\<close> in the C locale, and \<^verbatim>\<open>strcasecmp(a, b) == 0\<close>.\<close>

definition char_code :: "char \<Rightarrow> nat" where
  "char_code c = of_char c"

definition tolower_c :: "char \<Rightarrow> char" where
  "tolower_c c = (if 65 \<le> char_code c \<and> char_code c \<le> 90 then char_of (char_code c + 32) else c)"

definition strcase_eq :: "string \<Rightarrow> string \<Rightarrow> bool" where
  "strcase_eq a b \<longleftrightarrow> map tolower_c a = map tolower_c b"

lemma strcase_eq_refl [simp]: "strcase_eq a a"
  by (simp add: strcase_eq_def)

text \<open>Character classes of the C locale.\<close>

definition isdigit_c :: "char \<Rightarrow> bool" where
  "isdigit_c c \<longleftrightarrow> 48 \<le> char_code c \<and> char_code c \<le> 57"

definition islower_c :: "char \<Rightarrow> bool" where
  "islower_c c \<longleftrightarrow> 97 \<le> char_code c \<and> char_code c \<le> 122"

definition isupper_c :: "char \<Rightarrow> bool" where
  "isupper_c c \<longleftrightarrow> 65 \<le> char_code c \<and> char_code c \<le> 90"

definition isalnum_c :: "char \<Rightarrow> bool" where
  "isalnum_c c \<longleftrightarrow> isdigit_c c \<or> islower_c c \<or> isupper_c c"

definition isspace_c :: "char \<Rightarrow> bool" where
  "isspace_c c \<longleftrightarrow> char_code c = 32 \<or> (9 \<le> char_code c \<and> char_code c \<le> 13)"

text \<open>The value of a digit character in bases up to 16.\<close>

definition digit_val :: "char \<Rightarrow> nat option" where
  "digit_val c =
     (if isdigit_c c then Some (char_code c - 48)
      else if 97 \<le> char_code c \<and> char_code c \<le> 102 then Some (char_code c - 87)
      else if 65 \<le> char_code c \<and> char_code c \<le> 70 then Some (char_code c - 55)
      else None)"

text \<open>Reading digits of a base from the front of a string: the value and the rest.\<close>

fun read_digits :: "nat \<Rightarrow> nat \<Rightarrow> string \<Rightarrow> nat \<times> string" where
  "read_digits b acc [] = (acc, [])"
| "read_digits b acc (c # s) =
     (case digit_val c of
        Some v \<Rightarrow> if v < b then read_digits b (acc * b + v) s else (acc, c # s)
      | None \<Rightarrow> (acc, c # s))"

text \<open>
  \<^verbatim>\<open>strtol(s, NULL, 0)\<close> with a 64-bit \<^verbatim>\<open>long\<close>: white space, a sign, a prefix
  (0x hexadecimal, 0 octal, else decimal), digits; a value out of range is clamped.
\<close>

definition strtol_body :: "string \<Rightarrow> nat" where
  "strtol_body s =
     (case s of
        z # x # h # s' \<Rightarrow>
          if z = CHR ''0'' \<and> (x = CHR ''x'' \<or> x = CHR ''X'') \<and> digit_val h \<noteq> None
          then fst (read_digits 16 0 (h # s'))
          else if z = CHR ''0'' then fst (read_digits 8 0 s)
          else fst (read_digits 10 0 s)
      | z # s' \<Rightarrow> if z = CHR ''0'' then fst (read_digits 8 0 s) else fst (read_digits 10 0 s)
      | [] \<Rightarrow> 0)"

definition strtol0 :: "string \<Rightarrow> int" where
  "strtol0 s =
     (let t = dropWhile isspace_c s;
          v = (case t of
                 c # t' \<Rightarrow> if c = CHR ''-'' then - int (strtol_body t')
                           else if c = CHR ''+'' then int (strtol_body t')
                           else int (strtol_body t)
               | [] \<Rightarrow> 0)
      in max (- (2 ^ 63)) (min (2 ^ 63 - 1) v))"

text \<open>Conversion of a \<^verbatim>\<open>long\<close> to a 32-bit \<^verbatim>\<open>int\<close>: the value modulo \<open>2 ^ 32\<close>, signed.\<close>

definition to_int32 :: "int \<Rightarrow> int" where
  "to_int32 v = (v + 2 ^ 31) mod 2 ^ 32 - 2 ^ 31"

lemma to_int32_id: "- (2 ^ 31) \<le> v \<Longrightarrow> v < 2 ^ 31 \<Longrightarrow> to_int32 v = v"
  by (simp add: to_int32_def)

lemma to_int32_range: "- (2 ^ 31) \<le> to_int32 v \<and> to_int32 v < 2 ^ 31"
proof -
  have "0 \<le> (v + 2 ^ 31) mod 2 ^ 32" and "(v + 2 ^ 31) mod 2 ^ 32 < (2 ^ 32 :: int)"
    by simp_all
  then show ?thesis by (simp add: to_int32_def)
qed

text \<open>The conversion of an \<^verbatim>\<open>int\<close> to an unsigned 32-bit field.\<close>

abbreviation u32_of_int :: "int \<Rightarrow> u32" where
  "u32_of_int v \<equiv> word_of_int v"

lemma u32_of_int_inj:
  assumes "0 \<le> a" "a < 2 ^ 32" "0 \<le> b" "b < 2 ^ 32" "u32_of_int a = u32_of_int b"
  shows "a = b"
proof -
  have "uint (u32_of_int a) = uint (u32_of_int b)" using assms(5) by simp
  then show ?thesis using assms(1-4) by (simp add: uint_word_of_int)
qed

section \<open>Association lists searched from the front\<close>

text \<open>The table searches of the sources: a loop over an array that returns at the first hit.\<close>

fun find_by :: "('a \<Rightarrow> bool) \<Rightarrow> ('a \<times> 'b) list \<Rightarrow> 'b option" where
  "find_by p [] = None"
| "find_by p ((a, b) # xs) = (if p a then Some b else find_by p xs)"

lemma find_by_eq_map_of: "find_by (\<lambda>a. x = a) xs = map_of xs x"
  by (induction xs) auto

lemma find_by_None: "find_by p xs = None \<longleftrightarrow> (\<forall>(a, b) \<in> set xs. \<not> p a)"
  by (induction xs) (auto split: if_splits)

lemma find_by_Some_mem: "find_by p xs = Some b \<Longrightarrow> \<exists>a. (a, b) \<in> set xs \<and> p a"
  by (induction xs) (auto split: if_splits)

lemma map_of_swap:
  assumes "distinct (map fst xs)" and "distinct (map snd xs)" and "map_of xs a = Some b"
  shows "map_of (map prod.swap xs) b = Some a"
proof -
  have "(a, b) \<in> set xs" using assms(3) by (rule map_of_SomeD)
  then have "(b, a) \<in> set (map prod.swap xs)" by force
  moreover have "distinct (map fst (map prod.swap xs))"
    using assms(2) by (simp add: comp_def)
  ultimately show ?thesis by (metis map_of_eq_Some_iff)
qed

end
