(* ===== verification/Platform.thy ===== *)
theory Platform
  imports Prelude
begin

text \<open>
  The build configuration the C sources are compiled for. The preprocessor
  symbols, the byte order and the values of macros of system headers
  (\<^verbatim>\<open>linux/audit.h\<close>, \<^verbatim>\<open>sys/syscall.h\<close>, \<^verbatim>\<open>errno.h\<close>) are not in the
  repository, so they are fields of a record every definition takes. The
  system call tables of lib/syscall.c are selected by the same symbols, and are
  fields too; the tables for x86_64 and i386 are in the theories
  \<^verbatim>\<open>Syscall_x86_64\<close> and \<^verbatim>\<open>Syscall_i386\<close>.
\<close>

type_synonym syscall_table = "(string \<times> int) list"

record platform =
  defined :: "string \<Rightarrow> bool"
  big_endian :: bool
  mips_sim :: string
  audit :: "string \<Rightarrow> u32"
  SYS :: "string \<Rightarrow> int option"
  errno_val :: "string \<Rightarrow> int"
  have_ENOATTR :: bool
  syslist :: syscall_table
  syslist32 :: syscall_table

abbreviation def_x86_64 :: "platform \<Rightarrow> bool" where
  "def_x86_64 P \<equiv> defined P ''__x86_64__''"

text \<open>x86_64 with 64-bit pointers, as opposed to the x32 ABI.\<close>

abbreviation def_x86_64_lp64 :: "platform \<Rightarrow> bool" where
  "def_x86_64_lp64 P \<equiv> defined P ''__x86_64__'' \<and> defined P ''__LP64__''"

section \<open>The architecture numbers of include/seccomp.h\<close>

text \<open>
  The chain of conditionals that defines \<^verbatim>\<open>ARCH_NR\<close>, \<^verbatim>\<open>ARCH_32\<close> and \<^verbatim>\<open>ARCH_64\<close>: the
  names of the three AUDIT_ARCH constants, None for a platform without seccomp.
\<close>

definition arch_names :: "platform \<Rightarrow> (string \<times> string \<times> string) option" where
  "arch_names P =
    (if defined P ''__i386__'' then Some (''I386'', ''I386'', ''X86_64'')
     else if defined P ''__x86_64__'' then Some (''X86_64'', ''I386'', ''X86_64'')
     else if defined P ''__aarch64__'' then Some (''AARCH64'', ''ARM'', ''AARCH64'')
     else if defined P ''__arm__'' then Some (''ARM'', ''ARM'', ''AARCH64'')
     else if defined P ''__mips__'' \<and> big_endian P \<and> mips_sim P = ''ABI32''
       then Some (''MIPS'', ''MIPS'', ''MIPS64'')
     else if defined P ''__mips__'' \<and> \<not> big_endian P \<and> mips_sim P = ''ABI32''
       then Some (''MIPSEL'', ''MIPSEL'', ''MIPSEL64'')
     else if defined P ''__mips__'' \<and> big_endian P \<and> mips_sim P = ''ABI64''
       then Some (''MIPS64'', ''MIPS'', ''MIPS64'')
     else if defined P ''__mips__'' \<and> \<not> big_endian P \<and> mips_sim P = ''ABI64''
       then Some (''MIPSEL64'', ''MIPSEL'', ''MIPSEL64'')
     else if defined P ''__mips__'' \<and> big_endian P \<and> mips_sim P = ''NABI32''
       then Some (''MIPS64N32'', ''MIPS64N32'', ''MIPS64'')
     else if defined P ''__mips__'' \<and> \<not> big_endian P \<and> mips_sim P = ''NABI32''
       then Some (''MIPSEL64N32'', ''MIPSEL64N32'', ''MIPSEL64'')
     else if defined P ''__powerpc64__'' \<and> big_endian P then Some (''PPC64'', ''PPC'', ''PPC64'')
     else if defined P ''__powerpc64__'' \<and> \<not> big_endian P
       then Some (''PPC64LE'', ''PPC'', ''PPC64LE'')
     else if defined P ''__powerpc__'' then Some (''PPC'', ''PPC'', ''PPC64LE'')
     else if defined P ''__s390x__'' then Some (''S390X'', ''S390'', ''S390X'')
     else if defined P ''__s390__'' then Some (''S390'', ''S390'', ''S390X'')
     else if defined P ''__sh64__'' \<and> big_endian P then Some (''SH64'', ''SH'', ''SH64'')
     else if defined P ''__sh64__'' \<and> \<not> big_endian P then Some (''SHEL64'', ''SHEL'', ''SHEL64'')
     else if defined P ''__sh__'' \<and> big_endian P then Some (''SH'', ''SH'', ''SH64'')
     else if defined P ''__sh__'' \<and> \<not> big_endian P then Some (''SHEL'', ''SHEL'', ''SHEL64'')
     else if defined P ''__sparc64__'' then Some (''SPARC64'', ''SPARC'', ''SPARC64'')
     else if defined P ''__sparc__'' then Some (''SPARC'', ''SPARC'', ''SPARC64'')
     else None)"

definition ARCH_NR :: "platform \<Rightarrow> u32" where
  "ARCH_NR P = (case arch_names P of Some (a, b, c) \<Rightarrow> audit P a | None \<Rightarrow> 0)"

definition ARCH_32 :: "platform \<Rightarrow> u32" where
  "ARCH_32 P = (case arch_names P of Some (a, b, c) \<Rightarrow> audit P b | None \<Rightarrow> 0)"

definition ARCH_64 :: "platform \<Rightarrow> u32" where
  "ARCH_64 P = (case arch_names P of Some (a, b, c) \<Rightarrow> audit P c | None \<Rightarrow> 0)"

end
