(* ===== verification/Table_Check.thy ===== *)
theory Table_Check
  imports Prelude
begin

text \<open>
  Tables of several hundred names must be shown free of duplicates. Comparing
  all pairs is too slow, so names are read as numbers in base 256 and the numbers are
  split around a pivot, as quicksort does; a duplicate of the pivot stops the check.
  The functions branch on boolean arguments, so that the simplifier evaluates only
  the branch taken.
\<close>

primrec str_key :: "nat \<Rightarrow> string \<Rightarrow> nat" where
  "str_key a [] = a"
| "str_key a (c # s) = str_key (a * 256 + of_char c) s"

fun put :: "bool \<Rightarrow> bool \<Rightarrow> nat \<Rightarrow> (nat list \<times> nat list) option \<Rightarrow> (nat list \<times> nat list) option" where
  "put lt gt x None = None"
| "put True gt x (Some (ls, gs)) = Some (x # ls, gs)"
| "put False True x (Some (ls, gs)) = Some (ls, x # gs)"
| "put False False x (Some (ls, gs)) = None"

primrec part :: "nat \<Rightarrow> nat list \<Rightarrow> (nat list \<times> nat list) option" where
  "part p [] = Some ([], [])"
| "part p (x # xs) = put (x < p) (p < x) x (part p xs)"

lemma part_spec:
  "part p xs = Some (l, g) \<Longrightarrow>
     l = filter (\<lambda>x. x < p) xs \<and> g = filter (\<lambda>x. p < x) xs \<and> p \<notin> set xs"
proof (induction xs arbitrary: l g)
  case Nil
  then show ?case by simp
next
  case (Cons x xs)
  then obtain l' g' where r: "part p xs = Some (l', g')" by (cases "part p xs") auto
  consider "x < p" | "p < x" | "x = p" by linarith
  then show ?case by cases (use Cons r in auto)
qed

function all_diff :: "nat list \<Rightarrow> bool" where
  "all_diff [] = True"
| "all_diff (p # xs) =
     (case part p xs of None \<Rightarrow> False | Some (l, g) \<Rightarrow> all_diff l \<and> all_diff g)"
  by pat_completeness auto
termination
  by (relation "measure length") (auto dest!: part_spec simp: less_Suc_eq_le)

lemma all_diff_distinct: "all_diff xs \<Longrightarrow> distinct xs"
proof (induction xs rule: all_diff.induct)
  case 1
  then show ?case by simp
next
  case (2 p xs)
  then obtain l g where lg: "part p xs = Some (l, g)" and d: "all_diff l" "all_diff g"
    by (auto split: option.splits)
  note s = part_spec [OF lg]
  have "distinct l" and "distinct g" using 2(1,2) [OF lg refl] d by auto
  then have less: "distinct (filter (\<lambda>x. x < p) xs)" and greater: "distinct (filter (\<lambda>x. p < x) xs)"
    using s by auto
  have mem: "p \<notin> set xs" using s by simp
  have "distinct xs"
  proof (rule ccontr)
    assume "\<not> distinct xs"
    then obtain as y bs cs where xs: "xs = as @ [y] @ bs @ [y] @ cs"
      using not_distinct_decomp by blast
    then have "y \<noteq> p" using mem by auto
    then consider "y < p" | "p < y" by linarith
    then show False by cases (use less greater xs in auto)
  qed
  with mem show ?case by simp
qed

lemma distinct_by_key: "all_diff (map f xs) \<Longrightarrow> distinct xs"
  using all_diff_distinct distinct_map by blast

lemmas all_diff_eval =
  part.simps put.simps all_diff.simps option.case prod.case
  numeral_less_iff less_num_simps le_num_simps simp_thms

text \<open>An increasing column has no duplicates.\<close>

lemma successively_less_distinct: "successively (<) (xs :: int list) \<Longrightarrow> distinct xs"
  by (simp add: successively_conv_sorted_wrt strict_sorted_iff)

section \<open>Picking entries in table order\<close>

text \<open>One pass over a table finds a list of entries that are in the order of the table.\<close>

fun advance :: "bool \<Rightarrow> 'a \<Rightarrow> 'a list \<Rightarrow> 'a list" where
  "advance True x xs = xs"
| "advance False x xs = x # xs"

fun seek :: "'a list \<Rightarrow> 'a \<Rightarrow> 'a list" where
  "seek [] y = []"
| "seek (x # xs) y = advance (x = y) x xs"

lemma set_seek: "set xs \<subseteq> insert y (set (seek xs y))"
  by (cases xs; cases "hd xs = y") auto

lemma foldl_seek: "set xs \<subseteq> set ys \<union> set (foldl seek xs ys)"
proof (induction ys arbitrary: xs)
  case Nil
  show ?case by simp
next
  case (Cons y ys)
  from set_seek [of xs y] Cons.IH [of "seek xs y"] show ?case by auto
qed

lemma picked: "foldl seek xs ys = [] \<Longrightarrow> set xs \<subseteq> set ys"
  using foldl_seek [of xs ys] by simp

end
