(* ===== verification/Errno.thy ===== *)
theory Errno
  imports Platform Table_Check
begin

text \<open>
  The errno table of lib/errno.c and its two searches. Every entry pairs a name with the macro
  of the same name in \<^verbatim>\<open>errno.h\<close>, whose value is \<open>errno_val P\<close>.
\<close>

definition errno_names :: "string list" where
  "errno_names =
    [''EPERM'', ''ENOENT'', ''ESRCH'', ''EINTR'', ''EIO'', ''ENXIO'',
     ''E2BIG'', ''ENOEXEC'', ''EBADF'', ''ECHILD'', ''EAGAIN'', ''ENOMEM'',
     ''EACCES'', ''EFAULT'', ''ENOTBLK'', ''EBUSY'', ''EEXIST'', ''EXDEV'',
     ''ENODEV'', ''ENOTDIR'', ''EISDIR'', ''EINVAL'', ''ENFILE'', ''EMFILE'',
     ''ENOTTY'', ''ETXTBSY'', ''EFBIG'', ''ENOSPC'', ''ESPIPE'', ''EROFS'',
     ''EMLINK'', ''EPIPE'', ''EDOM'', ''ERANGE'', ''EDEADLK'', ''ENAMETOOLONG'',
     ''ENOLCK'', ''ENOSYS'', ''ENOTEMPTY'', ''ELOOP'', ''EWOULDBLOCK'', ''ENOMSG'',
     ''EIDRM'', ''ECHRNG'', ''EL2NSYNC'', ''EL3HLT'', ''EL3RST'', ''ELNRNG'',
     ''EUNATCH'', ''ENOCSI'', ''EL2HLT'', ''EBADE'', ''EBADR'', ''EXFULL'',
     ''ENOANO'', ''EBADRQC'', ''EBADSLT'', ''EDEADLOCK'', ''EBFONT'', ''ENOSTR'',
     ''ENODATA'', ''ETIME'', ''ENOSR'', ''ENONET'', ''ENOPKG'', ''EREMOTE'',
     ''ENOLINK'', ''EADV'', ''ESRMNT'', ''ECOMM'', ''EPROTO'', ''EMULTIHOP'',
     ''EDOTDOT'', ''EBADMSG'', ''EOVERFLOW'', ''ENOTUNIQ'', ''EBADFD'', ''EREMCHG'',
     ''ELIBACC'', ''ELIBBAD'', ''ELIBSCN'', ''ELIBMAX'', ''ELIBEXEC'', ''EILSEQ'',
     ''ERESTART'', ''ESTRPIPE'', ''EUSERS'', ''ENOTSOCK'', ''EDESTADDRREQ'', ''EMSGSIZE'',
     ''EPROTOTYPE'', ''ENOPROTOOPT'', ''EPROTONOSUPPORT'', ''ESOCKTNOSUPPORT'', ''EOPNOTSUPP'', ''EPFNOSUPPORT'',
     ''EAFNOSUPPORT'', ''EADDRINUSE'', ''EADDRNOTAVAIL'', ''ENETDOWN'', ''ENETUNREACH'', ''ENETRESET'',
     ''ECONNABORTED'', ''ECONNRESET'', ''ENOBUFS'', ''EISCONN'', ''ENOTCONN'', ''ESHUTDOWN'',
     ''ETOOMANYREFS'', ''ETIMEDOUT'', ''ECONNREFUSED'', ''EHOSTDOWN'', ''EHOSTUNREACH'', ''EALREADY'',
     ''EINPROGRESS'', ''ESTALE'', ''EUCLEAN'', ''ENOTNAM'', ''ENAVAIL'', ''EISNAM'',
     ''EREMOTEIO'', ''EDQUOT'', ''ENOMEDIUM'', ''EMEDIUMTYPE'', ''ECANCELED'', ''ENOKEY'',
     ''EKEYEXPIRED'', ''EKEYREVOKED'', ''EKEYREJECTED'', ''EOWNERDEAD'', ''ENOTRECOVERABLE'', ''ERFKILL'',
     ''EHWPOISON'', ''ENOTSUP'']"

definition errnolist :: "platform \<Rightarrow> (string \<times> int) list" where
  "errnolist P =
     map (\<lambda>n. (n, errno_val P n)) errno_names @
     (if have_ENOATTR P then [(''ENOATTR'', errno_val P ''ENOATTR'')] else [])"

definition errno_find_name :: "platform \<Rightarrow> string \<Rightarrow> int" where
  "errno_find_name P name =
     (case find_by (strcase_eq name) (errnolist P) of Some nr \<Rightarrow> nr | None \<Rightarrow> -1)"

definition errno_find_nr :: "platform \<Rightarrow> int \<Rightarrow> string" where
  "errno_find_nr P nr =
     (case find (\<lambda>e. nr = snd e) (errnolist P) of Some e \<Rightarrow> fst e | None \<Rightarrow> ''unknown'')"

text \<open>No two names of the table are equal up to case, so a name finds its own entry.\<close>

lemma errno_names_keys:
  "map (str_key 0) (map (map tolower_c) (errno_names @ [''ENOATTR''])) =
    [435677393517, 111524989726324, 435728573288, 435560543346,
     6646127, 435645081967, 434637007207, 28550397370590563,
     435442246758, 111477627907172, 111469020670318, 111524990248301,
     111468953691507, 111490396154996, 28550397620808811, 435443561337,
     111486486279028, 435811542390, 111524989658486, 28550397620939122,
     111503581931890, 111503499223404, 111524838992997, 111520544025701,
     111524990710905, 28557033345282937, 435509422439, 111524990644323,
     111546481602661, 435711600243, 111520644689515, 435677655141,
     1701080941, 111541935302501, 28539359236222059, 31391427919667994159827873383,
     111524990182251, 111524990646643, 1871078858490228274297, 435610939248,
     122665525442379389997114219, 111524990251879, 435559887469, 111477628497511,
     7308271745280601699, 111515393354868, 111515394012020, 111516383866471,
     28558089589646184, 111524989596521, 111515376577652, 435442246757,
     435442246770, 111567789452396, 111524989464175, 28537143084347747,
     28537143084412020, 1870355446905049146219, 111473299779188, 111524990645362,
     28550397352309857, 435744763237, 435644494706, 111524990313844,
     111524990446439, 28554752601060453, 28550397487050347, 1700881526,
     111546515418740, 435459943789, 111533630649455, 1871008481014314463088,
     28539402504662900, 28537143084020583, 1871152869972145631095, 7308901791245953393,
     111473215170148, 28554752600270951, 28548172525691747, 28548172525756772,
     28548172526871406, 28548172526477688, 7308332166645572963, 111503465473393,
     7310016691723924084, 7310314655013498981, 111555121607283, 7308901791212462955,
     31379357662693747533158704497, 7308624658447301221, 479033296043554419339365, 122623023785446614848467060,
     526702679091750908800485823106478708, 526763284911397482618486745184825972, 479014704897341556879472, 31393869402306682906947318388,
     31375735515012463469326725748, 478755582977682607272805, 8032185826822864849927657318764, 7308890795844532078,
     122622839607079570564539240, 1871076043796161717620, 31378195867872893515882325348, 478793271909754667754868,
     28550397320062579, 28544916958178926, 7308901790944030318, 1871437177299366016878,
     31398747625181041928612177523, 1871509507507863123316, 31378195867877681850416850276, 1870646511890762528622,
     31384240589642675300870480744, 7305239309154608249, 122599393506288137127949171, 111546548186213,
     28558042528571758, 28550397621592429, 28550337524754796, 111503582585197,
     1871364266463097874799, 111482074656628, 1871078850793495426413, 122618116084305171951743077,
     1870282277700342932836, 111524990117241, 122608672863426318785733988, 122608672867064628632053092,
     31387820253968531692583150948, 479015209289495863452004, 526661878133015833555934567070854245, 28554756862078060,
     1870648760370650640238, 28550397621925232, 28550397303223410]"
  by (simp add: errno_names_def tolower_c_def char_code_def)

lemma errno_names_distinct: "distinct (map (map tolower_c) (errno_names @ [''ENOATTR'']))"
  by (rule distinct_by_key [where f = "str_key 0"], unfold errno_names_keys, simp only: all_diff_eval)

lemma errnolist_fst: "map fst (errnolist P) = errno_names @ (if have_ENOATTR P then [''ENOATTR''] else [])"
  by (simp add: errnolist_def comp_def)

lemma find_by_key:
  assumes "distinct (map (\<lambda>e. f (fst e)) xs)" and "(a, b) \<in> set xs"
  shows "find_by (\<lambda>n. f a = f n) xs = Some b"
  using assms by (induction xs) (force split: if_splits)+

lemma errno_find_name_entry:
  assumes "(n, v) \<in> set (errnolist P)"
  shows "errno_find_name P n = v"
proof -
  have "distinct (map (map tolower_c) (map fst (errnolist P)))"
    using errno_names_distinct by (auto simp: errnolist_fst)
  then have d: "distinct (map (\<lambda>e. map tolower_c (fst e)) (errnolist P))"
    by (simp add: comp_def)
  have "find_by (strcase_eq n) (errnolist P) = Some v"
    using find_by_key [OF d assms] by (simp add: strcase_eq_def [abs_def])
  then show ?thesis by (simp add: errno_find_name_def)
qed

text \<open>The name printed for an errno value reads back as that value.\<close>

lemma errno_find_roundtrip:
  assumes "nr \<in> snd ` set (errnolist P)"
  shows "errno_find_name P (errno_find_nr P nr) = nr"
proof -
  obtain e where e: "find (\<lambda>e. nr = snd e) (errnolist P) = Some e"
  proof (cases "find (\<lambda>e. nr = snd e) (errnolist P)")
    case None
    with assms show ?thesis by (auto simp: find_None_iff)
  next
    case (Some e)
    then show ?thesis by (rule that)
  qed
  then have "e \<in> set (errnolist P)" and "snd e = nr"
    by (auto simp: find_Some_iff)
  then have "errno_find_name P (fst e) = nr"
    by (metis errno_find_name_entry prod.collapse)
  with e show ?thesis by (simp add: errno_find_nr_def)
qed

lemma errno_find_name_in_table:
  "errno_find_name P n \<noteq> -1 \<Longrightarrow> errno_find_name P n \<in> snd ` set (errnolist P)"
  by (force simp: errno_find_name_def dest: find_by_Some_mem split: option.splits)

end
