(* ===== verification/Bpf.thy ===== *)
theory Bpf
  imports Platform
begin

text \<open>
  Classic BPF programs as include/seccomp.h builds them: the instruction record, the
  opcode constants of \<^verbatim>\<open>linux/filter.h\<close>, the return values of \<^verbatim>\<open>linux/seccomp.h\<close> and
  the macros of include/seccomp.h. The kernel's interpreter is not part of the repository: it
  is the parameter \<open>exec\<close> of the locale \<open>bpf_machine\<close>, whose assumptions are the documented
  effects of the instructions the macros use. \<open>bpf_exec\<close> is an executable machine that
  satisfies them.
\<close>

section \<open>Instructions\<close>

record sock_filter =
  sf_code :: u16
  sf_jt :: u8
  sf_jf :: u8
  sf_k :: u32

definition BPF_LD :: u16 where "BPF_LD = 0x00"
definition BPF_ALU :: u16 where "BPF_ALU = 0x04"
definition BPF_JMP :: u16 where "BPF_JMP = 0x05"
definition BPF_RET :: u16 where "BPF_RET = 0x06"
definition BPF_W :: u16 where "BPF_W = 0x00"
definition BPF_ABS :: u16 where "BPF_ABS = 0x20"
definition BPF_AND :: u16 where "BPF_AND = 0x50"
definition BPF_JA :: u16 where "BPF_JA = 0x00"
definition BPF_JEQ :: u16 where "BPF_JEQ = 0x10"
definition BPF_JGE :: u16 where "BPF_JGE = 0x30"
definition BPF_JSET :: u16 where "BPF_JSET = 0x40"
definition BPF_K :: u16 where "BPF_K = 0x00"

lemmas bpf_codes =
  BPF_LD_def BPF_ALU_def BPF_JMP_def BPF_RET_def BPF_W_def BPF_ABS_def BPF_AND_def
  BPF_JA_def BPF_JEQ_def BPF_JGE_def BPF_JSET_def BPF_K_def

definition BPF_STMT :: "u16 \<Rightarrow> u32 \<Rightarrow> sock_filter" where
  "BPF_STMT code k = \<lparr>sf_code = code, sf_jt = 0, sf_jf = 0, sf_k = k\<rparr>"

definition BPF_JUMP :: "u16 \<Rightarrow> u32 \<Rightarrow> u8 \<Rightarrow> u8 \<Rightarrow> sock_filter" where
  "BPF_JUMP code k t f = \<lparr>sf_code = code, sf_jt = t, sf_jf = f, sf_k = k\<rparr>"

definition SECCOMP_RET_KILL :: u32 where "SECCOMP_RET_KILL = 0x00000000"
definition SECCOMP_RET_ERRNO :: u32 where "SECCOMP_RET_ERRNO = 0x00050000"
definition SECCOMP_RET_LOG :: u32 where "SECCOMP_RET_LOG = 0x7ffc0000"
definition SECCOMP_RET_ALLOW :: u32 where "SECCOMP_RET_ALLOW = 0x7fff0000"
definition X32_SYSCALL_BIT :: u32 where "X32_SYSCALL_BIT = 0x40000000"

section \<open>The data a filter reads\<close>

text \<open>
  \<^verbatim>\<open>struct seccomp_data\<close> of the kernel interface: the system call number at offset 0, the
  architecture at 4, the instruction pointer at 8 and six 64-bit arguments from 16 on. A
  32-bit load at the offset of a 64-bit field reads the half that comes first in memory.
\<close>

record seccomp_data =
  sd_nr :: u32
  sd_arch :: u32
  sd_ip :: u64
  sd_args :: "nat \<Rightarrow> u64"

definition lsw :: "u64 \<Rightarrow> u32" where "lsw a = ucast a"
definition msw :: "u64 \<Rightarrow> u32" where "msw a = ucast (drop_bit 32 a)"

definition half_at :: "platform \<Rightarrow> bool \<Rightarrow> u64 \<Rightarrow> u32" where
  "half_at P second a = (if second = big_endian P then lsw a else msw a)"

definition data_word :: "platform \<Rightarrow> seccomp_data \<Rightarrow> nat \<Rightarrow> u32 option" where
  "data_word P d off =
     (if off = 0 then Some (sd_nr d)
      else if off = 4 then Some (sd_arch d)
      else if off = 8 then Some (half_at P False (sd_ip d))
      else if off = 12 then Some (half_at P True (sd_ip d))
      else if 16 \<le> off \<and> off < 64 \<and> off mod 8 = 0
        then Some (half_at P False (sd_args d ((off - 16) div 8)))
      else if 16 \<le> off \<and> off < 64 \<and> off mod 8 = 4
        then Some (half_at P True (sd_args d ((off - 16) div 8)))
      else None)"

definition offset_nr :: u32 where "offset_nr = 0"
definition offset_arch :: u32 where "offset_arch = 4"
definition offset_args :: "u32 \<Rightarrow> u32" where "offset_args n = 16 + 8 * n"

lemma data_word_nr [simp]: "data_word P d (unat offset_nr) = Some (sd_nr d)"
  by (simp add: data_word_def offset_nr_def)

lemma data_word_arch [simp]: "data_word P d (unat offset_arch) = Some (sd_arch d)"
  by (simp add: data_word_def offset_arch_def)

lemma data_word_args [simp]:
  "data_word P d (unat (offset_args 0)) = Some (half_at P False (sd_args d 0))"
  "data_word P d (unat (offset_args 1)) = Some (half_at P False (sd_args d 1))"
  "data_word P d (unat (offset_args 2)) = Some (half_at P False (sd_args d 2))"
  by (simp_all add: data_word_def offset_args_def)

section \<open>The macros of include/seccomp.h\<close>

definition EXAMINE_SYSCALL :: sock_filter where
  "EXAMINE_SYSCALL = BPF_STMT (BPF_LD + BPF_W + BPF_ABS) offset_nr"

definition EXAMINE_ARGUMENT :: "u32 \<Rightarrow> sock_filter" where
  "EXAMINE_ARGUMENT nr = BPF_STMT (BPF_LD + BPF_W + BPF_ABS) (offset_args nr)"

definition RETURN_ALLOW :: sock_filter where
  "RETURN_ALLOW = BPF_STMT (BPF_RET + BPF_K) SECCOMP_RET_ALLOW"

definition RETURN_ERRNO :: "u32 \<Rightarrow> sock_filter" where
  "RETURN_ERRNO nr = BPF_STMT (BPF_RET + BPF_K) (SECCOMP_RET_ERRNO OR nr)"

text \<open>The error action is the global \<^verbatim>\<open>arg_seccomp_error_action\<close>, passed as \<open>a\<close>.\<close>

definition KILL_OR_RETURN_ERRNO :: "u32 \<Rightarrow> sock_filter" where
  "KILL_OR_RETURN_ERRNO a = BPF_STMT (BPF_RET + BPF_K) a"

definition VALIDATE_ARCHITECTURE :: "platform \<Rightarrow> sock_filter list" where
  "VALIDATE_ARCHITECTURE P =
     [BPF_STMT (BPF_LD + BPF_W + BPF_ABS) offset_arch,
      BPF_JUMP (BPF_JMP + BPF_JEQ + BPF_K) (ARCH_NR P) 1 0,
      BPF_STMT (BPF_RET + BPF_K) SECCOMP_RET_ALLOW]"

definition VALIDATE_ARCHITECTURE_KILL :: "platform \<Rightarrow> u32 \<Rightarrow> sock_filter list" where
  "VALIDATE_ARCHITECTURE_KILL P a =
     [BPF_STMT (BPF_LD + BPF_W + BPF_ABS) offset_arch,
      BPF_JUMP (BPF_JMP + BPF_JEQ + BPF_K) (ARCH_NR P) 1 0,
      KILL_OR_RETURN_ERRNO a]"

definition VALIDATE_ARCHITECTURE_32 :: "platform \<Rightarrow> sock_filter list" where
  "VALIDATE_ARCHITECTURE_32 P =
     [BPF_STMT (BPF_LD + BPF_W + BPF_ABS) offset_arch,
      BPF_JUMP (BPF_JMP + BPF_JEQ + BPF_K) (ARCH_32 P) 1 0,
      BPF_STMT (BPF_RET + BPF_K) SECCOMP_RET_ALLOW]"

definition HANDLE_X32 :: "u32 \<Rightarrow> sock_filter list" where
  "HANDLE_X32 a =
     [BPF_JUMP (BPF_JMP + BPF_JGE + BPF_K) X32_SYSCALL_BIT 1 0,
      BPF_JUMP (BPF_JMP + BPF_JGE + BPF_K) 0 1 0,
      KILL_OR_RETURN_ERRNO a]"

definition ONLY :: "u32 \<Rightarrow> sock_filter list" where
  "ONLY nr =
     [BPF_JUMP (BPF_JMP + BPF_JEQ + BPF_K) nr 1 0,
      BPF_STMT (BPF_RET + BPF_K) SECCOMP_RET_ALLOW]"

definition BLACKLIST :: "u32 \<Rightarrow> u32 \<Rightarrow> sock_filter list" where
  "BLACKLIST a nr =
     [BPF_JUMP (BPF_JMP + BPF_JEQ + BPF_K) nr 0 1,
      KILL_OR_RETURN_ERRNO a]"

definition WHITELIST :: "u32 \<Rightarrow> sock_filter list" where
  "WHITELIST nr =
     [BPF_JUMP (BPF_JMP + BPF_JEQ + BPF_K) nr 0 1,
      BPF_STMT (BPF_RET + BPF_K) SECCOMP_RET_ALLOW]"

definition BLACKLIST_ERRNO :: "u32 \<Rightarrow> u32 \<Rightarrow> sock_filter list" where
  "BLACKLIST_ERRNO nr e =
     [BPF_JUMP (BPF_JMP + BPF_JEQ + BPF_K) nr 0 1,
      BPF_STMT (BPF_RET + BPF_K) (SECCOMP_RET_ERRNO OR e)]"

section \<open>Decision lists\<close>

text \<open>
  The abstract filter: pairs of a number and a verdict, the first match decides. The
  macros \<^verbatim>\<open>BLACKLIST\<close>, \<^verbatim>\<open>WHITELIST\<close> and \<^verbatim>\<open>BLACKLIST_ERRNO\<close> all emit one such pair.
\<close>

type_synonym rule = "u32 \<times> u32"

definition rule_code :: "rule \<Rightarrow> sock_filter list" where
  "rule_code r =
     [BPF_JUMP (BPF_JMP + BPF_JEQ + BPF_K) (fst r) 0 1, BPF_STMT (BPF_RET + BPF_K) (snd r)]"

abbreviation rules_code :: "rule list \<Rightarrow> sock_filter list" where
  "rules_code rs \<equiv> concat (map rule_code rs)"

lemma BLACKLIST_rule: "BLACKLIST a nr = rule_code (nr, a)"
  and WHITELIST_rule: "WHITELIST nr = rule_code (nr, SECCOMP_RET_ALLOW)"
  and BLACKLIST_ERRNO_rule: "BLACKLIST_ERRNO nr e = rule_code (nr, SECCOMP_RET_ERRNO OR e)"
  by (simp_all add: BLACKLIST_def WHITELIST_def BLACKLIST_ERRNO_def rule_code_def
      KILL_OR_RETURN_ERRNO_def)

lemmas macro_rules = BLACKLIST_rule WHITELIST_rule BLACKLIST_ERRNO_rule

section \<open>The machine\<close>

locale bpf_machine =
  fixes exec :: "(nat \<Rightarrow> u32 option) \<Rightarrow> sock_filter list \<Rightarrow> u32 \<Rightarrow> u32 option"
  assumes exec_Nil: "exec ld [] A = None"
    and exec_ld: "exec ld (BPF_STMT (BPF_LD + BPF_W + BPF_ABS) k # p) A =
      (case ld (unat k) of None \<Rightarrow> None | Some v \<Rightarrow> exec ld p v)"
    and exec_and: "exec ld (BPF_STMT (BPF_ALU + BPF_AND + BPF_K) k # p) A = exec ld p (A AND k)"
    and exec_ret_any: "exec ld (BPF_JUMP (BPF_RET + BPF_K) k t f # p) A = Some k"
    and exec_ja: "exec ld (BPF_JUMP (BPF_JMP + BPF_JA + BPF_K) k t f # p) A =
      exec ld (drop (unat k) p) A"
    and exec_jeq: "exec ld (BPF_JUMP (BPF_JMP + BPF_JEQ + BPF_K) k t f # p) A =
      exec ld (drop (unat (if A = k then t else f)) p) A"
    and exec_jge: "exec ld (BPF_JUMP (BPF_JMP + BPF_JGE + BPF_K) k t f # p) A =
      exec ld (drop (unat (if k \<le> A then t else f)) p) A"
    and exec_jset: "exec ld (BPF_JUMP (BPF_JMP + BPF_JSET + BPF_K) k t f # p) A =
      exec ld (drop (unat (if A AND k \<noteq> 0 then t else f)) p) A"
begin

lemma exec_ret: "exec ld (BPF_STMT (BPF_RET + BPF_K) k # p) A = Some k"
  using exec_ret_any [of ld k 0 0] by (simp add: BPF_STMT_def BPF_JUMP_def)

lemmas exec_simps =
  exec_Nil exec_ld exec_and exec_ret exec_ja exec_jeq exec_jge exec_jset

lemma exec_kill: "exec ld (KILL_OR_RETURN_ERRNO a # p) A = Some a"
  by (simp add: KILL_OR_RETURN_ERRNO_def exec_ret)

lemma exec_allow: "exec ld (RETURN_ALLOW # p) A = Some SECCOMP_RET_ALLOW"
  by (simp add: RETURN_ALLOW_def exec_ret)

lemma exec_errno: "exec ld (RETURN_ERRNO e # p) A = Some (SECCOMP_RET_ERRNO OR e)"
  by (simp add: RETURN_ERRNO_def exec_ret)

lemma exec_examine: "exec (data_word P d) (EXAMINE_SYSCALL # p) A = exec (data_word P d) p (sd_nr d)"
  by (simp add: EXAMINE_SYSCALL_def exec_ld)

lemma exec_examine_argument:
  "nr = 0 \<or> nr = 1 \<or> nr = 2 \<Longrightarrow>
   exec (data_word P d) (EXAMINE_ARGUMENT nr # p) A =
     exec (data_word P d) p (half_at P False (sd_args d (unat nr)))"
  by (auto simp: EXAMINE_ARGUMENT_def exec_ld)

lemma exec_validate:
  "exec (data_word P d) (VALIDATE_ARCHITECTURE P @ p) A =
     (if sd_arch d = ARCH_NR P then exec (data_word P d) p (sd_arch d) else Some SECCOMP_RET_ALLOW)"
  by (simp add: VALIDATE_ARCHITECTURE_def exec_simps)

lemma exec_validate_32:
  "exec (data_word P d) (VALIDATE_ARCHITECTURE_32 P @ p) A =
     (if sd_arch d = ARCH_32 P then exec (data_word P d) p (sd_arch d) else Some SECCOMP_RET_ALLOW)"
  by (simp add: VALIDATE_ARCHITECTURE_32_def exec_simps)

lemma exec_validate_kill:
  "exec (data_word P d) (VALIDATE_ARCHITECTURE_KILL P a @ p) A =
     (if sd_arch d = ARCH_NR P then exec (data_word P d) p (sd_arch d) else Some a)"
  by (simp add: VALIDATE_ARCHITECTURE_KILL_def exec_simps exec_kill)

lemma exec_x32:
  "exec ld (HANDLE_X32 a @ p) A = (if X32_SYSCALL_BIT \<le> A then Some a else exec ld p A)"
  by (simp add: HANDLE_X32_def exec_simps exec_kill)

lemma exec_only:
  "exec ld (ONLY nr @ p) A = (if A = nr then exec ld p A else Some SECCOMP_RET_ALLOW)"
  by (simp add: ONLY_def exec_simps)

lemma exec_rule: "exec ld (rule_code r @ p) A = (if A = fst r then Some (snd r) else exec ld p A)"
  by (simp add: rule_code_def exec_simps)

lemma exec_rules:
  "exec ld (rules_code rs @ p) A = (case map_of rs A of Some v \<Rightarrow> Some v | None \<Rightarrow> exec ld p A)"
  by (induction rs) (auto simp: exec_rule)

lemmas exec_macros =
  exec_kill exec_allow exec_errno exec_examine exec_examine_argument exec_validate
  exec_validate_32 exec_validate_kill exec_x32 exec_only exec_rules

end

text \<open>An executable machine, with the instructions the macros use.\<close>

fun bpf_exec :: "(nat \<Rightarrow> u32 option) \<Rightarrow> sock_filter list \<Rightarrow> u32 \<Rightarrow> u32 option" where
  "bpf_exec ld [] A = None"
| "bpf_exec ld (i # p) A =
     (let c = sf_code i; k = sf_k i; jump = (\<lambda>b. drop (unat (if b then sf_jt i else sf_jf i)) p) in
      if c = 0x20 then (case ld (unat k) of None \<Rightarrow> None | Some v \<Rightarrow> bpf_exec ld p v)
      else if c = 0x54 then bpf_exec ld p (A AND k)
      else if c = 0x06 then Some k
      else if c = 0x05 then bpf_exec ld (drop (unat k) p) A
      else if c = 0x15 then bpf_exec ld (jump (A = k)) A
      else if c = 0x35 then bpf_exec ld (jump (k \<le> A)) A
      else if c = 0x45 then bpf_exec ld (jump (A AND k \<noteq> 0)) A
      else None)"

interpretation vm: bpf_machine bpf_exec
  by unfold_locales (simp_all add: BPF_STMT_def BPF_JUMP_def bpf_codes Let_def)

end
