(* ===== verification/Seccomp_File.thy ===== *)
theory Seccomp_File
  imports Bpf
begin

text \<open>
  The writers of fseccomp/seccomp_file.c. Their state is the filter file behind the
  descriptor \<^verbatim>\<open>fd\<close> (a list of instructions), the global \<^verbatim>\<open>arg_seccomp_error_action\<close> and the
  object behind the \<^verbatim>\<open>void *ptrarg\<close> that list traversals hand to their callbacks.
  Besides the writers, the loop of \<^verbatim>\<open>write_to_file\<close> is modelled against the answers
  of write(2), with the property that it puts all of the data into the file.
\<close>

text \<open>
  The ways a program leaves early with an error message. \<open>BufferOverflow\<close> stands for a write
  behind the end of a local array, which is undefined behaviour in C.
\<close>

datatype fsec_error =
    EmptyList
  | UnknownGroup string
  | InvalidEntry string
  | InvalidProtocol string
  | EmptyProtocolList
  | InvalidNamespace string
  | BuildFailed
  | UnknownErrno string
  | InvalidArguments
  | CannotOpen
  | BufferOverflow

record 'p fstate =
  out :: "sock_filter list"
  error_action :: u32
  ptrarg :: 'p

type_synonym 'p filter_fn =
  "int \<Rightarrow> int \<Rightarrow> int \<Rightarrow> bool \<Rightarrow> 'p fstate \<Rightarrow> fsec_error + 'p fstate"

section \<open>The write loop\<close>

datatype 'b write_result = Written "'b list" | WriteError "'b list" | Blocked "'b list"

text \<open>
  One iteration per answer of write(2); \<open>file\<close> is the file so far. \<open>Blocked\<close> is a
  loop that is still waiting when the answers run out.
\<close>

fun write_loop :: "'b list \<Rightarrow> nat \<Rightarrow> int list \<Rightarrow> 'b list \<Rightarrow> 'b write_result" where
  "write_loop data written rvs file =
     (if written < length data then
        (case rvs of
           [] \<Rightarrow> Blocked file
         | rv # rvs' \<Rightarrow>
             if rv = -1 then WriteError file
             else write_loop data (written + nat rv) rvs'
                    (file @ take (nat rv) (drop written data)))
      else Written file)"

declare write_loop.simps [simp del]

text \<open>An answer of write(2) is -1 or the number of bytes accepted.\<close>

fun write_contract :: "nat \<Rightarrow> int list \<Rightarrow> bool" where
  "write_contract rest [] = True"
| "write_contract rest (rv # rvs) =
     (rv = -1 \<or> (0 \<le> rv \<and> rv \<le> int rest \<and> write_contract (rest - nat rv) rvs))"

lemma write_loop_complete:
  assumes "write_contract (length data - written) rvs" and "written \<le> length data"
    and "write_loop data written rvs (pre @ take written data) = Written file"
  shows "file = pre @ data"
  using assms
proof (induction rvs arbitrary: written)
  case Nil
  then show ?case by (subst (asm) write_loop.simps) (auto split: if_splits)
next
  case (Cons rv rvs)
  show ?case
  proof (cases "written < length data")
    case True
    with Cons.prems have rv: "rv \<noteq> -1" "0 \<le> rv" "nat rv \<le> length data - written"
      and c: "write_contract (length data - written - nat rv) rvs"
      by (auto simp: write_loop.simps [of data written "rv # rvs"] split: if_splits)
    have "take written data @ take (nat rv) (drop written data) = take (written + nat rv) data"
      by (simp add: take_add)
    moreover have "write_loop data (written + nat rv) rvs
        (pre @ take written data @ take (nat rv) (drop written data)) = Written file"
      using Cons.prems(3) True rv(1) by (simp add: write_loop.simps [of data written "rv # rvs"])
    ultimately have "write_loop data (written + nat rv) rvs (pre @ take (written + nat rv) data) = Written file"
      by simp
    moreover have "write_contract (length data - (written + nat rv)) rvs"
      using c by (simp add: diff_diff_eq)
    moreover have "written + nat rv \<le> length data" using rv True by simp
    ultimately show ?thesis using Cons.IH by blast
  next
    case False
    with Cons.prems(2) have "written = length data" by simp
    with Cons.prems(3) show ?thesis by (simp add: write_loop.simps [of data "length data" "rv # rvs"])
  qed
qed

lemma write_loop_returns:
  assumes "\<forall>rv \<in> set rvs. 0 < rv" and "length data - written \<le> length rvs"
  shows "\<exists>f. write_loop data written rvs pre = Written f"
  using assms
proof (induction rvs arbitrary: written pre)
  case Nil
  then show ?case by (subst write_loop.simps) simp
next
  case (Cons rv rvs)
  show ?case
  proof (cases "written < length data")
    case True
    have "length data - (written + nat rv) \<le> length rvs" and "rv \<noteq> -1"
      using Cons.prems by auto
    with Cons.IH [of "written + nat rv"] Cons.prems(1) True show ?thesis
      by (simp add: write_loop.simps [of data written "rv # rvs"])
  next
    case False
    then show ?thesis by (subst write_loop.simps) simp
  qed
qed

section \<open>The writers\<close>

definition write_to_file :: "sock_filter list \<Rightarrow> 'p fstate \<Rightarrow> 'p fstate" where
  "write_to_file instrs st = st\<lparr>out := out st @ instrs\<rparr>"

definition filter_init :: "platform \<Rightarrow> bool \<Rightarrow> 'p fstate \<Rightarrow> 'p fstate" where
  "filter_init P native st =
     (if native
      then write_to_file
             (VALIDATE_ARCHITECTURE P @ [EXAMINE_SYSCALL] @
              (if def_x86_64 P then HANDLE_X32 (error_action st) else [])) st
      else write_to_file (VALIDATE_ARCHITECTURE_32 P @ [EXAMINE_SYSCALL]) st)"

definition write_whitelist :: "int \<Rightarrow> 'p fstate \<Rightarrow> 'p fstate" where
  "write_whitelist syscall st = write_to_file (WHITELIST (u32_of_int syscall)) st"

definition write_blacklist :: "int \<Rightarrow> 'p fstate \<Rightarrow> 'p fstate" where
  "write_blacklist syscall st = write_to_file (BLACKLIST (error_action st) (u32_of_int syscall)) st"

definition filter_add_whitelist :: "'p filter_fn" where
  "filter_add_whitelist fd syscall arg native st =
     Inr (if 0 \<le> syscall then write_whitelist syscall st else st)"

definition filter_add_whitelist_for_excluded :: "'p filter_fn" where
  "filter_add_whitelist_for_excluded fd syscall arg native st =
     Inr (if syscall < 0 then write_whitelist (NOT syscall) st else st)"

definition filter_add_blacklist :: "'p filter_fn" where
  "filter_add_blacklist fd syscall arg native st =
     Inr (if 0 \<le> syscall then write_blacklist syscall st else st)"

text \<open>The global error action is replaced during the call and restored after it.\<close>

definition filter_add_blacklist_override :: "'p filter_fn" where
  "filter_add_blacklist_override fd syscall arg native st =
     Inr (if 0 \<le> syscall then
            let saved_error_action = error_action st;
                st1 = st\<lparr>error_action := u32_of_int arg\<rparr>;
                st2 = write_blacklist syscall st1
            in st2\<lparr>error_action := saved_error_action\<rparr>
          else st)"

definition filter_add_blacklist_for_excluded :: "'p filter_fn" where
  "filter_add_blacklist_for_excluded fd syscall arg native st =
     Inr (if syscall < 0 then write_blacklist (NOT syscall) st else st)"

definition filter_add_errno :: "'p filter_fn" where
  "filter_add_errno fd syscall arg native st =
     Inr (write_to_file (BLACKLIST_ERRNO (u32_of_int syscall) (u32_of_int arg)) st)"

definition filter_end_blacklist :: "'p fstate \<Rightarrow> 'p fstate" where
  "filter_end_blacklist st = write_to_file [RETURN_ALLOW] st"

definition filter_end_whitelist :: "'p fstate \<Rightarrow> 'p fstate" where
  "filter_end_whitelist st = write_to_file [KILL_OR_RETURN_ERRNO (error_action st)] st"

lemmas writer_defs =
  write_to_file_def write_whitelist_def write_blacklist_def filter_add_whitelist_def
  filter_add_whitelist_for_excluded_def filter_add_blacklist_def
  filter_add_blacklist_override_def filter_add_blacklist_for_excluded_def
  filter_add_errno_def filter_end_blacklist_def filter_end_whitelist_def

section \<open>What a writer adds to the abstract filter\<close>

text \<open>
  A writer is described by the rules it appends; the error action and the object behind
  \<open>ptrarg\<close> stay as they are.
\<close>

definition appends :: "'p fstate \<Rightarrow> rule list \<Rightarrow> 'p fstate" where
  "appends st rs = st\<lparr>out := out st @ rules_code rs\<rparr>"

lemma appends_simps [simp]:
  "out (appends st rs) = out st @ rules_code rs"
  "error_action (appends st rs) = error_action st"
  "ptrarg (appends st rs) = ptrarg st"
  "appends st [] = st"
  "appends (appends st rs) rs' = appends st (rs @ rs')"
  by (simp_all add: appends_def)

lemma writer_rules [emit_simps]:
  "filter_add_whitelist fd n arg native st =
     Inr (appends st (if 0 \<le> n then [(u32_of_int n, SECCOMP_RET_ALLOW)] else []))"
  "filter_add_whitelist_for_excluded fd n arg native st =
     Inr (appends st (if n < 0 then [(u32_of_int (NOT n), SECCOMP_RET_ALLOW)] else []))"
  "filter_add_blacklist fd n arg native st =
     Inr (appends st (if 0 \<le> n then [(u32_of_int n, error_action st)] else []))"
  "filter_add_blacklist_override fd n arg native st =
     Inr (appends st (if 0 \<le> n then [(u32_of_int n, u32_of_int arg)] else []))"
  "filter_add_blacklist_for_excluded fd n arg native st =
     Inr (appends st (if n < 0 then [(u32_of_int (NOT n), error_action st)] else []))"
  "filter_add_errno fd n arg native st =
     Inr (appends st [(u32_of_int n, SECCOMP_RET_ERRNO OR u32_of_int arg)])"
  by (simp_all add: writer_defs appends_def macro_rules Let_def)

end
