(* ===== verification/Syscall_Groups.thy ===== *)
theory Syscall_Groups
  imports Platform
begin

text \<open>
  The table \<^verbatim>\<open>sysgroups\<close> of lib/syscall.c, one definition per group in the order of the
  file. A group's list is a string literal put together by the preprocessor:
  \<open>Ifdef m w\<close> is \<^verbatim>\<open>#ifdef SYS_m "w," #endif\<close>, \<open>sys w\<close> is the common case where
  macro and text agree, \<open>Plain w\<close> is an unconditional \<^verbatim>\<open>"w,"\<close>. Every list
  ends with the word \<^verbatim>\<open>__dummy_syscall__\<close>.
\<close>

datatype group_item = Ifdef string string | Plain string

abbreviation sys :: "string \<Rightarrow> group_item" where
  "sys w \<equiv> Ifdef w w"

fun item_word :: "group_item \<Rightarrow> string" where
  "item_word (Ifdef m w) = w"
| "item_word (Plain w) = w"

fun item_present :: "platform \<Rightarrow> group_item \<Rightarrow> bool" where
  "item_present P (Ifdef m w) = (SYS P m \<noteq> None)"
| "item_present P (Plain w) = True"

record SyscallGroupList =
  sg_name :: string
  sg_description :: string
  sg_items :: "group_item list"

definition group_list :: "platform \<Rightarrow> group_item list \<Rightarrow> string" where
  "group_list P is =
     concat (map (\<lambda>i. if item_present P i then item_word i @ '','' else []) is) @
     ''__dummy_syscall__''"

definition grp_aio :: "group_item list" where
  "grp_aio =
    [sys ''io_cancel'', sys ''io_destroy'', sys ''io_getevents'', sys ''io_pgetevents'',
     sys ''io_pgetevents_time64'', sys ''io_setup'', sys ''io_submit'',
     sys ''io_uring_enter'', sys ''io_uring_register'', sys ''io_uring_setup'']"

definition grp_basic_io :: "group_item list" where
  "grp_basic_io =
    [sys ''_llseek'', sys ''close'', sys ''close_range'', sys ''dup'', sys ''dup2'',
     sys ''dup3'', sys ''lseek'', sys ''pread64'', sys ''preadv'', sys ''preadv2'',
     sys ''pwrite64'', sys ''pwritev'', sys ''pwritev2'', sys ''read'', sys ''readv'',
     sys ''write'', sys ''writev'']"

definition grp_chown :: "group_item list" where
  "grp_chown =
    [sys ''chown'', sys ''chown32'', sys ''fchown'', sys ''fchown32'', sys ''fchownat'',
     sys ''lchown'', sys ''lchown32'']"

definition grp_clock :: "group_item list" where
  "grp_clock =
    [sys ''adjtimex'', sys ''clock_adjtime'', sys ''clock_adjtime64'', sys ''clock_settime'',
     sys ''clock_settime64'', sys ''old_adjtimex'']"

definition grp_cpu_emulation :: "group_item list" where
  "grp_cpu_emulation =
    [sys ''modify_ldt'', sys ''subpage_prot'', sys ''switch_endian'', sys ''vm86'',
     sys ''vm86old'']"

definition grp_debug :: "group_item list" where
  "grp_debug =
    [sys ''lookup_dcookie'', sys ''perf_event_open'', sys ''pidfd_getfd'',
     sys ''process_vm_writev'', sys ''rtas'', sys ''s390_runtime_instr'',
     sys ''sys_debug_setcontext'', sys ''uprobe'', sys ''uretprobe'']"

definition grp_default :: "group_item list" where
  "grp_default =
    [Plain ''@clock'', Plain ''@cpu-emulation'', Plain ''@debug'', Plain ''@module'',
     Plain ''@mount'', Plain ''@obsolete'', Plain ''@raw-io'', Plain ''@reboot'',
     Plain ''@swap'', sys ''acct'', sys ''add_key'', sys ''bpf'', sys ''fanotify_init'',
     sys ''io_cancel'', sys ''io_destroy'', sys ''io_getevents'', sys ''io_setup'',
     sys ''io_submit'', sys ''ioprio_set'', sys ''keyctl'', sys ''mbind'',
     sys ''migrate_pages'', sys ''move_pages'', sys ''name_to_handle_at'', sys ''nfsservctl'',
     sys ''open_by_handle_at'', sys ''request_key'', sys ''set_mempolicy'',
     sys ''setdomainname'', sys ''sethostname'', sys ''syslog'', sys ''userfaultfd'',
     sys ''vhangup'', sys ''vmsplice'']"

definition grp_default_keep :: "group_item list" where
  "grp_default_keep =
    [Plain ''execve'', Plain ''execveat'', Plain ''prctl'']"

definition grp_default_nodebuggers :: "group_item list" where
  "grp_default_nodebuggers =
    [Plain ''@default'', sys ''personality'', sys ''process_vm_readv'', sys ''ptrace'']"

definition grp_file_system_1 :: "group_item list" where
  "grp_file_system_1 =
    [sys ''access'', sys ''cachestat'', sys ''chdir'', sys ''chmod'', sys ''close'',
     sys ''close_range'', sys ''creat'', sys ''faccessat'', sys ''faccessat2'',
     sys ''fallocate'', sys ''fanotify_mark'', sys ''fchdir'', sys ''fchmod'',
     sys ''fchmodat'', sys ''fchmodat2'', sys ''fcntl'', sys ''fcntl64'', sys ''fgetxattr'',
     sys ''file_getattr'', sys ''file_setattr'', sys ''flistxattr'', sys ''fremovexattr'',
     sys ''fsetxattr'', sys ''fstat'', sys ''fstat64'', sys ''fstatat64'', sys ''fstatfs'',
     sys ''fstatfs64'', sys ''ftruncate'', sys ''ftruncate64'', sys ''getcwd'',
     sys ''getdents'', sys ''getdents64'', sys ''getxattr'', sys ''getxattrat'',
     sys ''inotify_add_watch'', sys ''inotify_init'', sys ''inotify_init1'',
     sys ''inotify_rm_watch'', sys ''lgetxattr'', sys ''link'', sys ''linkat'',
     sys ''listxattr'', sys ''listxattrat'', sys ''llistxattr'', sys ''lremovexattr'',
     sys ''lsetxattr'', sys ''lstat'', sys ''lstat64'']"

definition grp_file_system_2 :: "group_item list" where
  "grp_file_system_2 =
    [sys ''mkdir'', sys ''mkdirat'', sys ''mknod'', sys ''mknodat'', sys ''munmap'',
     sys ''newfstatat'', sys ''oldfstat'', sys ''oldlstat'', sys ''oldstat'', sys ''open'',
     sys ''openat'', sys ''openat2'', sys ''osf_fstat'', sys ''osf_fstatfs'',
     sys ''osf_fstatfs64'', sys ''osf_getdirentries'', sys ''osf_lstat'',
     sys ''osf_proplist_syscall'', sys ''osf_utimes'', sys ''quotactl_fd'', sys ''readlink'',
     sys ''readlinkat'', sys ''removexattr'', sys ''removexattrat'', sys ''rename'',
     sys ''renameat'', sys ''renameat2'', sys ''rmdir'', sys ''setxattr'', sys ''setxattrat'',
     sys ''stat'', sys ''stat64'', sys ''statfs'', sys ''statfs64'', sys ''statx'',
     sys ''symlink'', sys ''symlinkat'', sys ''truncate'', sys ''truncate64'', sys ''unlink'',
     sys ''unlinkat'', sys ''utimensat'', sys ''utimes'']"

definition grp_io_event :: "group_item list" where
  "grp_io_event =
    [sys ''_newselect'', sys ''epoll_create'', sys ''epoll_create1'', sys ''epoll_ctl'',
     sys ''epoll_pwait'', sys ''epoll_pwait2'', sys ''epoll_wait'', sys ''eventfd'',
     sys ''eventfd2'', sys ''osf_select'', sys ''poll'', sys ''ppoll'', sys ''ppoll_time64'',
     sys ''pselect6'', sys ''pselect6_time64'', sys ''select'']"

definition grp_ipc :: "group_item list" where
  "grp_ipc =
    [sys ''ipc'', sys ''mq_getsetattr'', sys ''mq_notify'', sys ''mq_open'',
     sys ''mq_timedreceive'', sys ''mq_timedreceive_time64'', sys ''mq_timedsend'',
     sys ''mq_timedsend_time64'', sys ''mq_unlink'', sys ''msgctl'', sys ''msgget'',
     sys ''msgrcv'', sys ''msgsnd'', sys ''pipe'', sys ''pipe2'', sys ''process_madvise'',
     sys ''process_mrelease'', sys ''process_vm_readv'', sys ''process_vm_writev'',
     sys ''semctl'', sys ''semget'', sys ''semop'', sys ''semtimedop'',
     sys ''semtimedop_time64'', sys ''shmat'', sys ''shmctl'', sys ''shmdt'', sys ''shmget'']"

definition grp_keyring :: "group_item list" where
  "grp_keyring =
    [sys ''add_key'', sys ''keyctl'', sys ''request_key'']"

definition grp_memfd :: "group_item list" where
  "grp_memfd =
    [sys ''memfd_create'', sys ''memfd_secret'']"

definition grp_memlock :: "group_item list" where
  "grp_memlock =
    [sys ''mlock'', sys ''mlock2'', sys ''mlockall'', sys ''munlock'', sys ''munlockall'']"

definition grp_module :: "group_item list" where
  "grp_module =
    [sys ''delete_module'', sys ''finit_module'', sys ''init_module'']"

definition grp_mount :: "group_item list" where
  "grp_mount =
    [sys ''chroot'', sys ''fchroot'', sys ''fsconfig'', sys ''fsmount'', sys ''fsopen'',
     sys ''fspick'', sys ''listmount'', sys ''mount'', sys ''mount_setattr'',
     sys ''move_mount'', sys ''oldumount'', sys ''open_tree'', sys ''open_tree_attr'',
     sys ''osf_mount'', sys ''pivot_root'', sys ''statmount'', sys ''umount'',
     sys ''umount2'']"

definition grp_network_io :: "group_item list" where
  "grp_network_io =
    [sys ''accept'', sys ''accept4'', sys ''bind'', sys ''connect'', sys ''getpeername'',
     sys ''getsockname'', sys ''getsockopt'', sys ''listen'', sys ''recv'', sys ''recvfrom'',
     sys ''recvmmsg'', sys ''recvmmsg_time64'', sys ''recvmsg'', sys ''send'',
     sys ''sendmmsg'', sys ''sendmsg'', sys ''sendto'', sys ''setsockopt'', sys ''shutdown'',
     sys ''socket'', sys ''socketcall'', sys ''socketpair'']"

definition grp_obsolete_1 :: "group_item list" where
  "grp_obsolete_1 =
    [sys ''_sysctl'', sys ''afs_syscall'', sys ''bdflush'', sys ''break'',
     sys ''create_module'', sys ''dipc'', sys ''epoll_ctl_old'', sys ''epoll_wait_old'',
     sys ''exec_with_loader'', sys ''execv'', sys ''ftime'', sys ''futimesat'',
     sys ''get_kernel_syms'', sys ''getpmsg'', sys ''gtty'', sys ''idle'', sys ''llseek'',
     sys ''lock'', sys ''mpx'', sys ''multiplexer'', sys ''osf_adjtime'',
     sys ''osf_afs_syscall'', sys ''osf_alt_plock'', sys ''osf_alt_setsid'',
     sys ''osf_alt_sigpending'', sys ''osf_asynch_daemon'', sys ''osf_audcntl'',
     sys ''osf_audgen'', sys ''osf_chflags'', sys ''osf_execve'', sys ''osf_exportfs'',
     sys ''osf_fchflags'', sys ''osf_fdatasync'', sys ''osf_fpathconf'', sys ''osf_fuser'',
     sys ''osf_getaddressconf'', sys ''osf_getfh'', sys ''osf_getfsstat'',
     sys ''osf_gethostid'', sys ''osf_getlogin'', sys ''osf_getmnt'',
     sys ''osf_gettimeofday'', sys ''osf_kloadcall'', sys ''osf_kmodcall'',
     sys ''osf_memcntl'', sys ''osf_mincore'', sys ''osf_mremap'', sys ''osf_msfs_syscall'',
     sys ''osf_msleep'']"

definition grp_obsolete_2 :: "group_item list" where
  "grp_obsolete_2 =
    [sys ''osf_mvalid'', sys ''osf_mwakeup'', sys ''osf_naccept'', sys ''osf_nfssvc'',
     sys ''osf_ngetpeername'', sys ''osf_ngetsockname'', sys ''osf_nrecvfrom'',
     sys ''osf_nrecvmsg'', sys ''osf_nsendmsg'', sys ''osf_ntp_adjtime'',
     sys ''osf_ntp_gettime'', sys ''osf_old_creat'', sys ''osf_old_fstat'',
     sys ''osf_old_getpgrp'', sys ''osf_old_killpg'', sys ''osf_old_lstat'',
     sys ''osf_old_open'', sys ''osf_old_sigaction'', sys ''osf_old_sigblock'',
     sys ''osf_old_sigreturn'', sys ''osf_old_sigsetmask'', sys ''osf_old_sigvec'',
     sys ''osf_old_stat'', sys ''osf_old_vadvise'', sys ''osf_old_vtrace'',
     sys ''osf_old_wait'', sys ''osf_oldquota'', sys ''osf_pathconf'', sys ''osf_pid_block'',
     sys ''osf_pid_unblock'', sys ''osf_plock'', sys ''osf_priocntlset'', sys ''osf_profil'',
     sys ''osf_reboot'', sys ''osf_revoke'', sys ''osf_sbrk'', sys ''osf_security'',
     sys ''osf_set_speculative'', sys ''osf_sethostid'', sys ''osf_setlogin'',
     sys ''osf_settimeofday'', sys ''osf_signal'', sys ''osf_sigsendset'',
     sys ''osf_sigwaitprim'', sys ''osf_sstk'', sys ''osf_stat'', sys ''osf_statfs'',
     sys ''osf_statfs64'', sys ''osf_subsys_info'', sys ''osf_swapctl'']"

definition grp_obsolete_3 :: "group_item list" where
  "grp_obsolete_3 =
    [sys ''osf_table'', sys ''osf_uadmin'', sys ''osf_uswitch'', sys ''osf_utc_adjtime'',
     sys ''osf_utc_gettime'', sys ''osf_waitid'', sys ''perfctr'', sys ''prof'',
     sys ''profil'', sys ''putpmsg'', sys ''query_module'', sys ''remap_file_pages'',
     sys ''security'', sys ''settimeofday'', sys ''sgetmask'', sys ''spill'',
     sys ''ssetmask'', sys ''stime'', sys ''stty'', sys ''sysfs'', sys ''timerfd'',
     sys ''tkill'', sys ''tuxcall'', sys ''ulimit'', sys ''uselib'', sys ''ustat'',
     sys ''utime'', sys ''vserver'', sys ''xtensa'']"

definition grp_privileged :: "group_item list" where
  "grp_privileged =
    [Plain ''@chown'', Plain ''@clock'', Plain ''@module'', Plain ''@raw-io'',
     Plain ''@reboot'', Plain ''@swap'', sys ''_sysctl'', sys ''acct'', sys ''bpf'',
     sys ''capset'', sys ''chroot'', sys ''fanotify_init'', sys ''fchroot'', sys ''mount'',
     sys ''nfsservctl'', sys ''open_by_handle_at'', sys ''pivot_root'', sys ''quotactl'',
     sys ''setdomainname'', sys ''setfsuid'', sys ''setfsuid32'', sys ''setgroups'',
     sys ''setgroups32'', sys ''sethostname'', sys ''setresuid'', sys ''setresuid32'',
     sys ''setreuid'', sys ''setreuid32'', sys ''setuid'', sys ''setuid32'', sys ''umount2'',
     sys ''vhangup'']"

definition grp_process_1 :: "group_item list" where
  "grp_process_1 =
    [sys ''arc_gettls'', sys ''arc_settls'', sys ''arc_usr_cmpxchg'', sys ''atomic_barrier'',
     sys ''atomic_cmpxchg_32'', sys ''cachectl'', sys ''cacheflush'', sys ''capget'',
     sys ''clone'', sys ''clone3'', sys ''exit_group'', sys ''fork'', sys ''futex_requeue'',
     sys ''futex_time64'', sys ''futex_wait'', sys ''futex_waitv'', sys ''futex_wake'',
     sys ''get_robust_list'', sys ''get_thread_area'', sys ''getegid'', sys ''getegid32'',
     sys ''geteuid'', sys ''geteuid32'', sys ''getgid'', sys ''getgid32'', sys ''getgroups'',
     sys ''getgroups32'', sys ''getpgid'', sys ''getpgrp'', sys ''getpid'', sys ''getppid'',
     sys ''getresgid'', sys ''getresgid32'', sys ''getresuid'', sys ''getresuid32'',
     sys ''getsid'', sys ''gettid'', sys ''getuid'', sys ''getuid32'', sys ''getxgid'',
     sys ''getxpid'', sys ''getxuid'', sys ''kill'', sys ''membarrier'', sys ''or1k_atomic'',
     sys ''osf_set_program_attributes'', sys ''osf_wait4'', sys ''pidfd_open'',
     sys ''pidfd_send_signal'']"

definition grp_process_2 :: "group_item list" where
  "grp_process_2 =
    [sys ''riscv_flush_icache'', sys ''rseq'', sys ''rseq_slice_yield'',
     sys ''rt_sigqueueinfo'', sys ''rt_tgsigqueueinfo'', sys ''s390_guarded_storage'',
     sys ''sched_get_affinity'', sys ''set_robust_list'', sys ''set_thread_area'',
     sys ''set_tid_address'', sys ''sethae'', sys ''setns'', sys ''setpgrp'',
     sys ''setpriority'', sys ''spu_create'', sys ''spu_run'', sys ''swapcontext'',
     sys ''tgkill'', sys ''times'', sys ''unshare'', sys ''utimensat_time64'', sys ''vfork'',
     sys ''wait4'', sys ''waitid'', sys ''waitpid'']"

definition grp_program_keep :: "group_item list" where
  "grp_program_keep =
    [sys ''arch_prctl'', sys ''clock_getres'', sys ''clock_getres_time64'',
     sys ''clock_gettime'', sys ''clock_gettime64'', sys ''clock_nanosleep'',
     sys ''clock_nanosleep_time64'', sys ''exit'', sys ''futex'', sys ''gettimeofday'',
     sys ''mmap'', sys ''mmap2'', sys ''mprotect'', sys ''time'']"

definition grp_raw_io :: "group_item list" where
  "grp_raw_io =
    [sys ''ioperm'', sys ''iopl'', sys ''pciconfig_iobase'', sys ''pciconfig_read'',
     sys ''pciconfig_write'', sys ''s390_pci_mmio_read'', sys ''s390_pci_mmio_write'']"

definition grp_reboot :: "group_item list" where
  "grp_reboot =
    [sys ''kexec_file_load'', sys ''kexec_load'', sys ''reboot'']"

definition grp_resources :: "group_item list" where
  "grp_resources =
    [sys ''getdtablesize'', sys ''getrlimit'', sys ''getrusage'', sys ''ioprio_set'',
     sys ''mbind'', sys ''migrate_pages'', sys ''mincore'', sys ''move_pages'', sys ''nice'',
     sys ''osf_getrusage'', sys ''prlimit64'', sys ''sched_set_affinity'',
     sys ''sched_setaffinity'', sys ''sched_setattr'', sys ''sched_setparam'',
     sys ''sched_setscheduler'', sys ''set_mempolicy'', sys ''set_mempolicy_home_node'',
     sys ''setrlimit'', Ifdef ''set_ugetrlimit'' ''ugetrlimit'']"

definition grp_sandbox :: "group_item list" where
  "grp_sandbox =
    [sys ''landlock_add_rule'', sys ''landlock_create_ruleset'',
     sys ''landlock_restrict_self'', sys ''seccomp'']"

definition grp_setuid :: "group_item list" where
  "grp_setuid =
    [sys ''setgid'', sys ''setgid32'', sys ''setgroups'', sys ''setgroups32'',
     sys ''setregid'', sys ''setregid32'', sys ''setresgid'', sys ''setresgid32'',
     sys ''setresuid'', sys ''setresuid32'', sys ''setreuid'', sys ''setreuid32'',
     sys ''setuid'', sys ''setuid32'']"

definition grp_signal :: "group_item list" where
  "grp_signal =
    [sys ''osf_sigprocmask'', sys ''osf_sigstack'', sys ''pause'', sys ''restart_syscall'',
     sys ''rt_sigaction'', sys ''rt_sigpending'', sys ''rt_sigprocmask'',
     sys ''rt_sigreturn'', sys ''rt_sigsuspend'', sys ''rt_sigtimedwait'',
     sys ''rt_sigtimedwait_time64'', sys ''sigaction'', sys ''sigaltstack'', sys ''signal'',
     sys ''signalfd'', sys ''signalfd4'', sys ''sigpending'', sys ''sigprocmask'',
     sys ''sigreturn'', sys ''sigsuspend'', sys ''utrap_install'']"

definition grp_swap :: "group_item list" where
  "grp_swap =
    [sys ''osf_swapon'', sys ''swapoff'', sys ''swapon'']"

definition grp_sync :: "group_item list" where
  "grp_sync =
    [sys ''arm_sync_file_range'', sys ''fdatasync'', sys ''fsync'', sys ''msync'',
     sys ''sync'', sys ''sync_file_range'', sys ''sync_file_range2'', sys ''syncfs'']"

definition grp_system_service_1 :: "group_item list" where
  "grp_system_service_1 =
    [Plain ''@aio'', Plain ''@basic-io'', Plain ''@chown'', Plain ''@default'',
     Plain ''@file-system'', Plain ''@io-event'', Plain ''@ipc'', Plain ''@keyring'',
     Plain ''@memfd'', Plain ''@memlock'', Plain ''@network-io'', Plain ''@process'',
     Plain ''@resources'', Plain ''@sandbox'', Plain ''@setuid'', Plain ''@signal'',
     Plain ''@sync'', Plain ''@timer'', sys ''arm_fadvise64_64'', sys ''brk'', sys ''capget'',
     sys ''capset'', sys ''copy_file_range'', sys ''fadvise64'', sys ''fadvise64_64'',
     sys ''flock'', sys ''get_mempolicy'', sys ''getcpu'', sys ''getdomainname'',
     sys ''gethostname'', sys ''getpagesize'', sys ''getpriority'', sys ''getrandom'',
     sys ''ioctl'', sys ''ioprio_get'', sys ''kcmp'', sys ''kern_features'', sys ''listns'',
     sys ''lsm_get_self_attr'', sys ''lsm_list_modules'', sys ''lsm_set_self_attr'',
     sys ''madvise'', sys ''map_shadow_stack'', sys ''memory_ordering'', sys ''mremap'',
     sys ''mseal'', sys ''name_to_handle_at'', sys ''oldolduname'', sys ''olduname'',
     sys ''osf_getdomainname'', sys ''osf_getsysinfo'', sys ''osf_setsysinfo'',
     sys ''osf_syscall'', sys ''osf_sysinfo'', sys ''osf_utsname'', sys ''personality'',
     sys ''pkey_alloc'', sys ''pkey_free'', sys ''pkey_mprotect'', sys ''readahead'',
     sys ''readdir'']"

definition grp_system_service_2 :: "group_item list" where
  "grp_system_service_2 =
    [sys ''riscv_hwprobe'', sys ''s390_sthyi'', sys ''sched_get_priority_max'',
     sys ''sched_get_priority_min'', sys ''sched_getaffinity'', sys ''sched_getattr'',
     sys ''sched_getparam'', sys ''sched_getscheduler'', sys ''sched_rr_get_interval'',
     sys ''sched_rr_get_interval_time64'', sys ''sched_yield'', sys ''sendfile'',
     sys ''sendfile64'', sys ''setfsgid'', sys ''setfsgid32'', sys ''setfsuid'',
     sys ''setfsuid32'', sys ''setpgid'', sys ''setsid'', sys ''splice'', sys ''syscall'',
     sys ''sysinfo'', sys ''sysmips'', sys ''tee'', sys ''umask'', sys ''uname'',
     sys ''userfaultfd'', sys ''vmsplice'']"

definition grp_timer :: "group_item list" where
  "grp_timer =
    [sys ''alarm'', sys ''getitimer'', sys ''nanosleep'', sys ''osf_getitimer'',
     sys ''osf_setitimer'', sys ''osf_usleep_thread'', sys ''setitimer'',
     sys ''timer_create'', sys ''timer_delete'', sys ''timer_getoverrun'',
     sys ''timer_gettime'', sys ''timer_gettime64'', sys ''timer_settime'',
     sys ''timer_settime64'', sys ''timerfd_create'', sys ''timerfd_gettime'',
     sys ''timerfd_gettime64'', sys ''timerfd_settime'', sys ''timerfd_settime64'',
     sys ''times'']"

abbreviation group :: "string \<Rightarrow> string \<Rightarrow> group_item list \<Rightarrow> SyscallGroupList" where
  "group n d is \<equiv> \<lparr>sg_name = n, sg_description = d, sg_items = is\<rparr>"

definition sysgroups :: "SyscallGroupList list" where
  "sysgroups =
    [group ''@aio'' ''Asynchronous I/O and io_uring operations.'' grp_aio,
     group ''@basic-io'' ''Basic file-descriptor read, write, seek and dup operations.'' grp_basic_io,
     group ''@chown'' ''Change file owner and group metadata.'' grp_chown,
     group ''@clock'' ''System clock adjustment.'' grp_clock,
     group ''@cpu-emulation'' ''Legacy CPU, segment and VM86 emulation helpers.'' grp_cpu_emulation,
     group ''@debug'' ''Low-level debugging, tracing, and perf monitoring interfaces.'' grp_debug,
     group ''@default'' ''Broad set of syscalls usually considered unsafe or rarely used.'' grp_default,
     group ''@default-keep'' ''System calls needed by Firejail itself, kept even under strict filters.'' grp_default_keep,
     group ''@default-nodebuggers'' ''Debugger and introspection syscalls, also includes the @default group.'' grp_default_nodebuggers,
     group ''@file-system'' ''Filesystem access: path navigation, metadata, open, create, remove, and inotify.'' (grp_file_system_1 @ grp_file_system_2),
     group ''@io-event'' ''Evented I/O multiplexing.'' grp_io_event,
     group ''@ipc'' ''Inter-process communication: pipes, SysV IPC and POSIX message queues.'' grp_ipc,
     group ''@keyring'' ''Kernel keyring and key management operations.'' grp_keyring,
     group ''@memfd'' ''Anonymous in-kernel file-like memory objects.'' grp_memfd,
     group ''@memlock'' ''Lock and unlock memory to and from RAM (no swapping).'' grp_memlock,
     group ''@module'' ''Load, initialize, and unload kernel modules.'' grp_module,
     group ''@mount'' ''Mount, unmount, manage filesystems and mount namespaces.'' grp_mount,
     group ''@network-io'' ''Create and use sockets, send and receive network data.'' grp_network_io,
     group ''@obsolete'' ''Deprecated or very old arch-specific legacy syscalls.'' (grp_obsolete_1 @ grp_obsolete_2 @ grp_obsolete_3),
     group ''@privileged'' ''Highly privileged operations: IDs, mounts, modules, raw I/O, reboot, etc.'' grp_privileged,
     group ''@process'' ''Process and thread lifecycle, IDs, signals sending, namespaces and futex-related helpers.'' (grp_process_1 @ grp_process_2),
     group ''@program-keep'' ''Some system calls commonly invoked by programs, blocking them can cause widespread breakage.'' grp_program_keep,
     group ''@raw-io'' ''Direct port/PCI and low-level device I/O.'' grp_raw_io,
     group ''@reboot'' ''Reboot and kexec-related operations.'' grp_reboot,
     group ''@resources'' ''Resource limits, priorities, CPU affinity and NUMA memory policies.'' grp_resources,
     group ''@sandbox'' ''Seccomp and Landlock sandbox configuration syscalls.'' grp_sandbox,
     group ''@setuid'' ''Change user and group IDs.'' grp_setuid,
     group ''@signal'' ''Signal handling, masks, signal delivery and signalfd-based interfaces.'' grp_signal,
     group ''@swap'' ''Enable and disable swap devices and partitions.'' grp_swap,
     group ''@sync'' ''Synchronize file data and memory mappings to storage.'' grp_sync,
     group ''@system-service'' ''Extended system call set focusing on the user (program).'' (grp_system_service_1 @ grp_system_service_2),
     group ''@timer'' ''Timers, sleeps and interval operations.'' grp_timer]"

lemmas group_defs =
  grp_aio_def grp_basic_io_def grp_chown_def grp_clock_def grp_cpu_emulation_def
  grp_debug_def grp_default_def grp_default_keep_def grp_default_nodebuggers_def grp_file_system_1_def
  grp_file_system_2_def grp_io_event_def grp_ipc_def grp_keyring_def grp_memfd_def
  grp_memlock_def grp_module_def grp_mount_def grp_network_io_def grp_obsolete_1_def
  grp_obsolete_2_def grp_obsolete_3_def grp_privileged_def grp_process_1_def grp_process_2_def
  grp_program_keep_def grp_raw_io_def grp_reboot_def grp_resources_def grp_sandbox_def
  grp_setuid_def grp_signal_def grp_swap_def grp_sync_def grp_system_service_1_def
  grp_system_service_2_def grp_timer_def

end
