(* ===== verification/Syscall.thy ===== *)
theory Syscall
  imports Errno Seccomp_File Syscall_Groups
begin

text \<open>
  lib/syscall.c: name and number searches, the syntax of list entries, the traversal
  \<^verbatim>\<open>syscall_check_list\<close> with its callbacks, and \<^verbatim>\<open>syscalls_in_list\<close>, which splits a list
  into the part that may be applied before exec and the part that has to wait.

  The traversal recurses into groups. It terminates for every list because no group of the
  table refers to itself, directly or through others: the termination proof of
  \<open>syscall_check_list\<close> is over the rank of the groups. A list is flattened by
  \<open>list_entries\<close>, and the traversal is a fold over the flattened list.
\<close>

section \<open>Searches\<close>

definition SYSCALL_ERROR :: int where "SYSCALL_ERROR = 2147483647"
definition ERRNO_KILL :: int where "ERRNO_KILL = -2"
definition ERRNO_LOG :: int where "ERRNO_LOG = -3"

definition syscall_find_name :: "platform \<Rightarrow> string \<Rightarrow> int" where
  "syscall_find_name P name =
     (case find_by (\<lambda>n. name = n) (syslist P) of Some nr \<Rightarrow> nr | None \<Rightarrow> SYSCALL_ERROR)"

definition syscall_find_name_32 :: "platform \<Rightarrow> string \<Rightarrow> int" where
  "syscall_find_name_32 P name =
     (case find_by (\<lambda>n. name = n) (syslist32 P) of Some nr \<Rightarrow> nr | None \<Rightarrow> SYSCALL_ERROR)"

definition syscall_find_nr :: "platform \<Rightarrow> int \<Rightarrow> string" where
  "syscall_find_nr P nr =
     (case find (\<lambda>e. nr = snd e) (syslist P) of Some e \<Rightarrow> fst e | None \<Rightarrow> ''unknown'')"

definition syscall_find_nr_32 :: "platform \<Rightarrow> int \<Rightarrow> string" where
  "syscall_find_nr_32 P nr =
     (case find (\<lambda>e. nr = snd e) (syslist32 P) of Some e \<Rightarrow> fst e | None \<Rightarrow> ''unknown'')"

definition syscall_find_group :: "platform \<Rightarrow> string \<Rightarrow> string option" where
  "syscall_find_group P name =
     map_option (\<lambda>g. group_list P (sg_items g)) (find (\<lambda>g. name = sg_name g) sysgroups)"

section \<open>The table of groups is acyclic\<close>

definition grp_rank :: "string \<Rightarrow> nat" where
  "grp_rank g =
     (if g = ''@default-nodebuggers'' \<or> g = ''@system-service'' then 2
      else if g = ''@default'' \<or> g = ''@privileged'' then 1 else 0)"

lemma group_words_ok:
  "list_all (\<lambda>g. list_all (\<lambda>i. item_word i \<noteq> [] \<and> CHR '','' \<notin> set (item_word i)) (sg_items g)) sysgroups"
  by (simp add: sysgroups_def group_defs)

lemma group_refs_ranked:
  "list_all (\<lambda>g. list_all (\<lambda>w. grp_rank w < grp_rank (sg_name g))
     (filter (\<lambda>w. hd w = CHR ''@'') (map item_word (sg_items g)))) sysgroups"
  by (simp add: sysgroups_def group_defs grp_rank_def)

lemma strtok_group_list:
  assumes "list_all (\<lambda>i. item_word i \<noteq> [] \<and> CHR '','' \<notin> set (item_word i)) is"
  shows "strtok_all (CHR '','') (group_list P is) =
    map item_word (filter (item_present P) is) @ [''__dummy_syscall__'']"
  using assms
proof (induction "is")
  case Nil
  show ?case by (simp add: group_list_def strtok_all_last)
next
  case (Cons i "is")
  then show ?case by (simp add: group_list_def strtok_all_append)
qed

lemma syscall_find_group_SomeE:
  assumes "syscall_find_group P name = Some l"
  obtains g where "g \<in> set sysgroups" and "sg_name g = name"
    and "strtok_all (CHR '','') l =
      map item_word (filter (item_present P) (sg_items g)) @ [''__dummy_syscall__'']"
proof -
  from assms obtain g where g: "find (\<lambda>g. name = sg_name g) sysgroups = Some g"
    and l: "l = group_list P (sg_items g)"
    by (auto simp: syscall_find_group_def)
  then have mem: "g \<in> set sysgroups" and "sg_name g = name"
    by (auto simp: find_Some_iff)
  moreover have "list_all (\<lambda>i. item_word i \<noteq> [] \<and> CHR '','' \<notin> set (item_word i)) (sg_items g)"
    using group_words_ok mem by (simp add: list_all_iff)
  ultimately show thesis using l by (intro that) (simp_all add: strtok_group_list)
qed

definition token_rank :: "string \<Rightarrow> nat" where
  "token_rank t = (if hd t = CHR ''@'' then Suc (grp_rank t) else 0)"

definition list_rank :: "string \<Rightarrow> nat" where
  "list_rank s = Max (insert 0 (token_rank ` set (strtok_all (CHR '','') s)))"

lemma token_rank_le: "t \<in> set (strtok_all (CHR '','') s) \<Longrightarrow> token_rank t \<le> list_rank s"
  by (simp add: list_rank_def)

lemma group_rank_less:
  assumes "syscall_find_group P name = Some l" and "hd name = CHR ''@''"
  shows "list_rank l < token_rank name"
proof -
  obtain g where g: "g \<in> set sysgroups" "sg_name g = name"
    and toks: "strtok_all (CHR '','') l =
      map item_word (filter (item_present P) (sg_items g)) @ [''__dummy_syscall__'']"
    by (rule syscall_find_group_SomeE [OF assms(1)])
  have refs: "hd (item_word i) = CHR ''@'' \<Longrightarrow> grp_rank (item_word i) < grp_rank name"
    if "i \<in> set (sg_items g)" for i
    using group_refs_ranked g that by (auto simp: list_all_iff)
  have "token_rank t \<le> grp_rank name" if "t \<in> set (strtok_all (CHR '','') l)" for t
    using that by (auto simp: toks token_rank_def Suc_le_eq intro: refs)
  then have "list_rank l \<le> grp_rank name" by (simp add: list_rank_def)
  with assms(2) show ?thesis by (simp add: token_rank_def)
qed

section \<open>Entries of a list\<close>

text \<open>The number and the error code of an entry \<^verbatim>\<open>name\<close>, \<^verbatim>\<open>name:errno\<close>, \<^verbatim>\<open>name:kill\<close>, \<^verbatim>\<open>name:log\<close>.\<close>

definition syscall_process_name :: "platform \<Rightarrow> bool \<Rightarrow> string \<Rightarrow> fsec_error + (int \<times> int)" where
  "syscall_process_name P native name =
     (if name = [] then Inl (InvalidEntry name)
      else let (syscall_name, error_name) = strchr_cut (CHR '':'') name in
        if syscall_name = [] then Inl (InvalidEntry name)
        else
          let syscall_nr =
                (if hd syscall_name = CHR ''$'' then to_int32 (strtol0 (tl syscall_name))
                 else if native then syscall_find_name P syscall_name
                 else syscall_find_name_32 P syscall_name)
          in case error_name of
               None \<Rightarrow> Inr (syscall_nr, -1)
             | Some e \<Rightarrow>
                 if e = ''kill'' then Inr (syscall_nr, ERRNO_KILL)
                 else if e = ''log'' then Inr (syscall_nr, ERRNO_LOG)
                 else let error_nr = errno_find_name P e in
                   if error_nr = -1 then Inr (SYSCALL_ERROR, error_nr)
                   else Inr (syscall_nr, error_nr))"

text \<open>The body of the loop for an entry that is not a group.\<close>

definition check_entry ::
    "platform \<Rightarrow> 'p filter_fn option \<Rightarrow> int \<Rightarrow> int \<Rightarrow> bool \<Rightarrow> string \<Rightarrow> 'p fstate \<Rightarrow> fsec_error + 'p fstate" where
  "check_entry P callback fd arg native ptr st =
     (let negate = (hd ptr = CHR ''!'');
          name = (if negate then tl ptr else ptr)
      in case syscall_process_name P native name of
           Inl e \<Rightarrow> Inl e
         | Inr (nr, error_nr) \<Rightarrow>
             (case callback of
                None \<Rightarrow> Inr st
              | Some cb \<Rightarrow>
                  if nr = SYSCALL_ERROR then Inr st
                  else
                    let syscall_nr = (if negate then NOT nr else nr) in
                    if 0 \<le> error_nr \<and> 0 < fd then filter_add_errno fd syscall_nr error_nr native st
                    else if error_nr = ERRNO_KILL \<and> 0 < fd then
                      filter_add_blacklist_override fd syscall_nr (uint SECCOMP_RET_KILL) native st
                    else if error_nr = ERRNO_LOG \<and> 0 < fd then
                      filter_add_blacklist_override fd syscall_nr (uint SECCOMP_RET_LOG) native st
                    else if 0 \<le> error_nr \<and> fd = 0 then cb fd syscall_nr error_nr native st
                    else cb fd syscall_nr arg native st))"

function syscall_check_list ::
    "platform \<Rightarrow> 'p filter_fn option \<Rightarrow> int \<Rightarrow> int \<Rightarrow> bool \<Rightarrow> string \<Rightarrow> 'p fstate \<Rightarrow> fsec_error + 'p fstate" where
  "syscall_check_list P callback fd arg native slist st =
     (if slist = [] then Inl EmptyList
      else if strtok_all (CHR '','') slist = [] then Inl EmptyList
      else fold_res
             (\<lambda>ptr st.
                if hd ptr = CHR ''@'' then
                  (case syscall_find_group P ptr of
                     None \<Rightarrow> Inl (UnknownGroup ptr)
                   | Some new_list \<Rightarrow> syscall_check_list P callback fd arg native new_list st)
                else check_entry P callback fd arg native ptr st)
             (strtok_all (CHR '','') slist) st)"
  by pat_completeness auto
termination
proof (relation "measure (\<lambda>(P, callback, fd, arg, native, slist, st). list_rank slist)", goal_cases)
  case 1
  show ?case by simp
next
  case (2 P callback fd arg native slist st ptr st' new_list)
  then have "list_rank new_list < token_rank ptr" by (intro group_rank_less)
  also have "\<dots> \<le> list_rank slist" using 2 by (intro token_rank_le)
  finally show ?case by simp
qed

declare syscall_check_list.simps [simp del]

section \<open>Flattened lists\<close>

text \<open>The entries a token stands for: none when the system call does not exist on this platform.\<close>

definition token_entries :: "platform \<Rightarrow> bool \<Rightarrow> string \<Rightarrow> fsec_error + (int \<times> int) list" where
  "token_entries P native ptr =
     (let negate = (hd ptr = CHR ''!'') in
      case syscall_process_name P native (if negate then tl ptr else ptr) of
        Inl e \<Rightarrow> Inl e
      | Inr (nr, error_nr) \<Rightarrow>
          Inr (if nr = SYSCALL_ERROR then [] else [(if negate then NOT nr else nr, error_nr)]))"

function list_entries :: "platform \<Rightarrow> bool \<Rightarrow> string \<Rightarrow> fsec_error + (int \<times> int) list" where
  "list_entries P native slist =
     (if strtok_all (CHR '','') slist = [] then Inl EmptyList
      else collect
             (\<lambda>ptr.
                if hd ptr = CHR ''@'' then
                  (case syscall_find_group P ptr of
                     None \<Rightarrow> Inl (UnknownGroup ptr)
                   | Some new_list \<Rightarrow> list_entries P native new_list)
                else token_entries P native ptr)
             (strtok_all (CHR '','') slist))"
  by pat_completeness auto
termination
proof (relation "measure (\<lambda>(P, native, slist). list_rank slist)", goal_cases)
  case 1
  show ?case by simp
next
  case (2 P native slist ptr new_list)
  then have "list_rank new_list < token_rank ptr" by (intro group_rank_less)
  also have "\<dots> \<le> list_rank slist" using 2 by (intro token_rank_le)
  finally show ?case by simp
qed

declare list_entries.simps [simp del]

text \<open>What the traversal does with an entry; the callback is a total function \<open>f\<close>.\<close>

definition dispatch ::
    "(int \<Rightarrow> int \<Rightarrow> int \<Rightarrow> bool \<Rightarrow> 'p fstate \<Rightarrow> 'p fstate) \<Rightarrow> int \<Rightarrow> int \<Rightarrow> bool \<Rightarrow> int \<times> int \<Rightarrow> 'p fstate \<Rightarrow> 'p fstate" where
  "dispatch f fd arg native e st =
     (if 0 \<le> snd e \<and> 0 < fd
        then appends st [(u32_of_int (fst e), SECCOMP_RET_ERRNO OR u32_of_int (snd e))]
      else if snd e = ERRNO_KILL \<and> 0 < fd
        then appends st (if 0 \<le> fst e then [(u32_of_int (fst e), SECCOMP_RET_KILL)] else [])
      else if snd e = ERRNO_LOG \<and> 0 < fd
        then appends st (if 0 \<le> fst e then [(u32_of_int (fst e), SECCOMP_RET_LOG)] else [])
      else if 0 \<le> snd e \<and> fd = 0 then f fd (fst e) (snd e) native st
      else f fd (fst e) arg native st)"

lemma check_entry_dispatch:
  assumes "\<And>n a. cb fd n a native st = Inr (f fd n a native st)"
  shows "check_entry P (Some cb) fd arg native ptr st =
    (case token_entries P native ptr of Inl e \<Rightarrow> Inl e
     | Inr es \<Rightarrow> Inr (fold (dispatch f fd arg native) es st))"
  using assms
  by (auto simp: check_entry_def token_entries_def dispatch_def Let_def emit_simps split: sum.split)

text \<open>
  The traversal is a fold over the flattened list, for a callback that returns normally in
  every state that satisfies an invariant of the fold.
\<close>

lemma syscall_check_list_fold_inv:
  assumes total: "\<And>n a st. I st \<Longrightarrow> cb fd n a native st = Inr (f fd n a native st)"
    and inv: "\<And>e st. I st \<Longrightarrow> I (dispatch f fd arg native e st)" and "I st"
  shows "syscall_check_list P (Some cb) fd arg native slist st =
    (case list_entries P native slist of Inl e \<Rightarrow> Inl e
     | Inr es \<Rightarrow> Inr (fold (dispatch f fd arg native) es st))"
  using assms
proof (induction P native slist arbitrary: st rule: list_entries.induct)
  case (1 P native slist)
  show ?case
  proof (cases "strtok_all (CHR '','') slist = []")
    case True
    then show ?thesis
      by (simp add: syscall_check_list.simps [of P _ _ _ _ slist] list_entries.simps [of P _ slist])
  next
    case False
    then have "slist \<noteq> []" by auto
    let ?items = "\<lambda>ptr. if hd ptr = CHR ''@'' then
        (case syscall_find_group P ptr of None \<Rightarrow> Inl (UnknownGroup ptr)
         | Some new_list \<Rightarrow> list_entries P native new_list)
        else token_entries P native ptr"
    let ?body = "\<lambda>ptr st. if hd ptr = CHR ''@'' then
        (case syscall_find_group P ptr of None \<Rightarrow> Inl (UnknownGroup ptr)
         | Some new_list \<Rightarrow> syscall_check_list P (Some cb) fd arg native new_list st)
        else check_entry P (Some cb) fd arg native ptr st"
    have "fold_res ?body (strtok_all (CHR '','') slist) st =
        (case collect ?items (strtok_all (CHR '','') slist) of Inl e \<Rightarrow> Inl e
         | Inr es \<Rightarrow> Inr (fold (dispatch f fd arg native) es st))"
    proof (rule fold_res_collect [where I = I])
      fix ptr s
      assume ptr: "ptr \<in> set (strtok_all (CHR '','') slist)" and s: "I s"
      show "?body ptr s = (case ?items ptr of Inl e \<Rightarrow> Inl e
          | Inr es \<Rightarrow> Inr (fold (dispatch f fd arg native) es s))"
      proof (cases "hd ptr = CHR ''@''")
        case True
        show ?thesis
        proof (cases "syscall_find_group P ptr")
          case None
          with True show ?thesis by simp
        next
          case (Some new_list)
          from "1.IH" [OF False ptr True Some "1.prems"(1,2) s] True Some show ?thesis by simp
        qed
      next
        case False
        have "check_entry P (Some cb) fd arg native ptr s =
            (case token_entries P native ptr of Inl e \<Rightarrow> Inl e
             | Inr es \<Rightarrow> Inr (fold (dispatch f fd arg native) es s))"
          by (rule check_entry_dispatch) (rule "1.prems"(1) [OF s])
        with False show ?thesis by simp
      qed
    qed (use "1.prems" in auto)
    with False \<open>slist \<noteq> []\<close> show ?thesis
      by (simp only: syscall_check_list.simps [of P _ _ _ _ slist] list_entries.simps [of P _ slist]
          if_False)
  qed
qed

lemma syscall_check_list_fold:
  assumes "\<And>fd n a native st. cb fd n a native st = Inr (f fd n a native st)"
  shows "syscall_check_list P (Some cb) fd arg native slist st =
    (case list_entries P native slist of Inl e \<Rightarrow> Inl e
     | Inr es \<Rightarrow> Inr (fold (dispatch f fd arg native) es st))"
  by (rule syscall_check_list_fold_inv [where I = "\<lambda>_. True"]) (simp_all add: assms)

text \<open>A group word or name that is only looked up never makes the traversal leave the process.\<close>

lemma syscall_process_name_plain:
  assumes "name \<noteq> []" and "CHR '':'' \<notin> set name" and "hd name \<noteq> CHR ''$''"
  shows "syscall_process_name P native name =
    Inr (if native then syscall_find_name P name else syscall_find_name_32 P name, -1)"
  using assms by (simp add: syscall_process_name_def strchr_cut_free)

section \<open>Groups flatten without failing\<close>

definition find_name :: "platform \<Rightarrow> bool \<Rightarrow> string \<Rightarrow> int" where
  "find_name P native w = (if native then syscall_find_name P w else syscall_find_name_32 P w)"

lemma group_words_plain:
  "list_all (\<lambda>g. list_all (\<lambda>i. CHR '':'' \<notin> set (item_word i) \<and> hd (item_word i) \<noteq> CHR ''$'' \<and>
     hd (item_word i) \<noteq> CHR ''!'') (sg_items g)) sysgroups"
  by (simp add: sysgroups_def group_defs)

lemma sysgroups_names:
  "map sg_name sysgroups =
    [''@aio'', ''@basic-io'', ''@chown'', ''@clock'', ''@cpu-emulation'',
     ''@debug'', ''@default'', ''@default-keep'', ''@default-nodebuggers'', ''@file-system'',
     ''@io-event'', ''@ipc'', ''@keyring'', ''@memfd'', ''@memlock'',
     ''@module'', ''@mount'', ''@network-io'', ''@obsolete'', ''@privileged'',
     ''@process'', ''@program-keep'', ''@raw-io'', ''@reboot'', ''@resources'',
     ''@sandbox'', ''@setuid'', ''@signal'', ''@swap'', ''@sync'',
     ''@system-service'', ''@timer'']"
  unfolding sysgroups_def list.map SyscallGroupList.select_convs ..

lemma group_refs_exist:
  "list_all (\<lambda>g. list_all (\<lambda>w. w \<in> set
    [''@aio'', ''@basic-io'', ''@chown'', ''@clock'', ''@cpu-emulation'',
     ''@debug'', ''@default'', ''@default-keep'', ''@default-nodebuggers'', ''@file-system'',
     ''@io-event'', ''@ipc'', ''@keyring'', ''@memfd'', ''@memlock'',
     ''@module'', ''@mount'', ''@network-io'', ''@obsolete'', ''@privileged'',
     ''@process'', ''@program-keep'', ''@raw-io'', ''@reboot'', ''@resources'',
     ''@sandbox'', ''@setuid'', ''@signal'', ''@swap'', ''@sync'',
     ''@system-service'', ''@timer''])
     (filter (\<lambda>w. hd w = CHR ''@'') (map item_word (sg_items g)))) sysgroups"
  by (simp add: sysgroups_def group_defs)

lemma group_item_facts:
  assumes "g \<in> set sysgroups" and "i \<in> set (sg_items g)"
  shows "item_word i \<noteq> []" and "CHR '','' \<notin> set (item_word i)" and "CHR '':'' \<notin> set (item_word i)"
    and "hd (item_word i) \<noteq> CHR ''$''" and "hd (item_word i) \<noteq> CHR ''!''"
    and "hd (item_word i) = CHR ''@'' \<Longrightarrow> \<exists>h \<in> set sysgroups. item_word i = sg_name h"
    and "hd (item_word i) = CHR ''@'' \<Longrightarrow> grp_rank (item_word i) < grp_rank (sg_name g)"
proof -
  show "item_word i \<noteq> []" and "CHR '','' \<notin> set (item_word i)" and "CHR '':'' \<notin> set (item_word i)"
    and "hd (item_word i) \<noteq> CHR ''$''" and "hd (item_word i) \<noteq> CHR ''!''"
    and "hd (item_word i) = CHR ''@'' \<Longrightarrow> grp_rank (item_word i) < grp_rank (sg_name g)"
    using group_words_ok group_words_plain group_refs_ranked assms by (simp_all add: list_all_iff)
  assume "hd (item_word i) = CHR ''@''"
  then have "item_word i \<in> set (map sg_name sysgroups)"
    using group_refs_exist assms unfolding sysgroups_names list_all_iff by (auto simp del: list.set)
  then show "\<exists>h \<in> set sysgroups. item_word i = sg_name h" by auto
qed

definition find_sysgroup :: "string \<Rightarrow> SyscallGroupList option" where
  "find_sysgroup name = find (\<lambda>g. name = sg_name g) sysgroups"

text \<open>The system call names a group stands for, groups inside it expanded up to a depth.\<close>

fun closure :: "(group_item \<Rightarrow> bool) \<Rightarrow> nat \<Rightarrow> string \<Rightarrow> string list" where
  "closure present 0 name = []"
| "closure present (Suc k) name =
     (case find_sysgroup name of
        None \<Rightarrow> []
      | Some g \<Rightarrow>
          concat (map (\<lambda>i. if hd (item_word i) = CHR ''@'' then closure present k (item_word i)
                           else [item_word i])
                      (filter present (sg_items g))) @ [''__dummy_syscall__''])"

lemma closure_mono: "set (closure present k name) \<subseteq> set (closure (\<lambda>_. True) k name)"
proof (induction k arbitrary: name)
  case 0
  show ?case by simp
next
  case (Suc k)
  then show ?case by (auto split: option.split if_splits) blast+
qed

definition name_entries :: "platform \<Rightarrow> bool \<Rightarrow> string list \<Rightarrow> (int \<times> int) list" where
  "name_entries P native ws =
     map (\<lambda>w. (find_name P native w, -1))
       (filter (\<lambda>w. find_name P native w \<noteq> SYSCALL_ERROR) ws)"

lemma name_entries_append [simp]:
  "name_entries P native (ws @ vs) = name_entries P native ws @ name_entries P native vs"
  by (simp add: name_entries_def)

lemma name_entries_concat:
  "name_entries P native (concat wss) = concat (map (name_entries P native) wss)"
  by (induction wss) (simp_all add: name_entries_def)

lemma token_entries_plain:
  assumes "w \<noteq> []" and "CHR '':'' \<notin> set w" and "hd w \<noteq> CHR ''$''" and "hd w \<noteq> CHR ''!''"
  shows "token_entries P native w = Inr (name_entries P native [w])"
  using assms
  by (simp add: token_entries_def syscall_process_name_plain name_entries_def find_name_def)

lemma find_sysgroup_SomeD: "find_sysgroup name = Some g \<Longrightarrow> g \<in> set sysgroups \<and> sg_name g = name"
  by (auto simp: find_sysgroup_def find_Some_iff)

lemma find_sysgroup_ex: "g \<in> set sysgroups \<Longrightarrow> \<exists>h. find_sysgroup (sg_name g) = Some h"
  by (cases "find_sysgroup (sg_name g)") (auto simp: find_sysgroup_def find_None_iff)

lemma group_list_entries:
  assumes "grp_rank name < k" and "find_sysgroup name = Some g"
  shows "list_entries P native (group_list P (sg_items g)) =
    Inr (name_entries P native (closure (item_present P) k name))"
  using assms
proof (induction k arbitrary: name g)
  case 0
  then show ?case by simp
next
  case (Suc k)
  have g: "g \<in> set sysgroups" "sg_name g = name"
    using find_sysgroup_SomeD [OF Suc.prems(2)] by auto
  have toks: "strtok_all (CHR '','') (group_list P (sg_items g)) =
      map item_word (filter (item_present P) (sg_items g)) @ [''__dummy_syscall__'']"
    by (rule strtok_group_list) (simp add: list_all_iff group_item_facts [OF g(1)])
  let ?f = "\<lambda>ptr. if hd ptr = CHR ''@'' then
      (case syscall_find_group P ptr of None \<Rightarrow> Inl (UnknownGroup ptr)
       | Some new_list \<Rightarrow> list_entries P native new_list)
      else token_entries P native ptr"
  let ?c = "\<lambda>w. if hd w = CHR ''@'' then closure (item_present P) k w else [w]"
  have word: "?f w = Inr (name_entries P native (?c w))"
    if "w \<in> set (map item_word (filter (item_present P) (sg_items g)) @ [''__dummy_syscall__''])" for w
  proof (cases "w = ''__dummy_syscall__''")
    case True
    then show ?thesis by (simp add: token_entries_plain)
  next
    case False
    with that obtain i where i: "i \<in> set (sg_items g)" "w = item_word i" by auto
    note facts = group_item_facts [OF g(1) i(1)]
    show ?thesis
    proof (cases "hd w = CHR ''@''")
      case True
      then obtain h where h: "find_sysgroup w = Some h"
        using facts(6) i(2) find_sysgroup_ex by metis
      have "grp_rank w < k" using facts(7) True i(2) g(2) Suc.prems(1) by simp
      from Suc.IH [OF this h] True h show ?thesis
        by (simp add: syscall_find_group_def find_sysgroup_def)
    next
      case False
      then show ?thesis using facts i(2) by (simp add: token_entries_plain)
    qed
  qed
  have "collect ?f (map item_word (filter (item_present P) (sg_items g)) @ [''__dummy_syscall__'']) =
      Inr (concat (map (\<lambda>w. name_entries P native (?c w))
        (map item_word (filter (item_present P) (sg_items g)) @ [''__dummy_syscall__''])))"
    by (rule collect_total) (rule word)
  then show ?case
    using Suc.prems(2)
    by (simp add: list_entries.simps [of P native "group_list P (sg_items g)"] toks
        name_entries_concat comp_def)
qed

text \<open>Flattening a group name gives exactly the known system calls of its closure.\<close>

lemma list_entries_group:
  assumes "hd name = CHR ''@''" and "CHR '','' \<notin> set name" and "find_sysgroup name \<noteq> None"
  shows "list_entries P native name = Inr (name_entries P native (closure (item_present P) 3 name))"
proof -
  obtain g where g: "find_sysgroup name = Some g" using assms(3) by auto
  have "name \<in> set (map sg_name sysgroups)" using find_sysgroup_SomeD [OF g] by auto
  then have "name \<noteq> []" unfolding sysgroups_names by auto
  moreover have "grp_rank name < 3" by (simp add: grp_rank_def)
  ultimately show ?thesis
    using assms g group_list_entries [OF _ g, of 3 P native]
    by (simp add: list_entries.simps [of P native name] strtok_all_last syscall_find_group_def
        find_sysgroup_def)
qed

end
