(* ===== verification/Syscall_Lists.thy ===== *)
theory Syscall_Lists imports Syscall begin

text \<open>
  The callbacks \<^verbatim>\<open>find_syscall\<close> and \<^verbatim>\<open>syscall_in_list\<close> of lib/syscall.c and
  \<^verbatim>\<open>syscalls_in_list\<close>, which splits a drop list against a list of system calls firejail
  still needs itself: entries outside it go to \<^verbatim>\<open>prelist\<close>, entries inside it to
  \<^verbatim>\<open>postlist\<close>, both as comma separated strings that are parsed again later.
\<close>

record SyscallCheckList =
  sl_slist :: string
  sl_prelist :: "string option"
  sl_postlist :: "string option"
  sl_found :: bool
  sl_syscall :: int

definition find_syscall :: "SyscallCheckList filter_fn" where
  "find_syscall fd syscall arg native st =
     Inr (if (if syscall < 0 then NOT syscall else syscall) = sl_syscall (ptrarg st)
          then st\<lparr>ptrarg := (ptrarg st)\<lparr>sl_found := True\<rparr>\<rparr> else st)"

text \<open>Growing a list with \<^verbatim>\<open>asprintf(&list, "%s,%s", old, name)\<close>.\<close>

definition list_add :: "string option \<Rightarrow> string \<Rightarrow> string option" where
  "list_add l w = (case l of Some old \<Rightarrow> Some (old @ CHR '','' # w) | None \<Rightarrow> Some w)"

definition syscall_in_list :: "platform \<Rightarrow> SyscallCheckList filter_fn" where
  "syscall_in_list P fd syscall arg native st =
     (if syscall < 0 then Inr st
      else
        let sl = \<lparr>sl_slist = [], sl_prelist = None, sl_postlist = None, sl_found = False,
                  sl_syscall = syscall\<rparr> in
        case syscall_check_list P (Some find_syscall) fd 0 native (sl_slist (ptrarg st))
               (st\<lparr>ptrarg := sl\<rparr>) of
          Inl e \<Rightarrow> Inl e
        | Inr st' \<Rightarrow>
            let p = ptrarg st;
                name = (if native then syscall_find_nr P syscall else syscall_find_nr_32 P syscall)
            in Inr (st'\<lparr>ptrarg :=
                 if sl_found (ptrarg st')
                 then p\<lparr>sl_postlist := list_add (sl_postlist p) name\<rparr>
                 else
                   let newcall = (if arg \<noteq> 0 then name @ CHR '':'' # errno_find_nr P arg else name)
                   in p\<lparr>sl_prelist := list_add (sl_prelist p) newcall\<rparr>\<rparr>))"

text \<open>
  \<^verbatim>\<open>syscalls_in_list\<close> runs the traversal with \<^verbatim>\<open>fd\<close> 0, which keeps the traversal itself from
  writing; its own \<^verbatim>\<open>fd\<close> argument is unused. The file and the error action are those of the caller.
\<close>

definition syscalls_in_list ::
    "platform \<Rightarrow> string \<Rightarrow> string \<Rightarrow> bool \<Rightarrow> 'p fstate \<Rightarrow> fsec_error + (string option \<times> string option)" where
  "syscalls_in_list P list slist native st =
     (let sl = \<lparr>sl_slist = slist, sl_prelist = None, sl_postlist = None, sl_found = False,
                sl_syscall = 0\<rparr> in
      case syscall_check_list P (Some (syscall_in_list P)) 0 0 native list
             \<lparr>out = out st, error_action = error_action st, ptrarg = sl\<rparr> of
        Inl e \<Rightarrow> Inl e
      | Inr st' \<Rightarrow> Inr (sl_prelist (ptrarg st'), sl_postlist (ptrarg st')))"

section \<open>What the search finds\<close>

definition entry_number :: "int \<times> int \<Rightarrow> int" where
  "entry_number e = (if fst e < 0 then NOT (fst e) else fst e)"

definition find_syscall_step :: "int \<Rightarrow> int \<Rightarrow> int \<Rightarrow> bool \<Rightarrow> SyscallCheckList fstate \<Rightarrow> SyscallCheckList fstate" where
  "find_syscall_step fd n arg native st =
     (if entry_number (n, 0) = sl_syscall (ptrarg st)
      then st\<lparr>ptrarg := (ptrarg st)\<lparr>sl_found := True\<rparr>\<rparr> else st)"

lemma find_syscall_total: "find_syscall fd n a native st = Inr (find_syscall_step fd n a native st)"
  by (simp add: find_syscall_def find_syscall_step_def entry_number_def)

lemma fold_find_syscall:
  "fold (dispatch find_syscall_step 0 arg native) es st =
     st\<lparr>ptrarg := (ptrarg st)
       \<lparr>sl_found := sl_found (ptrarg st) \<or> sl_syscall (ptrarg st) \<in> entry_number ` set es\<rparr>\<rparr>"
  by (induction es arbitrary: st)
     (auto simp: dispatch_def find_syscall_step_def entry_number_def)

lemma syscall_in_list_eq:
  assumes "list_entries P native (sl_slist (ptrarg st)) = Inr ks"
  shows "syscall_in_list P 0 n arg native st =
    Inr (if n < 0 then st
         else st\<lparr>ptrarg :=
           (let p = ptrarg st;
                name = (if native then syscall_find_nr P n else syscall_find_nr_32 P n)
            in if n \<in> entry_number ` set ks
               then p\<lparr>sl_postlist := list_add (sl_postlist p) name\<rparr>
               else p\<lparr>sl_prelist := list_add (sl_prelist p)
                        (if arg \<noteq> 0 then name @ CHR '':'' # errno_find_nr P arg else name)\<rparr>)\<rparr>)"
  using assms
  by (simp add: syscall_in_list_def syscall_check_list_fold [OF find_syscall_total]
      fold_find_syscall Let_def)

section \<open>The two lists\<close>

definition find_nr :: "platform \<Rightarrow> bool \<Rightarrow> int \<Rightarrow> string" where
  "find_nr P native n = (if native then syscall_find_nr P n else syscall_find_nr_32 P n)"

definition pre_word :: "platform \<Rightarrow> bool \<Rightarrow> int \<times> int \<Rightarrow> string" where
  "pre_word P native e =
     (if 0 < snd e then find_nr P native (fst e) @ CHR '':'' # errno_find_nr P (snd e)
      else find_nr P native (fst e))"

definition opt_join :: "string list \<Rightarrow> string option" where
  "opt_join ws = (if ws = [] then None else Some (join_on (CHR '','') ws))"

lemma list_add_join: "list_add (opt_join ws) w = opt_join (ws @ [w])"
  by (simp add: list_add_def opt_join_def join_on_snoc)

definition pre_entries :: "int set \<Rightarrow> (int \<times> int) list \<Rightarrow> (int \<times> int) list" where
  "pre_entries K es = filter (\<lambda>e. 0 \<le> fst e \<and> fst e \<notin> K) es"

definition post_entries :: "int set \<Rightarrow> (int \<times> int) list \<Rightarrow> (int \<times> int) list" where
  "post_entries K es = filter (\<lambda>e. 0 \<le> fst e \<and> fst e \<in> K) es"

text \<open>The state of the traversal after the entries \<open>es\<close>.\<close>

definition split_state :: "platform \<Rightarrow> bool \<Rightarrow> string \<Rightarrow> int set \<Rightarrow> (int \<times> int) list \<Rightarrow> SyscallCheckList" where
  "split_state P native slist K es =
     \<lparr>sl_slist = slist,
      sl_prelist = opt_join (map (pre_word P native) (pre_entries K es)),
      sl_postlist = opt_join (map (\<lambda>e. find_nr P native (fst e)) (post_entries K es)),
      sl_found = False, sl_syscall = 0\<rparr>"

lemma split_state_Nil:
  "split_state P native slist K [] =
     \<lparr>sl_slist = slist, sl_prelist = None, sl_postlist = None, sl_found = False, sl_syscall = 0\<rparr>"
  by (simp add: split_state_def pre_entries_def post_entries_def opt_join_def)

text \<open>A total version of the callback, equal to it whenever the list to check against flattens.\<close>

definition in_list_step ::
    "platform \<Rightarrow> int set \<Rightarrow> int \<Rightarrow> int \<Rightarrow> int \<Rightarrow> bool \<Rightarrow> SyscallCheckList fstate \<Rightarrow> SyscallCheckList fstate" where
  "in_list_step P K fd n arg native st =
     (if n < 0 then st
      else st\<lparr>ptrarg :=
        (let p = ptrarg st in
         if n \<in> K then p\<lparr>sl_postlist := list_add (sl_postlist p) (find_nr P native n)\<rparr>
         else p\<lparr>sl_prelist := list_add (sl_prelist p)
                 (if arg \<noteq> 0 then find_nr P native n @ CHR '':'' # errno_find_nr P arg
                  else find_nr P native n)\<rparr>)\<rparr>)"

lemma fold_in_list:
  "fold (dispatch (in_list_step P K) 0 0 native) es
     \<lparr>out = fl, error_action = a, ptrarg = split_state P native slist K ds\<rparr> =
   \<lparr>out = fl, error_action = a, ptrarg = split_state P native slist K (ds @ es)\<rparr>"
proof (induction es arbitrary: ds)
  case Nil
  show ?case by simp
next
  case (Cons e es)
  have "dispatch (in_list_step P K) 0 0 native e
      \<lparr>out = fl, error_action = a, ptrarg = split_state P native slist K ds\<rparr> =
      \<lparr>out = fl, error_action = a, ptrarg = split_state P native slist K (ds @ [e])\<rparr>"
    by (auto simp: dispatch_def in_list_step_def split_state_def pre_entries_def post_entries_def
        pre_word_def list_add_join Let_def)
  then show ?case using Cons.IH [of "ds @ [e]"] by simp
qed

lemma syscalls_in_list_eq:
  assumes ks: "list_entries P native slist = Inr ks"
  shows "syscalls_in_list P list slist native st =
    (case list_entries P native list of Inl e \<Rightarrow> Inl e
     | Inr es \<Rightarrow>
         Inr (opt_join (map (pre_word P native) (pre_entries (entry_number ` set ks) es)),
              opt_join (map (\<lambda>e. find_nr P native (fst e)) (post_entries (entry_number ` set ks) es))))"
proof -
  let ?K = "entry_number ` set ks"
  let ?I = "\<lambda>st. sl_slist (ptrarg st) = slist"
  let ?st = "\<lparr>out = out st, error_action = error_action st,
      ptrarg = split_state P native slist ?K []\<rparr>"
  have "syscall_check_list P (Some (syscall_in_list P)) 0 0 native list ?st =
      (case list_entries P native list of Inl e \<Rightarrow> Inl e
       | Inr es \<Rightarrow> Inr (fold (dispatch (in_list_step P ?K) 0 0 native) es ?st))"
  proof (rule syscall_check_list_fold_inv [where I = ?I])
    fix n a and st :: "SyscallCheckList fstate"
    assume "?I st"
    then show "syscall_in_list P 0 n a native st = Inr (in_list_step P ?K 0 n a native st)"
      by (simp add: syscall_in_list_eq ks in_list_step_def find_nr_def Let_def)
  next
    fix e and st :: "SyscallCheckList fstate"
    assume "?I st"
    then show "?I (dispatch (in_list_step P ?K) 0 0 native e st)"
      by (simp add: dispatch_def in_list_step_def Let_def)
  next
    show "?I ?st" by (simp add: split_state_def)
  qed
  then have run: "syscall_check_list P (Some (syscall_in_list P)) 0 0 native list ?st =
      (case list_entries P native list of Inl e \<Rightarrow> Inl e
       | Inr es \<Rightarrow> Inr (?st\<lparr>ptrarg := split_state P native slist ?K es\<rparr>))"
    by (simp add: fold_in_list split: sum.split)
  show ?thesis
    unfolding syscalls_in_list_def Let_def split_state_Nil [symmetric, of _ P native ?K] run
    by (simp add: split_state_def split: sum.split)
qed

section \<open>Parsing the lists again\<close>

text \<open>
  The prelist and the postlist are strings made of names found by number. They stand for the
  entries they were made from when the table is a bijection between names and numbers and the
  names are names: no separator and no prefix character.
\<close>

definition name_ok :: "string \<Rightarrow> bool" where
  "name_ok w \<longleftrightarrow> w \<noteq> [] \<and> CHR '','' \<notin> set w \<and> CHR '':'' \<notin> set w \<and>
     hd w \<noteq> CHR ''@'' \<and> hd w \<noteq> CHR ''!'' \<and> hd w \<noteq> CHR ''$'' \<and> w \<noteq> ''unknown''"

definition table_ok :: "syscall_table \<Rightarrow> bool" where
  "table_ok t \<longleftrightarrow> distinct (map fst t) \<and> distinct (map snd t) \<and>
     list_all (\<lambda>e. name_ok (fst e) \<and> 0 \<le> snd e \<and> snd e < 1073741824) t"

definition table :: "platform \<Rightarrow> bool \<Rightarrow> syscall_table" where
  "table P native = (if native then syslist P else syslist32 P)"

lemma find_name_table:
  "find_name P native w = (case map_of (table P native) w of Some n \<Rightarrow> n | None \<Rightarrow> SYSCALL_ERROR)"
  by (simp add: find_name_def syscall_find_name_def syscall_find_name_32_def table_def
      find_by_eq_map_of)

lemma find_nr_table:
  "find_nr P native n =
     (case find (\<lambda>e. n = snd e) (table P native) of Some e \<Rightarrow> fst e | None \<Rightarrow> ''unknown'')"
  by (simp add: find_nr_def syscall_find_nr_def syscall_find_nr_32_def table_def)

lemma table_okD:
  assumes "table_ok t" and "(w, n) \<in> set t"
  shows "name_ok w" and "0 \<le> n" and "n < 1073741824"
  using assms by (auto simp: table_ok_def list_all_iff)

lemma find_nr_entry:
  assumes "table_ok (table P native)" and "(w, n) \<in> set (table P native)"
  shows "find_nr P native n = w"
proof -
  obtain e where e: "find (\<lambda>e. n = snd e) (table P native) = Some e"
    using assms(2) by (cases "find (\<lambda>e. n = snd e) (table P native)") (auto simp: find_None_iff)
  then have "e \<in> set (table P native)" and "snd e = n" by (auto simp: find_Some_iff)
  moreover have "inj_on snd (set (table P native))"
    using assms(1) by (simp add: table_ok_def distinct_map)
  ultimately have "e = (w, n)" using assms(2) by (metis inj_onD snd_conv)
  with e show ?thesis by (simp add: find_nr_table)
qed

lemma find_name_entry:
  assumes "table_ok (table P native)" and "(w, n) \<in> set (table P native)"
  shows "find_name P native w = n"
  using assms by (simp add: find_name_table table_ok_def)

lemma find_name_known:
  assumes "table_ok (table P native)" and "find_name P native w \<noteq> SYSCALL_ERROR"
  shows "(w, find_name P native w) \<in> set (table P native)"
  using assms by (auto simp: find_name_table split: option.splits dest: map_of_SomeD)

lemma name_number_roundtrip:
  assumes "table_ok (table P native)" and "n \<in> snd ` set (table P native)"
  shows "find_name P native (find_nr P native n) = n"
  using assms by (auto simp: find_nr_entry find_name_entry)

lemma list_entries_join:
  assumes "ws \<noteq> []" and "\<And>w. w \<in> set ws \<Longrightarrow> w \<noteq> [] \<and> CHR '','' \<notin> set w \<and> hd w \<noteq> CHR ''@''"
  shows "list_entries P native (join_on (CHR '','') ws) = collect (token_entries P native) ws"
proof -
  have "strtok_all (CHR '','') (join_on (CHR '','') ws) = ws"
    using assms(2) by (intro strtok_all_join) auto
  with assms(1) have "list_entries P native (join_on (CHR '','') ws) =
      collect (\<lambda>ptr. if hd ptr = CHR ''@'' then
         (case syscall_find_group P ptr of None \<Rightarrow> Inl (UnknownGroup ptr)
          | Some new_list \<Rightarrow> list_entries P native new_list)
         else token_entries P native ptr) ws"
    by (simp add: list_entries.simps [of P native "join_on (CHR '','') ws"])
  also have "\<dots> = collect (token_entries P native) ws"
    by (rule collect_cong) (auto dest: assms(2))
  finally show ?thesis .
qed

text \<open>The errno names carry no separator and differ from the words kill and log.\<close>

lemma errno_names_no_comma: "list_all (\<lambda>n. CHR '','' \<notin> set n) errno_names"
  by (simp add: errno_names_def)

lemma errno_names_not_action: "list_all (\<lambda>n. hd n = CHR ''E'') errno_names"
  by (simp add: errno_names_def)

lemma errno_find_nr_name:
  assumes "v \<in> snd ` set (errnolist P)"
  shows "CHR '','' \<notin> set (errno_find_nr P v)" and "hd (errno_find_nr P v) = CHR ''E''"
proof -
  obtain e where e: "find (\<lambda>e. v = snd e) (errnolist P) = Some e"
    using assms by (cases "find (\<lambda>e. v = snd e) (errnolist P)") (auto simp: find_None_iff)
  then have "fst e \<in> fst ` set (errnolist P)" by (auto simp: find_Some_iff)
  also have "\<dots> \<subseteq> set (errno_names @ [''ENOATTR''])"
    using arg_cong [OF errnolist_fst [of P], of set] by (auto split: if_splits)
  finally have "fst e \<in> set errno_names \<or> fst e = ''ENOATTR''" by auto
  then show "CHR '','' \<notin> set (errno_find_nr P v)" and "hd (errno_find_nr P v) = CHR ''E''"
    using errno_names_no_comma errno_names_not_action e
    by (auto simp: errno_find_nr_def list_all_iff)
qed

text \<open>The error codes that occur in a flattened list.\<close>

definition entry_ok :: "platform \<Rightarrow> int \<times> int \<Rightarrow> bool" where
  "entry_ok P e \<longleftrightarrow>
     snd e = -1 \<or> snd e = ERRNO_KILL \<or> snd e = ERRNO_LOG \<or> snd e \<in> snd ` set (errnolist P)"

lemma token_entries_ok: "token_entries P native ptr = Inr es \<Longrightarrow> e \<in> set es \<Longrightarrow> entry_ok P e"
  using errno_find_name_in_table
  by (auto simp: token_entries_def syscall_process_name_def entry_ok_def Let_def
      split: sum.splits prod.splits option.splits if_splits)

lemma list_entries_all:
  assumes "\<And>ptr fs e. token_entries P native ptr = Inr fs \<Longrightarrow> e \<in> set fs \<Longrightarrow> Q e"
    and "list_entries P native l = Inr es" and "e \<in> set es"
  shows "Q e"
  using assms
proof (induction P native l arbitrary: es rule: list_entries.induct)
  case (1 P native l)
  let ?f = "\<lambda>ptr. if hd ptr = CHR ''@'' then
        (case syscall_find_group P ptr of None \<Rightarrow> Inl (UnknownGroup ptr)
         | Some new_list \<Rightarrow> list_entries P native new_list)
        else token_entries P native ptr"
  have ne: "strtok_all (CHR '','') l \<noteq> []"
    and c: "collect ?f (strtok_all (CHR '','') l) = Inr es"
    using "1.prems"(2) by (auto simp: list_entries.simps [of P native l] split: if_splits)
  obtain ptr where ptr: "ptr \<in> set (strtok_all (CHR '','') l)"
    and e: "e \<in> set (projr (?f ptr))" and f: "?f ptr = Inr (projr (?f ptr))"
    using collect_InrD [OF c] "1.prems"(3) by auto
  show ?case
  proof (cases "hd ptr = CHR ''@''")
    case True
    then obtain nl where nl: "syscall_find_group P ptr = Some nl"
      using f by (auto split: option.splits)
    then have le: "list_entries P native nl = Inr (projr (list_entries P native nl))"
      using f True by simp
    have "e \<in> set (projr (list_entries P native nl))" using e True nl by simp
    then show ?thesis using "1.IH" [OF ne ptr True nl _ le] "1.prems"(1) by blast
  next
    case False
    with f have te: "token_entries P native ptr = Inr (projr (token_entries P native ptr))" by simp
    from e False have "e \<in> set (projr (token_entries P native ptr))" by simp
    then show ?thesis by (rule "1.prems"(1) [OF te])
  qed
qed

lemma list_entries_ok:
  "list_entries P native l = Inr es \<Longrightarrow> e \<in> set es \<Longrightarrow> entry_ok P e"
  by (rule list_entries_all [OF token_entries_ok])

lemma find_name_range:
  assumes "table_ok (table P native)"
  shows "- 2147483648 \<le> find_name P native w" and "find_name P native w < 2147483648"
  using table_okD [OF assms map_of_SomeD]
  by (fastforce simp: find_name_table SYSCALL_ERROR_def split: option.split)+

lemma syscall_process_name_range:
  assumes "table_ok (table P native)" and "syscall_process_name P native w = Inr (nr, er)"
  shows "- 2147483648 \<le> nr \<and> nr < 2147483648"
proof -
  obtain s e where "strchr_cut (CHR '':'') w = (s, e)" by (cases "strchr_cut (CHR '':'') w")
  with assms(2) have "nr = to_int32 (strtol0 (tl s)) \<or> nr = find_name P native s \<or> nr = SYSCALL_ERROR"
    by (auto simp: syscall_process_name_def find_name_def Let_def split: option.splits if_splits)
  then show ?thesis
    using find_name_range [OF assms(1), of s] to_int32_range [of "strtol0 (tl s)"]
    by (auto simp: SYSCALL_ERROR_def)
qed

lemma list_entries_range:
  assumes "table_ok (table P native)" and "list_entries P native l = Inr es" and "e \<in> set es"
  shows "- 2147483648 \<le> fst e \<and> fst e < 2147483648"
proof (rule list_entries_all [OF _ assms(2,3)])
  fix ptr fs and e :: "int \<times> int"
  assume "token_entries P native ptr = Inr fs" and "e \<in> set fs"
  then show "- 2147483648 \<le> fst e \<and> fst e < 2147483648"
    using syscall_process_name_range [OF assms(1)]
    by (fastforce simp: token_entries_def not_int_def Let_def split: sum.splits prod.splits if_splits)
qed

lemma find_name_unknown:
  assumes "table_ok (table P native)"
  shows "find_name P native ''unknown'' = SYSCALL_ERROR"
proof -
  have "map_of (table P native) ''unknown'' = None"
    using assms by (auto simp: table_ok_def name_ok_def list_all_iff map_of_eq_None_iff)
  then show ?thesis by (simp add: find_name_table)
qed

definition numbers :: "platform \<Rightarrow> bool \<Rightarrow> int set" where
  "numbers P native = snd ` set (table P native)"

lemma find_nr_unknown: "n \<notin> numbers P native \<Longrightarrow> find_nr P native n = ''unknown''"
proof -
  assume "n \<notin> numbers P native"
  then have "find (\<lambda>e. n = snd e) (table P native) = None"
    by (force simp: numbers_def find_None_iff)
  then show ?thesis by (simp add: find_nr_table)
qed

lemma find_nr_name_ok:
  assumes "table_ok (table P native)" and "n \<in> numbers P native"
  shows "name_ok (find_nr P native n)"
proof -
  obtain w where "(w, n) \<in> set (table P native)" using assms(2) by (auto simp: numbers_def)
  then show ?thesis using assms(1) by (simp add: find_nr_entry table_okD(1))
qed

text \<open>Parsing the word of an entry again.\<close>

definition reparse :: "int \<times> int \<Rightarrow> int \<times> int" where
  "reparse e = (fst e, if 0 < snd e then snd e else -1)"

lemma token_entries_pre_word:
  assumes ok: "table_ok (table P native)" "entry_ok P e"
  shows "token_entries P native (pre_word P native e) =
    Inr (if fst e \<in> numbers P native then [reparse e] else [])"
proof -
  let ?w = "find_nr P native (fst e)"
  have w: "?w \<noteq> []" "CHR '':'' \<notin> set ?w" "hd ?w \<noteq> CHR ''$''" "hd ?w \<noteq> CHR ''!''"
    using find_nr_name_ok [OF ok(1), of "fst e"] find_nr_unknown [of "fst e" P native]
    by (cases "fst e \<in> numbers P native"; simp add: name_ok_def)+
  have name: "find_name P native ?w = (if fst e \<in> numbers P native then fst e else SYSCALL_ERROR)"
    using ok(1) by (auto simp: numbers_def name_number_roundtrip find_nr_unknown find_name_unknown)
  have small: "fst e \<in> numbers P native \<Longrightarrow> fst e \<noteq> SYSCALL_ERROR"
    using ok(1) by (auto simp: numbers_def SYSCALL_ERROR_def dest: table_okD)
  show ?thesis
  proof (cases "0 < snd e")
    case False
    then show ?thesis
      using w name small
      by (simp add: pre_word_def token_entries_plain name_entries_def reparse_def)
  next
    case True
    with ok(2) have v: "snd e \<in> snd ` set (errnolist P)"
      by (auto simp: entry_ok_def ERRNO_KILL_def ERRNO_LOG_def)
    note nr = errno_find_nr_name [OF v]
    have proc: "syscall_process_name P native (?w @ CHR '':'' # errno_find_nr P (snd e)) =
        Inr (find_name P native ?w, snd e)"
      using w nr True
      by (auto simp: syscall_process_name_def strchr_cut_append find_name_def
          errno_find_roundtrip [OF v] Let_def)
    then show ?thesis
      using True w name small by (simp add: pre_word_def token_entries_def reparse_def)
  qed
qed

lemma pre_word_ok:
  assumes "table_ok (table P native)" and "entry_ok P e"
  shows "pre_word P native e \<noteq> [] \<and> CHR '','' \<notin> set (pre_word P native e) \<and>
    hd (pre_word P native e) \<noteq> CHR ''@''"
proof -
  let ?w = "find_nr P native (fst e)"
  have w: "?w \<noteq> []" "CHR '','' \<notin> set ?w" "hd ?w \<noteq> CHR ''@''"
    using find_nr_name_ok [OF assms(1), of "fst e"] find_nr_unknown [of "fst e" P native]
    by (cases "fst e \<in> numbers P native"; simp add: name_ok_def)+
  have "0 < snd e \<Longrightarrow> snd e \<in> snd ` set (errnolist P)"
    using assms(2) by (auto simp: entry_ok_def ERRNO_KILL_def ERRNO_LOG_def)
  with w show ?thesis by (auto simp: pre_word_def errno_find_nr_name)
qed

lemma list_entries_prelist:
  assumes "table_ok (table P native)" and "\<And>e. e \<in> set es \<Longrightarrow> entry_ok P e" and "es \<noteq> []"
  shows "list_entries P native (join_on (CHR '','') (map (pre_word P native) es)) =
    Inr (map reparse (filter (\<lambda>e. fst e \<in> numbers P native) es))"
proof -
  have "list_entries P native (join_on (CHR '','') (map (pre_word P native) es)) =
      collect (token_entries P native) (map (pre_word P native) es)"
    using assms by (intro list_entries_join) (auto dest: pre_word_ok)
  also have "\<dots> = Inr (map reparse (filter (\<lambda>e. fst e \<in> numbers P native) es))"
    using assms(2) by (induction es) (simp_all add: token_entries_pre_word assms(1))
  finally show ?thesis .
qed

end
