(* ===== verification/Seccomp.thy ===== *)
theory Seccomp imports Syscall_Lists begin

text \<open>
  The filter builders of fseccomp/seccomp.c for system call lists: default, drop,
  default+drop and keep. A builder takes what open(2) returned for its files and yields the
  contents of the files. \<open>a\<close> is the global \<^verbatim>\<open>arg_seccomp_error_action\<close>.

  A built filter is a decision list over system call numbers, and running it is the
  first match of the decision list; the lemmas here give the decision list of each
  builder.
\<close>

section \<open>The builders\<close>

definition new_file :: "u32 \<Rightarrow> unit fstate" where
  "new_file a = \<lparr>out = [], error_action = a, ptrarg = ()\<rparr>"

definition add_default_list ::
    "platform \<Rightarrow> int \<Rightarrow> bool \<Rightarrow> bool \<Rightarrow> 'p fstate \<Rightarrow> fsec_error + 'p fstate" where
  "add_default_list P fd allow_debuggers native st =
     (if \<not> allow_debuggers
      then syscall_check_list P (Some filter_add_blacklist) fd 0 native ''@default-nodebuggers'' st
      else syscall_check_list P (Some filter_add_blacklist) fd 0 native ''@default'' st)"

definition seccomp_default ::
    "platform \<Rightarrow> int \<Rightarrow> bool \<Rightarrow> bool \<Rightarrow> u32 \<Rightarrow> fsec_error + sock_filter list" where
  "seccomp_default P fd allow_debuggers native a =
     (if fd < 0 then Inl CannotOpen
      else
        bind_res (add_default_list P fd allow_debuggers native (filter_init P native (new_file a)))
          (\<lambda>st. Inr (out (filter_end_blacklist st))))"

text \<open>The last step of the drop builders: the post-exec filter, if there is a postlist.\<close>

definition post_filter ::
    "platform \<Rightarrow> int \<Rightarrow> string option \<Rightarrow> bool \<Rightarrow> u32 \<Rightarrow> fsec_error + sock_filter list option" where
  "post_filter P fd postlist native a =
     (case postlist of
        None \<Rightarrow> Inr None
      | Some l \<Rightarrow>
          if fd < 0 then Inl CannotOpen
          else bind_res
                 (syscall_check_list P (Some filter_add_blacklist) fd 0 native l
                    (filter_init P native (new_file a)))
                 (\<lambda>st. Inr (Some (out (filter_end_blacklist st)))))"

definition add_prelist ::
    "platform \<Rightarrow> int \<Rightarrow> string option \<Rightarrow> bool \<Rightarrow> 'p fstate \<Rightarrow> fsec_error + 'p fstate" where
  "add_prelist P fd prelist native st =
     (case prelist of
        None \<Rightarrow> Inr st
      | Some l \<Rightarrow> syscall_check_list P (Some filter_add_blacklist) fd 0 native l st)"

definition seccomp_drop ::
    "platform \<Rightarrow> int \<Rightarrow> int \<Rightarrow> string \<Rightarrow> bool \<Rightarrow> u32 \<Rightarrow>
     fsec_error + (sock_filter list \<times> sock_filter list option)" where
  "seccomp_drop P fd1 fd2 list native a =
     (if fd1 < 0 then Inl CannotOpen
      else
        bind_res
          (syscall_check_list P (Some filter_add_whitelist_for_excluded) fd1 0 native list
             (filter_init P native (new_file a)))
          (\<lambda>st1. bind_res (syscalls_in_list P list ''@default-keep'' native st1)
          (\<lambda>(prelist, postlist). bind_res (add_prelist P fd1 prelist native st1)
          (\<lambda>st2. bind_res (post_filter P fd2 postlist native a)
          (\<lambda>post. Inr (out (filter_end_blacklist st2), post))))))"

definition seccomp_default_drop ::
    "platform \<Rightarrow> int \<Rightarrow> int \<Rightarrow> string \<Rightarrow> bool \<Rightarrow> bool \<Rightarrow> u32 \<Rightarrow>
     fsec_error + (sock_filter list \<times> sock_filter list option)" where
  "seccomp_default_drop P fd1 fd2 list allow_debuggers native a =
     (if fd1 < 0 then Inl CannotOpen
      else
        bind_res
          (syscall_check_list P (Some filter_add_whitelist_for_excluded) fd1 0 native list
             (filter_init P native (new_file a)))
          (\<lambda>st1. bind_res (add_default_list P fd1 allow_debuggers native st1)
          (\<lambda>st2. bind_res (syscalls_in_list P list ''@default-keep'' native st2)
          (\<lambda>(prelist, postlist). bind_res (add_prelist P fd1 prelist native st2)
          (\<lambda>st3. bind_res (post_filter P fd2 postlist native a)
          (\<lambda>post. Inr (out (filter_end_blacklist st3), post)))))))"

definition seccomp_keep ::
    "platform \<Rightarrow> int \<Rightarrow> string \<Rightarrow> bool \<Rightarrow> u32 \<Rightarrow> fsec_error + sock_filter list" where
  "seccomp_keep P fd1 list native a =
     (if fd1 < 0 then Inl CannotOpen
      else
        bind_res
          (syscall_check_list P (Some filter_add_blacklist_for_excluded) fd1 0 native list
             (filter_init P native (new_file a)))
          (\<lambda>st1. bind_res
             (syscall_check_list P (Some filter_add_whitelist) fd1 0 native ''@default-keep'' st1)
          (\<lambda>st2. bind_res (syscall_check_list P (Some filter_add_whitelist) fd1 0 native list st2)
          (\<lambda>st3. Inr (out (filter_end_whitelist st3))))))"

section \<open>The rules an entry contributes\<close>

definition entry_rules :: "(int \<Rightarrow> rule list) \<Rightarrow> int \<times> int \<Rightarrow> rule list" where
  "entry_rules plain e =
     (if 0 \<le> snd e then [(u32_of_int (fst e), SECCOMP_RET_ERRNO OR u32_of_int (snd e))]
      else if snd e = ERRNO_KILL
        then (if 0 \<le> fst e then [(u32_of_int (fst e), SECCOMP_RET_KILL)] else [])
      else if snd e = ERRNO_LOG
        then (if 0 \<le> fst e then [(u32_of_int (fst e), SECCOMP_RET_LOG)] else [])
      else plain (fst e))"

definition listed :: "u32 \<Rightarrow> int \<Rightarrow> rule list" where
  "listed v n = (if 0 \<le> n then [(u32_of_int n, v)] else [])"

definition excluded :: "u32 \<Rightarrow> int \<Rightarrow> rule list" where
  "excluded v n = (if n < 0 then [(u32_of_int (NOT n), v)] else [])"

lemma fold_dispatch_rules:
  assumes "0 < fd"
    and "\<And>n st. error_action st = a \<Longrightarrow> f fd n arg native st = appends st (plain n)"
    and "error_action st = a"
  shows "fold (dispatch f fd arg native) es st =
    appends st (concat (map (entry_rules plain) es))"
  using assms(3)
proof (induction es arbitrary: st)
  case Nil
  show ?case by simp
next
  case (Cons e es)
  have "dispatch f fd arg native e st = appends st (entry_rules plain e)"
    using assms(1,2) Cons.prems by (simp add: dispatch_def entry_rules_def)
  then show ?case using Cons by simp
qed

lemma check_list_rules:
  assumes "0 < fd"
    and "\<And>n st. cb fd n arg native st = Inr (appends st (plain (error_action st) n))"
    and "\<And>fd n a native st. cb fd n a native st = Inr (f fd n a native st)"
  shows "syscall_check_list P (Some cb) fd arg native l st =
    (case list_entries P native l of Inl e \<Rightarrow> Inl e
     | Inr es \<Rightarrow> Inr (appends st (concat (map (entry_rules (plain (error_action st))) es))))"
proof -
  have "f fd n arg native s = appends s (plain (error_action s) n)" for n s
    using assms(2) [of n s] assms(3) [of fd n arg native s] by simp
  then have "fold (dispatch f fd arg native) es st =
      appends st (concat (map (entry_rules (plain (error_action st))) es))" for es
    by (intro fold_dispatch_rules [where a = "error_action st"]) (simp_all add: assms(1))
  then show ?thesis by (simp add: syscall_check_list_fold [OF assms(3)] split: sum.split)
qed

lemma check_list_builders:
  assumes "0 < fd"
  shows
    "syscall_check_list P (Some filter_add_blacklist) fd arg native l st =
      (case list_entries P native l of Inl e \<Rightarrow> Inl e
       | Inr es \<Rightarrow> Inr (appends st (concat (map (entry_rules (listed (error_action st))) es))))"
    "syscall_check_list P (Some filter_add_whitelist) fd arg native l st =
      (case list_entries P native l of Inl e \<Rightarrow> Inl e
       | Inr es \<Rightarrow> Inr (appends st (concat (map (entry_rules (listed SECCOMP_RET_ALLOW)) es))))"
    "syscall_check_list P (Some filter_add_whitelist_for_excluded) fd arg native l st =
      (case list_entries P native l of Inl e \<Rightarrow> Inl e
       | Inr es \<Rightarrow> Inr (appends st (concat (map (entry_rules (excluded SECCOMP_RET_ALLOW)) es))))"
    "syscall_check_list P (Some filter_add_blacklist_for_excluded) fd arg native l st =
      (case list_entries P native l of Inl e \<Rightarrow> Inl e
       | Inr es \<Rightarrow> Inr (appends st (concat (map (entry_rules (excluded (error_action st))) es))))"
proof -
  note [simp] = writer_rules listed_def excluded_def
  show "syscall_check_list P (Some filter_add_blacklist) fd arg native l st =
      (case list_entries P native l of Inl e \<Rightarrow> Inl e
       | Inr es \<Rightarrow> Inr (appends st (concat (map (entry_rules (listed (error_action st))) es))))"
    by (rule check_list_rules [where plain = listed and
        f = "\<lambda>fd n a native st. appends st (listed (error_action st) n)"]) (simp_all add: assms)
  show "syscall_check_list P (Some filter_add_whitelist) fd arg native l st =
      (case list_entries P native l of Inl e \<Rightarrow> Inl e
       | Inr es \<Rightarrow> Inr (appends st (concat (map (entry_rules (listed SECCOMP_RET_ALLOW)) es))))"
    by (rule check_list_rules [where plain = "\<lambda>_. listed SECCOMP_RET_ALLOW" and
        f = "\<lambda>fd n a native st. appends st (listed SECCOMP_RET_ALLOW n)"]) (simp_all add: assms)
  show "syscall_check_list P (Some filter_add_whitelist_for_excluded) fd arg native l st =
      (case list_entries P native l of Inl e \<Rightarrow> Inl e
       | Inr es \<Rightarrow> Inr (appends st (concat (map (entry_rules (excluded SECCOMP_RET_ALLOW)) es))))"
    by (rule check_list_rules [where plain = "\<lambda>_. excluded SECCOMP_RET_ALLOW" and
        f = "\<lambda>fd n a native st. appends st (excluded SECCOMP_RET_ALLOW n)"]) (simp_all add: assms)
  show "syscall_check_list P (Some filter_add_blacklist_for_excluded) fd arg native l st =
      (case list_entries P native l of Inl e \<Rightarrow> Inl e
       | Inr es \<Rightarrow> Inr (appends st (concat (map (entry_rules (excluded (error_action st))) es))))"
    by (rule check_list_rules [where plain = excluded and
        f = "\<lambda>fd n a native st. appends st (excluded (error_action st) n)"]) (simp_all add: assms)
qed

end
