(* ===== verification/Syscall_x86_64.thy ===== *)
theory Syscall_x86_64
  imports Platform Table_Check
begin

text \<open>
  The system call table of include/syscall_x86_64.h, in the order of the file, which
  lib/syscall.c includes as an initialiser: name and number of every system call.
  No name and no number occurs twice.
\<close>

definition syscall_x86_64_1 :: syscall_table where
  "syscall_x86_64_1 =
    [(''read'', 0), (''write'', 1), (''open'', 2), (''close'', 3),
     (''stat'', 4), (''fstat'', 5), (''lstat'', 6), (''poll'', 7),
     (''lseek'', 8), (''mmap'', 9), (''mprotect'', 10), (''munmap'', 11),
     (''brk'', 12), (''rt_sigaction'', 13), (''rt_sigprocmask'', 14), (''rt_sigreturn'', 15),
     (''ioctl'', 16), (''pread64'', 17), (''pwrite64'', 18), (''readv'', 19),
     (''writev'', 20), (''access'', 21), (''pipe'', 22), (''select'', 23),
     (''sched_yield'', 24), (''mremap'', 25), (''msync'', 26), (''mincore'', 27),
     (''madvise'', 28), (''shmget'', 29), (''shmat'', 30), (''shmctl'', 31),
     (''dup'', 32), (''dup2'', 33), (''pause'', 34), (''nanosleep'', 35),
     (''getitimer'', 36), (''alarm'', 37), (''setitimer'', 38), (''getpid'', 39),
     (''sendfile'', 40), (''socket'', 41), (''connect'', 42), (''accept'', 43),
     (''sendto'', 44), (''recvfrom'', 45), (''sendmsg'', 46), (''recvmsg'', 47),
     (''shutdown'', 48), (''bind'', 49), (''listen'', 50), (''getsockname'', 51),
     (''getpeername'', 52), (''socketpair'', 53), (''setsockopt'', 54), (''getsockopt'', 55),
     (''clone'', 56), (''fork'', 57), (''vfork'', 58), (''execve'', 59),
     (''exit'', 60), (''wait4'', 61), (''kill'', 62), (''uname'', 63),
     (''semget'', 64), (''semop'', 65), (''semctl'', 66), (''shmdt'', 67),
     (''msgget'', 68), (''msgsnd'', 69), (''msgrcv'', 70), (''msgctl'', 71),
     (''fcntl'', 72), (''flock'', 73), (''fsync'', 74), (''fdatasync'', 75),
     (''truncate'', 76), (''ftruncate'', 77), (''getdents'', 78), (''getcwd'', 79),
     (''chdir'', 80), (''fchdir'', 81), (''rename'', 82), (''mkdir'', 83),
     (''rmdir'', 84), (''creat'', 85), (''link'', 86), (''unlink'', 87),
     (''symlink'', 88), (''readlink'', 89), (''chmod'', 90), (''fchmod'', 91),
     (''chown'', 92), (''fchown'', 93), (''lchown'', 94), (''umask'', 95),
     (''gettimeofday'', 96), (''getrlimit'', 97), (''getrusage'', 98), (''sysinfo'', 99),
     (''times'', 100), (''ptrace'', 101), (''getuid'', 102), (''syslog'', 103),
     (''getgid'', 104), (''setuid'', 105), (''setgid'', 106), (''geteuid'', 107),
     (''getegid'', 108), (''setpgid'', 109), (''getppid'', 110), (''getpgrp'', 111),
     (''setsid'', 112), (''setreuid'', 113), (''setregid'', 114), (''getgroups'', 115),
     (''setgroups'', 116), (''setresuid'', 117), (''getresuid'', 118), (''setresgid'', 119),
     (''getresgid'', 120), (''getpgid'', 121), (''setfsuid'', 122), (''setfsgid'', 123),
     (''getsid'', 124), (''capget'', 125), (''capset'', 126), (''rt_sigpending'', 127),
     (''rt_sigtimedwait'', 128), (''rt_sigqueueinfo'', 129), (''rt_sigsuspend'', 130), (''sigaltstack'', 131),
     (''utime'', 132), (''mknod'', 133), (''uselib'', 134), (''personality'', 135),
     (''ustat'', 136), (''statfs'', 137), (''fstatfs'', 138), (''sysfs'', 139),
     (''getpriority'', 140), (''setpriority'', 141), (''sched_setparam'', 142), (''sched_getparam'', 143),
     (''sched_setscheduler'', 144), (''sched_getscheduler'', 145), (''sched_get_priority_max'', 146), (''sched_get_priority_min'', 147),
     (''sched_rr_get_interval'', 148), (''mlock'', 149)]"

definition syscall_x86_64_2 :: syscall_table where
  "syscall_x86_64_2 =
    [(''munlock'', 150), (''mlockall'', 151), (''munlockall'', 152), (''vhangup'', 153),
     (''modify_ldt'', 154), (''pivot_root'', 155), (''_sysctl'', 156), (''prctl'', 157),
     (''arch_prctl'', 158), (''adjtimex'', 159), (''setrlimit'', 160), (''chroot'', 161),
     (''sync'', 162), (''acct'', 163), (''settimeofday'', 164), (''mount'', 165),
     (''umount2'', 166), (''swapon'', 167), (''swapoff'', 168), (''reboot'', 169),
     (''sethostname'', 170), (''setdomainname'', 171), (''iopl'', 172), (''ioperm'', 173),
     (''create_module'', 174), (''init_module'', 175), (''delete_module'', 176), (''get_kernel_syms'', 177),
     (''query_module'', 178), (''quotactl'', 179), (''nfsservctl'', 180), (''getpmsg'', 181),
     (''putpmsg'', 182), (''afs_syscall'', 183), (''tuxcall'', 184), (''security'', 185),
     (''gettid'', 186), (''readahead'', 187), (''setxattr'', 188), (''lsetxattr'', 189),
     (''fsetxattr'', 190), (''getxattr'', 191), (''lgetxattr'', 192), (''fgetxattr'', 193),
     (''listxattr'', 194), (''llistxattr'', 195), (''flistxattr'', 196), (''removexattr'', 197),
     (''lremovexattr'', 198), (''fremovexattr'', 199), (''tkill'', 200), (''time'', 201),
     (''futex'', 202), (''sched_setaffinity'', 203), (''sched_getaffinity'', 204), (''set_thread_area'', 205),
     (''io_setup'', 206), (''io_destroy'', 207), (''io_getevents'', 208), (''io_submit'', 209),
     (''io_cancel'', 210), (''get_thread_area'', 211), (''lookup_dcookie'', 212), (''epoll_create'', 213),
     (''epoll_ctl_old'', 214), (''epoll_wait_old'', 215), (''remap_file_pages'', 216), (''getdents64'', 217),
     (''set_tid_address'', 218), (''restart_syscall'', 219), (''semtimedop'', 220), (''fadvise64'', 221),
     (''timer_create'', 222), (''timer_settime'', 223), (''timer_gettime'', 224), (''timer_getoverrun'', 225),
     (''timer_delete'', 226), (''clock_settime'', 227), (''clock_gettime'', 228), (''clock_getres'', 229),
     (''clock_nanosleep'', 230), (''exit_group'', 231), (''epoll_wait'', 232), (''epoll_ctl'', 233),
     (''tgkill'', 234), (''utimes'', 235), (''vserver'', 236), (''mbind'', 237),
     (''set_mempolicy'', 238), (''get_mempolicy'', 239), (''mq_open'', 240), (''mq_unlink'', 241),
     (''mq_timedsend'', 242), (''mq_timedreceive'', 243), (''mq_notify'', 244), (''mq_getsetattr'', 245),
     (''kexec_load'', 246), (''waitid'', 247), (''add_key'', 248), (''request_key'', 249),
     (''keyctl'', 250), (''ioprio_set'', 251), (''ioprio_get'', 252), (''inotify_init'', 253),
     (''inotify_add_watch'', 254), (''inotify_rm_watch'', 255), (''migrate_pages'', 256), (''openat'', 257),
     (''mkdirat'', 258), (''mknodat'', 259), (''fchownat'', 260), (''futimesat'', 261),
     (''newfstatat'', 262), (''unlinkat'', 263), (''renameat'', 264), (''linkat'', 265),
     (''symlinkat'', 266), (''readlinkat'', 267), (''fchmodat'', 268), (''faccessat'', 269),
     (''pselect6'', 270), (''ppoll'', 271), (''unshare'', 272), (''set_robust_list'', 273),
     (''get_robust_list'', 274), (''splice'', 275), (''tee'', 276), (''sync_file_range'', 277),
     (''vmsplice'', 278), (''move_pages'', 279), (''utimensat'', 280), (''epoll_pwait'', 281),
     (''signalfd'', 282), (''timerfd_create'', 283), (''eventfd'', 284), (''fallocate'', 285),
     (''timerfd_settime'', 286), (''timerfd_gettime'', 287), (''accept4'', 288), (''signalfd4'', 289),
     (''eventfd2'', 290), (''epoll_create1'', 291), (''dup3'', 292), (''pipe2'', 293),
     (''inotify_init1'', 294), (''preadv'', 295), (''pwritev'', 296), (''rt_tgsigqueueinfo'', 297),
     (''perf_event_open'', 298), (''recvmmsg'', 299)]"

definition syscall_x86_64_3 :: syscall_table where
  "syscall_x86_64_3 =
    [(''fanotify_init'', 300), (''fanotify_mark'', 301), (''prlimit64'', 302), (''name_to_handle_at'', 303),
     (''open_by_handle_at'', 304), (''clock_adjtime'', 305), (''syncfs'', 306), (''sendmmsg'', 307),
     (''setns'', 308), (''getcpu'', 309), (''process_vm_readv'', 310), (''process_vm_writev'', 311),
     (''kcmp'', 312), (''finit_module'', 313), (''sched_setattr'', 314), (''sched_getattr'', 315),
     (''renameat2'', 316), (''seccomp'', 317), (''getrandom'', 318), (''memfd_create'', 319),
     (''kexec_file_load'', 320), (''bpf'', 321), (''execveat'', 322), (''userfaultfd'', 323),
     (''membarrier'', 324), (''mlock2'', 325), (''copy_file_range'', 326), (''preadv2'', 327),
     (''pwritev2'', 328), (''pkey_mprotect'', 329), (''pkey_alloc'', 330), (''pkey_free'', 331),
     (''statx'', 332), (''io_pgetevents'', 333), (''rseq'', 334), (''uretprobe'', 335),
     (''uprobe'', 336), (''pidfd_send_signal'', 424), (''io_uring_setup'', 425), (''io_uring_enter'', 426),
     (''io_uring_register'', 427), (''open_tree'', 428), (''move_mount'', 429), (''fsopen'', 430),
     (''fsconfig'', 431), (''fsmount'', 432), (''fspick'', 433), (''pidfd_open'', 434),
     (''clone3'', 435), (''close_range'', 436), (''openat2'', 437), (''pidfd_getfd'', 438),
     (''faccessat2'', 439), (''process_madvise'', 440), (''epoll_pwait2'', 441), (''mount_setattr'', 442),
     (''quotactl_fd'', 443), (''landlock_create_ruleset'', 444), (''landlock_add_rule'', 445), (''landlock_restrict_self'', 446),
     (''memfd_secret'', 447), (''process_mrelease'', 448), (''futex_waitv'', 449), (''set_mempolicy_home_node'', 450),
     (''cachestat'', 451), (''fchmodat2'', 452), (''map_shadow_stack'', 453), (''futex_wake'', 454),
     (''futex_wait'', 455), (''futex_requeue'', 456), (''statmount'', 457), (''listmount'', 458),
     (''lsm_get_self_attr'', 459), (''lsm_set_self_attr'', 460), (''lsm_list_modules'', 461), (''mseal'', 462),
     (''setxattrat'', 463), (''getxattrat'', 464), (''listxattrat'', 465), (''removexattrat'', 466),
     (''open_tree_attr'', 467), (''file_getattr'', 468), (''file_setattr'', 469), (''listns'', 470),
     (''rseq_slice_yield'', 471), (''fchroot'', 472)]"

definition syscall_x86_64 :: syscall_table where
  "syscall_x86_64 = syscall_x86_64_1 @ syscall_x86_64_2 @ syscall_x86_64_3"

lemma syscall_x86_64_names:
  "map fst syscall_x86_64 =
    [''read'', ''write'', ''open'', ''close'', ''stat'',
     ''fstat'', ''lstat'', ''poll'', ''lseek'', ''mmap'',
     ''mprotect'', ''munmap'', ''brk'', ''rt_sigaction'', ''rt_sigprocmask'',
     ''rt_sigreturn'', ''ioctl'', ''pread64'', ''pwrite64'', ''readv'',
     ''writev'', ''access'', ''pipe'', ''select'', ''sched_yield'',
     ''mremap'', ''msync'', ''mincore'', ''madvise'', ''shmget'',
     ''shmat'', ''shmctl'', ''dup'', ''dup2'', ''pause'',
     ''nanosleep'', ''getitimer'', ''alarm'', ''setitimer'', ''getpid'',
     ''sendfile'', ''socket'', ''connect'', ''accept'', ''sendto'',
     ''recvfrom'', ''sendmsg'', ''recvmsg'', ''shutdown'', ''bind'',
     ''listen'', ''getsockname'', ''getpeername'', ''socketpair'', ''setsockopt'',
     ''getsockopt'', ''clone'', ''fork'', ''vfork'', ''execve'',
     ''exit'', ''wait4'', ''kill'', ''uname'', ''semget'',
     ''semop'', ''semctl'', ''shmdt'', ''msgget'', ''msgsnd'',
     ''msgrcv'', ''msgctl'', ''fcntl'', ''flock'', ''fsync'',
     ''fdatasync'', ''truncate'', ''ftruncate'', ''getdents'', ''getcwd'',
     ''chdir'', ''fchdir'', ''rename'', ''mkdir'', ''rmdir'',
     ''creat'', ''link'', ''unlink'', ''symlink'', ''readlink'',
     ''chmod'', ''fchmod'', ''chown'', ''fchown'', ''lchown'',
     ''umask'', ''gettimeofday'', ''getrlimit'', ''getrusage'', ''sysinfo'',
     ''times'', ''ptrace'', ''getuid'', ''syslog'', ''getgid'',
     ''setuid'', ''setgid'', ''geteuid'', ''getegid'', ''setpgid'',
     ''getppid'', ''getpgrp'', ''setsid'', ''setreuid'', ''setregid'',
     ''getgroups'', ''setgroups'', ''setresuid'', ''getresuid'', ''setresgid'',
     ''getresgid'', ''getpgid'', ''setfsuid'', ''setfsgid'', ''getsid'',
     ''capget'', ''capset'', ''rt_sigpending'', ''rt_sigtimedwait'', ''rt_sigqueueinfo'',
     ''rt_sigsuspend'', ''sigaltstack'', ''utime'', ''mknod'', ''uselib'',
     ''personality'', ''ustat'', ''statfs'', ''fstatfs'', ''sysfs'',
     ''getpriority'', ''setpriority'', ''sched_setparam'', ''sched_getparam'', ''sched_setscheduler'',
     ''sched_getscheduler'', ''sched_get_priority_max'', ''sched_get_priority_min'', ''sched_rr_get_interval'', ''mlock'',
     ''munlock'', ''mlockall'', ''munlockall'', ''vhangup'', ''modify_ldt'',
     ''pivot_root'', ''_sysctl'', ''prctl'', ''arch_prctl'', ''adjtimex'',
     ''setrlimit'', ''chroot'', ''sync'', ''acct'', ''settimeofday'',
     ''mount'', ''umount2'', ''swapon'', ''swapoff'', ''reboot'',
     ''sethostname'', ''setdomainname'', ''iopl'', ''ioperm'', ''create_module'',
     ''init_module'', ''delete_module'', ''get_kernel_syms'', ''query_module'', ''quotactl'',
     ''nfsservctl'', ''getpmsg'', ''putpmsg'', ''afs_syscall'', ''tuxcall'',
     ''security'', ''gettid'', ''readahead'', ''setxattr'', ''lsetxattr'',
     ''fsetxattr'', ''getxattr'', ''lgetxattr'', ''fgetxattr'', ''listxattr'',
     ''llistxattr'', ''flistxattr'', ''removexattr'', ''lremovexattr'', ''fremovexattr'',
     ''tkill'', ''time'', ''futex'', ''sched_setaffinity'', ''sched_getaffinity'',
     ''set_thread_area'', ''io_setup'', ''io_destroy'', ''io_getevents'', ''io_submit'',
     ''io_cancel'', ''get_thread_area'', ''lookup_dcookie'', ''epoll_create'', ''epoll_ctl_old'',
     ''epoll_wait_old'', ''remap_file_pages'', ''getdents64'', ''set_tid_address'', ''restart_syscall'',
     ''semtimedop'', ''fadvise64'', ''timer_create'', ''timer_settime'', ''timer_gettime'',
     ''timer_getoverrun'', ''timer_delete'', ''clock_settime'', ''clock_gettime'', ''clock_getres'',
     ''clock_nanosleep'', ''exit_group'', ''epoll_wait'', ''epoll_ctl'', ''tgkill'',
     ''utimes'', ''vserver'', ''mbind'', ''set_mempolicy'', ''get_mempolicy'',
     ''mq_open'', ''mq_unlink'', ''mq_timedsend'', ''mq_timedreceive'', ''mq_notify'',
     ''mq_getsetattr'', ''kexec_load'', ''waitid'', ''add_key'', ''request_key'',
     ''keyctl'', ''ioprio_set'', ''ioprio_get'', ''inotify_init'', ''inotify_add_watch'',
     ''inotify_rm_watch'', ''migrate_pages'', ''openat'', ''mkdirat'', ''mknodat'',
     ''fchownat'', ''futimesat'', ''newfstatat'', ''unlinkat'', ''renameat'',
     ''linkat'', ''symlinkat'', ''readlinkat'', ''fchmodat'', ''faccessat'',
     ''pselect6'', ''ppoll'', ''unshare'', ''set_robust_list'', ''get_robust_list'',
     ''splice'', ''tee'', ''sync_file_range'', ''vmsplice'', ''move_pages'',
     ''utimensat'', ''epoll_pwait'', ''signalfd'', ''timerfd_create'', ''eventfd'',
     ''fallocate'', ''timerfd_settime'', ''timerfd_gettime'', ''accept4'', ''signalfd4'',
     ''eventfd2'', ''epoll_create1'', ''dup3'', ''pipe2'', ''inotify_init1'',
     ''preadv'', ''pwritev'', ''rt_tgsigqueueinfo'', ''perf_event_open'', ''recvmmsg'',
     ''fanotify_init'', ''fanotify_mark'', ''prlimit64'', ''name_to_handle_at'', ''open_by_handle_at'',
     ''clock_adjtime'', ''syncfs'', ''sendmmsg'', ''setns'', ''getcpu'',
     ''process_vm_readv'', ''process_vm_writev'', ''kcmp'', ''finit_module'', ''sched_setattr'',
     ''sched_getattr'', ''renameat2'', ''seccomp'', ''getrandom'', ''memfd_create'',
     ''kexec_file_load'', ''bpf'', ''execveat'', ''userfaultfd'', ''membarrier'',
     ''mlock2'', ''copy_file_range'', ''preadv2'', ''pwritev2'', ''pkey_mprotect'',
     ''pkey_alloc'', ''pkey_free'', ''statx'', ''io_pgetevents'', ''rseq'',
     ''uretprobe'', ''uprobe'', ''pidfd_send_signal'', ''io_uring_setup'', ''io_uring_enter'',
     ''io_uring_register'', ''open_tree'', ''move_mount'', ''fsopen'', ''fsconfig'',
     ''fsmount'', ''fspick'', ''pidfd_open'', ''clone3'', ''close_range'',
     ''openat2'', ''pidfd_getfd'', ''faccessat2'', ''process_madvise'', ''epoll_pwait2'',
     ''mount_setattr'', ''quotactl_fd'', ''landlock_create_ruleset'', ''landlock_add_rule'', ''landlock_restrict_self'',
     ''memfd_secret'', ''process_mrelease'', ''futex_waitv'', ''set_mempolicy_home_node'', ''cachestat'',
     ''fchmodat2'', ''map_shadow_stack'', ''futex_wake'', ''futex_wait'', ''futex_requeue'',
     ''statmount'', ''listmount'', ''lsm_get_self_attr'', ''lsm_set_self_attr'', ''lsm_list_modules'',
     ''mseal'', ''setxattrat'', ''getxattrat'', ''listxattrat'', ''removexattrat'',
     ''open_tree_attr'', ''file_getattr'', ''file_setattr'', ''listns'', ''rseq_slice_yield'',
     ''fchroot'']"
  unfolding syscall_x86_64_def syscall_x86_64_1_def syscall_x86_64_2_def syscall_x86_64_3_def append.simps list.map fst_conv ..

lemma syscall_x86_64_numbers:
  "map snd syscall_x86_64 =
    [0, 1, 2, 3, 4, 5, 6, 7, 8, 9, 10, 11, 12, 13, 14, 15,
     16, 17, 18, 19, 20, 21, 22, 23, 24, 25, 26, 27, 28, 29, 30, 31,
     32, 33, 34, 35, 36, 37, 38, 39, 40, 41, 42, 43, 44, 45, 46, 47,
     48, 49, 50, 51, 52, 53, 54, 55, 56, 57, 58, 59, 60, 61, 62, 63,
     64, 65, 66, 67, 68, 69, 70, 71, 72, 73, 74, 75, 76, 77, 78, 79,
     80, 81, 82, 83, 84, 85, 86, 87, 88, 89, 90, 91, 92, 93, 94, 95,
     96, 97, 98, 99, 100, 101, 102, 103, 104, 105, 106, 107, 108, 109, 110, 111,
     112, 113, 114, 115, 116, 117, 118, 119, 120, 121, 122, 123, 124, 125, 126, 127,
     128, 129, 130, 131, 132, 133, 134, 135, 136, 137, 138, 139, 140, 141, 142, 143,
     144, 145, 146, 147, 148, 149, 150, 151, 152, 153, 154, 155, 156, 157, 158, 159,
     160, 161, 162, 163, 164, 165, 166, 167, 168, 169, 170, 171, 172, 173, 174, 175,
     176, 177, 178, 179, 180, 181, 182, 183, 184, 185, 186, 187, 188, 189, 190, 191,
     192, 193, 194, 195, 196, 197, 198, 199, 200, 201, 202, 203, 204, 205, 206, 207,
     208, 209, 210, 211, 212, 213, 214, 215, 216, 217, 218, 219, 220, 221, 222, 223,
     224, 225, 226, 227, 228, 229, 230, 231, 232, 233, 234, 235, 236, 237, 238, 239,
     240, 241, 242, 243, 244, 245, 246, 247, 248, 249, 250, 251, 252, 253, 254, 255,
     256, 257, 258, 259, 260, 261, 262, 263, 264, 265, 266, 267, 268, 269, 270, 271,
     272, 273, 274, 275, 276, 277, 278, 279, 280, 281, 282, 283, 284, 285, 286, 287,
     288, 289, 290, 291, 292, 293, 294, 295, 296, 297, 298, 299, 300, 301, 302, 303,
     304, 305, 306, 307, 308, 309, 310, 311, 312, 313, 314, 315, 316, 317, 318, 319,
     320, 321, 322, 323, 324, 325, 326, 327, 328, 329, 330, 331, 332, 333, 334, 335,
     336, 424, 425, 426, 427, 428, 429, 430, 431, 432, 433, 434, 435, 436, 437, 438,
     439, 440, 441, 442, 443, 444, 445, 446, 447, 448, 449, 450, 451, 452, 453, 454,
     455, 456, 457, 458, 459, 460, 461, 462, 463, 464, 465, 466, 467, 468, 469, 470,
     471, 472]"
  unfolding syscall_x86_64_def syscall_x86_64_1_def syscall_x86_64_2_def syscall_x86_64_3_def append.simps list.map snd_conv ..

lemma syscall_x86_64_keys:
  "map (str_key 0) (map fst syscall_x86_64) =
    [1919246692, 513020621925, 1869636974,
     427021005669, 1937006964, 440023671156,
     465793474932, 1886350444, 465792492907,
     1835884912, 7885928770545476468, 120351131263344,
     6451819, 35421977268495222288151048046, 2321414702268103972956778942002027,
     35421977268495240988439442030, 452840354924, 31650977142814260,
     8104071851726419508, 491327153270, 131333279212918,
     107079497249651, 1885958245, 126879447475060,
     139495909304939586326457444, 120338095366512, 470088773219,
     30796695297028709, 30787856572707685, 126892349285748,
     495673237876, 126892349027436, 6583664,
     1685418034, 482671424357, 2036162519518698366320,
     1907325223635918873970, 418430153325, 2128686152520433493362,
     113685442881892, 8315173664503458917, 126922246546804,
     27988542783578996, 107079497248884, 126879480968303,
     8243104053147627373, 32481147127427943, 32199625208066919,
     8316025854701303662, 1651076708, 119200164373870,
     124998466575365539310431589, 124998466356380236517567845, 545126898053373998754162,
     544943657854457380565108, 488275260060021638000756, 427021004389,
     1718579819, 508524720747, 111567771498085,
     1702390132, 512735409204, 1802071148,
     504363052389, 126879464383860, 495622909808,
     126879464125548, 495673238644, 120342423496052,
     120342424284772, 120342424216438, 120342423237740,
     439754847340, 439905903467, 440024002147,
     1888801085956805979747, 8390898172718838885, 1889958793691093103717,
     7450489133101642867, 113685442033508, 426953173362,
     112577139206514, 125779969142117, 469953177970,
     491461568882, 427121009012, 1818848875,
     129117125701227, 32503133198970475, 8243101776915033707,
     426953764708, 112577139797860, 426953897838,
     112577139930990, 119174209697646, 504346276715,
     31999607461310784730028073337, 1907325233497163786612, 1907325233535985477477,
     32503158918768239, 499984983411, 123645437502309,
     113685443209572, 126965464723303, 113685442292068,
     126879582742884, 126879581825380, 29103473194002788,
     29103473193085284, 32481173098162532, 29103473378224484,
     29103473377636976, 126879582611812, 8315180321686776164,
     8315180321685858660, 1907325221428406874227, 2128686150312921493619,
     2128686162351781931364, 1907325233467267311972, 2128686162351781013860,
     1907325233467266394468, 29103473377634660, 8315180270382049636,
     8315180270381132132, 113685443078500, 109270148801908,
     109270149588340, 9068026180734781130064488132199, 594282163780634690214832568432421236,
     594282163780634635737057272192198255, 9068026180734781992103280209508, 139524224771137218308825963,
     504464239973, 469953834852, 129138483292514,
     135878762058421106108888185, 504448180596, 126943688418931,
     28837391312905843, 495958845043, 124998466360043796444050553,
     139505576195419346540524665, 2340353001525380873294668729835885, 2340353001525380008603540274700653,
     10051739602646948964744577447336006321464690, 10051739602646945250924459591195181624092018, 43171892861276664887021487182820027378251303977050488,
     43171892861276664887021487182820027378251303977052526, 168640206489362029592203124216821197268800645783916, 469970674539,
     30809889587553131, 7884799520412888172, 516904172546529796648044,
     33328814925247856, 516792770651920913949812, 530850488376911947853684,
     26867088251647084, 482955457644, 460179640742902367482988,
     7017851167567603064, 2128686162381678406004, 109300247654260,
     1937337955, 1633903476, 35713427579166925554725446009,
     470021402228, 33052897754117170, 126956573060974,
     32500882703607398, 125779768733556, 139505575618125185830448485,
     9142637384819548548075198967141, 1768910956, 115927347982957,
     7878991941756259665493827611749, 127458616666320820201942117, 7954205280513049751076753206373,
     536864319796817784739645207025905011, 35113729501396327942967356517, 8175563244201800812,
     521350200115658318115948, 29103473378030439, 31654340354470759,
     117749614137414802777140332, 32780257222290540, 8315161643091326073,
     113685443144036, 2110234054842986619236, 8315180347389408370,
     2000563540308020982898, 1889883075865763673202, 7450489218934273138,
     1999698849179565847666, 1889018384737308537970, 1999846905017315652722,
     512015427054938998731890, 483681228157721127449714, 138296521177660147591574642,
     33562677581882927569867928690, 31705767522954857157519242354, 500018277484,
     1953066341, 440057226616, 39264607822839644393532209459206845723769,
     39264607822839629886422374083656749249657, 599171882110130215108338391840875873, 7597396045625324912,
     497902943023972331188089, 32630567329359547917184955507, 1944933387748500138356,
     1944933370070615418220, 536864319807712283565972435890234721, 2199329045979206402887402157468005,
     31393911866489718521882309733, 8036841437821367943830925438052, 2057431408082271629421364504390756,
     152058632004748641696186713802470286707, 488275255826949266945588, 599171882110134678788058687084000115,
     593979512499695749022099795769125996, 544943153726219870302064, 1888585759833003996724,
     36027714959644763457501361253, 9223095029669063934491067247973, 9223095029669060556791346720101,
     154737857501284237478367297738659493230, 36027714959644764501296116837, 7877147130233813285610086559077,
     7877147130233809907910366031205, 30770105977475819952774735219, 516236714327003094962097583550719344,
     479180222862048499823984, 479033079017482611681652, 1871222964912040146028,
     127987532524652, 129142845433203, 33340926801110386,
     469802511972, 9142637361170249570227814228857, 8191899410999077519105286824825,
     30805427166930286, 2018864481400540196459, 33870925460378090382897278564,
     568259832568662664021108826082735717, 2018864473708387985017, 8670956856392748229333156656242,
     507165010268015393988964, 131260264769892, 27413455001314681,
     138296595392212308002039161, 118083572429932, 497904171948101164295540,
     497904171948101163509108, 32629434201495643778551015796, 35876442312296362064579378694036301046632,
     140142352782407664315990705002167690088, 8668490699592974773824090760563, 122528528753012,
     30798851471466868, 30798894520885620, 7377855442517385588,
     1890031401036684681588, 521332037958187464548724, 8461819949955637620,
     8243116057697804660, 119200079896948, 2130125337327729074548,
     540219918051903649046900, 7377855433792577908, 1888585457450127417716,
     8102931670801544246, 482922687596, 33054014226657893,
     599171882107745126044589688212779892, 536864319805327194502223732262138740, 126926692377445,
     7628133, 599577056145771149756126077375113061, 8533603795629335397,
     516794066554978486936947, 2166657412687383978356, 122632468228475518894303604,
     8316291910694889060, 2361112327595408411866768397661285, 28559150664672868,
     1888588000663202526309, 604444755864424553442382080520056165, 604444755864424553439004380799528293,
     27412351295714356, 2128970729137891599412, 7311142570156254258,
     8036841437821367941601871291697, 1685418035, 482805310770,
     8353135155582884807309060043825, 123636629464182, 31656530670806390,
     38946875905655328849106456544804384695919, 583594835219194236922784437190550894, 8243104053264741223,
     8111426130577887317770235701620, 8111426130577887317770301960811, 2074280417191919892020,
     37560563493338028426983761983879029678452, 37920742924357000141866111203824331874676, 7877147130233808217918044466533,
     126965380245107, 8315173664621163367, 495623368307,
     113685442031733, 149467716592235199656796680360443339894, 38263735447612211112139950177827022988662,
     1801678192, 31694929618443517830129609829, 9142003912208519036307049313394,
     9142003912208515658607328785522, 2110237710770637993010, 32481099866140016,
     1907325233450002444141, 33856484205054827216907629669, 557633825990817248764119501031563620,
     6451302, 7311705472898523508, 141989264404976392211818084,
     516608949753678018471282, 120312492682034, 516297647578172635593665362627815269,
     31650977142830642, 8104071851726435890, 8906791772322941853377143071604,
     530886159677629234179939, 2073774061240823473509, 495873782904,
     8353425278853159440368821761139, 1920165233, 2166512179343294161509,
     129125816689253, 38251715341146513962610198533543711105388, 2138476877483057301287582116902256,
     2138476877483057301287522138350962, 35877688484538788684078771221067229062514, 2055687593042910537061,
     516794066554965837835892, 112645976909166, 7382353544435100007,
     28837361483083380, 112645993227115, 530849188789352238441838,
     109317377123635, 120195727625747623614244709, 31367303360771122,
     135897392330074138497803876, 483477877107232618935346, 583858267938418748656815585270264677,
     31393911866489732836941722674, 8670364516072890392755913913458, 137163190469634359818151524,
     10380798248000318032745369795731996628571274837706892660, 36880003932539004668261839446353896631397, 40549993156251242315412785180725347951584117067705446,
     33856484205054844753226655092, 149467716592235199656149575960285508453, 123865097613199435994068086,
     11052770365292074416055979581085991322002463268304544869, 1833245230726556967284, 1888730991050899944498,
     145391783528101720605631824667288363883, 483848037551560296852325, 483848037551560296851828,
     8117623037178636834364784473445, 2129761680471109234292, 1999846904970305957492,
     36903924742355011433658353204660511470706, 36903924743305749383829525255783038874738, 144155956026376519828689371953653114227,
     470087459180, 544943659246512266961268, 488275261452076524396916,
     131061966767214798616813940, 9063400811899135432561435763060, 2260252411625538017621092141921394,
     31694920098412609346349593714, 31694920098415987046070121586, 119200164376179,
     152131163163904861980831955995263855716, 28819747872141172]"
  unfolding syscall_x86_64_names by simp

lemma syscall_x86_64_distinct_names: "distinct (map fst syscall_x86_64)"
  by (rule distinct_by_key [where f = "str_key 0"], unfold syscall_x86_64_keys, simp only: all_diff_eval)

lemma syscall_x86_64_distinct_numbers: "distinct (map snd syscall_x86_64)"
  by (rule successively_less_distinct) (simp add: syscall_x86_64_numbers)

lemma syscall_x86_64_range: "list_all (\<lambda>n. 0 \<le> n \<and> n < 1024) (map snd syscall_x86_64)"
  unfolding syscall_x86_64_numbers by simp

end
