(* ===== verification/Syscall_i386.thy ===== *)
theory Syscall_i386
  imports Platform Table_Check
begin

text \<open>
  The system call table of include/syscall_i386.h, in the order of the file, which
  lib/syscall.c includes as an initialiser: name and number of every system call.
  No name and no number occurs twice.
\<close>

definition syscall_i386_1 :: syscall_table where
  "syscall_i386_1 =
    [(''restart_syscall'', 0), (''exit'', 1), (''fork'', 2), (''read'', 3),
     (''write'', 4), (''open'', 5), (''close'', 6), (''waitpid'', 7),
     (''creat'', 8), (''link'', 9), (''unlink'', 10), (''execve'', 11),
     (''chdir'', 12), (''time'', 13), (''mknod'', 14), (''chmod'', 15),
     (''lchown'', 16), (''break'', 17), (''oldstat'', 18), (''lseek'', 19),
     (''getpid'', 20), (''mount'', 21), (''umount'', 22), (''setuid'', 23),
     (''getuid'', 24), (''stime'', 25), (''ptrace'', 26), (''alarm'', 27),
     (''oldfstat'', 28), (''pause'', 29), (''utime'', 30), (''stty'', 31),
     (''gtty'', 32), (''access'', 33), (''nice'', 34), (''ftime'', 35),
     (''sync'', 36), (''kill'', 37), (''rename'', 38), (''mkdir'', 39),
     (''rmdir'', 40), (''dup'', 41), (''pipe'', 42), (''times'', 43),
     (''prof'', 44), (''brk'', 45), (''setgid'', 46), (''getgid'', 47),
     (''signal'', 48), (''geteuid'', 49), (''getegid'', 50), (''acct'', 51),
     (''umount2'', 52), (''lock'', 53), (''ioctl'', 54), (''fcntl'', 55),
     (''mpx'', 56), (''setpgid'', 57), (''ulimit'', 58), (''oldolduname'', 59),
     (''umask'', 60), (''chroot'', 61), (''ustat'', 62), (''dup2'', 63),
     (''getppid'', 64), (''getpgrp'', 65), (''setsid'', 66), (''sigaction'', 67),
     (''sgetmask'', 68), (''ssetmask'', 69), (''setreuid'', 70), (''setregid'', 71),
     (''sigsuspend'', 72), (''sigpending'', 73), (''sethostname'', 74), (''setrlimit'', 75),
     (''getrlimit'', 76), (''getrusage'', 77), (''gettimeofday'', 78), (''settimeofday'', 79),
     (''getgroups'', 80), (''setgroups'', 81), (''select'', 82), (''symlink'', 83),
     (''oldlstat'', 84), (''readlink'', 85), (''uselib'', 86), (''swapon'', 87),
     (''reboot'', 88), (''readdir'', 89), (''mmap'', 90), (''munmap'', 91),
     (''truncate'', 92), (''ftruncate'', 93), (''fchmod'', 94), (''fchown'', 95),
     (''getpriority'', 96), (''setpriority'', 97), (''profil'', 98), (''statfs'', 99),
     (''fstatfs'', 100), (''ioperm'', 101), (''socketcall'', 102), (''syslog'', 103),
     (''setitimer'', 104), (''getitimer'', 105), (''stat'', 106), (''lstat'', 107),
     (''fstat'', 108), (''olduname'', 109), (''iopl'', 110), (''vhangup'', 111),
     (''idle'', 112), (''vm86old'', 113), (''wait4'', 114), (''swapoff'', 115),
     (''sysinfo'', 116), (''ipc'', 117), (''fsync'', 118), (''sigreturn'', 119),
     (''clone'', 120), (''setdomainname'', 121), (''uname'', 122), (''modify_ldt'', 123),
     (''adjtimex'', 124), (''mprotect'', 125), (''sigprocmask'', 126), (''create_module'', 127),
     (''init_module'', 128), (''delete_module'', 129), (''get_kernel_syms'', 130), (''quotactl'', 131),
     (''getpgid'', 132), (''fchdir'', 133), (''bdflush'', 134), (''sysfs'', 135),
     (''personality'', 136), (''afs_syscall'', 137), (''setfsuid'', 138), (''setfsgid'', 139),
     (''_llseek'', 140), (''getdents'', 141), (''_newselect'', 142), (''flock'', 143),
     (''msync'', 144), (''readv'', 145), (''writev'', 146), (''getsid'', 147),
     (''fdatasync'', 148), (''_sysctl'', 149)]"

definition syscall_i386_2 :: syscall_table where
  "syscall_i386_2 =
    [(''mlock'', 150), (''munlock'', 151), (''mlockall'', 152), (''munlockall'', 153),
     (''sched_setparam'', 154), (''sched_getparam'', 155), (''sched_setscheduler'', 156), (''sched_getscheduler'', 157),
     (''sched_yield'', 158), (''sched_get_priority_max'', 159), (''sched_get_priority_min'', 160), (''sched_rr_get_interval'', 161),
     (''nanosleep'', 162), (''mremap'', 163), (''setresuid'', 164), (''getresuid'', 165),
     (''vm86'', 166), (''query_module'', 167), (''poll'', 168), (''nfsservctl'', 169),
     (''setresgid'', 170), (''getresgid'', 171), (''prctl'', 172), (''rt_sigreturn'', 173),
     (''rt_sigaction'', 174), (''rt_sigprocmask'', 175), (''rt_sigpending'', 176), (''rt_sigtimedwait'', 177),
     (''rt_sigqueueinfo'', 178), (''rt_sigsuspend'', 179), (''pread64'', 180), (''pwrite64'', 181),
     (''chown'', 182), (''getcwd'', 183), (''capget'', 184), (''capset'', 185),
     (''sigaltstack'', 186), (''sendfile'', 187), (''getpmsg'', 188), (''putpmsg'', 189),
     (''vfork'', 190), (''ugetrlimit'', 191), (''mmap2'', 192), (''truncate64'', 193),
     (''ftruncate64'', 194), (''stat64'', 195), (''lstat64'', 196), (''fstat64'', 197),
     (''lchown32'', 198), (''getuid32'', 199), (''getgid32'', 200), (''geteuid32'', 201),
     (''getegid32'', 202), (''setreuid32'', 203), (''setregid32'', 204), (''getgroups32'', 205),
     (''setgroups32'', 206), (''fchown32'', 207), (''setresuid32'', 208), (''getresuid32'', 209),
     (''setresgid32'', 210), (''getresgid32'', 211), (''chown32'', 212), (''setuid32'', 213),
     (''setgid32'', 214), (''setfsuid32'', 215), (''setfsgid32'', 216), (''pivot_root'', 217),
     (''mincore'', 218), (''madvise'', 219), (''getdents64'', 220), (''fcntl64'', 221),
     (''gettid'', 224), (''readahead'', 225), (''setxattr'', 226), (''lsetxattr'', 227),
     (''fsetxattr'', 228), (''getxattr'', 229), (''lgetxattr'', 230), (''fgetxattr'', 231),
     (''listxattr'', 232), (''llistxattr'', 233), (''flistxattr'', 234), (''removexattr'', 235),
     (''lremovexattr'', 236), (''fremovexattr'', 237), (''tkill'', 238), (''sendfile64'', 239),
     (''futex'', 240), (''sched_setaffinity'', 241), (''sched_getaffinity'', 242), (''set_thread_area'', 243),
     (''get_thread_area'', 244), (''io_setup'', 245), (''io_destroy'', 246), (''io_getevents'', 247),
     (''io_submit'', 248), (''io_cancel'', 249), (''fadvise64'', 250), (''exit_group'', 252),
     (''lookup_dcookie'', 253), (''epoll_create'', 254), (''epoll_ctl'', 255), (''epoll_wait'', 256),
     (''remap_file_pages'', 257), (''set_tid_address'', 258), (''timer_create'', 259), (''timer_settime'', 260),
     (''timer_gettime'', 261), (''timer_getoverrun'', 262), (''timer_delete'', 263), (''clock_settime'', 264),
     (''clock_gettime'', 265), (''clock_getres'', 266), (''clock_nanosleep'', 267), (''statfs64'', 268),
     (''fstatfs64'', 269), (''tgkill'', 270), (''utimes'', 271), (''fadvise64_64'', 272),
     (''vserver'', 273), (''mbind'', 274), (''get_mempolicy'', 275), (''set_mempolicy'', 276),
     (''mq_open'', 277), (''mq_unlink'', 278), (''mq_timedsend'', 279), (''mq_timedreceive'', 280),
     (''mq_notify'', 281), (''mq_getsetattr'', 282), (''kexec_load'', 283), (''waitid'', 284),
     (''add_key'', 286), (''request_key'', 287), (''keyctl'', 288), (''ioprio_set'', 289),
     (''ioprio_get'', 290), (''inotify_init'', 291), (''inotify_add_watch'', 292), (''inotify_rm_watch'', 293),
     (''migrate_pages'', 294), (''openat'', 295), (''mkdirat'', 296), (''mknodat'', 297),
     (''fchownat'', 298), (''futimesat'', 299), (''fstatat64'', 300), (''unlinkat'', 301),
     (''renameat'', 302), (''linkat'', 303)]"

definition syscall_i386_3 :: syscall_table where
  "syscall_i386_3 =
    [(''symlinkat'', 304), (''readlinkat'', 305), (''fchmodat'', 306), (''faccessat'', 307),
     (''pselect6'', 308), (''ppoll'', 309), (''unshare'', 310), (''set_robust_list'', 311),
     (''get_robust_list'', 312), (''splice'', 313), (''sync_file_range'', 314), (''tee'', 315),
     (''vmsplice'', 316), (''move_pages'', 317), (''getcpu'', 318), (''epoll_pwait'', 319),
     (''utimensat'', 320), (''signalfd'', 321), (''timerfd_create'', 322), (''eventfd'', 323),
     (''fallocate'', 324), (''timerfd_settime'', 325), (''timerfd_gettime'', 326), (''signalfd4'', 327),
     (''eventfd2'', 328), (''epoll_create1'', 329), (''dup3'', 330), (''pipe2'', 331),
     (''inotify_init1'', 332), (''preadv'', 333), (''pwritev'', 334), (''rt_tgsigqueueinfo'', 335),
     (''perf_event_open'', 336), (''recvmmsg'', 337), (''fanotify_init'', 338), (''fanotify_mark'', 339),
     (''prlimit64'', 340), (''name_to_handle_at'', 341), (''open_by_handle_at'', 342), (''clock_adjtime'', 343),
     (''syncfs'', 344), (''sendmmsg'', 345), (''setns'', 346), (''process_vm_readv'', 347),
     (''process_vm_writev'', 348), (''kcmp'', 349), (''finit_module'', 350), (''sched_setattr'', 351),
     (''sched_getattr'', 352), (''renameat2'', 353), (''seccomp'', 354), (''getrandom'', 355),
     (''memfd_create'', 356), (''bpf'', 357), (''execveat'', 358), (''socket'', 359),
     (''socketpair'', 360), (''bind'', 361), (''connect'', 362), (''listen'', 363),
     (''accept4'', 364), (''getsockopt'', 365), (''setsockopt'', 366), (''getsockname'', 367),
     (''getpeername'', 368), (''sendto'', 369), (''sendmsg'', 370), (''recvfrom'', 371),
     (''recvmsg'', 372), (''shutdown'', 373), (''userfaultfd'', 374), (''membarrier'', 375),
     (''mlock2'', 376), (''copy_file_range'', 377), (''preadv2'', 378), (''pwritev2'', 379),
     (''pkey_mprotect'', 380), (''pkey_alloc'', 381), (''pkey_free'', 382), (''statx'', 383),
     (''arch_prctl'', 384), (''io_pgetevents'', 385), (''rseq'', 386), (''semget'', 393),
     (''semctl'', 394), (''shmget'', 395), (''shmctl'', 396), (''shmat'', 397),
     (''shmdt'', 398), (''msgget'', 399), (''msgsnd'', 400), (''msgrcv'', 401),
     (''msgctl'', 402), (''clock_gettime64'', 403), (''clock_settime64'', 404), (''clock_adjtime64'', 405),
     (''clock_getres_time64'', 406), (''clock_nanosleep_time64'', 407), (''timer_gettime64'', 408), (''timer_settime64'', 409),
     (''timerfd_gettime64'', 410), (''timerfd_settime64'', 411), (''utimensat_time64'', 412), (''pselect6_time64'', 413),
     (''ppoll_time64'', 414), (''io_pgetevents_time64'', 416), (''recvmmsg_time64'', 417), (''mq_timedsend_time64'', 418),
     (''mq_timedreceive_time64'', 419), (''semtimedop_time64'', 420), (''rt_sigtimedwait_time64'', 421), (''futex_time64'', 422),
     (''sched_rr_get_interval_time64'', 423), (''pidfd_send_signal'', 424), (''io_uring_setup'', 425), (''io_uring_enter'', 426),
     (''io_uring_register'', 427), (''open_tree'', 428), (''move_mount'', 429), (''fsopen'', 430),
     (''fsconfig'', 431), (''fsmount'', 432), (''fspick'', 433), (''pidfd_open'', 434),
     (''clone3'', 435), (''close_range'', 436), (''openat2'', 437), (''pidfd_getfd'', 438),
     (''faccessat2'', 439), (''process_madvise'', 440), (''epoll_pwait2'', 441), (''mount_setattr'', 442),
     (''quotactl_fd'', 443), (''landlock_create_ruleset'', 444), (''landlock_add_rule'', 445), (''landlock_restrict_self'', 446),
     (''memfd_secret'', 447), (''process_mrelease'', 448), (''futex_waitv'', 449), (''set_mempolicy_home_node'', 450),
     (''cachestat'', 451), (''fchmodat2'', 452), (''map_shadow_stack'', 453), (''futex_wake'', 454),
     (''futex_wait'', 455), (''futex_requeue'', 456), (''statmount'', 457), (''listmount'', 458),
     (''lsm_get_self_attr'', 459), (''lsm_set_self_attr'', 460)]"

definition syscall_i386_4 :: syscall_table where
  "syscall_i386_4 =
    [(''lsm_list_modules'', 461), (''mseal'', 462), (''setxattrat'', 463), (''getxattrat'', 464),
     (''listxattrat'', 465), (''removexattrat'', 466), (''open_tree_attr'', 467), (''file_getattr'', 468),
     (''file_setattr'', 469), (''listns'', 470), (''rseq_slice_yield'', 471), (''fchroot'', 472)]"

definition syscall_i386 :: syscall_table where
  "syscall_i386 = syscall_i386_1 @ syscall_i386_2 @ syscall_i386_3 @ syscall_i386_4"

lemma syscall_i386_names:
  "map fst syscall_i386 =
    [''restart_syscall'', ''exit'', ''fork'', ''read'', ''write'',
     ''open'', ''close'', ''waitpid'', ''creat'', ''link'',
     ''unlink'', ''execve'', ''chdir'', ''time'', ''mknod'',
     ''chmod'', ''lchown'', ''break'', ''oldstat'', ''lseek'',
     ''getpid'', ''mount'', ''umount'', ''setuid'', ''getuid'',
     ''stime'', ''ptrace'', ''alarm'', ''oldfstat'', ''pause'',
     ''utime'', ''stty'', ''gtty'', ''access'', ''nice'',
     ''ftime'', ''sync'', ''kill'', ''rename'', ''mkdir'',
     ''rmdir'', ''dup'', ''pipe'', ''times'', ''prof'',
     ''brk'', ''setgid'', ''getgid'', ''signal'', ''geteuid'',
     ''getegid'', ''acct'', ''umount2'', ''lock'', ''ioctl'',
     ''fcntl'', ''mpx'', ''setpgid'', ''ulimit'', ''oldolduname'',
     ''umask'', ''chroot'', ''ustat'', ''dup2'', ''getppid'',
     ''getpgrp'', ''setsid'', ''sigaction'', ''sgetmask'', ''ssetmask'',
     ''setreuid'', ''setregid'', ''sigsuspend'', ''sigpending'', ''sethostname'',
     ''setrlimit'', ''getrlimit'', ''getrusage'', ''gettimeofday'', ''settimeofday'',
     ''getgroups'', ''setgroups'', ''select'', ''symlink'', ''oldlstat'',
     ''readlink'', ''uselib'', ''swapon'', ''reboot'', ''readdir'',
     ''mmap'', ''munmap'', ''truncate'', ''ftruncate'', ''fchmod'',
     ''fchown'', ''getpriority'', ''setpriority'', ''profil'', ''statfs'',
     ''fstatfs'', ''ioperm'', ''socketcall'', ''syslog'', ''setitimer'',
     ''getitimer'', ''stat'', ''lstat'', ''fstat'', ''olduname'',
     ''iopl'', ''vhangup'', ''idle'', ''vm86old'', ''wait4'',
     ''swapoff'', ''sysinfo'', ''ipc'', ''fsync'', ''sigreturn'',
     ''clone'', ''setdomainname'', ''uname'', ''modify_ldt'', ''adjtimex'',
     ''mprotect'', ''sigprocmask'', ''create_module'', ''init_module'', ''delete_module'',
     ''get_kernel_syms'', ''quotactl'', ''getpgid'', ''fchdir'', ''bdflush'',
     ''sysfs'', ''personality'', ''afs_syscall'', ''setfsuid'', ''setfsgid'',
     ''_llseek'', ''getdents'', ''_newselect'', ''flock'', ''msync'',
     ''readv'', ''writev'', ''getsid'', ''fdatasync'', ''_sysctl'',
     ''mlock'', ''munlock'', ''mlockall'', ''munlockall'', ''sched_setparam'',
     ''sched_getparam'', ''sched_setscheduler'', ''sched_getscheduler'', ''sched_yield'', ''sched_get_priority_max'',
     ''sched_get_priority_min'', ''sched_rr_get_interval'', ''nanosleep'', ''mremap'', ''setresuid'',
     ''getresuid'', ''vm86'', ''query_module'', ''poll'', ''nfsservctl'',
     ''setresgid'', ''getresgid'', ''prctl'', ''rt_sigreturn'', ''rt_sigaction'',
     ''rt_sigprocmask'', ''rt_sigpending'', ''rt_sigtimedwait'', ''rt_sigqueueinfo'', ''rt_sigsuspend'',
     ''pread64'', ''pwrite64'', ''chown'', ''getcwd'', ''capget'',
     ''capset'', ''sigaltstack'', ''sendfile'', ''getpmsg'', ''putpmsg'',
     ''vfork'', ''ugetrlimit'', ''mmap2'', ''truncate64'', ''ftruncate64'',
     ''stat64'', ''lstat64'', ''fstat64'', ''lchown32'', ''getuid32'',
     ''getgid32'', ''geteuid32'', ''getegid32'', ''setreuid32'', ''setregid32'',
     ''getgroups32'', ''setgroups32'', ''fchown32'', ''setresuid32'', ''getresuid32'',
     ''setresgid32'', ''getresgid32'', ''chown32'', ''setuid32'', ''setgid32'',
     ''setfsuid32'', ''setfsgid32'', ''pivot_root'', ''mincore'', ''madvise'',
     ''getdents64'', ''fcntl64'', ''gettid'', ''readahead'', ''setxattr'',
     ''lsetxattr'', ''fsetxattr'', ''getxattr'', ''lgetxattr'', ''fgetxattr'',
     ''listxattr'', ''llistxattr'', ''flistxattr'', ''removexattr'', ''lremovexattr'',
     ''fremovexattr'', ''tkill'', ''sendfile64'', ''futex'', ''sched_setaffinity'',
     ''sched_getaffinity'', ''set_thread_area'', ''get_thread_area'', ''io_setup'', ''io_destroy'',
     ''io_getevents'', ''io_submit'', ''io_cancel'', ''fadvise64'', ''exit_group'',
     ''lookup_dcookie'', ''epoll_create'', ''epoll_ctl'', ''epoll_wait'', ''remap_file_pages'',
     ''set_tid_address'', ''timer_create'', ''timer_settime'', ''timer_gettime'', ''timer_getoverrun'',
     ''timer_delete'', ''clock_settime'', ''clock_gettime'', ''clock_getres'', ''clock_nanosleep'',
     ''statfs64'', ''fstatfs64'', ''tgkill'', ''utimes'', ''fadvise64_64'',
     ''vserver'', ''mbind'', ''get_mempolicy'', ''set_mempolicy'', ''mq_open'',
     ''mq_unlink'', ''mq_timedsend'', ''mq_timedreceive'', ''mq_notify'', ''mq_getsetattr'',
     ''kexec_load'', ''waitid'', ''add_key'', ''request_key'', ''keyctl'',
     ''ioprio_set'', ''ioprio_get'', ''inotify_init'', ''inotify_add_watch'', ''inotify_rm_watch'',
     ''migrate_pages'', ''openat'', ''mkdirat'', ''mknodat'', ''fchownat'',
     ''futimesat'', ''fstatat64'', ''unlinkat'', ''renameat'', ''linkat'',
     ''symlinkat'', ''readlinkat'', ''fchmodat'', ''faccessat'', ''pselect6'',
     ''ppoll'', ''unshare'', ''set_robust_list'', ''get_robust_list'', ''splice'',
     ''sync_file_range'', ''tee'', ''vmsplice'', ''move_pages'', ''getcpu'',
     ''epoll_pwait'', ''utimensat'', ''signalfd'', ''timerfd_create'', ''eventfd'',
     ''fallocate'', ''timerfd_settime'', ''timerfd_gettime'', ''signalfd4'', ''eventfd2'',
     ''epoll_create1'', ''dup3'', ''pipe2'', ''inotify_init1'', ''preadv'',
     ''pwritev'', ''rt_tgsigqueueinfo'', ''perf_event_open'', ''recvmmsg'', ''fanotify_init'',
     ''fanotify_mark'', ''prlimit64'', ''name_to_handle_at'', ''open_by_handle_at'', ''clock_adjtime'',
     ''syncfs'', ''sendmmsg'', ''setns'', ''process_vm_readv'', ''process_vm_writev'',
     ''kcmp'', ''finit_module'', ''sched_setattr'', ''sched_getattr'', ''renameat2'',
     ''seccomp'', ''getrandom'', ''memfd_create'', ''bpf'', ''execveat'',
     ''socket'', ''socketpair'', ''bind'', ''connect'', ''listen'',
     ''accept4'', ''getsockopt'', ''setsockopt'', ''getsockname'', ''getpeername'',
     ''sendto'', ''sendmsg'', ''recvfrom'', ''recvmsg'', ''shutdown'',
     ''userfaultfd'', ''membarrier'', ''mlock2'', ''copy_file_range'', ''preadv2'',
     ''pwritev2'', ''pkey_mprotect'', ''pkey_alloc'', ''pkey_free'', ''statx'',
     ''arch_prctl'', ''io_pgetevents'', ''rseq'', ''semget'', ''semctl'',
     ''shmget'', ''shmctl'', ''shmat'', ''shmdt'', ''msgget'',
     ''msgsnd'', ''msgrcv'', ''msgctl'', ''clock_gettime64'', ''clock_settime64'',
     ''clock_adjtime64'', ''clock_getres_time64'', ''clock_nanosleep_time64'', ''timer_gettime64'', ''timer_settime64'',
     ''timerfd_gettime64'', ''timerfd_settime64'', ''utimensat_time64'', ''pselect6_time64'', ''ppoll_time64'',
     ''io_pgetevents_time64'', ''recvmmsg_time64'', ''mq_timedsend_time64'', ''mq_timedreceive_time64'', ''semtimedop_time64'',
     ''rt_sigtimedwait_time64'', ''futex_time64'', ''sched_rr_get_interval_time64'', ''pidfd_send_signal'', ''io_uring_setup'',
     ''io_uring_enter'', ''io_uring_register'', ''open_tree'', ''move_mount'', ''fsopen'',
     ''fsconfig'', ''fsmount'', ''fspick'', ''pidfd_open'', ''clone3'',
     ''close_range'', ''openat2'', ''pidfd_getfd'', ''faccessat2'', ''process_madvise'',
     ''epoll_pwait2'', ''mount_setattr'', ''quotactl_fd'', ''landlock_create_ruleset'', ''landlock_add_rule'',
     ''landlock_restrict_self'', ''memfd_secret'', ''process_mrelease'', ''futex_waitv'', ''set_mempolicy_home_node'',
     ''cachestat'', ''fchmodat2'', ''map_shadow_stack'', ''futex_wake'', ''futex_wait'',
     ''futex_requeue'', ''statmount'', ''listmount'', ''lsm_get_self_attr'', ''lsm_set_self_attr'',
     ''lsm_list_modules'', ''mseal'', ''setxattrat'', ''getxattrat'', ''listxattrat'',
     ''removexattrat'', ''open_tree_attr'', ''file_getattr'', ''file_setattr'', ''listns'',
     ''rseq_slice_yield'', ''fchroot'']"
  unfolding syscall_i386_def syscall_i386_1_def syscall_i386_2_def syscall_i386_3_def syscall_i386_4_def append.simps list.map fst_conv ..

lemma syscall_i386_numbers:
  "map snd syscall_i386 =
    [0, 1, 2, 3, 4, 5, 6, 7, 8, 9, 10, 11, 12, 13, 14, 15,
     16, 17, 18, 19, 20, 21, 22, 23, 24, 25, 26, 27, 28, 29, 30, 31,
     32, 33, 34, 35, 36, 37, 38, 39, 40, 41, 42, 43, 44, 45, 46, 47,
     48, 49, 50, 51, 52, 53, 54, 55, 56, 57, 58, 59, 60, 61, 62, 63,
     64, 65, 66, 67, 68, 69, 70, 71, 72, 73, 74, 75, 76, 77, 78, 79,
     80, 81, 82, 83, 84, 85, 86, 87, 88, 89, 90, 91, 92, 93, 94, 95,
     96, 97, 98, 99, 100, 101, 102, 103, 104, 105, 106, 107, 108, 109, 110, 111,
     112, 113, 114, 115, 116, 117, 118, 119, 120, 121, 122, 123, 124, 125, 126, 127,
     128, 129, 130, 131, 132, 133, 134, 135, 136, 137, 138, 139, 140, 141, 142, 143,
     144, 145, 146, 147, 148, 149, 150, 151, 152, 153, 154, 155, 156, 157, 158, 159,
     160, 161, 162, 163, 164, 165, 166, 167, 168, 169, 170, 171, 172, 173, 174, 175,
     176, 177, 178, 179, 180, 181, 182, 183, 184, 185, 186, 187, 188, 189, 190, 191,
     192, 193, 194, 195, 196, 197, 198, 199, 200, 201, 202, 203, 204, 205, 206, 207,
     208, 209, 210, 211, 212, 213, 214, 215, 216, 217, 218, 219, 220, 221, 224, 225,
     226, 227, 228, 229, 230, 231, 232, 233, 234, 235, 236, 237, 238, 239, 240, 241,
     242, 243, 244, 245, 246, 247, 248, 249, 250, 252, 253, 254, 255, 256, 257, 258,
     259, 260, 261, 262, 263, 264, 265, 266, 267, 268, 269, 270, 271, 272, 273, 274,
     275, 276, 277, 278, 279, 280, 281, 282, 283, 284, 286, 287, 288, 289, 290, 291,
     292, 293, 294, 295, 296, 297, 298, 299, 300, 301, 302, 303, 304, 305, 306, 307,
     308, 309, 310, 311, 312, 313, 314, 315, 316, 317, 318, 319, 320, 321, 322, 323,
     324, 325, 326, 327, 328, 329, 330, 331, 332, 333, 334, 335, 336, 337, 338, 339,
     340, 341, 342, 343, 344, 345, 346, 347, 348, 349, 350, 351, 352, 353, 354, 355,
     356, 357, 358, 359, 360, 361, 362, 363, 364, 365, 366, 367, 368, 369, 370, 371,
     372, 373, 374, 375, 376, 377, 378, 379, 380, 381, 382, 383, 384, 385, 386, 393,
     394, 395, 396, 397, 398, 399, 400, 401, 402, 403, 404, 405, 406, 407, 408, 409,
     410, 411, 412, 413, 414, 416, 417, 418, 419, 420, 421, 422, 423, 424, 425, 426,
     427, 428, 429, 430, 431, 432, 433, 434, 435, 436, 437, 438, 439, 440, 441, 442,
     443, 444, 445, 446, 447, 448, 449, 450, 451, 452, 453, 454, 455, 456, 457, 458,
     459, 460, 461, 462, 463, 464, 465, 466, 467, 468, 469, 470, 471, 472]"
  unfolding syscall_i386_def syscall_i386_1_def syscall_i386_2_def syscall_i386_3_def syscall_i386_4_def append.simps list.map snd_conv ..

lemma syscall_i386_keys:
  "map (str_key 0) (map fst syscall_i386) =
    [593979512499695749022099795769125996, 1702390132, 1718579819,
     1919246692, 513020621925, 1869636974,
     427021005669, 33602627781552484, 427121009012,
     1818848875, 129117125701227, 111567771498085,
     426953173362, 1953066341, 469953834852,
     426953764708, 119174209697646, 422826041707,
     31362901104419188, 465792492907, 113685442881892,
     470021402228, 129112881852020, 126879582742884,
     113685443209572, 495874305381, 123645437502309,
     418430153325, 8028902626881200500, 482671424357,
     504464239973, 1937011833, 1735685241,
     107079497249651, 1852400485, 440039730533,
     1937337955, 1802071148, 125779969142117,
     469953177970, 491461568882, 6583664,
     1885958245, 499984983411, 1886547814,
     6451819, 126879581825380, 113685442292068,
     126896544047468, 29103473194002788, 29103473193085284,
     1633903476, 33052897754117170, 1819239275,
     452840354924, 439754847340, 7172216,
     32481173098162532, 129108485695860, 134702634260683822251208037,
     504346276715, 109300247654260, 504448180596,
     1685418034, 29103473378224484, 29103473377636976,
     126879582611812, 2128970714852964790126, 8315726787688625003,
     8319104487409152875, 8315180321686776164, 8315180321685858660,
     545016508088695598181988, 545016507226656806104679, 139505575618125185830448485,
     2128686162381678406004, 1907325233497163786612, 1907325233535985477477,
     31999607461310784730028073337, 35713427579166925554725446009, 1907325221428406874227,
     2128686150312921493619, 126879447475060, 32503133198970475,
     8028902652651004276, 8243101776915033707, 129138483292514,
     126956573060974, 125779768733556, 32199616315550066,
     1835884912, 120351131263344, 8390898172718838885,
     1889958793691093103717, 112577139797860, 112577139930990,
     124998466360043796444050553, 139505576195419346540524665, 123636797565292,
     126943688418931, 28837391312905843, 115927347982957,
     545126898053373780651116, 126965464723303, 2128686152520433493362,
     1907325223635918873970, 1937006964, 465793474932,
     440023671156, 8028902691220581733, 1768910956,
     33328814925247856, 1768189029, 33334135450725476,
     512735409204, 32500882703607398, 32503158918768239,
     6910051, 440024002147, 2128970733553253184110,
     427021004389, 9142637384819548548075198967141, 504363052389,
     516792770651920913949812, 7017851167567603064, 7885928770545476468,
     139524225853684412342956907, 7878991941756259665493827611749, 127458616666320820201942117,
     7954205280513049751076753206373, 536864319796817784739645207025905011, 8175563244201800812,
     29103473377634660, 112577139206514, 27694938786722664,
     495958845043, 135878762058421106108888185, 117749614137414802777140332,
     8315180270382049636, 8315180270381132132, 26859335835805035,
     7450489133101642867, 450661269160123852743540, 439905903467,
     470088773219, 491327153270, 131333279212918,
     113685443078500, 1888801085956805979747, 26867088251647084,
     469970674539, 30809889587553131, 7884799520412888172,
     516904172546529796648044, 2340353001525380873294668729835885, 2340353001525380008603540274700653,
     10051739602646948964744577447336006321464690, 10051739602646945250924459591195181624092018, 139495909304939586326457444,
     43171892861276664887021487182820027378251303977050488, 43171892861276664887021487182820027378251303977052526, 168640206489362029592203124216821197268800645783916,
     2036162519518698366320, 120338095366512, 2128686162351781931364,
     1907325233467267311972, 1986869302, 35113729501396327942967356517,
     1886350444, 521350200115658318115948, 2128686162351781013860,
     1907325233467266394468, 482955457644, 35421977268495240988439442030,
     35421977268495222288151048046, 2321414702268103972956778942002027, 9068026180734781130064488132199,
     594282163780634690214832568432421236, 594282163780634635737057272192198255, 9068026180734781992103280209508,
     31650977142814260, 8104071851726419508, 426953897838,
     113685442033508, 109270148801908, 109270149588340,
     139524224771137218308825963, 8315173664503458917, 29103473378030439,
     31654340354470759, 508524720747, 554424203729245653789044,
     469986537522, 549905902647301825181236, 123860339503339477645211188,
     126943688406580, 30526241173157428, 28837391312893492,
     7810201006744941362, 7450489206182523698, 7450489146052981554,
     1907325219242166727474, 1907325219182037185330, 544943657562064562697010,
     544943657562004433154866, 124998465711532072909353778, 139505575546907623005827890,
     7377855442517373746, 139505576335886380653884210, 124998466500510830557410098,
     139505576335886320524342066, 124998466500510770427867954, 27980850648724274,
     8315180334637658930, 8315180274508116786, 544943654199758004958002,
     544943654199697875415858, 530850488376911947853684, 30796695297028709,
     30787856572707685, 488275255826949266945588, 28819773675288116,
     113685443144036, 2110234054842986619236, 8315180347389408370,
     2000563540308020982898, 1889883075865763673202, 7450489218934273138,
     1999698849179565847666, 1889018384737308537970, 1999846905017315652722,
     512015427054938998731890, 483681228157721127449714, 138296521177660147591574642,
     33562677581882927569867928690, 31705767522954857157519242354, 500018277484,
     544943221276898683598388, 440057226616, 39264607822839644393532209459206845723769,
     39264607822839629886422374083656749249657, 599171882110130215108338391840875873, 536864319807712283565972435890234721,
     7597396045625324912, 497902943023972331188089, 32630567329359547917184955507,
     1944933387748500138356, 1944933370070615418220, 1888585759833003996724,
     479180222862048499823984, 2199329045979206402887402157468005, 31393911866489718521882309733,
     1871222964912040146028, 479033079017482611681652, 152058632004748641696186713802470286707,
     599171882110134678788058687084000115, 36027714959644763457501361253, 9223095029669063934491067247973,
     9223095029669060556791346720101, 154737857501284237478367297738659493230, 36027714959644764501296116837,
     7877147130233813285610086559077, 7877147130233809907910366031205, 30770105977475819952774735219,
     516236714327003094962097583550719344, 8319381564223075892, 1889887277082597340724,
     127987532524652, 129142845433203, 31685211227242431981908080180,
     33340926801110386, 469802511972, 8191899410999077519105286824825,
     9142637361170249570227814228857, 30805427166930286, 2018864481400540196459,
     33870925460378090382897278564, 568259832568662664021108826082735717, 2018864473708387985017,
     8670956856392748229333156656242, 507165010268015393988964, 131260264769892,
     27413455001314681, 138296595392212308002039161, 118083572429932,
     497904171948101164295540, 497904171948101163509108, 32629434201495643778551015796,
     35876442312296362064579378694036301046632, 140142352782407664315990705002167690088, 8668490699592974773824090760563,
     122528528753012, 30798851471466868, 30798894520885620,
     7377855442517385588, 1890031401036684681588, 1889887277082513520180,
     8461819949955637620, 8243116057697804660, 119200079896948,
     2130125337327729074548, 540219918051903649046900, 7377855433792577908,
     1888585457450127417716, 8102931670801544246, 482922687596,
     33054014226657893, 599171882107745126044589688212779892, 536864319805327194502223732262138740,
     126926692377445, 599577056145771149756126077375113061, 7628133,
     8533603795629335397, 516794066554978486936947, 113685442031733,
     122632468228475518894303604, 2166657412687383978356, 8316291910694889060,
     2361112327595408411866768397661285, 28559150664672868, 1888588000663202526309,
     604444755864424553442382080520056165, 604444755864424553439004380799528293, 2128970729137891599412,
     7311142570156254258, 8036841437821367941601871291697, 1685418035,
     482805310770, 8353135155582884807309060043825, 123636629464182,
     31656530670806390, 38946875905655328849106456544804384695919, 583594835219194236922784437190550894,
     8243104053264741223, 8111426130577887317770235701620, 8111426130577887317770301960811,
     2074280417191919892020, 37560563493338028426983761983879029678452, 37920742924357000141866111203824331874676,
     7877147130233808217918044466533, 126965380245107, 8315173664621163367,
     495623368307, 149467716592235199656796680360443339894, 38263735447612211112139950177827022988662,
     1801678192, 31694929618443517830129609829, 9142003912208519036307049313394,
     9142003912208515658607328785522, 2110237710770637993010, 32481099866140016,
     1907325233450002444141, 33856484205054827216907629669, 6451302,
     7311705472898523508, 126922246546804, 545126898053373998754162,
     1651076708, 27988542783578996, 119200164373870,
     27412351295714356, 488275260060021638000756, 544943657854457380565108,
     124998466575365539310431589, 124998466356380236517567845, 126879480968303,
     32481147127427943, 8243104053147627373, 32199625208066919,
     8316025854701303662, 141989264404976392211818084, 516608949753678018471282,
     120312492682034, 516297647578172635593665362627815269, 31650977142830642,
     8104071851726435890, 8906791772322941853377143071604, 530886159677629234179939,
     2073774061240823473509, 495873782904, 460179640742902367482988,
     8353425278853159440368821761139, 1920165233, 126879464383860,
     126879464125548, 126892349285748, 126892349027436,
     495673237876, 495673238644, 120342423496052,
     120342424284772, 120342424216438, 120342423237740,
     516236714327002966124813748221064756, 516236714327003187485742632735684148, 516236714327002855369476962158720564,
     2217219805028972389201061384611434384746427956, 37198775588448965315367129521403172499432790976443956, 604444755864391552649877698648553012,
     604444755864391774010806583163172404, 39612891520330927534178591100077886223924, 39612891520330927534399952028962400843316,
     156124120262694807316840991121455003188, 583877760851686803700706281806706228, 34798246974524532931032331828,
     601927727569765927928488553374650395836830529076, 593978245482549020562431277105755700, 2440657396512841816428107390341226610892813876,
     40947436323293593928026420346268498936454147922540084, 39267292544952107627125040704879927309876, 42822542901686375443629608563928621793754795907298868,
     31709464988979052350372394548, 12151807537682789406126266029550455997684790294289703416273979127348, 38251715341146513962610198533543711105388,
     2138476877483057301287582116902256, 2138476877483057301287522138350962, 35877688484538788684078771221067229062514,
     2055687593042910537061, 516794066554965837835892, 112645976909166,
     7382353544435100007, 28837361483083380, 112645993227115,
     530849188789352238441838, 109317377123635, 120195727625747623614244709,
     31367303360771122, 135897392330074138497803876, 483477877107232618935346,
     583858267938418748656815585270264677, 31393911866489732836941722674, 8670364516072890392755913913458,
     137163190469634359818151524, 10380798248000318032745369795731996628571274837706892660, 36880003932539004668261839446353896631397,
     40549993156251242315412785180725347951584117067705446, 33856484205054844753226655092, 149467716592235199656149575960285508453,
     123865097613199435994068086, 11052770365292074416055979581085991322002463268304544869, 1833245230726556967284,
     1888730991050899944498, 145391783528101720605631824667288363883, 483848037551560296852325,
     483848037551560296851828, 8117623037178636834364784473445, 2129761680471109234292,
     1999846904970305957492, 36903924742355011433658353204660511470706, 36903924743305749383829525255783038874738,
     144155956026376519828689371953653114227, 470087459180, 544943659246512266961268,
     488275261452076524396916, 131061966767214798616813940, 9063400811899135432561435763060,
     2260252411625538017621092141921394, 31694920098412609346349593714, 31694920098415987046070121586,
     119200164376179, 152131163163904861980831955995263855716, 28819747872141172]"
  unfolding syscall_i386_names by simp

lemma syscall_i386_distinct_names: "distinct (map fst syscall_i386)"
  by (rule distinct_by_key [where f = "str_key 0"], unfold syscall_i386_keys, simp only: all_diff_eval)

lemma syscall_i386_distinct_numbers: "distinct (map snd syscall_i386)"
  by (rule successively_less_distinct) (simp add: syscall_i386_numbers)

lemma syscall_i386_range: "list_all (\<lambda>n. 0 \<le> n \<and> n < 1024) (map snd syscall_i386)"
  unfolding syscall_i386_numbers by simp

end
