(* ===== verification/Linux_x86_64.thy ===== *)
theory Linux_x86_64 imports Syscall_x86_64 Syscall_i386 Syscall_Lists begin

text \<open>
  The build for Linux on x86_64: the architecture symbols, the errno values of the
  kernel headers and the two system call tables. It is the platform at which the properties
  are instantiated, and the one for which the tables are shown to be well-formed.
\<close>

definition linux_errnos :: "(string \<times> int) list" where
  "linux_errnos =
    [(''EPERM'', 1), (''ENOENT'', 2), (''ESRCH'', 3), (''EINTR'', 4), (''EIO'', 5), (''ENXIO'', 6),
     (''E2BIG'', 7), (''ENOEXEC'', 8), (''EBADF'', 9), (''ECHILD'', 10), (''EAGAIN'', 11),
     (''ENOMEM'', 12), (''EACCES'', 13), (''EFAULT'', 14), (''ENOTBLK'', 15), (''EBUSY'', 16),
     (''EEXIST'', 17), (''EXDEV'', 18), (''ENODEV'', 19), (''ENOTDIR'', 20), (''EISDIR'', 21),
     (''EINVAL'', 22), (''ENFILE'', 23), (''EMFILE'', 24), (''ENOTTY'', 25), (''ETXTBSY'', 26),
     (''EFBIG'', 27), (''ENOSPC'', 28), (''ESPIPE'', 29), (''EROFS'', 30), (''EMLINK'', 31),
     (''EPIPE'', 32), (''EDOM'', 33), (''ERANGE'', 34), (''EDEADLK'', 35), (''ENAMETOOLONG'', 36),
     (''ENOLCK'', 37), (''ENOSYS'', 38), (''ENOTEMPTY'', 39), (''ELOOP'', 40),
     (''EWOULDBLOCK'', 11), (''ENOMSG'', 42), (''EIDRM'', 43), (''ECHRNG'', 44),
     (''EL2NSYNC'', 45), (''EL3HLT'', 46), (''EL3RST'', 47), (''ELNRNG'', 48), (''EUNATCH'', 49),
     (''ENOCSI'', 50), (''EL2HLT'', 51), (''EBADE'', 52), (''EBADR'', 53), (''EXFULL'', 54),
     (''ENOANO'', 55), (''EBADRQC'', 56), (''EBADSLT'', 57), (''EDEADLOCK'', 35), (''EBFONT'', 59),
     (''ENOSTR'', 60), (''ENODATA'', 61), (''ETIME'', 62), (''ENOSR'', 63), (''ENONET'', 64),
     (''ENOPKG'', 65), (''EREMOTE'', 66), (''ENOLINK'', 67), (''EADV'', 68), (''ESRMNT'', 69),
     (''ECOMM'', 70), (''EPROTO'', 71), (''EMULTIHOP'', 72), (''EDOTDOT'', 73), (''EBADMSG'', 74),
     (''EOVERFLOW'', 75), (''ENOTUNIQ'', 76), (''EBADFD'', 77), (''EREMCHG'', 78),
     (''ELIBACC'', 79), (''ELIBBAD'', 80), (''ELIBSCN'', 81), (''ELIBMAX'', 82),
     (''ELIBEXEC'', 83), (''EILSEQ'', 84), (''ERESTART'', 85), (''ESTRPIPE'', 86),
     (''EUSERS'', 87), (''ENOTSOCK'', 88), (''EDESTADDRREQ'', 89), (''EMSGSIZE'', 90),
     (''EPROTOTYPE'', 91), (''ENOPROTOOPT'', 92), (''EPROTONOSUPPORT'', 93),
     (''ESOCKTNOSUPPORT'', 94), (''EOPNOTSUPP'', 95), (''EPFNOSUPPORT'', 96),
     (''EAFNOSUPPORT'', 97), (''EADDRINUSE'', 98), (''EADDRNOTAVAIL'', 99), (''ENETDOWN'', 100),
     (''ENETUNREACH'', 101), (''ENETRESET'', 102), (''ECONNABORTED'', 103), (''ECONNRESET'', 104),
     (''ENOBUFS'', 105), (''EISCONN'', 106), (''ENOTCONN'', 107), (''ESHUTDOWN'', 108),
     (''ETOOMANYREFS'', 109), (''ETIMEDOUT'', 110), (''ECONNREFUSED'', 111), (''EHOSTDOWN'', 112),
     (''EHOSTUNREACH'', 113), (''EALREADY'', 114), (''EINPROGRESS'', 115), (''ESTALE'', 116),
     (''EUCLEAN'', 117), (''ENOTNAM'', 118), (''ENAVAIL'', 119), (''EISNAM'', 120),
     (''EREMOTEIO'', 121), (''EDQUOT'', 122), (''ENOMEDIUM'', 123), (''EMEDIUMTYPE'', 124),
     (''ECANCELED'', 125), (''ENOKEY'', 126), (''EKEYEXPIRED'', 127), (''EKEYREVOKED'', 128),
     (''EKEYREJECTED'', 129), (''EOWNERDEAD'', 130), (''ENOTRECOVERABLE'', 131),
     (''ERFKILL'', 132), (''EHWPOISON'', 133), (''ENOTSUP'', 95)]"

definition linux_x86_64 :: platform where
  "linux_x86_64 =
     \<lparr>defined = (\<lambda>s. s = ''__x86_64__'' \<or> s = ''__LP64__''), big_endian = False, mips_sim = [],
      audit = (\<lambda>s. if s = ''X86_64'' then 0xC000003E else 0x40000003),
      SYS = map_of syscall_x86_64,
      errno_val = (\<lambda>n. case map_of linux_errnos n of Some v \<Rightarrow> v | None \<Rightarrow> 61),
      have_ENOATTR = False, syslist = syscall_x86_64, syslist32 = syscall_i386\<rparr>"

lemma linux_x86_64_simps [simp]:
  "def_x86_64 linux_x86_64"
  "defined linux_x86_64 ''__LP64__''"
  "\<not> big_endian linux_x86_64"
  "syslist linux_x86_64 = syscall_x86_64"
  "syslist32 linux_x86_64 = syscall_i386"
  "SYS linux_x86_64 = map_of syscall_x86_64"
  by (simp_all add: linux_x86_64_def)

lemma linux_x86_64_arch [simp]:
  "ARCH_NR linux_x86_64 = 0xC000003E"
  "ARCH_32 linux_x86_64 = 0x40000003"
  by (simp_all add: ARCH_NR_def ARCH_32_def arch_names_def linux_x86_64_def)

lemma syscall_x86_64_names_ok: "list_all name_ok (map fst syscall_x86_64)"
  unfolding syscall_x86_64_names by (simp add: name_ok_def)

lemma syscall_i386_names_ok: "list_all name_ok (map fst syscall_i386)"
  unfolding syscall_i386_names by (simp add: name_ok_def)

lemma table_ok_x86_64: "table_ok syscall_x86_64"
  using syscall_x86_64_names_ok syscall_x86_64_range
  by (auto simp: table_ok_def list_all_iff syscall_x86_64_distinct_names
      syscall_x86_64_distinct_numbers)

lemma table_ok_i386: "table_ok syscall_i386"
  using syscall_i386_names_ok syscall_i386_range
  by (auto simp: table_ok_def list_all_iff syscall_i386_distinct_names syscall_i386_distinct_numbers)

lemma linux_table [simp]:
  "table linux_x86_64 native = (if native then syscall_x86_64 else syscall_i386)"
  by (simp add: table_def)

lemma linux_table_ok: "table_ok (table linux_x86_64 native)"
  by (simp add: table_ok_x86_64 table_ok_i386)

lemma linux_find_name:
  "(w, n) \<in> set (if native then syscall_x86_64 else syscall_i386) \<Longrightarrow>
   find_name linux_x86_64 native w = n"
  by (rule find_name_entry [OF linux_table_ok]) simp

lemma linux_calls [simp]:
  "find_name linux_x86_64 True ''mount'' = 165"
  "find_name linux_x86_64 True ''execve'' = 59"
  "find_name linux_x86_64 True ''read'' = 0"
  by (rule linux_find_name; simp add: syscall_x86_64_def syscall_x86_64_1_def syscall_x86_64_2_def
      syscall_x86_64_3_def)+

end
