(* ===== verification/Seccomp_Policy.thy ===== *)
theory Seccomp_Policy imports Seccomp Linux_x86_64 begin

text \<open>
  The filters of fseccomp/seccomp.c as policies. Each builder yields the header of
  \<^verbatim>\<open>filter_init\<close>, a decision list and a final verdict (\<open>*_filter\<close> lemmas), and such
  a program computes \<open>verdict\<close> on every machine that satisfies \<open>bpf_machine\<close>.
  The last part specialises the decision lists to lists without error codes, where the
  policy is membership in sets of numbers.
\<close>

section \<open>Shape and meaning of the programs\<close>

definition init_code :: "platform \<Rightarrow> bool \<Rightarrow> u32 \<Rightarrow> sock_filter list" where
  "init_code P native a = out (filter_init P native (new_file a))"

definition blacklist_filter :: "platform \<Rightarrow> bool \<Rightarrow> u32 \<Rightarrow> rule list \<Rightarrow> sock_filter list" where
  "blacklist_filter P native a rs = init_code P native a @ rules_code rs @ [RETURN_ALLOW]"

definition whitelist_filter :: "platform \<Rightarrow> bool \<Rightarrow> u32 \<Rightarrow> rule list \<Rightarrow> sock_filter list" where
  "whitelist_filter P native a rs = init_code P native a @ rules_code rs @ [KILL_OR_RETURN_ERRNO a]"

text \<open>The header: a foreign architecture is allowed, an x32 call is refused.\<close>

definition guarded :: "platform \<Rightarrow> bool \<Rightarrow> u32 \<Rightarrow> seccomp_data \<Rightarrow> u32 \<Rightarrow> u32" where
  "guarded P native a d v =
     (if sd_arch d \<noteq> (if native then ARCH_NR P else ARCH_32 P) then SECCOMP_RET_ALLOW
      else if native \<and> def_x86_64 P \<and> X32_SYSCALL_BIT \<le> sd_nr d then a
      else v)"

definition verdict :: "platform \<Rightarrow> bool \<Rightarrow> u32 \<Rightarrow> rule list \<Rightarrow> u32 \<Rightarrow> seccomp_data \<Rightarrow> u32" where
  "verdict P native a rs final d =
     guarded P native a d (case map_of rs (sd_nr d) of Some v \<Rightarrow> v | None \<Rightarrow> final)"

lemma filter_init_new:
  "filter_init P native (new_file a) = \<lparr>out = init_code P native a, error_action = a, ptrarg = ()\<rparr>"
  by (simp add: init_code_def filter_init_def new_file_def write_to_file_def)

lemma init_code_eq:
  "init_code P native a =
     (if native
      then VALIDATE_ARCHITECTURE P @ EXAMINE_SYSCALL # (if def_x86_64 P then HANDLE_X32 a else [])
      else VALIDATE_ARCHITECTURE_32 P @ [EXAMINE_SYSCALL])"
  by (simp add: init_code_def filter_init_def new_file_def write_to_file_def)

context bpf_machine
begin

lemma exec_init:
  "\<exists>v. exec (data_word P d) p (sd_nr d) = Some v \<Longrightarrow>
   exec (data_word P d) (init_code P native a @ p) A =
     Some (guarded P native a d (the (exec (data_word P d) p (sd_nr d))))"
  by (auto simp: init_code_eq guarded_def exec_macros)

lemma exec_blacklist_filter:
  "exec (data_word P d) (blacklist_filter P native a rs) A =
     Some (verdict P native a rs SECCOMP_RET_ALLOW d)"
  unfolding blacklist_filter_def verdict_def
  by (subst exec_init) (auto simp: exec_macros split: option.split)

lemma exec_whitelist_filter:
  "exec (data_word P d) (whitelist_filter P native a rs) A = Some (verdict P native a rs a d)"
  unfolding whitelist_filter_def verdict_def
  by (subst exec_init) (auto simp: exec_macros split: option.split)

end

section \<open>The decision list of each builder\<close>

abbreviation list_rules :: "(int \<Rightarrow> rule list) \<Rightarrow> (int \<times> int) list \<Rightarrow> rule list" where
  "list_rules plain es \<equiv> concat (map (entry_rules plain) es)"

definition group_entries :: "platform \<Rightarrow> bool \<Rightarrow> string \<Rightarrow> (int \<times> int) list" where
  "group_entries P native name = name_entries P native (closure (item_present P) 3 name)"

definition default_group :: "bool \<Rightarrow> string" where
  "default_group allow_debuggers = (if allow_debuggers then ''@default'' else ''@default-nodebuggers'')"

lemma sysgroup_entries:
  assumes "name \<in> set (map sg_name sysgroups)" and "hd name = CHR ''@''" and "CHR '','' \<notin> set name"
  shows "list_entries P native name = Inr (group_entries P native name)"
proof -
  have "find_sysgroup name \<noteq> None" using assms(1) find_sysgroup_ex by fastforce
  then show ?thesis using assms by (simp add: list_entries_group group_entries_def)
qed

lemma default_keep_entries:
  "list_entries P native ''@default-keep'' = Inr (group_entries P native ''@default-keep'')"
  by (rule sysgroup_entries) (simp_all add: sysgroups_names)

lemma default_group_entries:
  "list_entries P native (default_group dbg) = Inr (group_entries P native (default_group dbg))"
  by (rule sysgroup_entries) (simp_all add: sysgroups_names default_group_def)

text \<open>The numbers of \<^verbatim>\<open>@default-keep\<close>, which firejail itself needs before exec.\<close>

definition keep_numbers :: "platform \<Rightarrow> bool \<Rightarrow> int set" where
  "keep_numbers P native = entry_number ` set (group_entries P native ''@default-keep'')"

definition drop_pre_rules :: "platform \<Rightarrow> bool \<Rightarrow> u32 \<Rightarrow> (int \<times> int) list \<Rightarrow> rule list" where
  "drop_pre_rules P native a es =
     list_rules (listed a) (map reparse (filter (\<lambda>e. fst e \<in> numbers P native)
       (pre_entries (keep_numbers P native) es)))"

definition drop_post_rules :: "platform \<Rightarrow> bool \<Rightarrow> u32 \<Rightarrow> (int \<times> int) list \<Rightarrow> rule list" where
  "drop_post_rules P native a es =
     map (\<lambda>e. (u32_of_int (fst e), a)) (filter (\<lambda>e. fst e \<in> numbers P native)
       (post_entries (keep_numbers P native) es))"

definition drop_post_filter ::
    "platform \<Rightarrow> bool \<Rightarrow> u32 \<Rightarrow> (int \<times> int) list \<Rightarrow> sock_filter list option" where
  "drop_post_filter P native a es =
     (if post_entries (keep_numbers P native) es = [] then None
      else Some (blacklist_filter P native a (drop_post_rules P native a es)))"

lemma add_default_list_rules:
  assumes "0 < fd"
  shows "add_default_list P fd dbg native st =
    Inr (appends st (list_rules (listed (error_action st)) (group_entries P native (default_group dbg))))"
  using default_group_entries [of P native dbg]
  by (simp add: add_default_list_def check_list_builders [OF assms] default_group_def split: if_splits)

lemma seccomp_default_filter:
  assumes "0 < fd"
  shows "seccomp_default P fd dbg native a =
    Inr (blacklist_filter P native a
      (list_rules (listed a) (group_entries P native (default_group dbg))))"
  using assms
  by (simp add: seccomp_default_def add_default_list_rules filter_init_new filter_end_blacklist_def
      write_to_file_def blacklist_filter_def)

lemma seccomp_keep_filter:
  assumes "0 < fd"
  shows "seccomp_keep P fd l native a =
    (case list_entries P native l of Inl e \<Rightarrow> Inl e
     | Inr es \<Rightarrow> Inr (whitelist_filter P native a
         (list_rules (excluded a) es @
          list_rules (listed SECCOMP_RET_ALLOW) (group_entries P native ''@default-keep'') @
          list_rules (listed SECCOMP_RET_ALLOW) es)))"
  using assms
  by (simp add: seccomp_keep_def check_list_builders [OF assms] filter_init_new default_keep_entries
      filter_end_whitelist_def write_to_file_def whitelist_filter_def split: sum.split)

lemma add_prelist_rules:
  assumes "0 < fd" and "table_ok (table P native)" and "list_entries P native l = Inr es"
  shows "add_prelist P fd (opt_join (map (pre_word P native) (pre_entries (keep_numbers P native) es)))
      native st =
    Inr (appends st (drop_pre_rules P native (error_action st) es))"
proof (cases "pre_entries (keep_numbers P native) es = []")
  case True
  then show ?thesis by (simp add: add_prelist_def opt_join_def drop_pre_rules_def)
next
  case False
  have "entry_ok P e" if "e \<in> set (pre_entries (keep_numbers P native) es)" for e
    using that list_entries_ok [OF assms(3)] by (simp add: pre_entries_def)
  from list_entries_prelist [OF assms(2) this False] show ?thesis
    using False assms(1)
    by (simp add: add_prelist_def opt_join_def drop_pre_rules_def check_list_builders)
qed

lemma post_filter_rules:
  assumes "0 < fd" and "table_ok (table P native)"
  shows "post_filter P fd (opt_join (map (\<lambda>e. find_nr P native (fst e))
      (post_entries (keep_numbers P native) es))) native a =
    Inr (drop_post_filter P native a es)"
proof (cases "post_entries (keep_numbers P native) es = []")
  case True
  then show ?thesis by (simp add: post_filter_def opt_join_def drop_post_filter_def)
next
  case False
  let ?es = "map (\<lambda>e. (fst e, -1)) (post_entries (keep_numbers P native) es)"
  have words: "map (\<lambda>e. find_nr P native (fst e)) (post_entries (keep_numbers P native) es) =
      map (pre_word P native) ?es"
    by (simp add: pre_word_def comp_def)
  have "list_entries P native (join_on (CHR '','') (map (pre_word P native) ?es)) =
      Inr (map reparse (filter (\<lambda>e. fst e \<in> numbers P native) ?es))"
    using False by (intro list_entries_prelist assms(2)) (auto simp: entry_ok_def)
  moreover have "list_rules (listed a) (map reparse (filter (\<lambda>e. fst e \<in> numbers P native) ?es)) =
      drop_post_rules P native a es"
    unfolding drop_post_rules_def post_entries_def
    by (induction es)
       (auto simp: reparse_def entry_rules_def listed_def ERRNO_KILL_def ERRNO_LOG_def)
  ultimately show ?thesis
    using False assms(1)
    by (simp add: post_filter_def opt_join_def words drop_post_filter_def check_list_builders
        filter_init_new filter_end_blacklist_def write_to_file_def blacklist_filter_def del: map_map)
qed

lemma seccomp_drop_filter:
  assumes "0 < fd1" and "0 < fd2" and "table_ok (table P native)"
  shows "seccomp_drop P fd1 fd2 l native a =
    (case list_entries P native l of Inl e \<Rightarrow> Inl e
     | Inr es \<Rightarrow> Inr
         (blacklist_filter P native a
            (list_rules (excluded SECCOMP_RET_ALLOW) es @ drop_pre_rules P native a es),
          drop_post_filter P native a es))"
proof (cases "list_entries P native l")
  case (Inl e)
  with assms(1) show ?thesis by (simp add: seccomp_drop_def check_list_builders filter_init_new)
next
  case (Inr es)
  with assms show ?thesis
    by (simp add: seccomp_drop_def check_list_builders filter_init_new
        syscalls_in_list_eq [OF default_keep_entries, folded keep_numbers_def]
        add_prelist_rules [OF assms(1,3) Inr] post_filter_rules filter_end_blacklist_def
        write_to_file_def blacklist_filter_def)
qed

lemma seccomp_default_drop_filter:
  assumes "0 < fd1" and "0 < fd2" and "table_ok (table P native)"
  shows "seccomp_default_drop P fd1 fd2 l dbg native a =
    (case list_entries P native l of Inl e \<Rightarrow> Inl e
     | Inr es \<Rightarrow> Inr
         (blacklist_filter P native a
            (list_rules (excluded SECCOMP_RET_ALLOW) es @
             list_rules (listed a) (group_entries P native (default_group dbg)) @
             drop_pre_rules P native a es),
          drop_post_filter P native a es))"
proof (cases "list_entries P native l")
  case (Inl e)
  with assms(1) show ?thesis
    by (simp add: seccomp_default_drop_def check_list_builders filter_init_new)
next
  case (Inr es)
  with assms show ?thesis
    by (simp add: seccomp_default_drop_def check_list_builders filter_init_new add_default_list_rules
        syscalls_in_list_eq [OF default_keep_entries, folded keep_numbers_def]
        add_prelist_rules [OF assms(1,3) Inr] post_filter_rules filter_end_blacklist_def
        write_to_file_def blacklist_filter_def)
qed

section \<open>Lists without error codes\<close>

definition simple_entries :: "(int \<times> int) list \<Rightarrow> bool" where
  "simple_entries es \<longleftrightarrow> list_all (\<lambda>e. snd e = -1) es"

definition listed_numbers :: "(int \<times> int) list \<Rightarrow> int set" where
  "listed_numbers es = {n \<in> fst ` set es. 0 \<le> n}"

text \<open>The calls exempted with \<^verbatim>\<open>!name\<close>, which the traversal passes as complements.\<close>

definition excluded_numbers :: "(int \<times> int) list \<Rightarrow> int set" where
  "excluded_numbers es = (\<lambda>n. NOT n) ` {n \<in> fst ` set es. n < 0}"

definition small_entries :: "(int \<times> int) list \<Rightarrow> bool" where
  "small_entries es \<longleftrightarrow> list_all (\<lambda>e. - 2147483648 \<le> fst e \<and> fst e < 2147483648) es"

lemma list_entries_small:
  "table_ok (table P native) \<Longrightarrow> list_entries P native l = Inr es \<Longrightarrow> small_entries es"
  by (auto simp: small_entries_def list_all_iff dest: list_entries_range)

lemma u32_eq_iff: "0 \<le> n \<Longrightarrow> n < 4294967296 \<Longrightarrow> k = u32_of_int n \<longleftrightarrow> uint k = n"
  by (auto simp: uint_word_of_int)

lemma entry_rules_simple: "snd e = -1 \<Longrightarrow> entry_rules plain e = plain (fst e)"
  by (simp add: entry_rules_def ERRNO_KILL_def ERRNO_LOG_def)

lemma map_of_listed:
  assumes "simple_entries es" and "small_entries es"
  shows "map_of (list_rules (listed v) es) k = (if uint k \<in> listed_numbers es then Some v else None)"
  using assms
  by (induction es)
     (auto simp: simple_entries_def small_entries_def listed_numbers_def entry_rules_simple listed_def
       u32_eq_iff)

lemma map_of_excluded:
  assumes "simple_entries es" and "small_entries es"
  shows "map_of (list_rules (excluded v) es) k = (if uint k \<in> excluded_numbers es then Some v else None)"
  using assms
proof (induction es)
  case Nil
  show ?case by (simp add: excluded_numbers_def)
next
  case (Cons e es)
  have "excluded_numbers (e # es) =
      (if fst e < 0 then insert (NOT (fst e)) (excluded_numbers es) else excluded_numbers es)"
    by (auto simp: excluded_numbers_def)
  moreover have "k = u32_of_int (NOT (fst e)) \<longleftrightarrow> uint k = NOT (fst e)" if "fst e < 0"
    using that Cons.prems(2) by (intro u32_eq_iff) (simp_all add: small_entries_def not_int_def)
  ultimately show ?case
    using Cons
    by (auto simp: simple_entries_def small_entries_def entry_rules_simple excluded_def
        simp del: of_int_not_eq)
qed

lemma numbers_range:
  assumes "table_ok (table P native)" and "n \<in> numbers P native"
  shows "0 \<le> n" and "n < 1073741824"
  using assms table_okD(2,3) [OF assms(1)] by (auto simp: numbers_def)

definition group_numbers :: "platform \<Rightarrow> bool \<Rightarrow> string \<Rightarrow> int set" where
  "group_numbers P native name = fst ` set (group_entries P native name)"

lemma group_numbers_subset:
  assumes "table_ok (table P native)"
  shows "group_numbers P native name \<subseteq> numbers P native"
proof
  fix n assume "n \<in> group_numbers P native name"
  then obtain w where "map_of (table P native) w = Some n"
    by (auto simp: group_numbers_def group_entries_def name_entries_def find_name_table
        split: option.splits)
  then have "(w, n) \<in> set (table P native)" by (rule map_of_SomeD)
  then show "n \<in> numbers P native" by (auto simp: numbers_def image_iff intro: bexI [of _ "(w, n)"])
qed

lemma group_entries_facts:
  assumes "table_ok (table P native)"
  shows "simple_entries (group_entries P native name)" and "small_entries (group_entries P native name)"
    and "listed_numbers (group_entries P native name) = group_numbers P native name"
proof -
  have r: "0 \<le> fst e \<and> fst e < 1073741824" if "e \<in> set (group_entries P native name)" for e
    using that group_numbers_subset [OF assms, of name] numbers_range [OF assms, of "fst e"]
    by (auto simp: group_numbers_def)
  then show "small_entries (group_entries P native name)"
    by (fastforce simp: small_entries_def list_all_iff)
  show "listed_numbers (group_entries P native name) = group_numbers P native name"
    using r by (auto simp: listed_numbers_def group_numbers_def)
  show "simple_entries (group_entries P native name)"
    by (auto simp: simple_entries_def list_all_iff group_entries_def name_entries_def)
qed

lemma map_of_group:
  assumes "table_ok (table P native)"
  shows "map_of (list_rules (listed v) (group_entries P native name)) k =
    (if uint k \<in> group_numbers P native name then Some v else None)"
  using map_of_listed [OF group_entries_facts(1,2) [OF assms]] group_entries_facts(3) [OF assms]
  by simp

lemma keep_numbers_eq:
  assumes "table_ok (table P native)"
  shows "keep_numbers P native = group_numbers P native ''@default-keep''"
  unfolding keep_numbers_def group_numbers_def
proof (rule image_cong)
  fix e assume "e \<in> set (group_entries P native ''@default-keep'')"
  then have "fst e \<in> group_numbers P native ''@default-keep''" by (simp add: group_numbers_def)
  then have "0 \<le> fst e"
    using group_numbers_subset [OF assms] numbers_range(1) [OF assms] by blast
  then show "entry_number e = fst e" by (simp add: entry_number_def)
qed simp

lemma drop_pre_simple:
  assumes "table_ok (table P native)" and "simple_entries es"
  shows "map_of (drop_pre_rules P native a es) k =
    (if uint k \<in> listed_numbers es \<inter> numbers P native - keep_numbers P native then Some a else None)"
proof -
  let ?es = "filter (\<lambda>e. fst e \<in> numbers P native) (pre_entries (keep_numbers P native) es)"
  have simple: "simple_entries ?es"
    using assms(2) by (simp add: simple_entries_def pre_entries_def list_all_iff)
  then have "map reparse ?es = ?es"
    by (intro map_idI) (auto simp: simple_entries_def list_all_iff reparse_def)
  moreover have "small_entries ?es"
    using numbers_range [OF assms(1)] by (fastforce simp: small_entries_def list_all_iff)
  moreover have "listed_numbers ?es = listed_numbers es \<inter> numbers P native - keep_numbers P native"
    by (auto simp: listed_numbers_def pre_entries_def)
  ultimately show ?thesis by (simp add: drop_pre_rules_def map_of_listed [OF simple])
qed

lemma drop_post_simple:
  assumes "table_ok (table P native)"
  shows "map_of (drop_post_rules P native a es) k =
    (if uint k \<in> listed_numbers es \<inter> keep_numbers P native then Some a else None)"
proof -
  let ?es = "filter (\<lambda>e. fst e \<in> numbers P native) (post_entries (keep_numbers P native) es)"
  have r: "0 \<le> fst e \<and> fst e < 4294967296" if "e \<in> set ?es" for e
    using that numbers_range [OF assms, of "fst e"] by simp
  have "map_of (map (\<lambda>e. (u32_of_int (fst e), a)) xs) k =
      (if uint k \<in> fst ` set xs then Some a else None)" if "set xs \<subseteq> set ?es" for xs
    using that r by (induction xs) (auto simp: u32_eq_iff simp del: set_filter)
  then have "map_of (map (\<lambda>e. (u32_of_int (fst e), a)) ?es) k =
      (if uint k \<in> fst ` set ?es then Some a else None)" by blast
  moreover have "set ?es = {e \<in> set es. 0 \<le> fst e \<and> fst e \<in> keep_numbers P native}"
    using group_numbers_subset [OF assms, of "''@default-keep''"]
    by (auto simp: post_entries_def keep_numbers_eq [OF assms])
  then have "fst ` set ?es = listed_numbers es \<inter> keep_numbers P native"
    by (auto simp: listed_numbers_def)
  ultimately show ?thesis by (simp add: drop_post_rules_def)
qed

section \<open>Properties\<close>

lemma linux_list:
  "list_entries linux_x86_64 True ''mount,execve,!read'' = Inr [(165, -1), (59, -1), (-1, -1)]"
  by (simp add: list_entries.simps [of _ _ "''mount,execve,!read''"] strtok_all_def token_entries_def
      syscall_process_name_plain linux_calls [unfolded find_name_def if_True] SYSCALL_ERROR_def)

lemma linux_sets:
  "simple_entries [(165, -1), (59, -1), (-1, -1)]"
  "listed_numbers [(165, -1), (59, -1), (-1, -1)] = {59, 165}"
  "excluded_numbers [(165, -1), (59, -1), (-1, -1)] = {0}"
proof -
  show "simple_entries [(165, -1), (59, -1), (-1, -1)]" by (simp add: simple_entries_def)
  show "listed_numbers [(165, -1), (59, -1), (-1, -1)] = {59, 165}"
    by (auto simp: listed_numbers_def)
  have "{n \<in> fst ` set [(165, -1), (59, -1), (-1, -1 :: int)]. n < 0} = {-1 :: int}" by auto
  then show "excluded_numbers [(165, -1), (59, -1), (-1, -1)] = {0}"
    by (simp add: excluded_numbers_def)
qed

text \<open>C4. The default filter is always built. It refuses exactly the calls of the
  default group (with or without the debugger calls) that exist on the platform, and x32 calls on
  x86_64; it allows every other call and every call of another architecture.\<close>

theorem default_filter_policy:
  assumes "bpf_machine exec" and "0 < fd" and "table_ok (table P native)"
  shows "\<exists>p. seccomp_default P fd dbg native a = Inr p \<and>
    (\<forall>d. exec (data_word P d) p 0 =
      Some (guarded P native a d
        (if uint (sd_nr d) \<in> group_numbers P native (default_group dbg) then a
         else SECCOMP_RET_ALLOW)))"
  using assms
  by (simp add: seccomp_default_filter bpf_machine.exec_blacklist_filter verdict_def map_of_group)

theorem default_filter_policy_witness:
  "\<exists>p. seccomp_default linux_x86_64 3 False True 0 = Inr p \<and>
    (\<forall>d. bpf_exec (data_word linux_x86_64 d) p 0 =
      Some (guarded linux_x86_64 True 0 d
        (if uint (sd_nr d) \<in> group_numbers linux_x86_64 True (default_group False) then 0
         else SECCOMP_RET_ALLOW)))"
  by (rule default_filter_policy [OF vm.bpf_machine_axioms _ linux_table_ok]) simp

text \<open>C2. A drop list that flattens to entries without error codes is split into two filters.
  The pre-exec filter refuses the listed calls that are in the table, are not in
  \<^verbatim>\<open>@default-keep\<close> and are not exempted; the post-exec filter, built when a listed call is
  in \<^verbatim>\<open>@default-keep\<close>, refuses exactly those. Everything else is allowed by both.\<close>

theorem drop_filter_policy:
  assumes "bpf_machine exec" and "0 < fd1" and "0 < fd2" and "table_ok (table P native)"
    and "list_entries P native l = Inr es" and "simple_entries es"
  shows "\<exists>pre post. seccomp_drop P fd1 fd2 l native a = Inr (pre, post) \<and>
    (\<forall>d. exec (data_word P d) pre 0 =
      Some (guarded P native a d
        (if uint (sd_nr d) \<in> listed_numbers es \<inter> numbers P native - keep_numbers P native
              - excluded_numbers es then a
         else SECCOMP_RET_ALLOW))) \<and>
    (post = None \<longleftrightarrow> listed_numbers es \<inter> keep_numbers P native = {}) \<and>
    (\<forall>q d. post = Some q \<longrightarrow> exec (data_word P d) q 0 =
      Some (guarded P native a d
        (if uint (sd_nr d) \<in> listed_numbers es \<inter> keep_numbers P native then a
         else SECCOMP_RET_ALLOW)))"
proof -
  note rules = map_of_excluded [OF assms(6) list_entries_small [OF assms(4,5)]]
    drop_pre_simple [OF assms(4,6)] drop_post_simple [OF assms(4)]
  have "post_entries (keep_numbers P native) es = [] \<longleftrightarrow>
      listed_numbers es \<inter> keep_numbers P native = {}"
    by (auto simp: post_entries_def listed_numbers_def filter_empty_conv)
  then show ?thesis
    using assms
    by (auto simp: seccomp_drop_filter bpf_machine.exec_blacklist_filter verdict_def map_add_def
        drop_post_filter_def rules)
qed

theorem drop_filter_policy_witness:
  "\<exists>pre post. seccomp_drop linux_x86_64 3 4 ''mount,execve,!read'' True 0 = Inr (pre, post) \<and>
    (\<forall>d. bpf_exec (data_word linux_x86_64 d) pre 0 =
      Some (guarded linux_x86_64 True 0 d
        (if uint (sd_nr d) \<in> {59, 165} \<inter> numbers linux_x86_64 True
              - keep_numbers linux_x86_64 True - {0} then 0 else SECCOMP_RET_ALLOW))) \<and>
    (post = None \<longleftrightarrow> {59, 165} \<inter> keep_numbers linux_x86_64 True = {}) \<and>
    (\<forall>q d. post = Some q \<longrightarrow> bpf_exec (data_word linux_x86_64 d) q 0 =
      Some (guarded linux_x86_64 True 0 d
        (if uint (sd_nr d) \<in> {59, 165} \<inter> keep_numbers linux_x86_64 True then 0
         else SECCOMP_RET_ALLOW)))"
  using drop_filter_policy [OF vm.bpf_machine_axioms _ _ linux_table_ok linux_list, of 3 4 0]
  by (simp add: linux_sets)

text \<open>C1. The same for a default+drop list: the pre-exec filter also refuses the default
  group, and a call exempted in the list is exempted from the default group as well.\<close>

theorem default_drop_filter_policy:
  assumes "bpf_machine exec" and "0 < fd1" and "0 < fd2" and "table_ok (table P native)"
    and "list_entries P native l = Inr es" and "simple_entries es"
  shows "\<exists>pre post. seccomp_default_drop P fd1 fd2 l dbg native a = Inr (pre, post) \<and>
    (\<forall>d. exec (data_word P d) pre 0 =
      Some (guarded P native a d
        (if uint (sd_nr d) \<in> group_numbers P native (default_group dbg) \<union>
              (listed_numbers es \<inter> numbers P native - keep_numbers P native) - excluded_numbers es then a
         else SECCOMP_RET_ALLOW))) \<and>
    (post = None \<longleftrightarrow> listed_numbers es \<inter> keep_numbers P native = {}) \<and>
    (\<forall>q d. post = Some q \<longrightarrow> exec (data_word P d) q 0 =
      Some (guarded P native a d
        (if uint (sd_nr d) \<in> listed_numbers es \<inter> keep_numbers P native then a
         else SECCOMP_RET_ALLOW)))"
proof -
  note rules = map_of_excluded [OF assms(6) list_entries_small [OF assms(4,5)]]
    drop_pre_simple [OF assms(4,6)] drop_post_simple [OF assms(4)] map_of_group [OF assms(4)]
  have "post_entries (keep_numbers P native) es = [] \<longleftrightarrow>
      listed_numbers es \<inter> keep_numbers P native = {}"
    by (auto simp: post_entries_def listed_numbers_def filter_empty_conv)
  then show ?thesis
    using assms
    by (auto simp: seccomp_default_drop_filter bpf_machine.exec_blacklist_filter verdict_def
        map_add_def drop_post_filter_def rules)
qed

theorem default_drop_filter_policy_witness:
  "\<exists>pre post. seccomp_default_drop linux_x86_64 3 4 ''mount,execve,!read'' False True 0 = Inr (pre, post) \<and>
    (\<forall>d. bpf_exec (data_word linux_x86_64 d) pre 0 =
      Some (guarded linux_x86_64 True 0 d
        (if uint (sd_nr d) \<in> group_numbers linux_x86_64 True (default_group False) \<union>
              ({59, 165} \<inter> numbers linux_x86_64 True - keep_numbers linux_x86_64 True) - {0} then 0 else SECCOMP_RET_ALLOW))) \<and>
    (post = None \<longleftrightarrow> {59, 165} \<inter> keep_numbers linux_x86_64 True = {}) \<and>
    (\<forall>q d. post = Some q \<longrightarrow> bpf_exec (data_word linux_x86_64 d) q 0 =
      Some (guarded linux_x86_64 True 0 d
        (if uint (sd_nr d) \<in> {59, 165} \<inter> keep_numbers linux_x86_64 True then 0
         else SECCOMP_RET_ALLOW)))"
  using default_drop_filter_policy [OF vm.bpf_machine_axioms _ _ linux_table_ok linux_list, of 3 4 False 0]
  by (simp add: linux_sets)

text \<open>C3. A keep list without error codes allows exactly the listed calls and those of
  \<^verbatim>\<open>@default-keep\<close>, minus the calls exempted with an exclamation mark; everything else is
  refused. The manual says that every call not listed is refused and that the calls of \<^verbatim>\<open>@default-keep\<close> are left to
  the preload library; the code builds no second filter, so an unlisted execve or prctl stays allowed for good.\<close>

theorem keep_filter_policy:
  assumes "bpf_machine exec" and "0 < fd" and "table_ok (table P native)"
    and "list_entries P native l = Inr es" and "simple_entries es"
  shows "\<exists>p. seccomp_keep P fd l native a = Inr p \<and>
    (\<forall>d. exec (data_word P d) p 0 =
      Some (guarded P native a d
        (if uint (sd_nr d) \<in> listed_numbers es \<union> keep_numbers P native - excluded_numbers es
         then SECCOMP_RET_ALLOW else a)))"
proof -
  note small = list_entries_small [OF assms(3,4)]
  note rules = map_of_excluded [OF assms(5) small] map_of_listed [OF assms(5) small]
    map_of_group [OF assms(3)] keep_numbers_eq [OF assms(3)]
  show ?thesis
    using assms
    by (auto simp: seccomp_keep_filter bpf_machine.exec_whitelist_filter verdict_def map_add_def rules)
qed

theorem keep_filter_policy_witness:
  "\<exists>p. seccomp_keep linux_x86_64 3 ''mount,execve,!read'' True 0 = Inr p \<and>
    (\<forall>d. bpf_exec (data_word linux_x86_64 d) p 0 =
      Some (guarded linux_x86_64 True 0 d
        (if uint (sd_nr d) \<in> {59, 165} \<union> keep_numbers linux_x86_64 True - {0}
         then SECCOMP_RET_ALLOW else 0)))"
  using keep_filter_policy [OF vm.bpf_machine_axioms _ linux_table_ok linux_list, of 3 0]
  by (simp add: linux_sets)

text \<open>C29. A list builder leaves the process with an error exactly when the list itself cannot
  be flattened (empty list, unknown group, malformed entry), and with that error; the lists
  the builder adds and the lists it prints and parses again never fail.\<close>

theorem builders_fail_iff:
  assumes "0 < fd1" and "0 < fd2" and "table_ok (table P native)"
  shows "(seccomp_drop P fd1 fd2 l native a = Inl e \<longleftrightarrow> list_entries P native l = Inl e) \<and>
    (seccomp_default_drop P fd1 fd2 l dbg native a = Inl e \<longleftrightarrow> list_entries P native l = Inl e) \<and>
    (seccomp_keep P fd1 l native a = Inl e \<longleftrightarrow> list_entries P native l = Inl e)"
  using assms
  by (simp add: seccomp_drop_filter seccomp_default_drop_filter seccomp_keep_filter split: sum.split)

theorem builders_fail_iff_witness:
  "list_entries linux_x86_64 True '',,'' = Inl EmptyList \<and>
   seccomp_drop linux_x86_64 3 4 '',,'' True 0 = Inl EmptyList"
proof -
  have "list_entries linux_x86_64 True '',,'' = Inl EmptyList"
    by (simp add: list_entries.simps strtok_all_def)
  with builders_fail_iff [OF _ _ linux_table_ok [of True], of 3 4] show ?thesis by simp
qed

end
