(* ===== verification/Optimizer.thy ===== *)
theory Optimizer imports Seccomp_Policy begin

text \<open>
  fsec-optimize: the pass of optimizer.c that merges the returns of a blacklist into one
  return at the end of the program, and the main function of the tool. The pass works on
  parallel arrays; they are lists of the same length here. Jump offsets are 8-bit fields.
\<close>

section \<open>The pass\<close>

definition LIMIT_BLACKLISTS :: nat where "LIMIT_BLACKLISTS = 4"

definition is_blacklist :: "u32 \<Rightarrow> sock_filter \<Rightarrow> sock_filter \<Rightarrow> bool" where
  "is_blacklist a i j \<longleftrightarrow>
     sf_code i = BPF_JMP + BPF_JEQ + BPF_K \<and> sf_code j = BPF_RET + BPF_K \<and> sf_k j = a"

fun count_blacklists :: "u32 \<Rightarrow> sock_filter list \<Rightarrow> nat" where
  "count_blacklists a (i # j # p) =
     (if is_blacklist a i j then 1 else 0) + count_blacklists a (j # p)"
| "count_blacklists a p = 0"

record Action =
  to_remove :: bool
  to_fix_jumps :: bool

abbreviation no_action :: Action where
  "no_action \<equiv> \<lparr>to_remove = False, to_fix_jumps = False\<rparr>"

text \<open>Step 1. A hit also skips the instruction after it.\<close>

fun step1 :: "u32 \<Rightarrow> sock_filter list \<Rightarrow> Action list" where
  "step1 a (i # j # p) =
     (if is_blacklist a i j
      then no_action\<lparr>to_fix_jumps := True\<rparr> # no_action\<lparr>to_remove := True\<rparr> # step1 a p
      else no_action # step1 a (j # p))"
| "step1 a [i] = [no_action]"
| "step1 a [] = []"

text \<open>Step 2. The lines that stay, with their actions.\<close>

definition step2 :: "sock_filter list \<Rightarrow> Action list \<Rightarrow> (sock_filter \<times> Action) list" where
  "step2 instrs action = filter (\<lambda>(i, c). \<not> to_remove c) (zip instrs action)"

text \<open>Step 3. The slot behind them still holds the old line; its code and value are set.\<close>

definition step3 :: "u32 \<Rightarrow> sock_filter list \<Rightarrow> (sock_filter \<times> Action) list \<Rightarrow> (sock_filter \<times> Action) list" where
  "step3 a instrs kept =
     kept @ [((instrs ! length kept)\<lparr>sf_code := BPF_RET + BPF_K, sf_k := a\<rparr>, no_action)]"

text \<open>Step 4. The offset is computed as an int and stored in an 8-bit field.\<close>

definition step4 :: "(sock_filter \<times> Action) list \<Rightarrow> sock_filter list" where
  "step4 xs =
     map (\<lambda>i. if to_fix_jumps (snd (xs ! i))
              then (fst (xs ! i))\<lparr>sf_jt := word_of_int (int (length xs) - int i - 2), sf_jf := 0\<rparr>
              else fst (xs ! i))
         [0 ..< length xs]"

definition optimize_blacklists :: "u32 \<Rightarrow> sock_filter list \<Rightarrow> sock_filter list" where
  "optimize_blacklists a instrs = step4 (step3 a instrs (step2 instrs (step1 a instrs)))"

definition optimize :: "u32 \<Rightarrow> sock_filter list \<Rightarrow> sock_filter list" where
  "optimize a instrs =
     (if LIMIT_BLACKLISTS < count_blacklists a instrs then optimize_blacklists a instrs else instrs)"

section \<open>The tool\<close>

text \<open>The error action from the environment; main of fseccomp reads it the same way.\<close>

definition error_action_of :: "platform \<Rightarrow> string option \<Rightarrow> fsec_error + u32" where
  "error_action_of P env =
     (case env of
        None \<Rightarrow> Inr (SECCOMP_RET_ERRNO OR u32_of_int (errno_val P ''EPERM''))
      | Some e \<Rightarrow>
          if e = ''kill'' then Inr SECCOMP_RET_KILL
          else if e = ''log'' then Inr SECCOMP_RET_LOG
          else let n = errno_find_name P e in
            if n = -1 then Inl (UnknownErrno e) else Inr (u32_of_int n OR SECCOMP_RET_ERRNO))"

text \<open>
  The number of entries is computed in \<^verbatim>\<open>unsigned short\<close>. The result is the new
  contents of the file; None is the help text, which leaves the file alone.
  \<open>BuildFailed\<close> is the failing assertion on an empty filter.
\<close>

definition fsec_optimize ::
    "platform \<Rightarrow> string list \<Rightarrow> string option \<Rightarrow> sock_filter list option \<Rightarrow>
     fsec_error + sock_filter list option" where
  "fsec_optimize P argv env contents =
     (if length argv \<noteq> 2 then Inl InvalidArguments
      else if argv ! 1 = ''-h'' \<or> argv ! 1 = ''--help'' \<or> argv ! 1 = ''-?'' then Inr None
      else bind_res (error_action_of P env) (\<lambda>a.
        case contents of
          None \<Rightarrow> Inl CannotOpen
        | Some instrs \<Rightarrow>
            let entries = (8 * length instrs) mod 65536 div 8 in
            if entries = 0 then Inl BuildFailed
            else Inr (Some (optimize a (take entries instrs)))))"

section \<open>The shape of the result\<close>

primrec opt_rules :: "u32 \<Rightarrow> rule list \<Rightarrow> sock_filter list" where
  "opt_rules a [] = []"
| "opt_rules a (r # rs) =
     (if snd r = a
      then [BPF_JUMP (BPF_JMP + BPF_JEQ + BPF_K) (fst r)
              (word_of_int (int (length (opt_rules a rs)) + 1)) 0]
      else rule_code r) @ opt_rules a rs"

text \<open>Instructions that start no blacklist pair, whatever follows.\<close>

definition inert :: "u32 \<Rightarrow> sock_filter list \<Rightarrow> bool" where
  "inert a p \<longleftrightarrow> step1 a p = replicate (length p) no_action \<and>
     (p \<noteq> [] \<longrightarrow> sf_code (last p) \<noteq> BPF_JMP + BPF_JEQ + BPF_K)"

lemma step1_inert:
  assumes "inert a p"
  shows "step1 a (p @ q) = replicate (length p) no_action @ step1 a q"
  using assms
proof (induction a p rule: step1.induct)
  case (1 a i j p)
  then have n: "\<not> is_blacklist a i j" by (auto simp: inert_def split: if_splits)
  with "1.prems" have "inert a (j # p)" by (simp add: inert_def)
  from "1.IH"(2) [OF n this] n show ?case by simp
next
  case (2 a i)
  then show ?case by (cases q) (simp_all add: inert_def is_blacklist_def)
next
  case (3 a)
  show ?case by simp
qed

lemma step1_rule:
  "step1 a (rule_code r @ q) =
     (if snd r = a then no_action\<lparr>to_fix_jumps := True\<rparr> # no_action\<lparr>to_remove := True\<rparr> # step1 a q
      else no_action # no_action # step1 a q)"
  by (cases q)
     (simp_all add: rule_code_def is_blacklist_def BPF_JUMP_def BPF_STMT_def bpf_codes)

text \<open>The jumps as a recursion over what follows an instruction.\<close>

primrec fix_jumps :: "(sock_filter \<times> Action) list \<Rightarrow> sock_filter list" where
  "fix_jumps [] = []"
| "fix_jumps (x # xs) =
     (if to_fix_jumps (snd x)
      then (fst x)\<lparr>sf_jt := word_of_int (int (length xs) - 1), sf_jf := 0\<rparr> else fst x) # fix_jumps xs"

lemma step4_fix_jumps: "step4 xs = fix_jumps xs"
proof (induction xs)
  case Nil
  show ?case by (simp add: step4_def)
next
  case (Cons x xs)
  then show ?case by (simp add: step4_def map_upt_Suc algebra_simps del: upt_Suc cong: if_cong)
qed

lemma fix_jumps_append_inert:
  "list_all (\<lambda>x. \<not> to_fix_jumps (snd x)) xs \<Longrightarrow> fix_jumps (xs @ ys) = map fst xs @ fix_jumps ys"
  by (induction xs) simp_all

lemma step2_append:
  "length p = length cs \<Longrightarrow> step2 (p @ q) (cs @ ds) = step2 p cs @ step2 q ds"
  by (simp add: step2_def)

lemma step2_inert: "step2 p (replicate (length p) no_action) = map (\<lambda>i. (i, no_action)) p"
  by (induction p) (simp_all add: step2_def)

lemma step1_length: "length (step1 a p) = length p"
  by (induction a p rule: step1.induct) simp_all

text \<open>What stays of the rules, before the jumps are computed.\<close>

primrec kept_rules :: "u32 \<Rightarrow> rule list \<Rightarrow> (sock_filter \<times> Action) list" where
  "kept_rules a [] = []"
| "kept_rules a (r # rs) =
     (if snd r = a then [(rule_code r ! 0, no_action\<lparr>to_fix_jumps := True\<rparr>)]
      else map (\<lambda>i. (i, no_action)) (rule_code r)) @ kept_rules a rs"

lemma step2_rule:
  "step2 (rule_code r @ q) (c # c' # cs) =
     (if to_remove c then [] else [(rule_code r ! 0, c)]) @
     (if to_remove c' then [] else [(rule_code r ! 1, c')]) @ step2 q cs"
  by (simp add: step2_def rule_code_def)

lemma map_rule_code: "map f (rule_code r) = [f (rule_code r ! 0), f (rule_code r ! 1)]"
  by (simp add: rule_code_def)

lemma step2_rules:
  "step2 (rules_code rs @ q) (step1 a (rules_code rs @ q)) = kept_rules a rs @ step2 q (step1 a q)"
  by (induction rs) (simp_all add: step1_rule step2_rule map_rule_code)

lemma fix_jumps_kept:
  "fix_jumps (kept_rules a rs @ [(i, no_action), (j, no_action)]) = opt_rules a rs @ [i, j]"
proof -
  have len: "length (kept_rules a rs) = length (opt_rules a rs)" for rs
    by (induction rs) (simp_all add: rule_code_def)
  show ?thesis
    by (induction rs) (simp_all add: rule_code_def BPF_JUMP_def len)
qed

lemma optimize_blacklists_shape:
  assumes "inert a p" and "inert a [fin]"
  shows "optimize_blacklists a (p @ rules_code rs @ [fin]) =
    p @ opt_rules a rs @ [fin,
      ((p @ rules_code rs @ [fin]) ! (length p + length (opt_rules a rs) + 1))
        \<lparr>sf_code := BPF_RET + BPF_K, sf_k := a\<rparr>]"
proof -
  have len: "length (kept_rules a rs) = length (opt_rules a rs)"
    by (induction rs) (simp_all add: rule_code_def)
  have "step2 (p @ rules_code rs @ [fin]) (step1 a (p @ rules_code rs @ [fin])) =
      map (\<lambda>i. (i, no_action)) p @ kept_rules a rs @ [(fin, no_action)]"
    using step1_inert [OF assms(1)] step2_rules [of rs "[fin]" a] step2_inert [of "[fin]"]
    by (simp add: step2_append step2_inert)
  then show ?thesis
    by (simp add: optimize_blacklists_def step4_fix_jumps step3_def fix_jumps_append_inert list_all_iff
        fix_jumps_kept len comp_def)
qed

section \<open>Meaning of the optimised program\<close>

definition fits :: "u32 \<Rightarrow> rule list \<Rightarrow> bool" where
  "fits a rs \<longleftrightarrow> length (opt_rules a rs) \<le> 255"

lemma fits_tl: "fits a (r # rs) \<Longrightarrow> fits a rs"
  by (simp add: fits_def split: if_splits)

lemma word8_offset: "n < 256 \<Longrightarrow> unat (word_of_int (int n) :: u8) = n"
  by (simp add: unat_of_nat)

context bpf_machine
begin

lemma exec_ret_update:
  "exec ld (i\<lparr>sf_code := BPF_RET + BPF_K, sf_k := a\<rparr> # p) A = Some a"
proof -
  have "i\<lparr>sf_code := BPF_RET + BPF_K, sf_k := a\<rparr> = BPF_JUMP (BPF_RET + BPF_K) a (sf_jt i) (sf_jf i)"
    by (simp add: BPF_JUMP_def)
  then show ?thesis by (simp only: exec_ret_any)
qed

lemma exec_opt_rules:
  assumes "fits a rs" and "\<And>A. exec ld [ret] A = Some a"
  shows "exec ld (opt_rules a rs @ [fin, ret]) A =
    (case map_of rs A of Some v \<Rightarrow> Some v | None \<Rightarrow> exec ld [fin, ret] A)"
  using assms(1)
proof (induction rs)
  case Nil
  show ?case by simp
next
  case (Cons r rs)
  note IH = Cons.IH [OF fits_tl [OF Cons.prems]]
  show ?case
  proof (cases "snd r = a")
    case True
    with Cons.prems have "length (opt_rules a rs) + 1 < 256" by (simp add: fits_def)
    then have "unat (word_of_int (int (length (opt_rules a rs)) + 1) :: u8) = length (opt_rules a rs) + 1"
      using word8_offset [of "length (opt_rules a rs) + 1"] by (simp add: algebra_simps)
    then show ?thesis
      using True IH assms(2) by (simp add: exec_jeq)
  next
    case False
    then show ?thesis using IH by (simp add: exec_rule)
  qed
qed

end

section \<open>The programs of fseccomp\<close>

lemma is_blacklist_simps [simp]:
  "\<not> is_blacklist a (BPF_STMT (BPF_LD + BPF_W + BPF_ABS) k) j"
  "\<not> is_blacklist a (BPF_STMT (BPF_RET + BPF_K) k) j"
  "\<not> is_blacklist a (BPF_JUMP (BPF_JMP + BPF_JGE + BPF_K) k t f) j"
  "is_blacklist a (BPF_JUMP (BPF_JMP + BPF_JEQ + BPF_K) k t f) (BPF_STMT (BPF_RET + BPF_K) v) \<longleftrightarrow> v = a"
  by (simp_all add: is_blacklist_def BPF_STMT_def BPF_JUMP_def bpf_codes)

lemma sf_code_simps [simp]:
  "sf_code (BPF_STMT c k) = c" "sf_code (BPF_JUMP c k t f) = c"
  by (simp_all add: BPF_STMT_def BPF_JUMP_def)

lemma jeq_not: "BPF_LD + BPF_W + BPF_ABS \<noteq> BPF_JMP + BPF_JEQ + BPF_K"
  "BPF_RET \<noteq> BPF_JMP + BPF_JEQ"
  by (simp_all add: bpf_codes)

lemma inert_init_code:
  assumes "a \<noteq> SECCOMP_RET_ALLOW"
  shows "inert a (init_code P native a)"
  using assms
  by (auto simp: inert_def init_code_eq VALIDATE_ARCHITECTURE_def VALIDATE_ARCHITECTURE_32_def
      EXAMINE_SYSCALL_def HANDLE_X32_def KILL_OR_RETURN_ERRNO_def jeq_not)

lemma inert_final: "inert a [RETURN_ALLOW]" "inert a [KILL_OR_RETURN_ERRNO v]"
  by (simp_all add: inert_def RETURN_ALLOW_def KILL_OR_RETURN_ERRNO_def jeq_not)

context bpf_machine
begin

lemma exec_optimize:
  assumes "inert a p" and "inert a [fin]" and "fits a rs"
    and pre: "\<And>q. \<exists>v. exec ld q A' = Some v \<Longrightarrow> exec ld (p @ q) A = g (exec ld q A')"
    and fin: "\<And>q. exec ld (fin # q) A' = Some v"
  shows "exec ld (optimize a (p @ rules_code rs @ [fin])) A = exec ld (p @ rules_code rs @ [fin]) A"
proof (cases "LIMIT_BLACKLISTS < count_blacklists a (p @ rules_code rs @ [fin])")
  case False
  then show ?thesis by (simp add: optimize_def)
next
  case True
  have opt: "exec ld (opt_rules a rs @
      [fin, i\<lparr>sf_code := BPF_RET + BPF_K, sf_k := a\<rparr>]) A' =
      exec ld (rules_code rs @ [fin]) A'" for i
    by (simp add: exec_opt_rules [OF assms(3) exec_ret_update] exec_rules fin split: option.split)
  have "\<exists>v. exec ld (rules_code rs @ [fin]) A' = Some v"
    by (auto simp: exec_rules fin split: option.split)
  then show ?thesis
    using True
    by (simp add: optimize_def optimize_blacklists_shape [OF assms(1,2)] pre opt
        del: append_assoc)
qed

lemma exec_optimize_filters:
  assumes "a \<noteq> SECCOMP_RET_ALLOW" and "fits a rs"
  shows "exec (data_word P d) (optimize a (blacklist_filter P native a rs)) A =
      Some (verdict P native a rs SECCOMP_RET_ALLOW d)"
    and "exec (data_word P d) (optimize a (whitelist_filter P native a rs)) A =
      Some (verdict P native a rs a d)"
proof -
  note opt = exec_optimize [OF inert_init_code [OF assms(1)] _ assms(2) exec_init]
  show "exec (data_word P d) (optimize a (blacklist_filter P native a rs)) A =
      Some (verdict P native a rs SECCOMP_RET_ALLOW d)"
    using exec_blacklist_filter [of P d native a rs A]
    unfolding blacklist_filter_def by (subst opt) (simp_all add: inert_final exec_allow)
  show "exec (data_word P d) (optimize a (whitelist_filter P native a rs)) A =
      Some (verdict P native a rs a d)"
    using exec_whitelist_filter [of P d native a rs A]
    unfolding whitelist_filter_def by (subst opt) (simp_all add: inert_final exec_kill)
qed

end

section \<open>Size\<close>

lemma count_step1: "length (filter to_remove (step1 a p)) = count_blacklists a p"
proof (induction a p rule: step1.induct)
  case (1 a i j p)
  have "is_blacklist a i j \<Longrightarrow> count_blacklists a (j # p) = count_blacklists a p"
    by (cases p) (simp_all add: is_blacklist_def bpf_codes)
  with 1 show ?case by simp
qed simp_all

lemma length_optimize:
  "length (optimize a p) =
     (if LIMIT_BLACKLISTS < count_blacklists a p then length p - count_blacklists a p + 1 else length p)"
proof -
  have "length (step2 p cs) + length (filter to_remove cs) = length p" if "length cs = length p" for cs
    using that
    by (induction p cs rule: list_induct2') (auto simp: step2_def)
  from this [of "step1 a p"] show ?thesis
    by (auto simp: optimize_def optimize_blacklists_def step4_def step3_def step1_length count_step1)
qed

lemma count_blacklists_less: "p \<noteq> [] \<Longrightarrow> count_blacklists a p < length p"
  by (induction a p rule: count_blacklists.induct) auto

section \<open>Jumps that do not fit\<close>

lemma count_rules:
  assumes "inert a p" and "list_all (\<lambda>r. snd r = a) rs"
  shows "length rs \<le> count_blacklists a (p @ rules_code rs @ q)"
proof -
  have "length rs \<le> length (filter to_remove (step1 a (rules_code rs @ q)))"
    using assms(2) by (induction rs) (simp_all add: step1_rule)
  then show ?thesis
    by (simp add: count_step1 [symmetric] step1_inert [OF assms(1)])
qed

lemma opt_rules_all:
  assumes "list_all (\<lambda>r. snd r = a) rs"
  shows "length (opt_rules a rs) = length rs" and "drop k (opt_rules a rs) = opt_rules a (drop k rs)"
proof -
  show "length (opt_rules a rs) = length rs" using assms by (induction rs) simp_all
  show "drop k (opt_rules a rs) = opt_rules a (drop k rs)"
    using assms by (induction rs arbitrary: k) (simp_all add: drop_Cons split: nat.split)
qed

context bpf_machine
begin

lemma exec_opt_no_match:
  "A \<notin> fst ` set rs \<Longrightarrow> exec ld (opt_rules a rs @ q) A = exec ld q A"
  by (induction rs) (simp_all add: exec_jeq exec_rule)

lemma exec_opt_overflow:
  assumes "list_all (\<lambda>r. snd r = a) (r # rs)" and "fst r \<notin> fst ` set rs" and "255 \<le> length rs"
  shows "exec ld (opt_rules a (r # rs) @ RETURN_ALLOW # q) (fst r) = Some SECCOMP_RET_ALLOW"
proof -
  let ?k = "unat (word_of_int (int (length rs) + 1) :: u8)"
  have "?k < 256" using unsigned_less [of "word_of_int (int (length rs) + 1) :: u8"] by simp
  then have k: "?k \<le> length rs"
    using assms(3)
    by (cases "length rs = 255") simp_all
  note all = opt_rules_all [of a rs]
  have "fst r \<notin> fst ` set (drop ?k rs)" using assms(2) by (auto dest: in_set_dropD)
  then have "exec ld (opt_rules a (drop ?k rs) @ RETURN_ALLOW # q) (fst r) = Some SECCOMP_RET_ALLOW"
    by (simp add: exec_opt_no_match exec_allow)
  then show ?thesis
    using assms(1) k all by (simp add: exec_jeq)
qed

end

section \<open>Properties\<close>

text \<open>C5. Optimising a blacklist or whitelist program of fseccomp does not change its
  verdict on any call, as long as the optimised rules are at most 255 instructions, so that
  every recomputed jump fits its 8-bit field.\<close>

theorem optimize_preserves_verdict:
  assumes "bpf_machine exec" and "a \<noteq> SECCOMP_RET_ALLOW" and "fits a rs"
  shows "exec (data_word P d) (optimize a (blacklist_filter P native a rs)) 0 =
      exec (data_word P d) (blacklist_filter P native a rs) 0 \<and>
    exec (data_word P d) (optimize a (whitelist_filter P native a rs)) 0 =
      exec (data_word P d) (whitelist_filter P native a rs) 0"
  using assms
  by (simp add: bpf_machine.exec_optimize_filters bpf_machine.exec_blacklist_filter
      bpf_machine.exec_whitelist_filter)

theorem optimize_preserves_verdict_witness:
  "let rs = [(165, 0), (101, 0), (155, 0), (166, 0), (167, 0)];
       p = blacklist_filter linux_x86_64 True 0 rs
   in (\<forall>d. bpf_exec (data_word linux_x86_64 d) (optimize 0 p) 0 = bpf_exec (data_word linux_x86_64 d) p 0) \<and>
      length (optimize 0 p) = 14 \<and> length p = 18"
proof -
  let ?rs = "[(165, 0), (101, 0), (155, 0), (166, 0), (167, 0)]"
  let ?p = "blacklist_filter linux_x86_64 True 0 ?rs"
  have "fits 0 ?rs" by (simp add: fits_def)
  then have "\<forall>d. bpf_exec (data_word linux_x86_64 d) (optimize 0 ?p) 0 =
      bpf_exec (data_word linux_x86_64 d) ?p 0"
    by (simp add: optimize_preserves_verdict [OF vm.bpf_machine_axioms] SECCOMP_RET_ALLOW_def)
  moreover have "count_blacklists 0 ?p = 5" and "length ?p = 18"
    by (simp_all add: blacklist_filter_def init_code_eq VALIDATE_ARCHITECTURE_def HANDLE_X32_def
        rule_code_def EXAMINE_SYSCALL_def KILL_OR_RETURN_ERRNO_def RETURN_ALLOW_def
        SECCOMP_RET_ALLOW_def)
  ultimately show ?thesis by (simp add: length_optimize LIMIT_BLACKLISTS_def)
qed

text \<open>C33. The pass never writes outside the array it was given: the optimised
  program has one instruction for the merged return and one less for every merged
  pair, and is strictly shorter whenever the pass runs.\<close>

theorem optimize_shrinks:
  "length (optimize a p) =
     (if 4 < count_blacklists a p then length p - count_blacklists a p + 1 else length p) \<and>
   length (optimize a p) \<le> length p \<and> (p = [] \<or> count_blacklists a p < length p)"
  using count_blacklists_less [of p a]
  by (cases "p = []") (auto simp: length_optimize LIMIT_BLACKLISTS_def)

text \<open>C34. The bound is needed: with 256 or more merged rules the first recomputed offset
  is truncated, and the optimised program allows a call the original program refuses.\<close>

theorem optimize_truncates_jump:
  assumes "bpf_machine exec" and "a \<noteq> SECCOMP_RET_ALLOW"
    and "list_all (\<lambda>r. snd r = a) (r # rs)" and "fst r \<notin> fst ` set rs" and "255 \<le> length rs"
    and "sd_arch d = (if native then ARCH_NR P else ARCH_32 P)"
    and "sd_nr d = fst r" and "fst r < X32_SYSCALL_BIT"
  shows "exec (data_word P d) (blacklist_filter P native a (r # rs)) 0 = Some a \<and>
    exec (data_word P d) (optimize a (blacklist_filter P native a (r # rs))) 0 = Some SECCOMP_RET_ALLOW"
proof -
  note inert = inert_init_code [OF assms(2), of P native]
  have "LIMIT_BLACKLISTS < count_blacklists a (blacklist_filter P native a (r # rs))"
    using count_rules [OF inert assms(3), of "[RETURN_ALLOW]"] assms(5)
    by (simp add: LIMIT_BLACKLISTS_def blacklist_filter_def)
  then obtain i where opt: "optimize a (blacklist_filter P native a (r # rs)) =
      init_code P native a @ opt_rules a (r # rs) @ [RETURN_ALLOW, i]"
    by (simp add: optimize_def blacklist_filter_def optimize_blacklists_shape [OF inert inert_final(1)]
        del: opt_rules.simps list.map concat.simps)
  note run = bpf_machine.exec_opt_overflow [OF assms(1,3,4,5)]
  have "exec (data_word P d) (init_code P native a @ opt_rules a (r # rs) @ [RETURN_ALLOW, i]) 0 =
      Some SECCOMP_RET_ALLOW"
    using assms(6-8) run
    by (subst bpf_machine.exec_init [OF assms(1)]) (auto simp: guarded_def simp del: opt_rules.simps)
  then show ?thesis
    using assms unfolding opt
    by (simp add: bpf_machine.exec_blacklist_filter verdict_def guarded_def)
qed

text \<open>256 rules for the numbers 0 to 255, as a list of 256 dropped calls gives them.\<close>

theorem optimize_truncates_jump_witness:
  "let rs = map (\<lambda>n. (word_of_nat n, 0)) [0 ..< 256];
       p = blacklist_filter linux_x86_64 True 0 rs;
       d = \<lparr>sd_nr = 0, sd_arch = 0xC000003E, sd_ip = 0, sd_args = (\<lambda>_. 0)\<rparr>
   in bpf_exec (data_word linux_x86_64 d) p 0 = Some 0 \<and>
      bpf_exec (data_word linux_x86_64 d) (optimize 0 p) 0 = Some SECCOMP_RET_ALLOW"
proof -
  let ?f = "\<lambda>n. (word_of_nat n :: u32, 0 :: u32)"
  have upt: "[0 ..< 256] = 0 # [1 ..< 256]" by (subst upt_conv_Cons) (simp_all only: One_nat_def zero_less_numeral)
  have "word_of_nat n \<noteq> (0 :: u32)" if "1 \<le> n" "n < 256" for n
    using that by (simp add: word_of_nat_eq_0_iff nat_dvd_not_less)
  then have "fst (?f 0) \<notin> fst ` set (map ?f [1 ..< 256])"
    by (auto simp del: upt_rec_numeral)
  then show ?thesis
    unfolding upt list.map Let_def
    by (intro optimize_truncates_jump [OF vm.bpf_machine_axioms])
       (simp_all add: SECCOMP_RET_ALLOW_def X32_SYSCALL_BIT_def list_all_iff del: upt_rec_numeral)
qed

end
