(* ===== verification/Default_Groups.thy ===== *)
theory Default_Groups imports Optimizer begin

text \<open>
  Facts about the contents of \<^verbatim>\<open>@default\<close>, \<^verbatim>\<open>@default-nodebuggers\<close>, \<^verbatim>\<open>@default-keep\<close> and
  \<^verbatim>\<open>@program-keep\<close>: the default groups never contain a call of the two keep groups, on any
  platform, and they are small enough for the optimiser.
\<close>

section \<open>The groups by name\<close>

definition items_of :: "string \<Rightarrow> group_item list option" where
  "items_of name = map_option sg_items (find_sysgroup name)"

lemma group_table:
  "map (\<lambda>g. (sg_name g, sg_items g)) sysgroups =
    [(''@aio'', grp_aio),
     (''@basic-io'', grp_basic_io),
     (''@chown'', grp_chown),
     (''@clock'', grp_clock),
     (''@cpu-emulation'', grp_cpu_emulation),
     (''@debug'', grp_debug),
     (''@default'', grp_default),
     (''@default-keep'', grp_default_keep),
     (''@default-nodebuggers'', grp_default_nodebuggers),
     (''@file-system'', grp_file_system_1 @ grp_file_system_2),
     (''@io-event'', grp_io_event),
     (''@ipc'', grp_ipc),
     (''@keyring'', grp_keyring),
     (''@memfd'', grp_memfd),
     (''@memlock'', grp_memlock),
     (''@module'', grp_module),
     (''@mount'', grp_mount),
     (''@network-io'', grp_network_io),
     (''@obsolete'', grp_obsolete_1 @ grp_obsolete_2 @ grp_obsolete_3),
     (''@privileged'', grp_privileged),
     (''@process'', grp_process_1 @ grp_process_2),
     (''@program-keep'', grp_program_keep),
     (''@raw-io'', grp_raw_io),
     (''@reboot'', grp_reboot),
     (''@resources'', grp_resources),
     (''@sandbox'', grp_sandbox),
     (''@setuid'', grp_setuid),
     (''@signal'', grp_signal),
     (''@swap'', grp_swap),
     (''@sync'', grp_sync),
     (''@system-service'', grp_system_service_1 @ grp_system_service_2),
     (''@timer'', grp_timer)]"
  unfolding sysgroups_def list.map SyscallGroupList.select_convs ..

lemma items_of_table: "items_of name = map_of (map (\<lambda>g. (sg_name g, sg_items g)) sysgroups) name"
proof -
  have "map_option sg_items (find (\<lambda>g. name = sg_name g) gs) =
      map_of (map (\<lambda>g. (sg_name g, sg_items g)) gs) name" for gs
    by (induction gs) auto
  then show ?thesis by (simp add: items_of_def find_sysgroup_def)
qed

lemma items_of_default:
  "items_of ''@clock'' = Some (grp_clock)"
  "items_of ''@cpu-emulation'' = Some (grp_cpu_emulation)"
  "items_of ''@debug'' = Some (grp_debug)"
  "items_of ''@module'' = Some (grp_module)"
  "items_of ''@mount'' = Some (grp_mount)"
  "items_of ''@obsolete'' = Some (grp_obsolete_1 @ grp_obsolete_2 @ grp_obsolete_3)"
  "items_of ''@raw-io'' = Some (grp_raw_io)"
  "items_of ''@reboot'' = Some (grp_reboot)"
  "items_of ''@swap'' = Some (grp_swap)"
  "items_of ''@default'' = Some (grp_default)"
  "items_of ''@default-nodebuggers'' = Some (grp_default_nodebuggers)"
  "items_of ''@default-keep'' = Some (grp_default_keep)"
  "items_of ''@program-keep'' = Some (grp_program_keep)"
  unfolding items_of_table group_table by simp_all

lemma closure_items:
  "closure present (Suc k) name =
     (case items_of name of
        None \<Rightarrow> []
      | Some is \<Rightarrow>
          concat (map (\<lambda>i. if hd (item_word i) = CHR ''@'' then closure present k (item_word i)
                           else [item_word i])
                      (filter present is)) @ [''__dummy_syscall__''])"
  by (simp add: items_of_def split: option.split)

lemma closure_leaf:
  assumes "items_of name = Some is" and "list_all (\<lambda>i. hd (item_word i) \<noteq> CHR ''@'') is"
  shows "closure (\<lambda>_. True) (Suc k) name = map item_word is @ [''__dummy_syscall__'']"
proof -
  have "concat (map (\<lambda>i. if hd (item_word i) = CHR ''@'' then f i else [item_word i]) is) =
      map item_word is" for f
    using assms(2) by (induction "is") simp_all
  then show ?thesis by (simp add: closure_items assms(1) del: closure.simps)
qed

lemma closure_leaves:
  "closure (\<lambda>_. True) (Suc k) ''@clock'' = map item_word (grp_clock) @ [''__dummy_syscall__'']"
  "closure (\<lambda>_. True) (Suc k) ''@cpu-emulation'' = map item_word (grp_cpu_emulation) @ [''__dummy_syscall__'']"
  "closure (\<lambda>_. True) (Suc k) ''@debug'' = map item_word (grp_debug) @ [''__dummy_syscall__'']"
  "closure (\<lambda>_. True) (Suc k) ''@module'' = map item_word (grp_module) @ [''__dummy_syscall__'']"
  "closure (\<lambda>_. True) (Suc k) ''@mount'' = map item_word (grp_mount) @ [''__dummy_syscall__'']"
  "closure (\<lambda>_. True) (Suc k) ''@obsolete'' = map item_word (grp_obsolete_1 @ grp_obsolete_2 @ grp_obsolete_3) @ [''__dummy_syscall__'']"
  "closure (\<lambda>_. True) (Suc k) ''@raw-io'' = map item_word (grp_raw_io) @ [''__dummy_syscall__'']"
  "closure (\<lambda>_. True) (Suc k) ''@reboot'' = map item_word (grp_reboot) @ [''__dummy_syscall__'']"
  "closure (\<lambda>_. True) (Suc k) ''@swap'' = map item_word (grp_swap) @ [''__dummy_syscall__'']"
  "closure (\<lambda>_. True) (Suc k) ''@default-keep'' = map item_word (grp_default_keep) @ [''__dummy_syscall__'']"
  "closure (\<lambda>_. True) (Suc k) ''@program-keep'' = map item_word (grp_program_keep) @ [''__dummy_syscall__'']"
proof -
  show "closure (\<lambda>_. True) (Suc k) ''@clock'' = map item_word (grp_clock) @ [''__dummy_syscall__'']"
    by (rule closure_leaf [OF items_of_default(1)]) (simp add: grp_clock_def)
  show "closure (\<lambda>_. True) (Suc k) ''@cpu-emulation'' = map item_word (grp_cpu_emulation) @ [''__dummy_syscall__'']"
    by (rule closure_leaf [OF items_of_default(2)]) (simp add: grp_cpu_emulation_def)
  show "closure (\<lambda>_. True) (Suc k) ''@debug'' = map item_word (grp_debug) @ [''__dummy_syscall__'']"
    by (rule closure_leaf [OF items_of_default(3)]) (simp add: grp_debug_def)
  show "closure (\<lambda>_. True) (Suc k) ''@module'' = map item_word (grp_module) @ [''__dummy_syscall__'']"
    by (rule closure_leaf [OF items_of_default(4)]) (simp add: grp_module_def)
  show "closure (\<lambda>_. True) (Suc k) ''@mount'' = map item_word (grp_mount) @ [''__dummy_syscall__'']"
    by (rule closure_leaf [OF items_of_default(5)]) (simp add: grp_mount_def)
  show "closure (\<lambda>_. True) (Suc k) ''@obsolete'' = map item_word (grp_obsolete_1 @ grp_obsolete_2 @ grp_obsolete_3) @ [''__dummy_syscall__'']"
    by (rule closure_leaf [OF items_of_default(6)]) (simp add: grp_obsolete_1_def grp_obsolete_2_def grp_obsolete_3_def)
  show "closure (\<lambda>_. True) (Suc k) ''@raw-io'' = map item_word (grp_raw_io) @ [''__dummy_syscall__'']"
    by (rule closure_leaf [OF items_of_default(7)]) (simp add: grp_raw_io_def)
  show "closure (\<lambda>_. True) (Suc k) ''@reboot'' = map item_word (grp_reboot) @ [''__dummy_syscall__'']"
    by (rule closure_leaf [OF items_of_default(8)]) (simp add: grp_reboot_def)
  show "closure (\<lambda>_. True) (Suc k) ''@swap'' = map item_word (grp_swap) @ [''__dummy_syscall__'']"
    by (rule closure_leaf [OF items_of_default(9)]) (simp add: grp_swap_def)
  show "closure (\<lambda>_. True) (Suc k) ''@default-keep'' = map item_word (grp_default_keep) @ [''__dummy_syscall__'']"
    by (rule closure_leaf [OF items_of_default(12)]) (simp add: grp_default_keep_def)
  show "closure (\<lambda>_. True) (Suc k) ''@program-keep'' = map item_word (grp_program_keep) @ [''__dummy_syscall__'']"
    by (rule closure_leaf [OF items_of_default(13)]) (simp add: grp_program_keep_def)
qed

definition keep_words :: "string list" where
  "keep_words = map item_word (grp_default_keep @ grp_program_keep)"

definition leaf_ok :: "group_item list \<Rightarrow> bool" where
  "leaf_ok is \<longleftrightarrow> list_all (\<lambda>i. item_word i \<notin> set keep_words) is"

lemma default_leaves_ok:
  "leaf_ok grp_clock" "leaf_ok grp_cpu_emulation" "leaf_ok grp_debug" "leaf_ok grp_module"
  "leaf_ok grp_mount" "leaf_ok grp_obsolete_1" "leaf_ok grp_obsolete_2" "leaf_ok grp_obsolete_3"
  "leaf_ok grp_raw_io" "leaf_ok grp_reboot" "leaf_ok grp_swap" "leaf_ok grp_default"
  "leaf_ok grp_default_nodebuggers"
  unfolding leaf_ok_def keep_words_def grp_default_keep_def grp_program_keep_def
  by (simp_all add: group_defs)

lemma default_closure:
  "closure (\<lambda>_. True) (Suc (Suc k)) ''@default'' =
     concat (map (closure (\<lambda>_. True) (Suc k))
       [''@clock'', ''@cpu-emulation'', ''@debug'', ''@module'', ''@mount'', ''@obsolete'', ''@raw-io'',
        ''@reboot'', ''@swap'']) @ map item_word (drop 9 grp_default) @ [''__dummy_syscall__'']"
  by (simp add: closure_items [of _ "Suc k" "''@default''"] items_of_default grp_default_def
      del: closure.simps)

lemma nodebuggers_closure:
  "closure (\<lambda>_. True) (Suc (Suc (Suc k))) ''@default-nodebuggers'' =
     closure (\<lambda>_. True) (Suc (Suc k)) ''@default'' @ map item_word (drop 1 grp_default_nodebuggers) @
     [''__dummy_syscall__'']"
  by (simp add: closure_items [of _ "Suc (Suc k)" "''@default-nodebuggers''"] items_of_default
      grp_default_nodebuggers_def del: closure.simps)

lemma default_closure_avoids:
  "list_all (\<lambda>w. w \<notin> set keep_words \<or> w = ''__dummy_syscall__'')
     (closure (\<lambda>_. True) (Suc (Suc k)) ''@default'')"
  using default_leaves_ok list_all_append [of _ "take 9 grp_default" "drop 9 grp_default"]
  by (auto simp: default_closure closure_leaves leaf_ok_def list_all_iff simp del: closure.simps
      dest: in_set_dropD)

lemma nodebuggers_closure_avoids:
  "list_all (\<lambda>w. w \<notin> set keep_words \<or> w = ''__dummy_syscall__'')
     (closure (\<lambda>_. True) (Suc (Suc (Suc k))) ''@default-nodebuggers'')"
  using default_leaves_ok default_closure_avoids
  by (auto simp: nodebuggers_closure leaf_ok_def list_all_iff simp del: closure.simps
      dest: in_set_dropD)

lemma default_closure_length:
  "length (closure (\<lambda>_. True) (Suc (Suc (Suc k))) ''@default'') \<le> 250"
  "length (closure (\<lambda>_. True) (Suc (Suc (Suc k))) ''@default-nodebuggers'') \<le> 250"
  by (simp_all add: nodebuggers_closure default_closure closure_leaves group_defs del: closure.simps)

lemma closure_length_mono: "length (closure present k name) \<le> length (closure (\<lambda>_. True) k name)"
proof (induction k arbitrary: name)
  case 0
  show ?case by simp
next
  case (Suc k)
  have "length (concat (map (\<lambda>i. if hd (item_word i) = CHR ''@'' then closure present k (item_word i)
        else [item_word i]) (filter present xs))) \<le>
      length (concat (map (\<lambda>i. if hd (item_word i) = CHR ''@'' then closure (\<lambda>_. True) k (item_word i)
        else [item_word i]) xs))" for xs
    by (induction xs) (auto intro: add_mono Suc.IH trans_le_add2)
  then show ?case by (simp split: option.split)
qed

section \<open>Properties\<close>

lemma name_entries_length: "length (name_entries P native ws) \<le> length ws"
  by (simp add: name_entries_def)

lemma default_entries_fit:
  assumes "table_ok (table P native)"
  shows "fits a (list_rules (listed a) (group_entries P native (default_group dbg)))"
proof -
  let ?es = "group_entries P native (default_group dbg)"
  have "length (closure (\<lambda>_. True) 3 (default_group dbg)) \<le> 250"
    using default_closure_length [of 0] by (simp add: default_group_def numeral_3_eq_3 del: closure.simps)
  then have "length ?es \<le> 250"
    using name_entries_length [of P native "closure (item_present P) 3 (default_group dbg)"]
      closure_length_mono [of "item_present P" 3 "default_group dbg"]
    by (simp add: group_entries_def)
  moreover have "length (opt_rules a (list_rules (listed a) es)) \<le> length es"
    if "simple_entries es" for es
    using that by (induction es) (auto simp: simple_entries_def entry_rules_simple listed_def)
  ultimately show ?thesis
    using group_entries_facts(1) [OF assms, of "default_group dbg"] by (fastforce simp: fits_def)
qed

text \<open>C6. Building the default filter and optimising it, as firejail does, never changes the
  policy: on every platform the default groups are small enough for the recomputed jumps.\<close>

theorem optimized_default_filter:
  assumes "bpf_machine exec" and "0 < fd" and "table_ok (table P native)" and "a \<noteq> SECCOMP_RET_ALLOW"
  shows "\<exists>p. seccomp_default P fd dbg native a = Inr p \<and>
    (\<forall>d. exec (data_word P d) (optimize a p) 0 =
      Some (guarded P native a d
        (if uint (sd_nr d) \<in> group_numbers P native (default_group dbg) then a
         else SECCOMP_RET_ALLOW)))"
  using assms
  by (simp add: seccomp_default_filter bpf_machine.exec_optimize_filters default_entries_fit
      verdict_def map_of_group)

theorem optimized_default_filter_witness:
  "\<exists>p. seccomp_default linux_x86_64 3 True True 0 = Inr p \<and>
    (\<forall>d. bpf_exec (data_word linux_x86_64 d) (optimize 0 p) 0 =
      Some (guarded linux_x86_64 True 0 d
        (if uint (sd_nr d) \<in> group_numbers linux_x86_64 True (default_group True) then 0
         else SECCOMP_RET_ALLOW)))"
  by (rule optimized_default_filter [OF vm.bpf_machine_axioms _ linux_table_ok])
     (simp_all add: SECCOMP_RET_ALLOW_def)

lemma group_numbersD:
  assumes "table_ok (table P native)" and "n \<in> group_numbers P native name"
  obtains w where "w \<in> set (closure (\<lambda>_. True) 3 name)" and "(w, n) \<in> set (table P native)"
proof -
  obtain w where w: "w \<in> set (closure (item_present P) 3 name)" "find_name P native w = n"
      "n \<noteq> SYSCALL_ERROR"
    using assms(2) by (auto simp: group_numbers_def group_entries_def name_entries_def)
  have "(w, n) \<in> set (table P native)"
    using find_name_known [OF assms(1), of w] w by simp
  with w closure_mono [of "item_present P" 3 name] that show thesis by blast
qed

lemma table_functional:
  assumes "table_ok t" and "(v, n) \<in> set t" and "(w, n) \<in> set t"
  shows "v = w"
  using assms inj_onD [of snd "set t" "(v, n)" "(w, n)"] by (simp add: table_ok_def distinct_map)

text \<open>C28. The default groups never refuse a call of \<^verbatim>\<open>@default-keep\<close>, which firejail needs
  itself, nor one of \<^verbatim>\<open>@program-keep\<close>: the comment at the head of that group holds on every
  platform whose table does not know the placeholder word that ends every list.\<close>

theorem default_avoids_keep_groups:
  assumes "table_ok (table P native)" and "''__dummy_syscall__'' \<notin> fst ` set (table P native)"
  shows "group_numbers P native (default_group dbg) \<inter>
    (group_numbers P native ''@default-keep'' \<union> group_numbers P native ''@program-keep'') = {}"
proof -
  have keep: "set (closure (\<lambda>_. True) 3 ''@default-keep'') \<union> set (closure (\<lambda>_. True) 3 ''@program-keep'')
      \<subseteq> insert ''__dummy_syscall__'' (set keep_words)"
    by (simp add: numeral_3_eq_3 closure_leaves keep_words_def del: closure.simps)
  have avoid: "w \<notin> set keep_words \<or> w = ''__dummy_syscall__''"
    if "w \<in> set (closure (\<lambda>_. True) 3 (default_group dbg))" for w
    using that default_closure_avoids [of "Suc 0"] nodebuggers_closure_avoids [of 0]
    by (auto simp: default_group_def list_all_iff numeral_3_eq_3 split: if_splits simp del: closure.simps)
  have False if d: "n \<in> group_numbers P native (default_group dbg)"
    and k: "n \<in> group_numbers P native ''@default-keep'' \<union> group_numbers P native ''@program-keep''" for n
  proof -
    obtain w where w: "w \<in> set (closure (\<lambda>_. True) 3 (default_group dbg))" "(w, n) \<in> set (table P native)"
      using group_numbersD [OF assms(1) d] by blast
    obtain v where v: "v \<in> set (closure (\<lambda>_. True) 3 ''@default-keep'') \<union>
        set (closure (\<lambda>_. True) 3 ''@program-keep'')" "(v, n) \<in> set (table P native)"
      using group_numbersD [OF assms(1), of n] k by (metis UnE UnI1 UnI2)
    have "v = w" using table_functional [OF assms(1) v(2) w(2)] .
    moreover have "w \<noteq> ''__dummy_syscall__''" using assms(2) w(2) by force
    ultimately show False using avoid [OF w(1)] keep v(1) by blast
  qed
  then show ?thesis by blast
qed

lemma linux_no_dummy: "''__dummy_syscall__'' \<notin> fst ` set (table linux_x86_64 native)"
proof -
  have "list_all (\<lambda>w. w \<noteq> ''__dummy_syscall__'') (map fst syscall_x86_64)"
    unfolding syscall_x86_64_names by simp
  moreover have "list_all (\<lambda>w. w \<noteq> ''__dummy_syscall__'') (map fst syscall_i386)"
    unfolding syscall_i386_names by simp
  ultimately show ?thesis by (auto simp: list_all_iff)
qed

theorem default_avoids_keep_groups_witness:
  "group_numbers linux_x86_64 True (default_group False) \<inter>
    (group_numbers linux_x86_64 True ''@default-keep'' \<union>
     group_numbers linux_x86_64 True ''@program-keep'') = {}"
  by (rule default_avoids_keep_groups [OF linux_table_ok linux_no_dummy])

end
