(* ===== verification/Seccomp_Mdwx.thy ===== *)
theory Seccomp_Mdwx imports Seccomp_Policy begin

text \<open>
  The memory-deny-write-execute filters of fseccomp/seccomp.c, native and for i386 on
  x86_64. They look at arguments: each checked call is a block that loads the low half of
  the third argument, masks it and compares.
\<close>

section \<open>The filters\<close>

definition PROT_WRITE :: u32 where "PROT_WRITE = 0x2"
definition PROT_EXEC :: u32 where "PROT_EXEC = 0x4"
definition SHM_EXEC :: u32 where "SHM_EXEC = 0x8000"

definition sys_nr :: "platform \<Rightarrow> string \<Rightarrow> u32 option" where
  "sys_nr P name = map_option u32_of_int (SYS P name)"

text \<open>\<open>the\<close> marks a macro the source uses without \<^verbatim>\<open>#ifdef\<close>: without it the file does not compile.\<close>

definition filter_syscall :: "platform \<Rightarrow> u32 option" where
  "filter_syscall P =
     (if defined P ''__x86_64__'' \<or> defined P ''__aarch64__'' \<or> defined P ''__powerpc64__''
        then Some (the (sys_nr P ''mmap''))
      else if defined P ''__i386__'' \<or> defined P ''__arm__'' then Some (the (sys_nr P ''mmap2''))
      else None)"

definition block_syscall :: "platform \<Rightarrow> u32 option" where
  "block_syscall P =
     (if defined P ''__x86_64__'' \<or> defined P ''__aarch64__'' \<or> defined P ''__powerpc64__'' then None
      else if defined P ''__i386__'' then Some (the (sys_nr P ''mmap'')) else None)"

definition filter_syscall_32 :: u32 where "filter_syscall_32 = 192"
definition block_syscall_32 :: u32 where "block_syscall_32 = 90"
definition mprotect_32 :: u32 where "mprotect_32 = 125"
definition pkey_mprotect_32 :: u32 where "pkey_mprotect_32 = 380"
definition shmat_32 :: u32 where "shmat_32 = 397"
definition memfd_create_32 :: u32 where "memfd_create_32 = 356"

lemmas mdwx_numbers_32 =
  filter_syscall_32_def block_syscall_32_def mprotect_32_def pkey_mprotect_32_def shmat_32_def
  memfd_create_32_def

definition arg_block :: "u32 \<Rightarrow> u32 \<Rightarrow> u32 \<Rightarrow> sock_filter list" where
  "arg_block a nr msk =
     [BPF_JUMP (BPF_JMP + BPF_JEQ + BPF_K) nr 0 5,
      EXAMINE_ARGUMENT 2,
      BPF_STMT (BPF_ALU + BPF_AND + BPF_K) msk,
      BPF_JUMP (BPF_JMP + BPF_JEQ + BPF_K) msk 0 1,
      KILL_OR_RETURN_ERRNO a,
      RETURN_ALLOW]"

definition ifdef :: "u32 option \<Rightarrow> (u32 \<Rightarrow> sock_filter list) \<Rightarrow> sock_filter list" where
  "ifdef m code = (case m of None \<Rightarrow> [] | Some nr \<Rightarrow> code nr)"

definition mdwx_code :: "platform \<Rightarrow> u32 \<Rightarrow> sock_filter list" where
  "mdwx_code P a =
     ifdef (block_syscall P) (BLACKLIST a) @
     ifdef (filter_syscall P) (\<lambda>nr. arg_block a nr (PROT_WRITE OR PROT_EXEC)) @
     arg_block a (the (sys_nr P ''mprotect'')) PROT_EXEC @
     ifdef (sys_nr P ''pkey_mprotect'') (\<lambda>nr. arg_block a nr PROT_EXEC) @
     ifdef (sys_nr P ''shmat'') (\<lambda>nr. arg_block a nr SHM_EXEC) @
     ifdef (sys_nr P ''memfd_create'') (\<lambda>nr.
       [BPF_JUMP (BPF_JMP + BPF_JEQ + BPF_K) nr 0 1, KILL_OR_RETURN_ERRNO a, RETURN_ALLOW])"

definition memory_deny_write_execute ::
    "platform \<Rightarrow> int \<Rightarrow> u32 \<Rightarrow> fsec_error + sock_filter list" where
  "memory_deny_write_execute P fd a =
     (if fd < 0 then Inl CannotOpen
      else Inr (out (filter_end_blacklist
                 (write_to_file (mdwx_code P a) (filter_init P True (new_file a))))))"

definition mdwx_code_32 :: "platform \<Rightarrow> u32 \<Rightarrow> sock_filter list" where
  "mdwx_code_32 P a =
     (if def_x86_64 P
      then BLACKLIST a block_syscall_32 @
           arg_block a filter_syscall_32 (PROT_WRITE OR PROT_EXEC) @
           arg_block a mprotect_32 PROT_EXEC @
           arg_block a pkey_mprotect_32 PROT_EXEC @
           arg_block a shmat_32 SHM_EXEC @
           [BPF_JUMP (BPF_JMP + BPF_JEQ + BPF_K) memfd_create_32 0 1, KILL_OR_RETURN_ERRNO a]
      else []) @ [RETURN_ALLOW]"

definition memory_deny_write_execute_32 ::
    "platform \<Rightarrow> int \<Rightarrow> u32 \<Rightarrow> fsec_error + sock_filter list" where
  "memory_deny_write_execute_32 P fd a =
     (if fd < 0 then Inl CannotOpen
      else Inr (out (filter_end_blacklist
                 (write_to_file (mdwx_code_32 P a) (filter_init P False (new_file a))))))"

section \<open>What they decide\<close>

text \<open>The word an argument check looks at: the half of the argument at the lower address.\<close>

definition first_half :: "platform \<Rightarrow> seccomp_data \<Rightarrow> nat \<Rightarrow> u32" where
  "first_half P d n = half_at P False (sd_args d n)"

lemma first_half_little: "\<not> big_endian P \<Longrightarrow> first_half P d n = lsw (sd_args d n)"
  by (simp add: first_half_def half_at_def)

lemma msw_ucast: "msw (ucast (w :: u32)) = 0"
  by (rule bit_word_eqI) (auto simp: msw_def bit_simps dest: bit_imp_le_length)

definition mdwx_denied :: "platform \<Rightarrow> seccomp_data \<Rightarrow> bool" where
  "mdwx_denied P d =
     (let nr = Some (sd_nr d); prot = first_half P d 2 in
      if nr = block_syscall P then True
      else if nr = filter_syscall P
        then prot AND (PROT_WRITE OR PROT_EXEC) = PROT_WRITE OR PROT_EXEC
      else if nr = sys_nr P ''mprotect'' then prot AND PROT_EXEC = PROT_EXEC
      else if nr = sys_nr P ''pkey_mprotect'' then prot AND PROT_EXEC = PROT_EXEC
      else if nr = sys_nr P ''shmat'' then prot AND SHM_EXEC = SHM_EXEC
      else nr = sys_nr P ''memfd_create'')"

definition mdwx_denied_32 :: "platform \<Rightarrow> seccomp_data \<Rightarrow> bool" where
  "mdwx_denied_32 P d =
     (let nr = sd_nr d; prot = first_half P d 2 in
      def_x86_64 P \<and>
      (if nr = block_syscall_32 then True
       else if nr = filter_syscall_32
         then prot AND (PROT_WRITE OR PROT_EXEC) = PROT_WRITE OR PROT_EXEC
       else if nr = mprotect_32 then prot AND PROT_EXEC = PROT_EXEC
       else if nr = pkey_mprotect_32 then prot AND PROT_EXEC = PROT_EXEC
       else if nr = shmat_32 then prot AND SHM_EXEC = SHM_EXEC
       else nr = memfd_create_32))"

lemma ifdef_simps [simp]: "ifdef None code = []" "ifdef (Some nr) code = code nr"
  by (simp_all add: ifdef_def)

context bpf_machine
begin

lemma exec_arg_block:
  "exec (data_word P d) (arg_block a nr msk @ p) A =
     (if A = nr then Some (if first_half P d 2 AND msk = msk then a else SECCOMP_RET_ALLOW)
      else exec (data_word P d) p A)"
  by (simp add: arg_block_def exec_examine_argument exec_simps exec_kill exec_allow first_half_def)

lemma exec_ifdef_arg_block:
  "exec (data_word P d) (ifdef m (\<lambda>nr. arg_block a nr msk) @ p) A =
     (if Some A = m then Some (if first_half P d 2 AND msk = msk then a else SECCOMP_RET_ALLOW)
      else exec (data_word P d) p A)"
  by (cases m) (simp_all add: exec_arg_block)

lemma exec_ifdef_blacklist:
  "exec ld (ifdef m (BLACKLIST a) @ p) A = (if Some A = m then Some a else exec ld p A)"
  by (cases m) (simp_all add: BLACKLIST_rule exec_rule)

lemma exec_memfd:
  "exec ld (ifdef m (\<lambda>nr. [BPF_JUMP (BPF_JMP + BPF_JEQ + BPF_K) nr 0 1, KILL_OR_RETURN_ERRNO a,
      RETURN_ALLOW]) @ RETURN_ALLOW # p) A =
     Some (if Some A = m then a else SECCOMP_RET_ALLOW)"
  by (cases m) (simp_all add: exec_simps exec_kill exec_allow)

lemma exec_mdwx_code:
  assumes "SYS P ''mprotect'' \<noteq> None"
  shows "exec (data_word P d) (mdwx_code P a @ [RETURN_ALLOW]) (sd_nr d) =
    Some (if mdwx_denied P d then a else SECCOMP_RET_ALLOW)"
proof -
  have "sys_nr P ''mprotect'' = Some (the (sys_nr P ''mprotect''))"
    using assms by (auto simp: sys_nr_def)
  then have "sd_nr d = the (sys_nr P ''mprotect'') \<longleftrightarrow> Some (sd_nr d) = sys_nr P ''mprotect''"
    by (metis option.sel)
  then show ?thesis
    by (simp add: mdwx_code_def exec_ifdef_blacklist exec_ifdef_arg_block exec_arg_block exec_memfd
        mdwx_denied_def)
qed

lemma exec_mdwx_code_32:
  "exec (data_word P d) (mdwx_code_32 P a @ [RETURN_ALLOW]) (sd_nr d) =
     Some (if mdwx_denied_32 P d then a else SECCOMP_RET_ALLOW)"
  by (simp add: mdwx_code_32_def exec_arg_block BLACKLIST_rule exec_rule exec_simps exec_kill
      exec_allow mdwx_denied_32_def)

end

lemma mdwx_program:
  assumes "0 < fd"
  shows "memory_deny_write_execute P fd a = Inr (init_code P True a @ mdwx_code P a @ [RETURN_ALLOW])"
    and "memory_deny_write_execute_32 P fd a =
      Inr (init_code P False a @ mdwx_code_32 P a @ [RETURN_ALLOW])"
  using assms
  by (simp_all add: memory_deny_write_execute_def memory_deny_write_execute_32_def filter_init_new
      filter_end_blacklist_def write_to_file_def)

section \<open>Bits of the protection argument\<close>

lemma and_single_bit:
  fixes w :: u32
  assumes "n < 32"
  shows "w AND push_bit n 1 = push_bit n 1 \<longleftrightarrow> bit w n"
  using assms by (auto simp: bit_eq_iff [where 'a = u32] bit_simps)

lemma and_two_bits:
  fixes w :: u32
  assumes "m < 32" and "n < 32"
  shows "w AND (push_bit m 1 OR push_bit n 1) = push_bit m 1 OR push_bit n 1 \<longleftrightarrow> bit w m \<and> bit w n"
  using assms by (auto simp: bit_eq_iff [where 'a = u32] bit_simps)

lemma mask_bits:
  fixes w :: u32
  shows "w AND PROT_EXEC = PROT_EXEC \<longleftrightarrow> bit w 2"
    and "w AND SHM_EXEC = SHM_EXEC \<longleftrightarrow> bit w 15"
    and "w AND (PROT_WRITE OR PROT_EXEC) = PROT_WRITE OR PROT_EXEC \<longleftrightarrow> bit w 1 \<and> bit w 2"
  using and_single_bit [of 2 w] and_single_bit [of 15 w] and_two_bits [of 1 2 w]
  by (simp_all add: PROT_EXEC_def SHM_EXEC_def PROT_WRITE_def)

lemma bit_lsw: "n < 32 \<Longrightarrow> bit (lsw a) n = bit a n"
  by (simp add: lsw_def bit_simps)

section \<open>Properties\<close>

text \<open>C30. The native and the 32-bit memory-deny-write-execute filters are always built
  and decide every call by the table \<open>mdwx_denied\<close> (\<open>mdwx_denied_32\<close>), behind the
  architecture and x32 checks.\<close>

theorem mdwx_filter_verdict:
  assumes "bpf_machine exec" and "0 < fd" and "SYS P ''mprotect'' \<noteq> None"
  shows "\<exists>p q. memory_deny_write_execute P fd a = Inr p \<and> memory_deny_write_execute_32 P fd a = Inr q \<and>
    (\<forall>d. exec (data_word P d) p 0 =
        Some (guarded P True a d (if mdwx_denied P d then a else SECCOMP_RET_ALLOW)) \<and>
      exec (data_word P d) q 0 =
        Some (guarded P False a d (if mdwx_denied_32 P d then a else SECCOMP_RET_ALLOW)))"
  using assms
  by (simp add: mdwx_program bpf_machine.exec_init bpf_machine.exec_mdwx_code
      bpf_machine.exec_mdwx_code_32)

text \<open>The numbers of different system calls differ.\<close>

definition sys_distinct :: "platform \<Rightarrow> bool" where
  "sys_distinct P \<longleftrightarrow> (\<forall>v w n. sys_nr P v = Some n \<and> sys_nr P w = Some n \<longrightarrow> v = w)"

lemma sys_distinctD:
  "sys_distinct P \<Longrightarrow> Some n = sys_nr P v \<Longrightarrow> v \<noteq> w \<Longrightarrow> Some n \<noteq> sys_nr P w"
  by (metis sys_distinct_def)

lemma linux_mprotect: "SYS linux_x86_64 ''mprotect'' = Some 10"
proof -
  have "(''mprotect'', 10) \<in> set syscall_x86_64"
    by (simp add: syscall_x86_64_def syscall_x86_64_1_def)
  then show ?thesis using syscall_x86_64_distinct_names by simp
qed

lemma linux_sys_distinct: "sys_distinct linux_x86_64"
proof -
  have "v = w" if v: "map_of syscall_x86_64 v = Some m" and w: "map_of syscall_x86_64 w = Some n"
    and e: "u32_of_int m = u32_of_int n" for v w m n
  proof -
    have mem: "(v, m) \<in> set syscall_x86_64" "(w, n) \<in> set syscall_x86_64"
      using v w by (auto dest: map_of_SomeD)
    then have "m = n"
      using e table_okD(2,3) [OF table_ok_x86_64] by (intro u32_of_int_inj) fastforce+
    then show ?thesis
      using mem inj_onD [of snd "set syscall_x86_64" "(v, m)" "(w, n)"] syscall_x86_64_distinct_numbers
      by (simp add: distinct_map)
  qed
  then show ?thesis by (auto simp: sys_distinct_def sys_nr_def)
qed

theorem mdwx_filter_verdict_witness:
  "\<exists>p q. memory_deny_write_execute linux_x86_64 3 0 = Inr p \<and>
    memory_deny_write_execute_32 linux_x86_64 3 0 = Inr q \<and>
    (\<forall>d. bpf_exec (data_word linux_x86_64 d) p 0 =
        Some (guarded linux_x86_64 True 0 d
          (if mdwx_denied linux_x86_64 d then 0 else SECCOMP_RET_ALLOW)) \<and>
      bpf_exec (data_word linux_x86_64 d) q 0 =
        Some (guarded linux_x86_64 False 0 d
          (if mdwx_denied_32 linux_x86_64 d then 0 else SECCOMP_RET_ALLOW)))"
  by (rule mdwx_filter_verdict [OF vm.bpf_machine_axioms])
     (simp_all add: linux_mprotect del: linux_x86_64_simps)

text \<open>C7. On a little-endian platform that maps memory with mmap, whatever the native filter
  allows on its own architecture does not create memory that is writable and
  executable: no mmap with both protection bits, no mprotect or pkey_mprotect with the
  executable bit, no shmat with the executable flag, no memfd_create.\<close>

theorem mdwx_no_write_execute:
  assumes "bpf_machine exec" and "0 < fd" and "SYS P ''mprotect'' \<noteq> None" and "sys_distinct P"
    and "\<not> big_endian P" and "filter_syscall P = sys_nr P ''mmap''" and "block_syscall P = None"
    and "memory_deny_write_execute P fd a = Inr p" and "a \<noteq> SECCOMP_RET_ALLOW"
    and "sd_arch d = ARCH_NR P" and "exec (data_word P d) p 0 = Some SECCOMP_RET_ALLOW"
  shows "\<not> (Some (sd_nr d) = sys_nr P ''mmap'' \<and> bit (sd_args d 2) 1 \<and> bit (sd_args d 2) 2) \<and>
    \<not> (Some (sd_nr d) = sys_nr P ''mprotect'' \<and> bit (sd_args d 2) 2) \<and>
    \<not> (Some (sd_nr d) = sys_nr P ''pkey_mprotect'' \<and> bit (sd_args d 2) 2) \<and>
    \<not> (Some (sd_nr d) = sys_nr P ''shmat'' \<and> bit (sd_args d 2) 15) \<and>
    Some (sd_nr d) \<noteq> sys_nr P ''memfd_create''"
proof -
  have "\<not> mdwx_denied P d"
    using assms(1-3,8-11)
    by (auto simp: mdwx_program bpf_machine.exec_init bpf_machine.exec_mdwx_code guarded_def
        split: if_splits)
  moreover have "first_half P d 2 = lsw (sd_args d 2)" using assms(5) by (rule first_half_little)
  ultimately show ?thesis
    using assms(6,7) sys_distinctD [OF assms(4), of "sd_nr d"]
    by (auto simp: mdwx_denied_def mask_bits bit_lsw split: if_splits)
qed

lemma linux_memory_calls:
  "sys_nr linux_x86_64 ''mmap'' = Some 9"
  "sys_nr linux_x86_64 ''mprotect'' = Some 10"
  "sys_nr linux_x86_64 ''pkey_mprotect'' = Some 329"
  "sys_nr linux_x86_64 ''shmat'' = Some 30"
  "sys_nr linux_x86_64 ''memfd_create'' = Some 319"
proof -
  have "{(''mmap'', 9), (''mprotect'', 10), (''pkey_mprotect'', 329), (''shmat'', 30),
      (''memfd_create'', 319)} \<subseteq> set syscall_x86_64"
    by (simp add: syscall_x86_64_def syscall_x86_64_1_def syscall_x86_64_2_def syscall_x86_64_3_def)
  then have "map_of syscall_x86_64 ''mmap'' = Some 9" "map_of syscall_x86_64 ''mprotect'' = Some 10"
    "map_of syscall_x86_64 ''pkey_mprotect'' = Some 329" "map_of syscall_x86_64 ''shmat'' = Some 30"
    "map_of syscall_x86_64 ''memfd_create'' = Some 319"
    using syscall_x86_64_distinct_names by simp_all
  then show "sys_nr linux_x86_64 ''mmap'' = Some 9" "sys_nr linux_x86_64 ''mprotect'' = Some 10"
    "sys_nr linux_x86_64 ''pkey_mprotect'' = Some 329" "sys_nr linux_x86_64 ''shmat'' = Some 30"
    "sys_nr linux_x86_64 ''memfd_create'' = Some 319"
    by (simp_all add: sys_nr_def)
qed

lemma linux_mdwx_calls:
  "filter_syscall linux_x86_64 = Some 9" "block_syscall linux_x86_64 = None"
  by (simp_all add: filter_syscall_def block_syscall_def linux_memory_calls)

text \<open>A read-write mapping on x86_64 is allowed, and is not executable.\<close>

theorem mdwx_no_write_execute_witness:
  "let d = \<lparr>sd_nr = 9, sd_arch = 0xC000003E, sd_ip = 0, sd_args = (\<lambda>_. 3)\<rparr> in
   \<exists>p. memory_deny_write_execute linux_x86_64 3 0 = Inr p \<and>
     bpf_exec (data_word linux_x86_64 d) p 0 = Some SECCOMP_RET_ALLOW \<and>
     \<not> (Some (sd_nr d) = sys_nr linux_x86_64 ''mmap'' \<and> bit (sd_args d 2) 1 \<and> bit (sd_args d 2) 2)"
proof -
  let ?d = "\<lparr>sd_nr = 9, sd_arch = 0xC000003E, sd_ip = 0, sd_args = (\<lambda>_. 3)\<rparr>"
  let ?p = "init_code linux_x86_64 True 0 @ mdwx_code linux_x86_64 0 @ [RETURN_ALLOW]"
  have prog: "memory_deny_write_execute linux_x86_64 3 0 = Inr ?p" by (simp add: mdwx_program)
  have "\<not> mdwx_denied linux_x86_64 ?d"
    by (simp add: mdwx_denied_def linux_mdwx_calls linux_memory_calls first_half_def half_at_def
        lsw_def PROT_WRITE_def PROT_EXEC_def)
  then have "bpf_exec (data_word linux_x86_64 ?d) (mdwx_code linux_x86_64 0 @ [RETURN_ALLOW]) (sd_nr ?d) =
      Some SECCOMP_RET_ALLOW"
    by (subst vm.exec_mdwx_code) (use linux_mprotect in simp_all)
  then have run: "bpf_exec (data_word linux_x86_64 ?d) ?p 0 = Some SECCOMP_RET_ALLOW"
    by (subst vm.exec_init) (auto simp: guarded_def X32_SYSCALL_BIT_def)
  have "\<not> (Some (sd_nr ?d) = sys_nr linux_x86_64 ''mmap'' \<and> bit (sd_args ?d 2) 1 \<and> bit (sd_args ?d 2) 2)"
    using mdwx_no_write_execute [OF vm.bpf_machine_axioms _ _ linux_sys_distinct _ _ _ prog _ _ run]
      linux_mprotect
    by (simp add: linux_mdwx_calls linux_memory_calls SECCOMP_RET_ALLOW_def)
  with prog run show ?thesis unfolding Let_def by blast
qed

text \<open>C36. On a big-endian platform the check reads the wrong half of the argument: a mapping
  that is writable and executable is allowed, since the half the filter loads is zero.\<close>

theorem mdwx_big_endian_misses:
  assumes "bpf_machine exec" and "0 < fd" and "SYS P ''mprotect'' \<noteq> None"
    and "big_endian P" and "filter_syscall P = Some (sd_nr d)" and "block_syscall P = None"
    and "\<not> def_x86_64 P" and "sd_arch d = ARCH_NR P"
    and "sd_args d 2 = ucast (PROT_WRITE OR PROT_EXEC)"
  shows "\<exists>p. memory_deny_write_execute P fd a = Inr p \<and>
    exec (data_word P d) p 0 = Some SECCOMP_RET_ALLOW"
proof -
  have "first_half P d 2 = 0"
    using assms(4,9) by (simp add: first_half_def half_at_def msw_def PROT_WRITE_def PROT_EXEC_def)
  then have "\<not> mdwx_denied P d"
    using assms(5,6) by (simp add: mdwx_denied_def PROT_WRITE_def PROT_EXEC_def)
  then show ?thesis
    using assms by (simp add: mdwx_program bpf_machine.exec_init bpf_machine.exec_mdwx_code guarded_def)
qed

definition big_endian_ppc64 :: platform where
  "big_endian_ppc64 = linux_x86_64\<lparr>defined := (\<lambda>s. s = ''__powerpc64__''), big_endian := True,
     SYS := [''mmap'' \<mapsto> 90, ''mprotect'' \<mapsto> 125, ''personality'' \<mapsto> 136, ''memfd_create'' \<mapsto> 360,
       ''pkey_mprotect'' \<mapsto> 386]\<rparr>"

theorem mdwx_big_endian_misses_witness:
  "\<exists>p. memory_deny_write_execute big_endian_ppc64 3 0 = Inr p \<and>
    bpf_exec (data_word big_endian_ppc64
      \<lparr>sd_nr = 90, sd_arch = ARCH_NR big_endian_ppc64, sd_ip = 0, sd_args = (\<lambda>_. 6)\<rparr>) p 0 =
      Some SECCOMP_RET_ALLOW"
  by (rule mdwx_big_endian_misses [OF vm.bpf_machine_axioms])
     (simp_all add: big_endian_ppc64_def filter_syscall_def block_syscall_def sys_nr_def
       PROT_WRITE_def PROT_EXEC_def)

end
