(* ===== verification/Namespaces.thy ===== *)
theory Namespaces imports Seccomp_Mdwx begin

text \<open>
  The restrict-namespaces filters of fseccomp/namespaces.c: a list of namespace names becomes
  a mask of clone flags, and clone, unshare and setns are refused when they carry a flag of
  the mask.
\<close>

section \<open>The mask\<close>

definition CLONE_NEWTIME :: u32 where "CLONE_NEWTIME = 0x00000080"
definition CLONE_NEWNS :: u32 where "CLONE_NEWNS = 0x00020000"
definition CLONE_NEWCGROUP :: u32 where "CLONE_NEWCGROUP = 0x02000000"
definition CLONE_NEWUTS :: u32 where "CLONE_NEWUTS = 0x04000000"
definition CLONE_NEWIPC :: u32 where "CLONE_NEWIPC = 0x08000000"
definition CLONE_NEWUSER :: u32 where "CLONE_NEWUSER = 0x10000000"
definition CLONE_NEWPID :: u32 where "CLONE_NEWPID = 0x20000000"
definition CLONE_NEWNET :: u32 where "CLONE_NEWNET = 0x40000000"

lemmas clone_flags =
  CLONE_NEWTIME_def CLONE_NEWNS_def CLONE_NEWCGROUP_def CLONE_NEWUTS_def CLONE_NEWIPC_def
  CLONE_NEWUSER_def CLONE_NEWPID_def CLONE_NEWNET_def

definition ns_flag :: "string \<Rightarrow> u32 option" where
  "ns_flag token =
     (if token = ''cgroup'' then Some CLONE_NEWCGROUP
      else if token = ''ipc'' then Some CLONE_NEWIPC
      else if token = ''net'' then Some CLONE_NEWNET
      else if token = ''mnt'' then Some CLONE_NEWNS
      else if token = ''pid'' then Some CLONE_NEWPID
      else if token = ''time'' then Some CLONE_NEWTIME
      else if token = ''user'' then Some CLONE_NEWUSER
      else if token = ''uts'' then Some CLONE_NEWUTS
      else None)"

definition build_ns_mask :: "string \<Rightarrow> fsec_error + u32" where
  "build_ns_mask list =
     fold_res (\<lambda>token msk. case ns_flag token of
                  Some f \<Rightarrow> Inr (msk OR f)
                | None \<Rightarrow> Inl (InvalidNamespace token))
       (strtok_all (CHR '','') list) 0"

section \<open>The filters\<close>

definition flag_block :: "u32 \<Rightarrow> u32 \<Rightarrow> u32 \<Rightarrow> u32 \<Rightarrow> sock_filter list" where
  "flag_block a arg msk nr =
     [BPF_JUMP (BPF_JMP + BPF_JEQ + BPF_K) nr 0 4,
      EXAMINE_ARGUMENT arg,
      BPF_JUMP (BPF_JMP + BPF_JSET + BPF_K) msk 0 1,
      KILL_OR_RETURN_ERRNO a,
      RETURN_ALLOW]"

definition clone3_block :: "platform \<Rightarrow> u32 \<Rightarrow> sock_filter list" where
  "clone3_block P nr =
     [BPF_JUMP (BPF_JMP + BPF_JEQ + BPF_K) nr 0 1,
      RETURN_ERRNO (u32_of_int (errno_val P ''ENOSYS''))]"

definition setns_block :: "u32 \<Rightarrow> u32 \<Rightarrow> u32 \<Rightarrow> sock_filter list" where
  "setns_block a msk nr =
     [BPF_JUMP (BPF_JMP + BPF_JEQ + BPF_K) nr 0 4,
      EXAMINE_ARGUMENT 1,
      BPF_JUMP (BPF_JMP + BPF_JEQ + BPF_K) 0 1 0,
      BPF_JUMP (BPF_JMP + BPF_JSET + BPF_K) msk 0 1,
      KILL_OR_RETURN_ERRNO a,
      RETURN_ALLOW]"

definition clone_arg :: "platform \<Rightarrow> u32" where
  "clone_arg P = (if defined P ''__s390__'' then 1 else 0)"

definition ns_code :: "platform \<Rightarrow> u32 \<Rightarrow> u32 \<Rightarrow> sock_filter list" where
  "ns_code P a msk =
     ifdef (sys_nr P ''clone'') (flag_block a (clone_arg P) (msk AND NOT CLONE_NEWTIME)) @
     ifdef (sys_nr P ''clone3'') (clone3_block P) @
     ifdef (sys_nr P ''unshare'') (flag_block a 0 msk) @
     ifdef (sys_nr P ''setns'') (setns_block a msk)"

definition deny_ns :: "platform \<Rightarrow> int \<Rightarrow> string \<Rightarrow> u32 \<Rightarrow> fsec_error + sock_filter list" where
  "deny_ns P fd list a =
     bind_res (build_ns_mask list) (\<lambda>msk.
       if fd < 0 then Inl CannotOpen
       else Inr (out (filter_end_blacklist
                  (write_to_file (ns_code P a msk) (filter_init P True (new_file a))))))"

text \<open>The i386 numbers, defined for x86_64 with 64-bit pointers only.\<close>

definition clone_32 :: u32 where "clone_32 = 120"
definition clone3_32 :: u32 where "clone3_32 = 435"
definition unshare_32 :: u32 where "unshare_32 = 310"
definition setns_32 :: u32 where "setns_32 = 346"

lemmas ns_numbers_32 = clone_32_def clone3_32_def unshare_32_def setns_32_def

definition ns_code_32 :: "platform \<Rightarrow> u32 \<Rightarrow> u32 \<Rightarrow> sock_filter list" where
  "ns_code_32 P a msk =
     (if def_x86_64_lp64 P
      then flag_block a 0 (msk AND NOT CLONE_NEWTIME) clone_32 @ clone3_block P clone3_32 @
           flag_block a 0 msk unshare_32 @ setns_block a msk setns_32
      else [])"

definition deny_ns_32 :: "platform \<Rightarrow> int \<Rightarrow> string \<Rightarrow> u32 \<Rightarrow> fsec_error + sock_filter list" where
  "deny_ns_32 P fd list a =
     bind_res (build_ns_mask list) (\<lambda>msk.
       if fd < 0 then Inl CannotOpen
       else Inr (out (filter_end_blacklist
                  (write_to_file (ns_code_32 P a msk) (filter_init P False (new_file a))))))"

section \<open>What they decide\<close>

text \<open>A flags word asks for one of the namespaces of a list.\<close>

definition asks :: "string list \<Rightarrow> u32 \<Rightarrow> bool" where
  "asks tokens w \<longleftrightarrow> list_ex (\<lambda>t. case ns_flag t of Some f \<Rightarrow> w AND f \<noteq> 0 | None \<Rightarrow> False) tokens"

definition known :: "string list \<Rightarrow> bool" where
  "known tokens \<longleftrightarrow> list_all (\<lambda>t. ns_flag t \<noteq> None) tokens"

lemma build_ns_mask_total:
  assumes "known (strtok_all (CHR '','') l)"
  shows "build_ns_mask l = Inr (fold (\<lambda>t m. m OR the (ns_flag t)) (strtok_all (CHR '','') l) 0)"
  unfolding build_ns_mask_def
  using assms by (intro fold_res_total) (auto simp: known_def list_all_iff split: option.split)

lemma build_ns_mask_Inl:
  assumes "build_ns_mask l = Inl e"
  shows "\<exists>t \<in> set (strtok_all (CHR '','') l). ns_flag t = None \<and> e = InvalidNamespace t"
proof -
  have "\<exists>t \<in> set ts. ns_flag t = None \<and> e = InvalidNamespace t"
    if "fold_res (\<lambda>token msk. case ns_flag token of Some f \<Rightarrow> Inr (msk OR f)
      | None \<Rightarrow> Inl (InvalidNamespace token)) ts m = Inl e" for ts m
    using that by (induction ts arbitrary: m) (auto split: option.splits)
  then show ?thesis using assms by (auto simp: build_ns_mask_def)
qed

lemma and_or_zero: "(w :: u32) AND (m OR f) = 0 \<longleftrightarrow> w AND m = 0 \<and> w AND f = 0"
  by (auto simp: bit_eq_iff [where 'a = u32] bit_simps)

lemma fold_mask_asks:
  assumes "known ts"
  shows "w AND fold (\<lambda>t m. m OR the (ns_flag t)) ts m = 0 \<longleftrightarrow> w AND m = 0 \<and> \<not> asks ts w"
  using assms
proof (induction ts arbitrary: m)
  case Nil
  show ?case by (simp add: asks_def)
next
  case (Cons t ts)
  then obtain f where "ns_flag t = Some f" by (auto simp: known_def)
  with Cons show ?case by (simp add: known_def asks_def and_or_zero)
qed

lemma flag_without_time:
  "ns_flag t = Some f \<Longrightarrow> (w AND NOT CLONE_NEWTIME) AND f = (if t = ''time'' then 0 else w AND f)"
proof -
  assume f: "ns_flag t = Some f"
  then have "NOT CLONE_NEWTIME AND f = (if t = ''time'' then 0 else f)"
    by (auto simp: ns_flag_def clone_flags split: if_splits)
  then show ?thesis by (simp add: and.assoc)
qed

lemma asks_without_time:
  "asks ts (w AND NOT CLONE_NEWTIME) \<longleftrightarrow> asks (filter (\<lambda>t. t \<noteq> ''time'') ts) w"
  by (induction ts) (auto simp: asks_def flag_without_time split: option.splits)

text \<open>
  The verdicts, on the low 32 bits of the 64-bit argument that holds the flags. They are an \<^verbatim>\<open>int\<close> or the low half
  of an \<^verbatim>\<open>unsigned long\<close>, so the kernel finds all namespace flags there.
\<close>

definition ns_verdict :: "platform \<Rightarrow> u32 \<Rightarrow> string list \<Rightarrow> seccomp_data \<Rightarrow> u32" where
  "ns_verdict P a ts d =
     (let nr = Some (sd_nr d) in
      if nr = sys_nr P ''clone'' then
        (if asks (filter (\<lambda>t. t \<noteq> ''time'') ts) (lsw (sd_args d (unat (clone_arg P)))) then a
         else SECCOMP_RET_ALLOW)
      else if nr = sys_nr P ''clone3'' then SECCOMP_RET_ERRNO OR u32_of_int (errno_val P ''ENOSYS'')
      else if nr = sys_nr P ''unshare'' then
        (if asks ts (lsw (sd_args d 0)) then a else SECCOMP_RET_ALLOW)
      else if nr = sys_nr P ''setns'' then
        (if lsw (sd_args d 1) = 0 \<or> asks ts (lsw (sd_args d 1)) then a else SECCOMP_RET_ALLOW)
      else SECCOMP_RET_ALLOW)"

definition ns_verdict_32 :: "platform \<Rightarrow> u32 \<Rightarrow> string list \<Rightarrow> seccomp_data \<Rightarrow> u32" where
  "ns_verdict_32 P a ts d =
     (let nr = sd_nr d in
      if \<not> def_x86_64_lp64 P then SECCOMP_RET_ALLOW
      else if nr = clone_32 then
        (if asks (filter (\<lambda>t. t \<noteq> ''time'') ts) (lsw (sd_args d 0)) then a else SECCOMP_RET_ALLOW)
      else if nr = clone3_32 then SECCOMP_RET_ERRNO OR u32_of_int (errno_val P ''ENOSYS'')
      else if nr = unshare_32 then (if asks ts (lsw (sd_args d 0)) then a else SECCOMP_RET_ALLOW)
      else if nr = setns_32 then
        (if lsw (sd_args d 1) = 0 \<or> asks ts (lsw (sd_args d 1)) then a else SECCOMP_RET_ALLOW)
      else SECCOMP_RET_ALLOW)"

context bpf_machine
begin

lemma exec_flag_block:
  assumes "arg = 0 \<or> arg = 1"
  shows "exec (data_word P d) (flag_block a arg msk nr @ p) A =
    (if A = nr then Some (if first_half P d (unat arg) AND msk \<noteq> 0 then a else SECCOMP_RET_ALLOW)
     else exec (data_word P d) p A)"
  using assms
  by (auto simp: flag_block_def exec_examine_argument exec_simps exec_kill exec_allow first_half_def)

lemma exec_clone3_block:
  "exec ld (clone3_block P nr @ p) A =
    (if A = nr then Some (SECCOMP_RET_ERRNO OR u32_of_int (errno_val P ''ENOSYS'')) else exec ld p A)"
  by (simp add: clone3_block_def exec_simps exec_errno)

lemma exec_setns_block:
  "exec (data_word P d) (setns_block a msk nr @ RETURN_ALLOW # p) A =
    Some (if A = nr then (if first_half P d 1 = 0 \<or> first_half P d 1 AND msk \<noteq> 0 then a else SECCOMP_RET_ALLOW)
     else SECCOMP_RET_ALLOW)"
  by (simp add: setns_block_def exec_examine_argument exec_simps exec_kill exec_allow first_half_def)

lemma exec_ifdef:
  assumes "\<And>nr. exec ld (code nr @ p) A = (if A = nr then v else exec ld p A)"
  shows "exec ld (ifdef m code @ p) A = (if Some A = m then v else exec ld p A)"
  using assms by (cases m) auto

lemma exec_ifdef_setns:
  "exec (data_word P d) (ifdef m (setns_block a msk) @ RETURN_ALLOW # p) A =
    Some (if Some A = m \<and> (first_half P d 1 = 0 \<or> first_half P d 1 AND msk \<noteq> 0) then a
          else SECCOMP_RET_ALLOW)"
  by (cases m) (simp_all add: exec_setns_block exec_allow)

lemma exec_ns_code:
  assumes "known ts" and "msk = fold (\<lambda>t m. m OR the (ns_flag t)) ts 0" and "\<not> big_endian P"
  shows "exec (data_word P d) (ns_code P a msk @ [RETURN_ALLOW]) (sd_nr d) = Some (ns_verdict P a ts d)"
proof -
  have m: "w AND msk \<noteq> 0 \<longleftrightarrow> asks ts w" for w
    using fold_mask_asks [OF assms(1), of w 0] assms(2) by simp
  have mt: "w AND (msk AND NOT CLONE_NEWTIME) \<noteq> 0 \<longleftrightarrow> asks (filter (\<lambda>t. t \<noteq> ''time'') ts) w" for w
    using m [of "w AND NOT CLONE_NEWTIME"] by (simp add: asks_without_time ac_simps)
  have arg: "clone_arg P = 0 \<or> clone_arg P = 1" by (simp add: clone_arg_def)
  show ?thesis
    by (simp add: ns_code_def exec_ifdef [OF exec_flag_block [OF arg]] exec_ifdef [OF exec_clone3_block]
        exec_ifdef [OF exec_flag_block] exec_ifdef_setns m mt ns_verdict_def
        first_half_little [OF assms(3)])
qed

lemma exec_ns_code_32:
  assumes "known ts" and "msk = fold (\<lambda>t m. m OR the (ns_flag t)) ts 0" and "\<not> big_endian P"
  shows "exec (data_word P d) (ns_code_32 P a msk @ [RETURN_ALLOW]) (sd_nr d) =
    Some (ns_verdict_32 P a ts d)"
proof -
  have m: "w AND msk \<noteq> 0 \<longleftrightarrow> asks ts w" for w
    using fold_mask_asks [OF assms(1), of w 0] assms(2) by simp
  have mt: "w AND (msk AND NOT CLONE_NEWTIME) \<noteq> 0 \<longleftrightarrow> asks (filter (\<lambda>t. t \<noteq> ''time'') ts) w" for w
    using m [of "w AND NOT CLONE_NEWTIME"] by (simp add: asks_without_time ac_simps)
  show ?thesis
    by (simp add: ns_code_32_def exec_flag_block exec_clone3_block exec_setns_block exec_allow m mt
        ns_verdict_32_def first_half_little [OF assms(3)])
qed

end

section \<open>Properties\<close>

lemma build_ns_mask_unknown:
  assumes "\<not> known (strtok_all (CHR '','') l)"
  shows "\<exists>e. build_ns_mask l = Inl e"
proof -
  have "\<exists>e. fold_res (\<lambda>token msk. case ns_flag token of Some f \<Rightarrow> Inr (msk OR f)
      | None \<Rightarrow> Inl (InvalidNamespace token)) ts m = Inl e" if "\<not> known ts" for ts m
    using that by (induction ts arbitrary: m) (auto simp: known_def split: option.splits)
  with assms show ?thesis by (simp add: build_ns_mask_def)
qed

text \<open>C8. On a little-endian platform a list of known namespaces gives a native and a 32-bit filter with the
  following verdicts. Clone is refused when its flags, the low half of the argument that holds them, ask for a listed
  namespace other than \<^verbatim>\<open>time\<close>, whose flag means something else there; unshare when they ask for any listed one;
  setns when they ask for a listed one or are zero. Clone3 gets ENOSYS whatever it asks for, since its flags
  are behind a pointer, and other calls pass. A list with an unknown name is refused with a name of the list that is
  not a namespace.\<close>

theorem namespaces_filter_policy:
  assumes "bpf_machine exec" and "0 < fd" and "\<not> big_endian P"
  shows "if known (strtok_all (CHR '','') l)
    then \<exists>p q. deny_ns P fd l a = Inr p \<and> deny_ns_32 P fd l a = Inr q \<and>
      (\<forall>d. exec (data_word P d) p 0 =
          Some (guarded P True a d (ns_verdict P a (strtok_all (CHR '','') l) d)) \<and>
        exec (data_word P d) q 0 =
          Some (guarded P False a d (ns_verdict_32 P a (strtok_all (CHR '','') l) d)))
    else \<exists>t \<in> set (strtok_all (CHR '','') l). ns_flag t = None \<and>
      deny_ns P fd l a = Inl (InvalidNamespace t) \<and> deny_ns_32 P fd l a = Inl (InvalidNamespace t)"
proof (cases "known (strtok_all (CHR '','') l)")
  case True
  then show ?thesis
    using assms
    by (simp add: deny_ns_def deny_ns_32_def build_ns_mask_total filter_init_new
        filter_end_blacklist_def write_to_file_def bpf_machine.exec_init bpf_machine.exec_ns_code
        bpf_machine.exec_ns_code_32)
next
  case False
  obtain e where e: "build_ns_mask l = Inl e" using build_ns_mask_unknown [OF False] by blast
  with build_ns_mask_Inl [OF e] False show ?thesis by (auto simp: deny_ns_def deny_ns_32_def)
qed

theorem namespaces_filter_policy_witness:
  "\<exists>p q. deny_ns linux_x86_64 3 ''user,net'' 0 = Inr p \<and> deny_ns_32 linux_x86_64 3 ''user,net'' 0 = Inr q \<and>
    (\<forall>d. bpf_exec (data_word linux_x86_64 d) p 0 =
        Some (guarded linux_x86_64 True 0 d (ns_verdict linux_x86_64 0 [''user'', ''net''] d)) \<and>
      bpf_exec (data_word linux_x86_64 d) q 0 =
        Some (guarded linux_x86_64 False 0 d (ns_verdict_32 linux_x86_64 0 [''user'', ''net''] d)))"
proof -
  have tok: "strtok_all (CHR '','') ''user,net'' = [''user'', ''net'']" by (simp add: strtok_all_def)
  have "known [''user'', ''net'']" by (simp add: known_def ns_flag_def)
  with namespaces_filter_policy [OF vm.bpf_machine_axioms, of 3 linux_x86_64 "''user,net''" 0]
  show ?thesis by (simp add: tok)
qed

text \<open>
  On a big-endian platform the filter looks at the other half of the argument: with flags that fit 32 bits, no
  namespace is refused by unshare.
\<close>

lemma unshare_big_endian_passes:
  assumes "bpf_machine exec" and "big_endian P" and "sd_args d 0 = ucast (w :: u32)"
  shows "exec (data_word P d) (flag_block a 0 msk (sd_nr d) @ p) (sd_nr d) = Some SECCOMP_RET_ALLOW"
proof -
  have "first_half P d 0 = 0" using assms(2,3) msw_ucast [of w] by (simp add: first_half_def half_at_def)
  then show ?thesis using bpf_machine.exec_flag_block [OF assms(1), of 0 P d a msk "sd_nr d" p "sd_nr d"] by simp
qed

end
