(* ===== verification/Secondary.thy ===== *)
theory Secondary imports Namespaces begin

text \<open>
  fseccomp/seccomp_secondary.c: the fixed filter for 32-bit calls on a 64-bit system, and the
  filter that blocks secondary architectures and personality(2). The latter has hand-computed
  jumps and checks both halves of the argument.
\<close>

section \<open>The filters\<close>

definition secondary_numbers :: "u32 list" where
  "secondary_numbers =
     [21, 52, 26, 283, 341, 342, 127, 128, 350, 129, 110, 101, 289, 87, 115, 103, 347, 348, 135, 149,
      124, 343, 253, 336, 338, 349, 286, 287, 288, 86, 51, 123, 217, 245, 246, 247, 248, 249, 257,
      274, 276, 294, 317, 316, 61, 88, 169, 130]"

definition seccomp_secondary_32 :: "platform \<Rightarrow> int \<Rightarrow> u32 \<Rightarrow> fsec_error + sock_filter list" where
  "seccomp_secondary_32 P fd a =
     (if fd < 0 then Inl CannotOpen
      else Inr (VALIDATE_ARCHITECTURE_32 P @ [EXAMINE_SYSCALL] @
                concat (map (BLACKLIST a) secondary_numbers) @ [RETURN_ALLOW]))"

definition PER_LINUX :: u32 where "PER_LINUX = 0"

definition jmp_from_to :: "u8 \<Rightarrow> u8 \<Rightarrow> u8" where
  "jmp_from_to from_addr to_addr = to_addr - from_addr - 1"

definition MSW :: "platform \<Rightarrow> u32" where
  "MSW P = (if big_endian P then 0 else 4)"

definition LSW :: "platform \<Rightarrow> u32" where
  "LSW P = (if big_endian P then 4 else 0)"

definition personality_code :: "platform \<Rightarrow> u32 \<Rightarrow> sock_filter list" where
  "personality_code P a =
     [BPF_JUMP (BPF_JMP + BPF_JEQ + BPF_K) (the (sys_nr P ''personality'')) 0 (jmp_from_to 0 7),
      BPF_STMT (BPF_LD + BPF_W + BPF_ABS) (offset_args 0 + LSW P),
      BPF_JUMP (BPF_JMP + BPF_JEQ + BPF_K) PER_LINUX (jmp_from_to 2 4) 0,
      BPF_JUMP (BPF_JMP + BPF_JEQ + BPF_K) 0xffffffff 0 (jmp_from_to 3 6),
      BPF_STMT (BPF_LD + BPF_W + BPF_ABS) (offset_args 0 + MSW P),
      BPF_JUMP (BPF_JMP + BPF_JEQ + BPF_K) 0 (jmp_from_to 5 7) 0,
      KILL_OR_RETURN_ERRNO a,
      RETURN_ALLOW]"

definition seccomp_secondary_block :: "platform \<Rightarrow> int \<Rightarrow> u32 \<Rightarrow> fsec_error + sock_filter list" where
  "seccomp_secondary_block P fd a =
     (if fd < 0 then Inl CannotOpen
      else Inr (VALIDATE_ARCHITECTURE_KILL P a @ [EXAMINE_SYSCALL] @
                (if def_x86_64 P then HANDLE_X32 a else []) @ personality_code P a))"

section \<open>What they decide\<close>

lemma data_word_halves:
  "data_word P d (unat (offset_args 0 + LSW P)) = Some (lsw (sd_args d 0))"
  "data_word P d (unat (offset_args 0 + MSW P)) = Some (msw (sd_args d 0))"
  by (simp_all add: data_word_def offset_args_def LSW_def MSW_def half_at_def)

lemma halves_eq:
  fixes x :: u64
  shows "lsw x = lsw y \<and> msw x = msw y \<longleftrightarrow> x = y"
proof
  assume h: "lsw x = lsw y \<and> msw x = msw y"
  show "x = y"
  proof (rule bit_word_eqI)
    fix n assume n: "n < LENGTH(64)"
    show "bit x n \<longleftrightarrow> bit y n"
    proof (cases "n < 32")
      case True
      with h bit_lsw [of n x] bit_lsw [of n y] show ?thesis by simp
    next
      case False
      have "bit (msw z) (n - 32) = bit z n" for z
        using n False by (simp add: msw_def bit_simps less_diff_conv2)
      with h show ?thesis by metis
    qed
  qed
qed simp

context bpf_machine
begin

lemma exec_personality:
  assumes "SYS P ''personality'' \<noteq> None"
  shows "exec (data_word P d) (personality_code P a) A =
    Some (if Some A = sys_nr P ''personality'' \<and> sd_args d 0 \<noteq> 0 \<and> sd_args d 0 \<noteq> 0xffffffff then a
          else SECCOMP_RET_ALLOW)"
proof -
  have zero: "lsw (sd_args d 0) = 0 \<and> msw (sd_args d 0) = 0 \<longleftrightarrow> sd_args d 0 = 0"
    using halves_eq [of "sd_args d 0" 0] by (simp add: lsw_def msw_def)
  have query: "lsw (sd_args d 0) = 0xffffffff \<and> msw (sd_args d 0) = 0 \<longleftrightarrow> sd_args d 0 = 0xffffffff"
    using halves_eq [of "sd_args d 0" "0xffffffff"] by (simp add: lsw_def msw_def)
  have nr: "A = the (sys_nr P ''personality'') \<longleftrightarrow> Some A = sys_nr P ''personality''"
    using assms by (auto simp: sys_nr_def)
  show ?thesis
    using zero query
    by (auto simp: personality_code_def exec_simps exec_kill exec_allow data_word_halves nr
        jmp_from_to_def PER_LINUX_def)
qed

end

section \<open>Properties\<close>

text \<open>C9. The filter that blocks secondary architectures refuses every call made through
  another architecture or the x32 interface, refuses personality(2) unless the whole
  64-bit argument is \<^verbatim>\<open>PER_LINUX\<close> or the query value, and allows everything else; this
  holds for both byte orders.\<close>

theorem secondary_block_policy:
  assumes "bpf_machine exec" and "0 < fd" and "SYS P ''personality'' \<noteq> None"
  shows "\<exists>p. seccomp_secondary_block P fd a = Inr p \<and>
    (\<forall>d. exec (data_word P d) p 0 = Some
      (if sd_arch d \<noteq> ARCH_NR P then a
       else if def_x86_64 P \<and> X32_SYSCALL_BIT \<le> sd_nr d then a
       else if Some (sd_nr d) = sys_nr P ''personality'' \<and> sd_args d 0 \<noteq> 0 \<and> sd_args d 0 \<noteq> 0xffffffff
         then a
       else SECCOMP_RET_ALLOW))"
  using assms
  by (simp add: seccomp_secondary_block_def bpf_machine.exec_validate_kill bpf_machine.exec_examine
      bpf_machine.exec_x32 bpf_machine.exec_personality)

theorem secondary_block_policy_witness:
  "\<exists>p. seccomp_secondary_block big_endian_ppc64 3 0 = Inr p \<and>
    (\<forall>d. bpf_exec (data_word big_endian_ppc64 d) p 0 = Some
      (if sd_arch d \<noteq> ARCH_NR big_endian_ppc64 then 0
       else if sd_nr d = 136 \<and> sd_args d 0 \<noteq> 0 \<and> sd_args d 0 \<noteq> 0xffffffff then 0
       else SECCOMP_RET_ALLOW))"
proof -
  have "SYS big_endian_ppc64 ''personality'' = Some 136" and "\<not> def_x86_64 big_endian_ppc64"
    by (simp_all add: big_endian_ppc64_def)
  then show ?thesis
    using secondary_block_policy [OF vm.bpf_machine_axioms, of 3 big_endian_ppc64 0]
    by (simp add: sys_nr_def cong: if_cong)
qed

text \<open>C31. The fixed 32-bit filter refuses exactly its list of numbers for calls of the
  32-bit architecture.\<close>

theorem secondary_32_policy:
  assumes "bpf_machine exec" and "0 < fd"
  shows "\<exists>p. seccomp_secondary_32 P fd a = Inr p \<and>
    (\<forall>d. exec (data_word P d) p 0 = Some
      (if sd_arch d = ARCH_32 P \<and> sd_nr d \<in> set secondary_numbers then a else SECCOMP_RET_ALLOW))"
proof -
  have "concat (map (BLACKLIST a) ns) = rules_code (map (\<lambda>n. (n, a)) ns)" for ns
    by (induction ns) (simp_all add: BLACKLIST_rule)
  moreover have "map_of (map (\<lambda>n. (n, a)) ns) k = (if k \<in> set ns then Some a else None)"
    for ns :: "u32 list" and k
    by (induction ns) auto
  ultimately show ?thesis
    using assms
    by (simp add: seccomp_secondary_32_def bpf_machine.exec_validate_32 bpf_machine.exec_examine
        bpf_machine.exec_rules bpf_machine.exec_allow del: map_map)
qed

theorem secondary_32_policy_witness:
  "\<exists>p. seccomp_secondary_32 linux_x86_64 3 0 = Inr p \<and>
    (\<forall>d. bpf_exec (data_word linux_x86_64 d) p 0 = Some
      (if sd_arch d = ARCH_32 linux_x86_64 \<and> sd_nr d \<in> set secondary_numbers then 0
       else SECCOMP_RET_ALLOW))"
  by (rule secondary_32_policy [OF vm.bpf_machine_axioms]) simp

definition hardcoded_entries :: syscall_table where
  "hardcoded_entries =
    [(''mount'', 21), (''ptrace'', 26), (''acct'', 51), (''umount2'', 52), (''chroot'', 61),
     (''uselib'', 86), (''swapon'', 87), (''reboot'', 88), (''mmap'', 90), (''ioperm'', 101),
     (''syslog'', 103), (''iopl'', 110), (''swapoff'', 115), (''clone'', 120),
     (''modify_ldt'', 123), (''adjtimex'', 124), (''mprotect'', 125), (''create_module'', 127),
     (''init_module'', 128), (''delete_module'', 129), (''get_kernel_syms'', 130),
     (''sysfs'', 135), (''_sysctl'', 149), (''nfsservctl'', 169), (''mmap2'', 192),
     (''pivot_root'', 217), (''io_setup'', 245), (''io_destroy'', 246), (''io_getevents'', 247),
     (''io_submit'', 248), (''io_cancel'', 249), (''lookup_dcookie'', 253),
     (''remap_file_pages'', 257), (''mbind'', 274), (''set_mempolicy'', 276),
     (''kexec_load'', 283), (''add_key'', 286), (''request_key'', 287), (''keyctl'', 288),
     (''ioprio_set'', 289), (''migrate_pages'', 294), (''unshare'', 310), (''vmsplice'', 316),
     (''move_pages'', 317), (''perf_event_open'', 336), (''fanotify_init'', 338),
     (''name_to_handle_at'', 341), (''open_by_handle_at'', 342), (''clock_adjtime'', 343),
     (''setns'', 346), (''process_vm_readv'', 347), (''process_vm_writev'', 348),
     (''kcmp'', 349), (''finit_module'', 350), (''memfd_create'', 356), (''socket'', 359), (''pkey_mprotect'', 380),
     (''shmat'', 397), (''clone3'', 435)]"

lemma hardcoded_entries_i386: "set hardcoded_entries \<subseteq> set syscall_i386"
  by (rule picked)
     (simp add: hardcoded_entries_def syscall_i386_def syscall_i386_1_def syscall_i386_2_def
       syscall_i386_3_def syscall_i386_4_def)

lemma hardcoded_find:
  "list_all (\<lambda>e. syscall_find_name_32 linux_x86_64 (fst e) = snd e) hardcoded_entries"
proof -
  have "find_name linux_x86_64 False (fst e) = snd e" if "e \<in> set hardcoded_entries" for e
    using that hardcoded_entries_i386 by (intro linux_find_name) auto
  then show ?thesis by (simp add: list_all_iff find_name_def)
qed

text \<open>The numbers hard-coded for i386 are the numbers of the calls they stand for in the i386 table of
  lib/syscall.c: the list of the fixed 32-bit filter, the numbers of the memory and namespace filters and the 359 of
  the protocol filter.\<close>

lemma hardcoded_i386_numbers:
  "map (\<lambda>w. u32_of_int (syscall_find_name_32 linux_x86_64 w))
     [''mount'', ''umount2'', ''ptrace'', ''kexec_load'', ''name_to_handle_at'',
      ''open_by_handle_at'', ''create_module'', ''init_module'', ''finit_module'',
      ''delete_module'', ''iopl'', ''ioperm'', ''ioprio_set'', ''swapon'', ''swapoff'', ''syslog'',
      ''process_vm_readv'', ''process_vm_writev'', ''sysfs'', ''_sysctl'', ''adjtimex'',
      ''clock_adjtime'', ''lookup_dcookie'', ''perf_event_open'', ''fanotify_init'', ''kcmp'',
      ''add_key'', ''request_key'', ''keyctl'', ''uselib'', ''acct'', ''modify_ldt'',
      ''pivot_root'', ''io_setup'', ''io_destroy'', ''io_getevents'', ''io_submit'', ''io_cancel'',
      ''remap_file_pages'', ''mbind'', ''set_mempolicy'', ''migrate_pages'', ''move_pages'',
      ''vmsplice'', ''chroot'', ''reboot'', ''nfsservctl'', ''get_kernel_syms''] = secondary_numbers \<and>
   map (\<lambda>w. u32_of_int (syscall_find_name_32 linux_x86_64 w))
     [''mmap2'', ''mmap'', ''mprotect'', ''pkey_mprotect'', ''shmat'', ''memfd_create'', ''clone'',
      ''clone3'', ''unshare'', ''setns''] =
     [filter_syscall_32, block_syscall_32, mprotect_32, pkey_mprotect_32, shmat_32, memfd_create_32,
      clone_32, clone3_32, unshare_32, setns_32] \<and>
   u32_of_int (syscall_find_name_32 linux_x86_64 ''socket'') = 359"
  using hardcoded_find
  by (simp add: hardcoded_entries_def secondary_numbers_def mdwx_numbers_32 ns_numbers_32)

end
