(* ===== verification/Protocol.thy ===== *)
theory Protocol imports Seccomp_Mdwx begin

text \<open>
  The protocol filter of fseccomp/protocol.c: socket(2) is allowed for the listed address
  families only. The program is put together in a local array of 32 instructions.
\<close>

section \<open>The builder\<close>

definition AF_UNIX :: u32 where "AF_UNIX = 1"
definition AF_INET :: u32 where "AF_INET = 2"
definition AF_INET6 :: u32 where "AF_INET6 = 10"
definition AF_NETLINK :: u32 where "AF_NETLINK = 16"
definition AF_PACKET :: u32 where "AF_PACKET = 17"
definition AF_BLUETOOTH :: u32 where "AF_BLUETOOTH = 31"

definition protocol :: "string list" where
  "protocol = [''unix'', ''inet'', ''inet6'', ''netlink'', ''packet'', ''bluetooth'']"

definition protocol_filter_command :: "sock_filter list" where
  "protocol_filter_command =
     WHITELIST AF_UNIX @ WHITELIST AF_INET @ WHITELIST AF_INET6 @ WHITELIST AF_NETLINK @
     WHITELIST AF_PACKET @ WHITELIST AF_BLUETOOTH"

definition whitelist_len :: nat where
  "whitelist_len = length (WHITELIST AF_UNIX)"

text \<open>The result points into \<^verbatim>\<open>protocol_filter_command\<close>; the caller copies \<^verbatim>\<open>whitelist_len\<close> entries.\<close>

fun find_from :: "nat \<Rightarrow> string list \<Rightarrow> string \<Rightarrow> nat option" where
  "find_from i [] p = None"
| "find_from i (q # qs) p = (if q = p then Some i else find_from (Suc i) qs p)"

definition find_protocol_domain :: "string \<Rightarrow> sock_filter list option" where
  "find_protocol_domain p =
     map_option (\<lambda>i. take whitelist_len (drop (i * whitelist_len) protocol_filter_command))
       (find_from 0 protocol p)"

definition filter_start :: "platform \<Rightarrow> u32 \<Rightarrow> u32 \<Rightarrow> sock_filter list" where
  "filter_start P a sys_socket =
     (if def_x86_64 P
      then [BPF_STMT (BPF_LD + BPF_W + BPF_ABS) offset_arch,
            BPF_JUMP (BPF_JMP + BPF_JEQ + BPF_K) (ARCH_NR P) (1 + 2 + 1) 0,
            EXAMINE_SYSCALL] @
           ONLY 359 @
           [BPF_JUMP (BPF_JMP + BPF_JA + BPF_K) (3 + 1 + 3 + 2) 0 0]
      else []) @
     VALIDATE_ARCHITECTURE P @ [EXAMINE_SYSCALL] @
     (if def_x86_64 P then HANDLE_X32 a else []) @
     ONLY sys_socket @ [EXAMINE_ARGUMENT 0]"

definition memcpy_filter :: "sock_filter list \<Rightarrow> sock_filter list \<Rightarrow> fsec_error + sock_filter list" where
  "memcpy_filter src flt = (if length flt + length src \<le> 32 then Inr (flt @ src) else Inl BufferOverflow)"

definition add_protocol :: "string \<Rightarrow> sock_filter list \<Rightarrow> fsec_error + sock_filter list" where
  "add_protocol token flt =
     (case find_protocol_domain token of
        None \<Rightarrow> Inl (InvalidProtocol token)
      | Some domain \<Rightarrow> memcpy_filter domain flt)"

text \<open>None: the platform has no socket call, a warning is printed and no file is written.\<close>

definition protocol_build_filter ::
    "platform \<Rightarrow> int \<Rightarrow> string \<Rightarrow> u32 \<Rightarrow> fsec_error + sock_filter list option" where
  "protocol_build_filter P fd prlist a =
     (case sys_nr P ''socket'' of
        None \<Rightarrow> Inr None
      | Some sys_socket \<Rightarrow>
          bind_res (memcpy_filter (filter_start P a sys_socket) []) (\<lambda>f1.
          if strtok_all (CHR '','') prlist = [] then Inl EmptyProtocolList
          else bind_res (fold_res add_protocol (strtok_all (CHR '','') prlist) f1) (\<lambda>f2.
          bind_res (memcpy_filter [RETURN_ERRNO (u32_of_int (errno_val P ''ENOTSUP''))] f2) (\<lambda>f3.
          if fd < 0 then Inl CannotOpen else Inr (Some f3)))))"

section \<open>The tables are synchronised\<close>

definition domain_of :: "string \<Rightarrow> u32 option" where
  "domain_of = map_of (zip protocol
     [AF_UNIX, AF_INET, AF_INET6, AF_NETLINK, AF_PACKET, AF_BLUETOOTH])"

lemma domain_of_known: "domain_of p \<noteq> None \<Longrightarrow> p \<in> set protocol"
  by (auto simp: domain_of_def dest!: map_of_SomeD set_zip_leftD)

lemma find_protocol_domain_eq:
  "find_protocol_domain p = map_option (\<lambda>f. rule_code (f, SECCOMP_RET_ALLOW)) (domain_of p)"
proof (cases "p \<in> set protocol")
  case True
  then have "p = ''unix'' \<or> p = ''inet'' \<or> p = ''inet6'' \<or> p = ''netlink'' \<or> p = ''packet'' \<or>
      p = ''bluetooth''"
    by (simp add: protocol_def)
  then show ?thesis
    by (elim disjE) (simp_all add: find_protocol_domain_def protocol_def domain_of_def whitelist_len_def
        protocol_filter_command_def WHITELIST_rule rule_code_def)
next
  case False
  have "find_from i qs p = None" if "p \<notin> set qs" for i qs
    using that by (induction qs arbitrary: i) auto
  then show ?thesis
    using False domain_of_known [of p]
    by (cases "domain_of p") (simp_all add: find_protocol_domain_def)
qed

section \<open>The program\<close>

definition start_length :: "platform \<Rightarrow> nat" where
  "start_length P = (if def_x86_64 P then 16 else 7)"

lemma length_filter_start: "length (filter_start P a s) = start_length P"
  by (simp add: filter_start_def start_length_def VALIDATE_ARCHITECTURE_def HANDLE_X32_def ONLY_def)

definition family_rules :: "string list \<Rightarrow> rule list" where
  "family_rules ts = map (\<lambda>t. (the (domain_of t), SECCOMP_RET_ALLOW)) ts"

lemma length_rule_code: "length (rule_code r) = 2"
  by (simp add: rule_code_def)

lemma add_protocols:
  assumes "list_all (\<lambda>t. domain_of t \<noteq> None) ts"
  shows "fold_res add_protocol ts flt =
    (if length flt + 2 * length ts \<le> 32 \<or> ts = [] then Inr (flt @ rules_code (family_rules ts))
     else Inl BufferOverflow)"
  using assms
proof (induction ts arbitrary: flt)
  case Nil
  show ?case by (simp add: family_rules_def)
next
  case (Cons t ts)
  then obtain f where "domain_of t = Some f" by auto
  then have "add_protocol t flt = (if length flt + 2 \<le> 32
      then Inr (flt @ rule_code (f, SECCOMP_RET_ALLOW)) else Inl BufferOverflow)"
    by (simp add: add_protocol_def find_protocol_domain_eq memcpy_filter_def length_rule_code)
  then show ?case
    using Cons \<open>domain_of t = Some f\<close> by (auto simp: family_rules_def length_rule_code)
qed

lemma add_protocols_unknown:
  assumes "\<not> list_all (\<lambda>t. domain_of t \<noteq> None) ts"
  shows "\<exists>e. fold_res add_protocol ts flt = Inl e"
  using assms
  by (induction ts arbitrary: flt)
     (auto simp: add_protocol_def find_protocol_domain_eq memcpy_filter_def split: option.split)

lemma protocol_program:
  assumes "sys_nr P ''socket'' = Some s" and "0 < fd"
    and "strtok_all (CHR '','') l = ts" and "ts \<noteq> []" and "list_all (\<lambda>t. domain_of t \<noteq> None) ts"
  shows "protocol_build_filter P fd l a =
    (if start_length P + 2 * length ts + 1 \<le> 32
     then Inr (Some (filter_start P a s @ rules_code (family_rules ts) @
       [RETURN_ERRNO (u32_of_int (errno_val P ''ENOTSUP''))]))
     else Inl BufferOverflow)"
proof -
  have "length (rules_code (family_rules ts)) = 2 * length ts"
    by (induction ts) (simp_all add: family_rules_def length_rule_code)
  moreover have "start_length P \<le> 16" by (simp add: start_length_def)
  ultimately show ?thesis
    using assms
    by (auto simp: protocol_build_filter_def memcpy_filter_def length_filter_start add_protocols)
qed

section \<open>What it decides\<close>

definition family_allowed :: "string list \<Rightarrow> u32 \<Rightarrow> bool" where
  "family_allowed ts w \<longleftrightarrow> list_ex (\<lambda>t. domain_of t = Some w) ts"

text \<open>The family is the first argument of socket(2), an \<^verbatim>\<open>int\<close>: the low half of the 64-bit value.\<close>

definition protocol_verdict :: "platform \<Rightarrow> u32 \<Rightarrow> string list \<Rightarrow> seccomp_data \<Rightarrow> u32" where
  "protocol_verdict P a ts d =
     (let socket = (if family_allowed ts (lsw (sd_args d 0)) then SECCOMP_RET_ALLOW
                    else SECCOMP_RET_ERRNO OR u32_of_int (errno_val P ''ENOTSUP''))
      in if sd_arch d = ARCH_NR P then
           (if def_x86_64 P \<and> X32_SYSCALL_BIT \<le> sd_nr d then a
            else if Some (sd_nr d) = sys_nr P ''socket'' then socket else SECCOMP_RET_ALLOW)
         else if def_x86_64 P \<and> sd_nr d = 359 then socket
         else SECCOMP_RET_ALLOW)"

lemma map_of_families:
  assumes "list_all (\<lambda>t. domain_of t \<noteq> None) ts"
  shows "map_of (family_rules ts) w = (if family_allowed ts w then Some SECCOMP_RET_ALLOW else None)"
  using assms by (induction ts) (auto simp: family_rules_def family_allowed_def)

context bpf_machine
begin

lemma exec_filter_start:
  "exec (data_word P d) (filter_start P a s @ p) A =
    (if sd_arch d = ARCH_NR P then
       (if def_x86_64 P \<and> X32_SYSCALL_BIT \<le> sd_nr d then Some a
        else if sd_nr d = s then exec (data_word P d) p (first_half P d 0) else Some SECCOMP_RET_ALLOW)
     else if def_x86_64 P \<and> sd_nr d = 359 then exec (data_word P d) p (first_half P d 0)
     else Some SECCOMP_RET_ALLOW)"
proof -
  have skip: "drop 9 (VALIDATE_ARCHITECTURE P @ EXAMINE_SYSCALL # HANDLE_X32 a @ ONLY s @ q) = q" for q
    by (simp add: VALIDATE_ARCHITECTURE_def HANDLE_X32_def ONLY_def)
  have jump: "drop 3 (ONLY 359 @ i # q) = q" for i q
    by (simp add: ONLY_def)
  show ?thesis
    by (simp add: filter_start_def exec_ld exec_jeq exec_ja exec_examine exec_only exec_validate
        exec_x32 exec_examine_argument first_half_def skip jump del: drop_append)
qed

end

section \<open>Properties\<close>

lemma distinct_families:
  assumes "distinct ts" and "list_all (\<lambda>t. domain_of t \<noteq> None) ts"
  shows "length ts \<le> 6"
proof -
  have "set ts \<subseteq> set protocol"
    using assms(2) domain_of_known by (auto simp: list_all_iff)
  then have "card (set ts) \<le> length protocol"
    by (meson card_length card_mono finite_set order_trans)
  then show ?thesis using assms(1) by (simp add: distinct_card protocol_def)
qed

text \<open>On a little-endian platform, for a list of different known protocols, the program fits the array of 32
  instructions, and it allows socket(2) exactly for the listed families, on x86_64 for
  the native and the i386 call alike; other calls pass and x32 calls are refused.\<close>

lemma protocol_program_policy:
  assumes "bpf_machine exec" and "0 < fd" and "sys_nr P ''socket'' = Some s"
    and "strtok_all (CHR '','') l = ts" and "ts \<noteq> []" and "distinct ts"
    and "list_all (\<lambda>t. domain_of t \<noteq> None) ts" and "\<not> big_endian P"
  shows "\<exists>p. protocol_build_filter P fd l a = Inr (Some p) \<and> length p \<le> 32 \<and>
    (\<forall>d. exec (data_word P d) p 0 = Some (protocol_verdict P a ts d))"
proof -
  have fits: "start_length P + 2 * length ts + 1 \<le> 32"
    using distinct_families [OF assms(6,7)] by (simp add: start_length_def)
  have "length (rules_code (family_rules ts)) = 2 * length ts"
    by (induction ts) (simp_all add: family_rules_def length_rule_code)
  moreover have "exec (data_word P d) (filter_start P a s @ rules_code (family_rules ts) @
      [RETURN_ERRNO (u32_of_int (errno_val P ''ENOTSUP''))]) 0 = Some (protocol_verdict P a ts d)" for d
    using assms(3)
    by (simp add: bpf_machine.exec_filter_start [OF assms(1)] bpf_machine.exec_rules [OF assms(1)]
        bpf_machine.exec_errno [OF assms(1)] map_of_families [OF assms(7)] protocol_verdict_def
        first_half_little [OF assms(8)])
  ultimately show ?thesis
    using fits by (simp add: protocol_program [OF assms(3,2,4,5,7)] length_filter_start)
qed

lemma linux_socket: "sys_nr linux_x86_64 ''socket'' = Some 41"
proof -
  have "(''socket'', 41) \<in> set syscall_x86_64"
    by (simp add: syscall_x86_64_def syscall_x86_64_1_def)
  then show ?thesis using syscall_x86_64_distinct_names by (simp add: sys_nr_def)
qed

text \<open>C35. The array is not big enough for every list the parser accepts: on x86_64 eight
  or more known names, which have to repeat, are written behind its end.\<close>

theorem protocol_list_overflow:
  assumes "def_x86_64 P" and "0 < fd" and "sys_nr P ''socket'' = Some s"
    and "list_all (\<lambda>t. domain_of t \<noteq> None) (strtok_all (CHR '','') l)"
    and "8 \<le> length (strtok_all (CHR '','') l)"
  shows "protocol_build_filter P fd l a = Inl BufferOverflow"
  using protocol_program [OF assms(3,2) refl _ assms(4), of a] assms(1,5)
  by (cases "strtok_all (CHR '','') l = []") (auto simp: start_length_def)

theorem protocol_list_overflow_witness:
  "protocol_build_filter linux_x86_64 3 ''inet,unix,inet,unix,inet,unix,inet,unix'' 0 = Inl BufferOverflow"
  by (rule protocol_list_overflow [OF _ _ linux_socket]) (simp_all add: strtok_all_def domain_of_def protocol_def)

end
