(* ===== verification/Fseccomp_Main.thy ===== *)
theory Fseccomp_Main imports Default_Groups Secondary Protocol begin

text \<open>
  The main function of fseccomp: the environment selects the error action, the arguments select a
  builder, and the result is written to the files named in the arguments. The file system
  is a map from names to filters; \<open>opn\<close> is what open(2) returns for a file that is
  created or truncated.
\<close>

type_synonym files = "string \<Rightarrow> sock_filter list option"

definition write_one :: "string \<Rightarrow> files \<Rightarrow> fsec_error + sock_filter list \<Rightarrow> fsec_error + files" where
  "write_one f fs r = bind_res r (\<lambda>p. Inr (fs(f \<mapsto> p)))"

text \<open>A post-exec filter that is not built leaves its file alone.\<close>

definition write_two ::
    "string \<Rightarrow> string \<Rightarrow> files \<Rightarrow> fsec_error + sock_filter list \<times> sock_filter list option \<Rightarrow> fsec_error + files" where
  "write_two f1 f2 fs r =
     bind_res r (\<lambda>(pre, post). Inr (case post of None \<Rightarrow> fs(f1 \<mapsto> pre) | Some q \<Rightarrow> fs(f1 \<mapsto> pre, f2 \<mapsto> q)))"

definition write_protocol ::
    "string \<Rightarrow> files \<Rightarrow> fsec_error + sock_filter list option \<Rightarrow> fsec_error + files" where
  "write_protocol f fs r = bind_res r (\<lambda>p. Inr (case p of None \<Rightarrow> fs | Some q \<Rightarrow> fs(f \<mapsto> q)))"

definition dispatch_command ::
    "platform \<Rightarrow> (string \<Rightarrow> int) \<Rightarrow> u32 \<Rightarrow> string list \<Rightarrow> files \<Rightarrow> fsec_error + files" where
  "dispatch_command P opn a argv fs =
     (let argc = length argv; arg = (\<lambda>i. argv ! i); is = (\<lambda>i s. argv ! i = s) in
      if argc = 2 \<and> is 1 ''debug-syscalls'' then Inr fs
      else if argc = 2 \<and> is 1 ''debug-syscalls32'' then Inr fs
      else if argc = 2 \<and> is 1 ''debug-syscall-groups'' then Inr fs
      else if argc = 2 \<and> is 1 ''debug-errnos'' then Inr fs
      else if argc = 2 \<and> is 1 ''debug-protocols'' then Inr fs
      else if argc = 5 \<and> is 1 ''protocol'' \<and> is 2 ''build'' then
        write_protocol (arg 4) fs (protocol_build_filter P (opn (arg 4)) (arg 3) a)
      else if argc = 4 \<and> is 1 ''secondary'' \<and> is 2 ''32'' then
        write_one (arg 3) fs (seccomp_secondary_32 P (opn (arg 3)) a)
      else if argc = 4 \<and> is 1 ''secondary'' \<and> is 2 ''block'' then
        write_one (arg 3) fs (seccomp_secondary_block P (opn (arg 3)) a)
      else if argc = 3 \<and> is 1 ''default'' then
        write_one (arg 2) fs (seccomp_default P (opn (arg 2)) False True a)
      else if argc = 4 \<and> is 1 ''default'' \<and> is 3 ''allow-debuggers'' then
        write_one (arg 2) fs (seccomp_default P (opn (arg 2)) True True a)
      else if argc = 3 \<and> is 1 ''default32'' then
        write_one (arg 2) fs (seccomp_default P (opn (arg 2)) False False a)
      else if argc = 4 \<and> is 1 ''default32'' \<and> is 3 ''allow-debuggers'' then
        write_one (arg 2) fs (seccomp_default P (opn (arg 2)) True False a)
      else if argc = 5 \<and> is 1 ''drop'' then
        write_two (arg 2) (arg 3) fs (seccomp_drop P (opn (arg 2)) (opn (arg 3)) (arg 4) True a)
      else if argc = 6 \<and> is 1 ''drop'' \<and> is 5 ''allow-debuggers'' then
        write_two (arg 2) (arg 3) fs (seccomp_drop P (opn (arg 2)) (opn (arg 3)) (arg 4) True a)
      else if argc = 5 \<and> is 1 ''drop32'' then
        write_two (arg 2) (arg 3) fs (seccomp_drop P (opn (arg 2)) (opn (arg 3)) (arg 4) False a)
      else if argc = 6 \<and> is 1 ''drop32'' \<and> is 5 ''allow-debuggers'' then
        write_two (arg 2) (arg 3) fs (seccomp_drop P (opn (arg 2)) (opn (arg 3)) (arg 4) False a)
      else if argc = 6 \<and> is 1 ''default'' \<and> is 2 ''drop'' then
        write_two (arg 3) (arg 4) fs
          (seccomp_default_drop P (opn (arg 3)) (opn (arg 4)) (arg 5) False True a)
      else if argc = 7 \<and> is 1 ''default'' \<and> is 2 ''drop'' \<and> is 6 ''allow-debuggers'' then
        write_two (arg 3) (arg 4) fs
          (seccomp_default_drop P (opn (arg 3)) (opn (arg 4)) (arg 5) True True a)
      else if argc = 6 \<and> is 1 ''default32'' \<and> is 2 ''drop'' then
        write_two (arg 3) (arg 4) fs
          (seccomp_default_drop P (opn (arg 3)) (opn (arg 4)) (arg 5) False False a)
      else if argc = 7 \<and> is 1 ''default32'' \<and> is 2 ''drop'' \<and> is 6 ''allow-debuggers'' then
        write_two (arg 3) (arg 4) fs
          (seccomp_default_drop P (opn (arg 3)) (opn (arg 4)) (arg 5) True False a)
      else if argc = 5 \<and> is 1 ''keep'' then
        write_one (arg 2) fs (seccomp_keep P (opn (arg 2)) (arg 4) True a)
      else if argc = 5 \<and> is 1 ''keep32'' then
        write_one (arg 2) fs (seccomp_keep P (opn (arg 2)) (arg 4) False a)
      else if argc = 3 \<and> is 1 ''memory-deny-write-execute'' then
        write_one (arg 2) fs (memory_deny_write_execute P (opn (arg 2)) a)
      else if argc = 3 \<and> is 1 ''memory-deny-write-execute.32'' then
        write_one (arg 2) fs (memory_deny_write_execute_32 P (opn (arg 2)) a)
      else if argc = 4 \<and> is 1 ''restrict-namespaces'' then
        write_one (arg 2) fs (deny_ns P (opn (arg 2)) (arg 3) a)
      else if argc = 4 \<and> is 1 ''restrict-namespaces.32'' then
        write_one (arg 2) fs (deny_ns_32 P (opn (arg 2)) (arg 3) a)
      else Inl InvalidArguments)"

definition fseccomp ::
    "platform \<Rightarrow> (string \<Rightarrow> int) \<Rightarrow> string option \<Rightarrow> string list \<Rightarrow> files \<Rightarrow> fsec_error + files" where
  "fseccomp P opn env argv fs =
     (if length argv < 2 then Inl InvalidArguments
      else if argv ! 1 = ''-h'' \<or> argv ! 1 = ''--help'' \<or> argv ! 1 = ''-?'' then Inr fs
      else bind_res (error_action_of P env) (\<lambda>a. dispatch_command P opn a argv fs))"

text \<open>fsec-optimize on the same file system: the file named in the argument is read and rewritten.\<close>

definition fsec_optimize_files ::
    "platform \<Rightarrow> string option \<Rightarrow> string list \<Rightarrow> files \<Rightarrow> fsec_error + files" where
  "fsec_optimize_files P env argv fs =
     bind_res (fsec_optimize P argv env (if length argv = 2 then fs (argv ! 1) else None))
       (\<lambda>r. Inr (case r of None \<Rightarrow> fs | Some p \<Rightarrow> fs(argv ! 1 \<mapsto> p)))"

lemma fseccomp_default_drop:
  "fseccomp P opn env ([prog, ''default'', ''drop'', f, f', l] @ (if dbg then [''allow-debuggers''] else [])) fs =
     bind_res (error_action_of P env) (\<lambda>a.
       write_two f f' fs (seccomp_default_drop P (opn f) (opn f') l dbg True a))"
  by (simp add: fseccomp_def dispatch_command_def Let_def)

lemma fseccomp_keep:
  "fseccomp P opn env [prog, ''keep'', f, f', l] fs =
     bind_res (error_action_of P env) (\<lambda>a. write_one f fs (seccomp_keep P (opn f) l True a))"
  by (simp add: fseccomp_def dispatch_command_def Let_def)

lemma fseccomp_drop:
  "fseccomp P opn env [prog, ''drop'', f, f', l] fs =
     bind_res (error_action_of P env) (\<lambda>a.
       write_two f f' fs (seccomp_drop P (opn f) (opn f') l True a))"
  by (simp add: fseccomp_def dispatch_command_def Let_def)

text \<open>The usage text offers \<^verbatim>\<open>secondary 64 file\<close>, but the main function refuses it.\<close>

lemma secondary_64_refused:
  "error_action_of P env = Inr a \<Longrightarrow>
    fseccomp P opn env [prog, ''secondary'', ''64'', f] fs = Inl InvalidArguments"
  by (simp add: fseccomp_def dispatch_command_def Let_def)

end
