(* ===== verification/Seccomp_Load.thy ===== *)
theory Seccomp_Load imports Fseccomp_Main begin

text \<open>
  firejail/seccomp.c: which filters a sandbox builds with fseccomp and fsec-optimize, loads,
  records in the file \<^verbatim>\<open>seccomp.list\<close> and installs. The state is the list of loaded
  filters (\<^verbatim>\<open>filter_list_head\<close>), the files below \<^verbatim>\<open>/run/firejail/mnt/seccomp\<close> and
  the text of the record. Included are the calls of sandbox.c that set up seccomp and the
  default files preproc.c copies.
\<close>

section \<open>File names\<close>

definition RUN_SECCOMP_DIR :: string where "RUN_SECCOMP_DIR = ''/run/firejail/mnt/seccomp''"
definition RUN_SECCOMP_PROTOCOL :: string where "RUN_SECCOMP_PROTOCOL = RUN_SECCOMP_DIR @ ''/seccomp.protocol''"
definition RUN_SECCOMP_CFG :: string where "RUN_SECCOMP_CFG = RUN_SECCOMP_DIR @ ''/seccomp''"
definition RUN_SECCOMP_32 :: string where "RUN_SECCOMP_32 = RUN_SECCOMP_DIR @ ''/seccomp.32''"
definition RUN_SECCOMP_MDWX :: string where "RUN_SECCOMP_MDWX = RUN_SECCOMP_DIR @ ''/seccomp.mdwx''"
definition RUN_SECCOMP_MDWX_32 :: string where "RUN_SECCOMP_MDWX_32 = RUN_SECCOMP_DIR @ ''/seccomp.mdwx.32''"
definition RUN_SECCOMP_NS :: string where "RUN_SECCOMP_NS = RUN_SECCOMP_DIR @ ''/seccomp.namespaces''"
definition RUN_SECCOMP_NS_32 :: string where "RUN_SECCOMP_NS_32 = RUN_SECCOMP_DIR @ ''/seccomp.namespaces.32''"
definition RUN_SECCOMP_BLOCK_SECONDARY :: string where
  "RUN_SECCOMP_BLOCK_SECONDARY = RUN_SECCOMP_DIR @ ''/seccomp.block_secondary''"
definition RUN_SECCOMP_POSTEXEC :: string where "RUN_SECCOMP_POSTEXEC = RUN_SECCOMP_DIR @ ''/seccomp.postexec''"
definition RUN_SECCOMP_POSTEXEC_32 :: string where
  "RUN_SECCOMP_POSTEXEC_32 = RUN_SECCOMP_DIR @ ''/seccomp.postexec32''"

lemmas run_files_defs =
  RUN_SECCOMP_DIR_def RUN_SECCOMP_PROTOCOL_def RUN_SECCOMP_CFG_def RUN_SECCOMP_32_def
  RUN_SECCOMP_MDWX_def RUN_SECCOMP_MDWX_32_def RUN_SECCOMP_NS_def RUN_SECCOMP_NS_32_def
  RUN_SECCOMP_BLOCK_SECONDARY_def RUN_SECCOMP_POSTEXEC_def RUN_SECCOMP_POSTEXEC_32_def

section \<open>State and configuration\<close>

record FilterList =
  fl_fname :: string
  fl_prog :: "sock_filter list"

record sec_state =
  filter_list_head :: "FilterList list"
  run_files :: files
  seccomp_list_file :: "string option"
  protocol_cfg_file :: "string option"
  load_file_list_flag :: bool

text \<open>The fields of \<^verbatim>\<open>cfg\<close> and the \<^verbatim>\<open>arg_\<close> variables the functions read.\<close>

record sec_config =
  seccomp_list :: "string option"
  seccomp_list_drop :: "string option"
  seccomp_list_keep :: "string option"
  seccomp_list32 :: "string option"
  seccomp_list_drop32 :: "string option"
  seccomp_list_keep32 :: "string option"
  seccomp_error_action :: "string option"
  restrict_namespaces :: "string option"
  cfg_protocol :: "string option"
  arg_seccomp_error_action :: int
  arg_seccomp :: bool
  arg_seccomp32 :: bool
  arg_seccomp_block_secondary :: bool
  arg_allow_debuggers :: bool
  arg_memory_deny_write_execute :: bool
  arg_restrict_namespaces :: bool

section \<open>Checking, loading and installing\<close>

definition seccomp_check_list :: "string \<Rightarrow> fsec_error + string" where
  "seccomp_check_list str =
     (if str = [] then Inl EmptyList
      else if list_all (\<lambda>c. isalnum_c c \<or> c = CHR ''_'' \<or> c = CHR '','' \<or> c = CHR '':'' \<or>
                            c = CHR ''@'' \<or> c = CHR ''-'' \<or> c = CHR ''$'' \<or> c = CHR ''!'') str
        then Inr str
      else Inl (InvalidEntry str))"

text \<open>\<open>ok\<close> is the kernel's answer to a program; the result is the installed programs and \<^verbatim>\<open>r\<close>.\<close>

definition seccomp_install_filters ::
    "(sock_filter list \<Rightarrow> bool) \<Rightarrow> sec_state \<Rightarrow> sock_filter list list \<times> int" where
  "seccomp_install_filters ok st =
     (filter ok (map fl_prog (filter_list_head st)),
      if list_all ok (map fl_prog (filter_list_head st)) then 0 else 1)"

definition seccomp_save_file_list :: "string \<Rightarrow> sec_state \<Rightarrow> sec_state" where
  "seccomp_save_file_list fname st =
     st\<lparr>seccomp_list_file :=
       Some ((case seccomp_list_file st of None \<Rightarrow> [] | Some s \<Rightarrow> s) @ fname @ [CHR 0x0A])\<rparr>"

text \<open>
  mmap(2) refuses a length of zero. The number of entries is computed in
  \<^verbatim>\<open>unsigned short\<close>, and the kernel is given that many.
\<close>

definition seccomp_load :: "string \<Rightarrow> sec_state \<Rightarrow> fsec_error + sec_state" where
  "seccomp_load fname st =
     (case run_files st fname of
        None \<Rightarrow> Inl CannotOpen
      | Some p \<Rightarrow>
          if p = [] then Inl CannotOpen
          else
            let entries = (8 * length p) mod 65536 div 8;
                st1 = st\<lparr>filter_list_head :=
                        \<lparr>fl_fname = fname, fl_prog = take entries p\<rparr> # filter_list_head st\<rparr>
            in Inr (if load_file_list_flag st1 then st1 else seccomp_save_file_list fname st1))"

text \<open>\<^verbatim>\<open>fgets\<close> with a buffer of \<^verbatim>\<open>MAXBUF\<close>: at most 4095 characters, up to and with the newline.\<close>

definition MAXBUF :: nat where "MAXBUF = 4096"

definition fgets_len :: "string \<Rightarrow> nat" where
  "fgets_len s = min (MAXBUF - 1) (length (takeWhile (\<lambda>c. c \<noteq> CHR 0x0A) s) + 1)"

function fgets_all :: "string \<Rightarrow> string list" where
  "fgets_all s = (if s = [] then [] else take (fgets_len s) s # fgets_all (drop (fgets_len s) s))"
  by pat_completeness auto
termination
  by (relation "measure length") (simp_all add: fgets_len_def MAXBUF_def)

declare fgets_all.simps [simp del]

definition seccomp_load_file_list :: "sec_state \<Rightarrow> fsec_error + sec_state" where
  "seccomp_load_file_list st =
     (case seccomp_list_file st of
        None \<Rightarrow> Inr st
      | Some text \<Rightarrow>
          bind_res
            (fold_res (\<lambda>buf. seccomp_load (takeWhile (\<lambda>c. c \<noteq> CHR 0x0A) buf)) (fgets_all text)
               (st\<lparr>load_file_list_flag := True\<rparr>))
            (\<lambda>st'. Inr (st'\<lparr>load_file_list_flag := False\<rparr>)))"

section \<open>Building\<close>

text \<open>
  \<^verbatim>\<open>sbox_run\<close> hands a NULL-terminated argument vector to the tool, so an argument that is NULL ends
  it; a tool that fails ends the sandbox.
\<close>

definition sbox_argv :: "string option list \<Rightarrow> string list" where
  "sbox_argv args = map the (takeWhile (\<lambda>x. x \<noteq> None) args)"

definition run_fseccomp ::
    "platform \<Rightarrow> (string \<Rightarrow> int) \<Rightarrow> sec_config \<Rightarrow> string option list \<Rightarrow> sec_state \<Rightarrow> fsec_error + sec_state" where
  "run_fseccomp P opn cfg args st =
     bind_res (fseccomp P opn (seccomp_error_action cfg) (sbox_argv (Some ''fseccomp'' # args)) (run_files st))
       (\<lambda>fs. Inr (st\<lparr>run_files := fs\<rparr>))"

definition run_fsec_optimize ::
    "platform \<Rightarrow> sec_config \<Rightarrow> string \<Rightarrow> sec_state \<Rightarrow> fsec_error + sec_state" where
  "run_fsec_optimize P cfg fname st =
     bind_res (fsec_optimize_files P (seccomp_error_action cfg) [''fsec-optimize'', fname] (run_files st))
       (\<lambda>fs. Inr (st\<lparr>run_files := fs\<rparr>))"

definition is_set :: "string option \<Rightarrow> bool" where
  "is_set s = (case s of None \<Rightarrow> False | Some l \<Rightarrow> l \<noteq> [])"

definition default_action :: "platform \<Rightarrow> sec_config \<Rightarrow> bool" where
  "default_action P cfg \<longleftrightarrow> arg_seccomp_error_action cfg = errno_val P ''EPERM''"

definition build_secondary ::
    "platform \<Rightarrow> (string \<Rightarrow> int) \<Rightarrow> sec_config \<Rightarrow> sec_state \<Rightarrow> fsec_error + sec_state" where
  "build_secondary P opn cfg st =
     (if arg_seccomp_block_secondary cfg then
        bind_res (if default_action P cfg then Inr st
                  else run_fseccomp P opn cfg
                         [Some ''secondary'', Some ''block'', Some RUN_SECCOMP_BLOCK_SECONDARY] st)
          (seccomp_load RUN_SECCOMP_BLOCK_SECONDARY)
      else if def_x86_64_lp64 P then
        bind_res (if default_action P cfg then Inr st
                  else run_fseccomp P opn cfg [Some ''secondary'', Some ''32'', Some RUN_SECCOMP_32] st)
          (seccomp_load RUN_SECCOMP_32)
      else Inr st)"

definition seccomp_filter_drop ::
    "platform \<Rightarrow> (string \<Rightarrow> int) \<Rightarrow> sec_config \<Rightarrow> bool \<Rightarrow> sec_state \<Rightarrow> fsec_error + sec_state" where
  "seccomp_filter_drop P opn cfg native st =
     (let fil = (if native then RUN_SECCOMP_CFG else RUN_SECCOMP_32);
          postexec_filter = (if native then RUN_SECCOMP_POSTEXEC else RUN_SECCOMP_POSTEXEC_32)
      in bind_res
        (if seccomp_list_drop cfg = None then
           (if \<not> is_set (seccomp_list cfg) \<and> default_action P cfg then
              (if arg_seccomp_block_secondary cfg then seccomp_load RUN_SECCOMP_BLOCK_SECONDARY st
               else if def_x86_64_lp64 P then seccomp_load RUN_SECCOMP_32 st
               else Inr st)
            else
              let command = (if native then ''default'' else ''default32'');
                  list = (if native then seccomp_list cfg else seccomp_list32 cfg);
                  debug = (if arg_allow_debuggers cfg then [Some ''allow-debuggers''] else [])
              in bind_res (build_secondary P opn cfg st) (\<lambda>st1.
                 bind_res (run_fseccomp P opn cfg
                   (if is_set list
                    then [Some command, Some ''drop'', Some fil, Some postexec_filter, list] @ debug
                    else [Some command, Some fil] @ debug) st1)
                 (run_fsec_optimize P cfg fil)))
         else
           let command = (if native then ''drop'' else ''drop32'');
               list = (if native then seccomp_list_drop cfg else seccomp_list_drop32 cfg);
               debug = (if arg_allow_debuggers cfg then [Some ''allow-debuggers''] else [])
           in bind_res (if arg_seccomp_block_secondary cfg
                        then seccomp_load RUN_SECCOMP_BLOCK_SECONDARY st else Inr st) (\<lambda>st1.
              bind_res (run_fseccomp P opn cfg
                ([Some command, Some fil, Some postexec_filter, list] @ debug) st1)
              (run_fsec_optimize P cfg fil)))
        (seccomp_load fil))"

definition seccomp_filter_keep ::
    "platform \<Rightarrow> (string \<Rightarrow> int) \<Rightarrow> sec_config \<Rightarrow> bool \<Rightarrow> sec_state \<Rightarrow> fsec_error + sec_state" where
  "seccomp_filter_keep P opn cfg native st =
     (let fil = (if native then RUN_SECCOMP_CFG else RUN_SECCOMP_32);
          postexec_filter = (if native then RUN_SECCOMP_POSTEXEC else RUN_SECCOMP_POSTEXEC_32);
          list = (if native then seccomp_list_keep cfg else seccomp_list_keep32 cfg)
      in bind_res (if arg_seccomp_block_secondary cfg
                   then seccomp_load RUN_SECCOMP_BLOCK_SECONDARY st else Inr st) (\<lambda>st1.
         bind_res (run_fseccomp P opn cfg [Some ''keep'', Some fil, Some postexec_filter, list] st1)
         (seccomp_load fil)))"

definition seccomp_filter_mdwx ::
    "platform \<Rightarrow> (string \<Rightarrow> int) \<Rightarrow> sec_config \<Rightarrow> bool \<Rightarrow> sec_state \<Rightarrow> fsec_error + sec_state" where
  "seccomp_filter_mdwx P opn cfg native st =
     run_fseccomp P opn cfg
       (if native then [Some ''memory-deny-write-execute'', Some RUN_SECCOMP_MDWX]
        else [Some ''memory-deny-write-execute.32'', Some RUN_SECCOMP_MDWX_32]) st"

definition seccomp_filter_namespaces ::
    "platform \<Rightarrow> (string \<Rightarrow> int) \<Rightarrow> sec_config \<Rightarrow> bool \<Rightarrow> string option \<Rightarrow> sec_state \<Rightarrow> fsec_error + sec_state" where
  "seccomp_filter_namespaces P opn cfg native list st =
     run_fseccomp P opn cfg
       (if native then [Some ''restrict-namespaces'', Some RUN_SECCOMP_NS, list]
        else [Some ''restrict-namespaces.32'', Some RUN_SECCOMP_NS_32, list]) st"

text \<open>
  The library that is preloaded into the program: the post-exec filter, installed from inside the
  new process. None: nothing is installed.
\<close>

definition load_seccomp :: "files \<Rightarrow> sock_filter list option" where
  "load_seccomp fs =
     (case fs RUN_SECCOMP_POSTEXEC of
        None \<Rightarrow> None
      | Some p \<Rightarrow> if p = [] then None else Some (take ((8 * length p) mod 65536 div 8) p))"

text \<open>main.c preloads the library when a list has calls for the post-exec filter.\<close>

definition check_postexec :: "platform \<Rightarrow> string option \<Rightarrow> fsec_error + bool" where
  "check_postexec P list =
     (case list of
        None \<Rightarrow> Inr False
      | Some l \<Rightarrow>
          if l = [] then Inr False
          else bind_res (syscalls_in_list P l ''@default-keep'' True (new_file 0)) (\<lambda>(pre, post). Inr (post \<noteq> None)))"

section \<open>The sandbox\<close>

text \<open>The default files of preproc.c; \<open>lib\<close> is the directory they were installed in.\<close>

definition preproc_seccomp_files :: "sec_config \<Rightarrow> files \<Rightarrow> files \<Rightarrow> files" where
  "preproc_seccomp_files cfg lib fs =
     (let cp = (\<lambda>src dst fs. case lib src of None \<Rightarrow> fs | Some p \<Rightarrow> fs(dst \<mapsto> p));
          fs1 = (if arg_seccomp_block_secondary cfg
                 then cp ''seccomp.block_secondary'' RUN_SECCOMP_BLOCK_SECONDARY fs
                 else cp ''seccomp.32'' RUN_SECCOMP_32 fs);
          fs2 = (if arg_allow_debuggers cfg
                 then cp ''seccomp.debug32'' RUN_SECCOMP_32 (cp ''seccomp.debug'' RUN_SECCOMP_CFG fs1)
                 else cp ''seccomp'' RUN_SECCOMP_CFG fs1);
          fs3 = (if arg_memory_deny_write_execute cfg
                 then cp ''seccomp.mdwx.32'' RUN_SECCOMP_MDWX_32 (cp ''seccomp.mdwx'' RUN_SECCOMP_MDWX fs2)
                 else fs2);
          fs4 = fs3(RUN_SECCOMP_PROTOCOL \<mapsto> []);
          fs5 = (if restrict_namespaces cfg \<noteq> None
                 then cp ''seccomp.namespaces.32'' RUN_SECCOMP_NS_32 (cp ''seccomp.namespaces'' RUN_SECCOMP_NS fs4)
                 else fs4)
      in fs5(RUN_SECCOMP_POSTEXEC \<mapsto> [], RUN_SECCOMP_POSTEXEC_32 \<mapsto> []))"

definition sandbox_build_protocol ::
    "platform \<Rightarrow> (string \<Rightarrow> int) \<Rightarrow> sec_config \<Rightarrow> sec_state \<Rightarrow> fsec_error + sec_state" where
  "sandbox_build_protocol P opn cfg st =
     (if cfg_protocol cfg \<noteq> None
      then run_fseccomp P opn cfg
             [Some ''protocol'', Some ''build'', cfg_protocol cfg, Some RUN_SECCOMP_PROTOCOL] st
      else Inr st)"

text \<open>firejail/protocol.c. The mode \<^verbatim>\<open>x\<close> of fopen refuses a file that exists.\<close>

definition protocol_filter_save :: "sec_config \<Rightarrow> sec_state \<Rightarrow> fsec_error + sec_state" where
  "protocol_filter_save cfg st =
     (if protocol_cfg_file st \<noteq> None then Inl CannotOpen
      else Inr (st\<lparr>protocol_cfg_file :=
             Some ((case cfg_protocol cfg of None \<Rightarrow> ''(null)'' | Some s \<Rightarrow> s) @ [CHR 0x0A])\<rparr>))"

definition protocol_filter_load :: "string option \<Rightarrow> sec_config \<Rightarrow> sec_config" where
  "protocol_filter_load contents cfg =
     (case contents of
        None \<Rightarrow> cfg
      | Some s \<Rightarrow>
          if s = [] then cfg
          else cfg\<lparr>cfg_protocol := Some (takeWhile (\<lambda>c. c \<noteq> CHR 0x0A) (take 4097 s))\<rparr>)"

definition do_when :: "bool \<Rightarrow> ('s \<Rightarrow> 'e + 's) \<Rightarrow> 's \<Rightarrow> 'e + 's" where
  "do_when b f s = (if b then f s else Inr s)"

definition load_both :: "string \<Rightarrow> string \<Rightarrow> sec_state \<Rightarrow> fsec_error + sec_state" where
  "load_both f g st = bind_res (seccomp_load f st) (seccomp_load g)"

definition build_namespaces ::
    "platform \<Rightarrow> (string \<Rightarrow> int) \<Rightarrow> sec_config \<Rightarrow> sec_state \<Rightarrow> fsec_error + sec_state" where
  "build_namespaces P opn cfg st =
     bind_res (seccomp_filter_namespaces P opn cfg True (restrict_namespaces cfg) st)
       (seccomp_filter_namespaces P opn cfg False (restrict_namespaces cfg))"

definition sandbox_set_seccomp ::
    "platform \<Rightarrow> (string \<Rightarrow> int) \<Rightarrow> sec_config \<Rightarrow> sec_state \<Rightarrow> fsec_error + sec_state" where
  "sandbox_set_seccomp P opn cfg st =
     bind_res (if SYS P ''socket'' = None then Inr st
               else if cfg_protocol cfg \<noteq> None then
                 bind_res (seccomp_load RUN_SECCOMP_PROTOCOL st) (protocol_filter_save cfg)
               else Inr (st\<lparr>run_files := (run_files st)(RUN_SECCOMP_PROTOCOL := None)\<rparr>)) (\<lambda>st1.
     bind_res (do_when (arg_seccomp cfg)
                 (if seccomp_list_keep cfg \<noteq> None then seccomp_filter_keep P opn cfg True
                  else seccomp_filter_drop P opn cfg True) st1) (\<lambda>st2.
     bind_res (do_when (arg_seccomp32 cfg)
                 (if seccomp_list_keep32 cfg \<noteq> None then seccomp_filter_keep P opn cfg False
                  else seccomp_filter_drop P opn cfg False) st2) (\<lambda>st3.
     bind_res (do_when (arg_memory_deny_write_execute cfg) (\<lambda>st.
                 bind_res (do_when (\<not> default_action P cfg) (\<lambda>st.
                     bind_res (seccomp_filter_mdwx P opn cfg True st)
                       (seccomp_filter_mdwx P opn cfg False)) st)
                   (load_both RUN_SECCOMP_MDWX RUN_SECCOMP_MDWX_32)) st3) (\<lambda>st4.
     if arg_restrict_namespaces cfg then
       bind_res (do_when (\<not> default_action P cfg) (build_namespaces P opn cfg) st4)
         (load_both RUN_SECCOMP_NS RUN_SECCOMP_NS_32)
     else if restrict_namespaces cfg \<noteq> None then
       bind_res (build_namespaces P opn cfg st4) (load_both RUN_SECCOMP_NS RUN_SECCOMP_NS_32)
     else Inr st4))))"

section \<open>What the tools leave alone\<close>

text \<open>A result that differs from \<open>fs\<close> only at the names in \<open>W\<close>.\<close>

definition frames :: "string set \<Rightarrow> files \<Rightarrow> fsec_error + files \<Rightarrow> bool" where
  "frames W fs r \<longleftrightarrow> (\<forall>fs' g. r = Inr fs' \<longrightarrow> g \<notin> W \<longrightarrow> fs' g = fs g)"

lemma frames_if: "(b \<Longrightarrow> frames W fs r) \<Longrightarrow> frames W fs r' \<Longrightarrow> frames W fs (if b then r else r')"
  by simp

lemma frames_write:
  "f \<in> W \<Longrightarrow> frames W fs (write_one f fs r)"
  "f \<in> W \<Longrightarrow> f' \<in> W \<Longrightarrow> frames W fs (write_two f f' fs r')"
  "f \<in> W \<Longrightarrow> frames W fs (write_protocol f fs r'')"
  by (auto simp: frames_def write_one_def write_two_def write_protocol_def bind_res_Inr split: option.splits)

lemma frames_trivial: "frames W fs (Inl e)" "frames W fs (Inr fs)"
  by (simp_all add: frames_def)

lemma frames_dispatch: "frames (set argv) fs (dispatch_command P opn a argv fs)"
  unfolding dispatch_command_def Let_def
  by (intro frames_if; (elim conjE)?; (intro frames_write frames_trivial nth_mem)?; simp)

lemma frames_fseccomp: "frames (set argv) fs (fseccomp P opn env argv fs)"
  using frames_dispatch [of argv fs P opn]
  by (auto simp: fseccomp_def frames_def bind_res_Inr)

lemma frames_optimize: "frames (set argv) fs (fsec_optimize_files P env argv fs)"
proof (cases "length argv = 2")
  case True
  then have "argv ! 1 \<in> set argv" by simp
  then show ?thesis by (auto simp: frames_def fsec_optimize_files_def bind_res_Inr split: option.splits)
next
  case False
  then show ?thesis by (simp add: frames_def fsec_optimize_files_def fsec_optimize_def)
qed

section \<open>The record of the loaded filters\<close>

definition line_ok :: "string \<Rightarrow> bool" where
  "line_ok f \<longleftrightarrow> CHR 0x0A \<notin> set f \<and> length f < 4095 \<and> CHR ''/'' \<in> set f"

definition loaded_from :: "files \<Rightarrow> FilterList \<Rightarrow> bool" where
  "loaded_from fs f \<longleftrightarrow>
     (\<exists>p. fs (fl_fname f) = Some p \<and> p \<noteq> [] \<and> fl_prog f = take ((8 * length p) mod 65536 div 8) p)"

definition record_of :: "FilterList list \<Rightarrow> string option" where
  "record_of fls = (if fls = [] then None else Some (concat (map (\<lambda>f. fl_fname f @ [CHR 0x0A]) (rev fls))))"

text \<open>
  The loaded filters come from files in \<open>L\<close>, which still hold them, and the record names them in
  the order in which they were loaded.
\<close>

definition recorded :: "string set \<Rightarrow> sec_state \<Rightarrow> bool" where
  "recorded L st \<longleftrightarrow>
     \<not> load_file_list_flag st \<and>
     (\<forall>f \<in> set (filter_list_head st). fl_fname f \<in> L \<and> line_ok (fl_fname f) \<and> loaded_from (run_files st) f) \<and>
     seccomp_list_file st = record_of (filter_list_head st)"

definition keeps :: "string set \<Rightarrow> fsec_error + sec_state \<Rightarrow> bool" where
  "keeps L r \<longleftrightarrow> (\<forall>st. r = Inr st \<longrightarrow> recorded L st)"

lemma keeps_bind:
  "keeps L r \<Longrightarrow> (\<And>st. recorded L st \<Longrightarrow> keeps L' (f st)) \<Longrightarrow> keeps L' (bind_res r f)"
  by (auto simp: keeps_def bind_res_Inr)

lemma keeps_if: "(b \<Longrightarrow> keeps L r) \<Longrightarrow> (\<not> b \<Longrightarrow> keeps L r') \<Longrightarrow> keeps L (if b then r else r')"
  by simp

lemma recorded_mono: "recorded L st \<Longrightarrow> L \<subseteq> L' \<Longrightarrow> recorded L' st"
  by (auto simp: recorded_def)

lemma keeps_Inr: "recorded L st \<Longrightarrow> L \<subseteq> L' \<Longrightarrow> keeps L' (Inr st)"
  by (auto simp: keeps_def recorded_mono)

lemma keeps_load:
  assumes "recorded L st" and "line_ok f" and "f \<in> L'" and "L \<subseteq> L'"
  shows "keeps L' (seccomp_load f st)"
  using recorded_mono [OF assms(1,4)] assms(2,3)
  by (auto simp: keeps_def recorded_def seccomp_load_def seccomp_save_file_list_def record_of_def
      loaded_from_def Let_def split: option.splits if_splits)

definition avoids :: "string set \<Rightarrow> string option list \<Rightarrow> bool" where
  "avoids L args \<longleftrightarrow> (\<forall>s. Some s \<in> set args \<longrightarrow> CHR ''/'' \<in> set s \<longrightarrow> s \<notin> L)"

lemma keeps_frames:
  assumes "recorded L st" and "frames W (run_files st) r" and "\<And>g. g \<in> L \<Longrightarrow> line_ok g \<Longrightarrow> g \<notin> W"
  shows "keeps L (bind_res r (\<lambda>fs. Inr (st\<lparr>run_files := fs\<rparr>)))"
  unfolding keeps_def bind_res_Inr
  using assms by (auto simp: frames_def recorded_def loaded_from_def)

lemma keeps_run:
  assumes "recorded L st" and "avoids L args"
  shows "keeps L (run_fseccomp P opn cfg args st)"
proof -
  have "g \<notin> set (sbox_argv (Some ''fseccomp'' # args))" if "g \<in> L" and "line_ok g" for g
    using that assms(2)
    by (auto simp: sbox_argv_def line_ok_def avoids_def dest!: set_takeWhileD)
  from keeps_frames [OF assms(1) frames_fseccomp this] show ?thesis
    unfolding run_fseccomp_def by simp
qed

lemma keeps_optimize:
  assumes "recorded L st" and "f \<notin> L"
  shows "keeps L (run_fsec_optimize P cfg f st)"
proof -
  have "g \<notin> set [''fsec-optimize'', f]" if "g \<in> L" and "line_ok g" for g
    using that assms(2) by (auto simp: line_ok_def)
  from keeps_frames [OF assms(1) frames_optimize this] show ?thesis
    unfolding run_fsec_optimize_def by simp
qed

text \<open>No list of the configuration is the name of a file; \<open>seccomp_check_list\<close> ensures it for the
  lists of system calls.\<close>

definition no_slash :: "string option \<Rightarrow> bool" where
  "no_slash s = (case s of None \<Rightarrow> True | Some l \<Rightarrow> CHR ''/'' \<notin> set l)"

definition lists_ok :: "sec_config \<Rightarrow> bool" where
  "lists_ok cfg \<longleftrightarrow> list_all no_slash
     [seccomp_list cfg, seccomp_list_drop cfg, seccomp_list_keep cfg, restrict_namespaces cfg]"

lemma avoids_simps [simp]:
  "avoids L []"
  "avoids L (Some s # args) \<longleftrightarrow> (CHR ''/'' \<in> set s \<longrightarrow> s \<notin> L) \<and> avoids L args"
  "no_slash l \<Longrightarrow> avoids L (l # args) \<longleftrightarrow> avoids L args"
  "avoids L (as @ bs) \<longleftrightarrow> avoids L as \<and> avoids L bs"
  by (auto simp: avoids_def no_slash_def)

lemma line_ok_run:
  "line_ok RUN_SECCOMP_PROTOCOL" "line_ok RUN_SECCOMP_CFG" "line_ok RUN_SECCOMP_32"
  "line_ok RUN_SECCOMP_BLOCK_SECONDARY" "line_ok RUN_SECCOMP_MDWX" "line_ok RUN_SECCOMP_MDWX_32"
  "line_ok RUN_SECCOMP_NS" "line_ok RUN_SECCOMP_NS_32"
  by (simp_all add: line_ok_def run_files_defs)

text \<open>The files that may be loaded before the main filter is built, and with the main filter.\<close>

definition early_files :: "string set" where
  "early_files = {RUN_SECCOMP_PROTOCOL, RUN_SECCOMP_BLOCK_SECONDARY, RUN_SECCOMP_32}"

definition main_files :: "string set" where
  "main_files = insert RUN_SECCOMP_CFG early_files"

definition mdwx_files :: "string set" where
  "mdwx_files = main_files \<union> {RUN_SECCOMP_MDWX, RUN_SECCOMP_MDWX_32}"

definition all_files :: "string set" where
  "all_files = mdwx_files \<union> {RUN_SECCOMP_NS, RUN_SECCOMP_NS_32}"

lemmas keeps_steps = keeps_if keeps_load keeps_run keeps_optimize keeps_Inr

lemmas file_sets = early_files_def main_files_def mdwx_files_def all_files_def

lemma fresh_names:
  "RUN_SECCOMP_BLOCK_SECONDARY \<noteq> RUN_SECCOMP_PROTOCOL" "RUN_SECCOMP_32 \<noteq> RUN_SECCOMP_PROTOCOL"
  "RUN_SECCOMP_CFG \<notin> early_files" "RUN_SECCOMP_POSTEXEC \<notin> early_files"
  "RUN_SECCOMP_MDWX \<notin> main_files" "RUN_SECCOMP_MDWX_32 \<notin> main_files"
  "RUN_SECCOMP_NS \<notin> mdwx_files" "RUN_SECCOMP_NS_32 \<notin> mdwx_files"
  by (simp_all add: file_sets run_files_defs)

lemma file_sets_mono:
  "RUN_SECCOMP_PROTOCOL \<in> early_files" "RUN_SECCOMP_BLOCK_SECONDARY \<in> early_files"
  "RUN_SECCOMP_32 \<in> early_files" "early_files \<subseteq> main_files" "RUN_SECCOMP_CFG \<in> main_files"
  "RUN_SECCOMP_PROTOCOL \<in> main_files"
  "main_files \<subseteq> mdwx_files" "RUN_SECCOMP_MDWX \<in> mdwx_files" "RUN_SECCOMP_MDWX_32 \<in> mdwx_files"
  "mdwx_files \<subseteq> all_files" "RUN_SECCOMP_NS \<in> all_files" "RUN_SECCOMP_NS_32 \<in> all_files"
  by (auto simp: file_sets)

lemmas step_simps = file_sets_mono fresh_names line_ok_run

lemma keeps_secondary:
  assumes "recorded {RUN_SECCOMP_PROTOCOL} st"
  shows "keeps early_files (build_secondary P opn cfg st)"
  using assms unfolding build_secondary_def
  by (intro keeps_bind [where L = "{RUN_SECCOMP_PROTOCOL}"] keeps_steps)
     ((assumption | simp add: step_simps)+)

lemma keeps_default:
  assumes "recorded {RUN_SECCOMP_PROTOCOL} st"
  shows "keeps early_files
    (if arg_seccomp_block_secondary cfg then seccomp_load RUN_SECCOMP_BLOCK_SECONDARY st
     else if b then seccomp_load RUN_SECCOMP_32 st else Inr st)"
  using assms by (intro keeps_steps) ((assumption | simp add: step_simps)+)

lemma keeps_main:
  assumes "recorded {RUN_SECCOMP_PROTOCOL} st" and "lists_ok cfg"
  shows "keeps main_files (seccomp_filter_drop P opn cfg True st)"
    and "keeps main_files (seccomp_filter_keep P opn cfg True st)"
proof -
  have ok: "no_slash (seccomp_list cfg)" "no_slash (seccomp_list_drop cfg)" "no_slash (seccomp_list_keep cfg)"
    using assms(2) by (simp_all add: lists_ok_def)
  show "keeps main_files (seccomp_filter_drop P opn cfg True st)"
    unfolding seccomp_filter_drop_def Let_def if_True
    by (rule keeps_bind [where L = early_files],
        intro keeps_if keeps_default [OF assms(1)] keeps_bind [where L = early_files]
          keeps_secondary [OF assms(1)] keeps_steps)
       ((rule assms(1) keeps_load | assumption | simp add: step_simps ok)+)
  show "keeps main_files (seccomp_filter_keep P opn cfg True st)"
    unfolding seccomp_filter_keep_def Let_def if_True
    by (intro keeps_bind [where L = early_files] keeps_steps)
       ((rule assms(1) | assumption | simp add: step_simps ok)+)
qed

lemma keeps_load_both:
  assumes "recorded L st" and "line_ok f" and "line_ok g" and "f \<in> L'" and "g \<in> L'" and "L \<subseteq> L'"
  shows "keeps L' (load_both f g st)"
  unfolding load_both_def
  by (rule keeps_bind [where L = L'])
     (use assms in \<open>auto intro: keeps_load\<close>)

lemma keeps_namespaces:
  assumes "recorded mdwx_files st" and "lists_ok cfg"
  shows "keeps mdwx_files (build_namespaces P opn cfg st)"
proof -
  have "no_slash (restrict_namespaces cfg)" using assms(2) by (simp add: lists_ok_def)
  then show ?thesis
    unfolding build_namespaces_def seccomp_filter_namespaces_def
    by (intro keeps_bind [where L = mdwx_files] keeps_run)
       ((rule assms(1) | assumption | simp add: step_simps)+)
qed

lemma keeps_mdwx:
  assumes "recorded main_files st"
  shows "keeps mdwx_files
    (bind_res (do_when b (\<lambda>st. bind_res (seccomp_filter_mdwx P opn cfg True st)
         (seccomp_filter_mdwx P opn cfg False)) st)
      (load_both RUN_SECCOMP_MDWX RUN_SECCOMP_MDWX_32))"
  using assms unfolding do_when_def seccomp_filter_mdwx_def
  by (intro keeps_bind [where L = main_files] keeps_load_both keeps_steps)
     ((assumption | simp add: step_simps)+)

lemma keeps_sandbox:
  assumes "recorded {} st" and "lists_ok cfg" and "\<not> arg_seccomp32 cfg"
  shows "keeps all_files (sandbox_set_seccomp P opn cfg st)"
proof -
  have save: "keeps {RUN_SECCOMP_PROTOCOL} (protocol_filter_save cfg st')"
    if "recorded {RUN_SECCOMP_PROTOCOL} st'" for st'
    using that by (auto simp: protocol_filter_save_def keeps_def recorded_def loaded_from_def)
  have unlink: "recorded {} (st\<lparr>run_files := fs\<rparr>)" for fs
    using assms(1) by (simp add: recorded_def)
  have proto: "keeps {RUN_SECCOMP_PROTOCOL}
      (if SYS P ''socket'' = None then Inr st
       else if cfg_protocol cfg \<noteq> None then
         bind_res (seccomp_load RUN_SECCOMP_PROTOCOL st) (protocol_filter_save cfg)
       else Inr (st\<lparr>run_files := (run_files st)(RUN_SECCOMP_PROTOCOL := None)\<rparr>))"
    by (intro keeps_bind [where L = "{RUN_SECCOMP_PROTOCOL}"] save keeps_steps)
       ((rule assms(1) unlink | assumption | simp add: step_simps)+)
  have main: "keeps main_files (do_when (arg_seccomp cfg)
      (if seccomp_list_keep cfg \<noteq> None then seccomp_filter_keep P opn cfg True
       else seccomp_filter_drop P opn cfg True) st')" if "recorded {RUN_SECCOMP_PROTOCOL} st'" for st'
    using that keeps_main [OF that assms(2)]
    by (simp add: do_when_def keeps_Inr step_simps)
  have mdwx: "keeps mdwx_files (do_when b f st')"
    if "recorded main_files st'" and "keeps mdwx_files (f st')" for b f st'
    using that by (simp add: do_when_def keeps_Inr [OF that(1)] step_simps)
  have ns: "keeps mdwx_files (do_when b (build_namespaces P opn cfg) st')"
    if "recorded mdwx_files st'" for st' b
    using that keeps_namespaces [OF that assms(2)] by (simp add: do_when_def keeps_Inr)
  show ?thesis
    unfolding sandbox_set_seccomp_def
    by (rule keeps_bind [OF proto], rule keeps_bind [OF main], assumption,
        rule keeps_bind [where L = main_files], simp add: do_when_def assms(3) keeps_Inr,
        rule keeps_bind [OF mdwx [OF _ keeps_mdwx]], assumption, assumption,
        intro keeps_if keeps_bind [OF ns] keeps_bind [OF keeps_namespaces] keeps_load_both keeps_Inr)
       ((assumption | rule assms(2) | simp add: step_simps)+)
qed

section \<open>Reading the record\<close>

lemma fgets_all_line:
  assumes "line_ok f"
  shows "fgets_all (f @ CHR 0x0A # rest) = (f @ [CHR 0x0A]) # fgets_all rest"
proof -
  have "takeWhile (\<lambda>c. c \<noteq> CHR 0x0A) (f @ CHR 0x0A # rest) = f"
    using assms by (subst takeWhile_append2) (auto simp: line_ok_def)
  then have "fgets_len (f @ CHR 0x0A # rest) = length f + 1"
    using assms by (simp add: fgets_len_def MAXBUF_def line_ok_def)
  then show ?thesis by (subst fgets_all.simps) simp
qed

lemma fgets_all_record:
  "\<forall>f \<in> set fs. line_ok f \<Longrightarrow>
   fgets_all (concat (map (\<lambda>f. f @ [CHR 0x0A]) fs)) = map (\<lambda>f. f @ [CHR 0x0A]) fs"
  by (induction fs) (simp_all add: fgets_all.simps [of "[]"] fgets_all_line)

lemma strip_line: "line_ok f \<Longrightarrow> takeWhile (\<lambda>c. c \<noteq> CHR 0x0A) (f @ [CHR 0x0A]) = f"
  by (subst takeWhile_append2) (auto simp: line_ok_def)

lemma load_loaded:
  "loaded_from (run_files st) f \<Longrightarrow> load_file_list_flag st \<Longrightarrow>
   seccomp_load (fl_fname f) st = Inr (st\<lparr>filter_list_head := f # filter_list_head st\<rparr>)"
  by (cases f) (auto simp: loaded_from_def seccomp_load_def Let_def)

lemma reload_lines:
  "\<forall>f \<in> set fls. line_ok (fl_fname f) \<and> loaded_from (run_files st) f \<Longrightarrow> load_file_list_flag st \<Longrightarrow>
   fold_res (\<lambda>buf. seccomp_load (takeWhile (\<lambda>c. c \<noteq> CHR 0x0A) buf))
     (map (\<lambda>f. fl_fname f @ [CHR 0x0A]) fls) st =
   Inr (st\<lparr>filter_list_head := rev fls @ filter_list_head st\<rparr>)"
  by (induction fls arbitrary: st) (simp_all add: strip_line load_loaded)

lemma reload_recorded:
  assumes "recorded L st"
  shows "seccomp_load_file_list (st\<lparr>filter_list_head := []\<rparr>) = Inr st"
proof (cases "filter_list_head st = []")
  case True
  then show ?thesis using assms
    by (cases st) (simp add: seccomp_load_file_list_def recorded_def record_of_def)
next
  case False
  let ?fls = "rev (filter_list_head st)"
  have ok: "\<forall>f \<in> set ?fls. line_ok (fl_fname f) \<and> loaded_from (run_files st) f"
    using assms by (simp add: recorded_def)
  then have "fgets_all (concat (map (\<lambda>f. fl_fname f @ [CHR 0x0A]) ?fls)) = map (\<lambda>f. fl_fname f @ [CHR 0x0A]) ?fls"
    using fgets_all_record [of "map fl_fname ?fls"] by (auto simp: comp_def)
  with False ok assms show ?thesis
    by (cases st) (simp add: seccomp_load_file_list_def recorded_def record_of_def reload_lines)
qed

section \<open>Properties\<close>

lemma linux_SYS_socket: "SYS linux_x86_64 ''socket'' = Some 41"
proof -
  have "(''socket'', 41) \<in> set syscall_x86_64"
    by (simp add: syscall_x86_64_def syscall_x86_64_1_def)
  then show ?thesis using syscall_x86_64_distinct_names by simp
qed

text \<open>The names and programs of a sandbox with the default options.\<close>

definition default_config :: sec_config where
  "default_config =
     \<lparr>seccomp_list = None, seccomp_list_drop = None, seccomp_list_keep = None, seccomp_list32 = None,
      seccomp_list_drop32 = None, seccomp_list_keep32 = None, seccomp_error_action = None,
      restrict_namespaces = None, cfg_protocol = None, arg_seccomp_error_action = 1,
      arg_seccomp = True, arg_seccomp32 = False, arg_seccomp_block_secondary = False,
      arg_allow_debuggers = False, arg_memory_deny_write_execute = False,
      arg_restrict_namespaces = False\<rparr>"

lemma default_config_simps:
  "seccomp_list default_config = None" "seccomp_list_drop default_config = None"
  "seccomp_list_keep default_config = None" "restrict_namespaces default_config = None"
  "cfg_protocol default_config = None" "arg_seccomp default_config" "\<not> arg_seccomp32 default_config"
  "\<not> arg_memory_deny_write_execute default_config" "\<not> arg_restrict_namespaces default_config"
  by (simp_all add: default_config_def)

definition fresh_state :: "files \<Rightarrow> sec_state" where
  "fresh_state fs = \<lparr>filter_list_head = [], run_files = fs, seccomp_list_file = None,
     protocol_cfg_file = None, load_file_list_flag = False\<rparr>"

text \<open>C12. A process that joins the sandbox installs the same filters in the same order, provided none of the
  \<^verbatim>\<open>--seccomp.32\<close> options is used: when a sandbox has set up its filters, a process that starts with an empty
  filter list and reads the record arrives at exactly the list of the sandbox. The proof follows every load and
  every build of the set-up and shows that no file is rewritten after it was loaded.\<close>

theorem join_reloads_filters:
  assumes "lists_ok cfg" and "\<not> arg_seccomp32 cfg"
    and "sandbox_set_seccomp P opn cfg (fresh_state fs) = Inr st"
  shows "seccomp_load_file_list (st\<lparr>filter_list_head := []\<rparr>) = Inr st"
proof -
  have "recorded {} (fresh_state fs)"
    by (simp add: fresh_state_def recorded_def record_of_def)
  from keeps_sandbox [OF this assms(1,2)] assms(3) show ?thesis
    by (auto simp: keeps_def intro: reload_recorded)
qed

theorem join_reloads_filters_witness:
  "\<exists>st. sandbox_set_seccomp linux_x86_64 (\<lambda>_. 3) default_config
       (fresh_state [RUN_SECCOMP_32 \<mapsto> [RETURN_ALLOW], RUN_SECCOMP_CFG \<mapsto> [EXAMINE_SYSCALL, RETURN_ALLOW]]) = Inr st \<and>
     map fl_fname (filter_list_head st) = [RUN_SECCOMP_CFG, RUN_SECCOMP_32] \<and>
     seccomp_load_file_list (st\<lparr>filter_list_head := []\<rparr>) = Inr st"
proof -
  let ?fs = "[RUN_SECCOMP_32 \<mapsto> [RETURN_ALLOW], RUN_SECCOMP_CFG \<mapsto> [EXAMINE_SYSCALL, RETURN_ALLOW]]"
  have ne: "RUN_SECCOMP_32 \<noteq> RUN_SECCOMP_CFG" "RUN_SECCOMP_PROTOCOL \<noteq> RUN_SECCOMP_CFG"
    by (simp_all add: run_files_defs)
  have eperm: "default_action linux_x86_64 default_config"
    by (simp add: default_action_def default_config_def linux_x86_64_def linux_errnos_def)
  have drop: "seccomp_filter_drop linux_x86_64 (\<lambda>_. 3) default_config True st =
      bind_res (seccomp_load RUN_SECCOMP_32 st) (seccomp_load RUN_SECCOMP_CFG)" for st
    using eperm by (simp add: seccomp_filter_drop_def default_config_def is_set_def)
  obtain st where st: "sandbox_set_seccomp linux_x86_64 (\<lambda>_. 3) default_config (fresh_state ?fs) = Inr st"
      "map fl_fname (filter_list_head st) = [RUN_SECCOMP_CFG, RUN_SECCOMP_32]"
    by (simp add: sandbox_set_seccomp_def drop do_when_def default_config_simps linux_SYS_socket
        fresh_state_def seccomp_load_def seccomp_save_file_list_def ne ne [symmetric] fresh_names
        del: linux_x86_64_simps)
  have "lists_ok default_config"
    by (simp add: lists_ok_def default_config_def no_slash_def)
  from st(2) join_reloads_filters [OF this default_config_simps(7) st(1)] show ?thesis
    by (intro exI [of _ st] conjI st(1))
qed

lemma run_keep:
  assumes "error_action_of P (seccomp_error_action cfg) = Inr a"
    and "seccomp_keep P (opn f) l True a = Inr p"
  shows "run_fseccomp P opn cfg [Some ''keep'', Some f, Some f', Some l] st =
    Inr (st\<lparr>run_files := (run_files st)(f \<mapsto> p)\<rparr>)"
  using assms by (simp add: run_fseccomp_def sbox_argv_def fseccomp_keep write_one_def)

text \<open>
  Loading a file that holds a program short enough for the 16-bit length, and reading a record of such files.
\<close>

lemma load_program:
  assumes "run_files st f = Some p" and "p \<noteq> []" and "length p < 8192"
  shows "seccomp_load f st =
    (let st1 = st\<lparr>filter_list_head := \<lparr>fl_fname = f, fl_prog = p\<rparr> # filter_list_head st\<rparr>
     in Inr (if load_file_list_flag st then st1 else seccomp_save_file_list f st1))"
  using assms by (simp add: seccomp_load_def Let_def)

lemma length_rules:
  "length (list_rules (listed v) es) \<le> length es" "length (list_rules (excluded v) es) \<le> length es"
  by (induction es) (auto simp: entry_rules_def listed_def excluded_def)

lemma length_programs:
  "length (blacklist_filter P native a rs) \<le> 10 + 2 * length rs"
  "length (whitelist_filter P native a rs) \<le> 10 + 2 * length rs"
proof -
  have "length (rules_code rs) = 2 * length rs" by (induction rs) (simp_all add: rule_code_def)
  then show "length (blacklist_filter P native a rs) \<le> 10 + 2 * length rs"
    "length (whitelist_filter P native a rs) \<le> 10 + 2 * length rs"
    by (simp_all add: blacklist_filter_def whitelist_filter_def init_code_eq VALIDATE_ARCHITECTURE_def
        VALIDATE_ARCHITECTURE_32_def HANDLE_X32_def)
qed

lemma default_keep_small: "length (group_entries P native ''@default-keep'') \<le> 100"
proof -
  have "length (closure (\<lambda>_. True) (Suc (Suc (Suc 0))) ''@default-keep'') \<le> 100"
    by (simp add: closure_leaves grp_default_keep_def del: closure.simps)
  then show ?thesis
    using name_entries_length [of P native "closure (item_present P) 3 ''@default-keep''"]
      closure_length_mono [of "item_present P" 3 "''@default-keep''"]
    by (simp add: group_entries_def numeral_3_eq_3 del: closure.simps)
qed



text \<open>C38. A list for 32-bit calls has no effect on its own: with the default error action and no list for
  native calls, \<open>seccomp_filter_drop\<close> for the 32-bit filter takes the default branch whatever
  \<^verbatim>\<open>--seccomp.32\<close> or \<^verbatim>\<open>--seccomp.32.drop\<close> say, because it tests the native lists.\<close>

theorem lists_32_ignored:
  assumes "seccomp_list_drop cfg = None" and "\<not> is_set (seccomp_list cfg)" and "default_action P cfg"
  shows "seccomp_filter_drop P opn (cfg\<lparr>seccomp_list32 := l, seccomp_list_drop32 := l'\<rparr>) False st =
    seccomp_filter_drop P opn cfg False st"
  using assms by (simp add: seccomp_filter_drop_def default_action_def)

theorem lists_32_ignored_witness:
  "seccomp_filter_drop linux_x86_64 (\<lambda>_. 3)
     (default_config\<lparr>seccomp_list32 := Some ''mount'', seccomp_list_drop32 := Some ''mount''\<rparr>) False
     (fresh_state Map.empty) =
   seccomp_filter_drop linux_x86_64 (\<lambda>_. 3) default_config False (fresh_state Map.empty)"
  by (rule lists_32_ignored)
     (simp_all add: default_config_def is_set_def default_action_def linux_x86_64_def linux_errnos_def)

lemma load_small:
  assumes "run_files st f = Some p" and "p \<noteq> []" and "length p < 8192"
  shows "\<exists>st'. seccomp_load f st = Inr st' \<and> run_files st' = run_files st \<and>
    filter_list_head st' = \<lparr>fl_fname = f, fl_prog = p\<rparr> # filter_list_head st"
  using assms by (simp add: seccomp_load_def seccomp_save_file_list_def Let_def)

text \<open>C37. The keep list for 32-bit calls is compiled with the native command, so the filter that
  \<^verbatim>\<open>--seccomp.32.keep\<close> installs lets every 32-bit call pass: it allows every call that
  does not come from the native architecture.\<close>

theorem keep_32_allows_all:
  assumes "bpf_machine exec" and "\<not> arg_seccomp_block_secondary cfg" and "seccomp_list_keep32 cfg = Some l"
    and "error_action_of P (seccomp_error_action cfg) = Inr a" and "0 < opn RUN_SECCOMP_32"
    and "list_entries P True l = Inr es" and "length es \<le> 1000"
  shows "\<exists>st' q. seccomp_filter_keep P opn cfg False st = Inr st' \<and>
    filter_list_head st' = \<lparr>fl_fname = RUN_SECCOMP_32, fl_prog = q\<rparr> # filter_list_head st \<and>
    (\<forall>d. sd_arch d \<noteq> ARCH_NR P \<longrightarrow> exec (data_word P d) q 0 = Some SECCOMP_RET_ALLOW)"
proof -
  define rs where "rs = list_rules (excluded a) es @
    list_rules (listed SECCOMP_RET_ALLOW) (group_entries P True ''@default-keep'') @
    list_rules (listed SECCOMP_RET_ALLOW) es"
  define p where "p = whitelist_filter P True a rs"
  have built: "seccomp_keep P (opn RUN_SECCOMP_32) l True a = Inr p"
    using assms(5,6) by (simp add: seccomp_keep_filter p_def rs_def)
  have "length rs \<le> length es + length (group_entries P True ''@default-keep'') + length es"
    unfolding rs_def length_append add.assoc by (intro add_mono length_rules)
  then have "length p < 8192" and "p \<noteq> []"
    using length_programs(2) [of P True a rs] default_keep_small [of P True] assms(7)
    by (simp_all add: p_def whitelist_filter_def)
  let ?st = "st\<lparr>run_files := (run_files st)(RUN_SECCOMP_32 \<mapsto> p)\<rparr>"
  obtain st' where "seccomp_load RUN_SECCOMP_32 ?st = Inr st'"
      "filter_list_head st' = \<lparr>fl_fname = RUN_SECCOMP_32, fl_prog = p\<rparr> # filter_list_head st"
    using load_small [of ?st RUN_SECCOMP_32 p] \<open>length p < 8192\<close> \<open>p \<noteq> []\<close> by auto
  moreover have "exec (data_word P d) p 0 = Some SECCOMP_RET_ALLOW" if "sd_arch d \<noteq> ARCH_NR P" for d
    using that by (simp add: p_def bpf_machine.exec_whitelist_filter [OF assms(1)] verdict_def guarded_def)
  ultimately show ?thesis
    using assms(2,3) run_keep [of P cfg a opn RUN_SECCOMP_32 l, OF assms(4) built]
    by (simp add: seccomp_filter_keep_def)
qed

theorem keep_32_allows_all_witness:
  "\<exists>st' q. seccomp_filter_keep linux_x86_64 (\<lambda>_. 3)
       (default_config\<lparr>seccomp_list_keep32 := Some ''mount,execve,!read'', seccomp_error_action := Some ''kill''\<rparr>)
       False (fresh_state Map.empty) = Inr st' \<and>
     filter_list_head st' = [\<lparr>fl_fname = RUN_SECCOMP_32, fl_prog = q\<rparr>] \<and>
     bpf_exec (data_word linux_x86_64
       \<lparr>sd_nr = 9, sd_arch = ARCH_32 linux_x86_64, sd_ip = 0, sd_args = (\<lambda>_. 0)\<rparr>) q 0 = Some SECCOMP_RET_ALLOW"
proof -
  let ?cfg = "default_config\<lparr>seccomp_list_keep32 := Some ''mount,execve,!read'', seccomp_error_action := Some ''kill''\<rparr>"
  have "error_action_of linux_x86_64 (seccomp_error_action ?cfg) = Inr 0"
    by (simp add: error_action_of_def SECCOMP_RET_KILL_def)
  moreover have "ARCH_32 linux_x86_64 \<noteq> ARCH_NR linux_x86_64" by simp
  ultimately show ?thesis
    using keep_32_allows_all [OF vm.bpf_machine_axioms _ _ _ _ linux_list, of ?cfg 0 "\<lambda>_. 3" "fresh_state Map.empty"]
    by (fastforce simp: default_config_def fresh_state_def)
qed

text \<open>The decision list of a default+drop list.\<close>

definition default_drop_rules :: "platform \<Rightarrow> bool \<Rightarrow> u32 \<Rightarrow> (int \<times> int) list \<Rightarrow> rule list" where
  "default_drop_rules P dbg a es =
     list_rules (excluded SECCOMP_RET_ALLOW) es @
     list_rules (listed a) (group_entries P True (default_group dbg)) @ drop_pre_rules P True a es"

lemma length_opt_rules: "length rs \<le> length (opt_rules a rs)"
  by (induction rs) (auto simp: rule_code_def)

definition with_post :: "string \<Rightarrow> sock_filter list option \<Rightarrow> files \<Rightarrow> files" where
  "with_post f post fs = (case post of None \<Rightarrow> fs | Some q \<Rightarrow> fs(f \<mapsto> q))"

lemma run_default_drop:
  assumes "error_action_of P (seccomp_error_action cfg) = Inr a"
    and "seccomp_default_drop P (opn f) (opn f') l dbg True a = Inr (pre, post)"
  shows "run_fseccomp P opn cfg ([Some ''default'', Some ''drop'', Some f, Some f', Some l] @
      (if dbg then [Some ''allow-debuggers''] else [])) st =
      Inr (st\<lparr>run_files := with_post f' post ((run_files st)(f \<mapsto> pre))\<rparr>)"
proof -
  have "sbox_argv (Some ''fseccomp'' # [Some ''default'', Some ''drop'', Some f, Some f', Some l] @
      (if dbg then [Some ''allow-debuggers''] else [])) =
    [''fseccomp'', ''default'', ''drop'', f, f', l] @ (if dbg then [''allow-debuggers''] else [])"
    by (simp add: sbox_argv_def)
  then show ?thesis
    using assms
    by (simp only: run_fseccomp_def fseccomp_default_drop) (simp add: write_two_def with_post_def split: option.split)
qed

lemma run_optimize_small:
  assumes "error_action_of P (seccomp_error_action cfg) = Inr a" and "run_files st f = Some p"
    and "p \<noteq> []" and "length p < 8192" and "hd f = CHR ''/''"
  shows "run_fsec_optimize P cfg f st = Inr (st\<lparr>run_files := (run_files st)(f \<mapsto> optimize a p)\<rparr>)"
  using assms
  by (auto simp: run_fsec_optimize_def fsec_optimize_files_def fsec_optimize_def)

lemma optimize_nonempty: "p \<noteq> [] \<Longrightarrow> optimize a p \<noteq> [] \<and> length (optimize a p) \<le> length p"
proof -
  assume "p \<noteq> []"
  then have "0 < length (optimize a p)" and "length (optimize a p) \<le> length p"
    using count_blacklists_less [of p a] by (auto simp: length_optimize)
  then show ?thesis by auto
qed

lemma seccomp_option_loads:
  assumes "\<And>f. 0 < opn f" and "table_ok (table P True)"
    and "seccomp_list_drop cfg = None" and "seccomp_list cfg = Some l" and "l \<noteq> []"
    and action: "error_action_of P (seccomp_error_action cfg) = Inr a"
    and "list_entries P True l = Inr es" and "fits a (default_drop_rules P (arg_allow_debuggers cfg) a es)"
    and "build_secondary P opn cfg st = Inr st1" and "\<not> load_file_list_flag st1"
  shows "\<exists>st'. seccomp_filter_drop P opn cfg True st = Inr st' \<and>
    filter_list_head st' = \<lparr>fl_fname = RUN_SECCOMP_CFG, fl_prog =
      optimize a (blacklist_filter P True a (default_drop_rules P (arg_allow_debuggers cfg) a es))\<rparr> # filter_list_head st1 \<and>
    seccomp_list_file st' =
      Some ((case seccomp_list_file st1 of None \<Rightarrow> [] | Some s \<Rightarrow> s) @ RUN_SECCOMP_CFG @ [CHR 0x0A]) \<and>
    run_files st' RUN_SECCOMP_POSTEXEC =
      with_post RUN_SECCOMP_POSTEXEC (drop_post_filter P True a es) (run_files st1) RUN_SECCOMP_POSTEXEC"
proof -
  let ?rs = "default_drop_rules P (arg_allow_debuggers cfg) a es"
  let ?p = "blacklist_filter P True a ?rs"
  let ?post = "drop_post_filter P True a es"
  have built: "seccomp_default_drop P (opn RUN_SECCOMP_CFG) (opn RUN_SECCOMP_POSTEXEC) l
      (arg_allow_debuggers cfg) True a = Inr (?p, ?post)"
    using assms(7) by (simp add: seccomp_default_drop_filter [OF assms(1,1,2)] default_drop_rules_def)
  have ne: "RUN_SECCOMP_CFG \<noteq> RUN_SECCOMP_POSTEXEC" by (simp add: run_files_defs)
  define fs where "fs = with_post RUN_SECCOMP_POSTEXEC ?post ((run_files st1)(RUN_SECCOMP_CFG \<mapsto> ?p))"
  have fs: "fs RUN_SECCOMP_CFG = Some ?p"
    "fs RUN_SECCOMP_POSTEXEC = with_post RUN_SECCOMP_POSTEXEC ?post (run_files st1) RUN_SECCOMP_POSTEXEC"
    using ne by (simp_all add: fs_def with_post_def split: option.split)
  note run = run_default_drop [where opn = opn, OF action built, of st1, folded fs_def]
  have small: "length ?p < 8192" "?p \<noteq> []"
    using length_programs(1) [of P True a ?rs] length_opt_rules [of ?rs a] assms(8)
    by (simp_all add: blacklist_filter_def fits_def)
  let ?st2 = "st1\<lparr>run_files := fs(RUN_SECCOMP_CFG \<mapsto> optimize a ?p)\<rparr>"
  have opt: "run_fsec_optimize P cfg RUN_SECCOMP_CFG (st1\<lparr>run_files := fs\<rparr>) = Inr ?st2"
    using run_optimize_small [OF action, of "st1\<lparr>run_files := fs\<rparr>" RUN_SECCOMP_CFG ?p] fs(1) small
    by (simp add: run_files_defs)
  have drop: "seccomp_filter_drop P opn cfg True st = seccomp_load RUN_SECCOMP_CFG ?st2"
    using assms(3-5,9) run opt by (simp add: seccomp_filter_drop_def is_set_def)
  show ?thesis
    using optimize_nonempty [OF small(2), of a] small(1) assms(10) ne
    unfolding drop by (subst load_program [of _ _ "optimize a ?p"]) (simp_all add: seccomp_save_file_list_def fs)
qed

text \<open>C11. From the option \<^verbatim>\<open>--seccomp=list\<close> to the files and programs of the sandbox, for a list without error codes.
  Once the filter for the other architecture is in place, firejail builds the filter, optimises it, loads it and appends its
  name to the record. If the optimised program has at most 255 rules, so that its 8-bit jumps reach their target, it
  refuses exactly the default group (with or without the debugger calls) and the listed calls that are in the table
  and not needed for exec, minus the exempted ones. The post-exec file is left alone when no listed call is needed for
  exec, and otherwise holds a program that refuses exactly those.\<close>

theorem seccomp_option_policy:
  assumes "bpf_machine exec" and "\<And>f. 0 < opn f" and "table_ok (table P True)"
    and "seccomp_list_drop cfg = None" and "seccomp_list cfg = Some l" and "l \<noteq> []"
    and "error_action_of P (seccomp_error_action cfg) = Inr a"
    and "a \<noteq> SECCOMP_RET_ALLOW" and "list_entries P True l = Inr es" and "simple_entries es"
    and "fits a (default_drop_rules P (arg_allow_debuggers cfg) a es)"
    and "build_secondary P opn cfg st = Inr st1" and "\<not> load_file_list_flag st1"
  shows "\<exists>st' q. seccomp_filter_drop P opn cfg True st = Inr st' \<and>
    filter_list_head st' = \<lparr>fl_fname = RUN_SECCOMP_CFG, fl_prog = q\<rparr> # filter_list_head st1 \<and>
    seccomp_list_file st' =
      Some ((case seccomp_list_file st1 of None \<Rightarrow> [] | Some s \<Rightarrow> s) @ RUN_SECCOMP_CFG @ [CHR 0x0A]) \<and>
    (\<forall>d. exec (data_word P d) q 0 =
      Some (guarded P True a d
        (if uint (sd_nr d) \<in> group_numbers P True (default_group (arg_allow_debuggers cfg)) \<union>
              (listed_numbers es \<inter> numbers P True - keep_numbers P True) - excluded_numbers es then a
         else SECCOMP_RET_ALLOW))) \<and>
    (if listed_numbers es \<inter> keep_numbers P True = {}
     then run_files st' RUN_SECCOMP_POSTEXEC = run_files st1 RUN_SECCOMP_POSTEXEC
     else \<exists>post. run_files st' RUN_SECCOMP_POSTEXEC = Some post \<and>
       (\<forall>d. exec (data_word P d) post 0 =
         Some (guarded P True a d
           (if uint (sd_nr d) \<in> listed_numbers es \<inter> keep_numbers P True then a else SECCOMP_RET_ALLOW))))"
proof -
  note rules = map_of_excluded [OF assms(10) list_entries_small [OF assms(3,9)]]
    drop_pre_simple [OF assms(3,10)] drop_post_simple [OF assms(3)] map_of_group [OF assms(3)]
  have main: "exec (data_word P d) (optimize a (blacklist_filter P True a
        (default_drop_rules P (arg_allow_debuggers cfg) a es))) 0 =
      Some (guarded P True a d
        (if uint (sd_nr d) \<in> group_numbers P True (default_group (arg_allow_debuggers cfg)) \<union>
              (listed_numbers es \<inter> numbers P True - keep_numbers P True) - excluded_numbers es then a
         else SECCOMP_RET_ALLOW))" for d
    using assms(11)
    by (auto simp: bpf_machine.exec_optimize_filters [OF assms(1,8)] verdict_def
        default_drop_rules_def map_add_def rules)
  have none: "post_entries (keep_numbers P True) es = [] \<longleftrightarrow> listed_numbers es \<inter> keep_numbers P True = {}"
    by (auto simp: post_entries_def listed_numbers_def filter_empty_conv)
  have post: "exec (data_word P d) (blacklist_filter P True a (drop_post_rules P True a es)) 0 =
      Some (guarded P True a d
        (if uint (sd_nr d) \<in> listed_numbers es \<inter> keep_numbers P True then a else SECCOMP_RET_ALLOW))" for d
    by (simp add: bpf_machine.exec_blacklist_filter [OF assms(1)] verdict_def rules)
  from seccomp_option_loads [where opn = opn, OF assms(2-7,9,11-13)] obtain st'
    where "seccomp_filter_drop P opn cfg True st = Inr st'"
      "filter_list_head st' = \<lparr>fl_fname = RUN_SECCOMP_CFG, fl_prog =
        optimize a (blacklist_filter P True a (default_drop_rules P (arg_allow_debuggers cfg) a es))\<rparr> # filter_list_head st1"
      "seccomp_list_file st' =
        Some ((case seccomp_list_file st1 of None \<Rightarrow> [] | Some s \<Rightarrow> s) @ RUN_SECCOMP_CFG @ [CHR 0x0A])"
      "run_files st' RUN_SECCOMP_POSTEXEC =
        with_post RUN_SECCOMP_POSTEXEC (drop_post_filter P True a es) (run_files st1) RUN_SECCOMP_POSTEXEC"
    by blast
  with main post show ?thesis by (auto simp: drop_post_filter_def with_post_def none)
qed

lemma linux_fits: "fits 0 (default_drop_rules linux_x86_64 False 0 [(165, -1), (59, -1), (-1, -1)])"
proof -
  have app: "length (opt_rules a (xs @ ys)) = length (opt_rules a xs) + length (opt_rules a ys)" for a xs ys
    by (induction xs) auto
  have simple: "length (opt_rules a (list_rules (listed a) es)) \<le> length es" if "simple_entries es" for a es
    using that by (induction es) (auto simp: simple_entries_def entry_rules_simple listed_def)
  have "length (closure (\<lambda>_. True) 3 (default_group False)) \<le> 250"
    using default_closure_length [of 0] by (simp add: default_group_def numeral_3_eq_3 del: closure.simps)
  then have "length (group_entries linux_x86_64 True (default_group False)) \<le> 250"
    using name_entries_length [of linux_x86_64 True "closure (item_present linux_x86_64) 3 (default_group False)"]
      closure_length_mono [of "item_present linux_x86_64" 3 "default_group False"]
    by (simp add: group_entries_def)
  then have "length (opt_rules 0 (list_rules (listed 0) (group_entries linux_x86_64 True (default_group False)))) \<le> 250"
    using simple [OF group_entries_facts(1) [OF linux_table_ok]] le_trans by blast
  moreover have "length (opt_rules 0 (drop_pre_rules linux_x86_64 True 0 [(165, -1), (59, -1), (-1, -1)])) \<le> 2"
    by (auto simp: drop_pre_rules_def pre_entries_def reparse_def entry_rules_def listed_def ERRNO_KILL_def ERRNO_LOG_def)
  moreover have "length (opt_rules 0 (list_rules (excluded SECCOMP_RET_ALLOW) [(165, -1), (59, -1), (-1, -1)])) \<le> 2"
    by (simp add: entry_rules_def excluded_def ERRNO_KILL_def ERRNO_LOG_def SECCOMP_RET_ALLOW_def rule_code_def)
  ultimately show ?thesis by (simp add: fits_def default_drop_rules_def app)
qed

theorem seccomp_option_policy_witness:
  "\<exists>st' q. seccomp_filter_drop linux_x86_64 (\<lambda>_. 3)
       (default_config\<lparr>seccomp_list := Some ''mount,execve,!read'', seccomp_error_action := Some ''kill'',
          arg_seccomp_error_action := 1\<rparr>)
       True (fresh_state [RUN_SECCOMP_32 \<mapsto> [RETURN_ALLOW]]) = Inr st' \<and>
     map fl_fname (filter_list_head st') = [RUN_SECCOMP_CFG, RUN_SECCOMP_32] \<and>
     seccomp_list_file st' = Some (RUN_SECCOMP_32 @ [CHR 0x0A] @ RUN_SECCOMP_CFG @ [CHR 0x0A]) \<and>
     fl_prog (hd (filter_list_head st')) = q \<and>
     (\<forall>d. bpf_exec (data_word linux_x86_64 d) q 0 =
       Some (guarded linux_x86_64 True 0 d
         (if uint (sd_nr d) \<in> group_numbers linux_x86_64 True (default_group False) \<union>
              ({59, 165} \<inter> numbers linux_x86_64 True - keep_numbers linux_x86_64 True) - {0} then 0
          else SECCOMP_RET_ALLOW)))"
proof -
  let ?cfg = "default_config\<lparr>seccomp_list := Some ''mount,execve,!read'', seccomp_error_action := Some ''kill'',
          arg_seccomp_error_action := 1\<rparr>"
  let ?st = "fresh_state [RUN_SECCOMP_32 \<mapsto> [RETURN_ALLOW]]"
  have action: "error_action_of linux_x86_64 (seccomp_error_action ?cfg) = Inr 0"
    by (simp add: error_action_of_def SECCOMP_RET_KILL_def)
  have dbg: "arg_allow_debuggers ?cfg = False" by (simp add: default_config_def)
  have cfg: "seccomp_list_drop ?cfg = None" "seccomp_list ?cfg = Some ''mount,execve,!read''" "''mount,execve,!read'' \<noteq> []"
    by (simp_all add: default_config_def)
  have fits: "fits 0 (default_drop_rules linux_x86_64 (arg_allow_debuggers ?cfg) 0 [(165, -1), (59, -1), (-1, -1)])"
    unfolding dbg by (rule linux_fits)
  have opn: "0 < (3 :: int)" and refused: "0 \<noteq> SECCOMP_RET_ALLOW" by (simp_all add: SECCOMP_RET_ALLOW_def)
  have "default_action linux_x86_64 ?cfg"
    by (simp add: default_action_def linux_x86_64_def linux_errnos_def)
  then obtain st1 where st1: "build_secondary linux_x86_64 (\<lambda>_. 3) ?cfg ?st = Inr st1"
      "map fl_fname (filter_list_head st1) = [RUN_SECCOMP_32]" "\<not> load_file_list_flag st1"
      "seccomp_list_file st1 = Some (RUN_SECCOMP_32 @ [CHR 0x0A])"
    by (simp add: build_secondary_def default_config_def fresh_state_def load_program seccomp_save_file_list_def)
  obtain st' q where *: "seccomp_filter_drop linux_x86_64 (\<lambda>_. 3) ?cfg True ?st = Inr st'"
      "filter_list_head st' = \<lparr>fl_fname = RUN_SECCOMP_CFG, fl_prog = q\<rparr> # filter_list_head st1"
      "seccomp_list_file st' = Some ((case seccomp_list_file st1 of None \<Rightarrow> [] | Some s \<Rightarrow> s) @ RUN_SECCOMP_CFG @ [CHR 0x0A])"
      "\<forall>d. bpf_exec (data_word linux_x86_64 d) q 0 =
       Some (guarded linux_x86_64 True 0 d
         (if uint (sd_nr d) \<in> group_numbers linux_x86_64 True (default_group False) \<union>
              ({59, 165} \<inter> numbers linux_x86_64 True - keep_numbers linux_x86_64 True) - {0} then 0
          else SECCOMP_RET_ALLOW))"
    using seccomp_option_policy [where opn = "\<lambda>_. 3", OF vm.bpf_machine_axioms opn linux_table_ok cfg action refused
        linux_list linux_sets(1) fits st1(1,3)]
    unfolding linux_sets(2,3) dbg by (elim exE conjE, intro that) assumption+
  show ?thesis
    by (intro exI [of _ st'] exI [of _ q] conjI *(1,4)) (simp_all add: * st1)
qed

end
