(* ===== verification/Scanf.thy ===== *)
theory Scanf imports Prelude begin

text \<open>
  The conversions of \<^verbatim>\<open>sscanf\<close> and \<^verbatim>\<open>printf\<close> the sources use on numbers: %llx, %d, %u
  and the fixed-width and decimal output they read back.
\<close>

section \<open>Conversions\<close>

text \<open>\<^verbatim>\<open>sscanf\<close> with \<^verbatim>\<open>%llx\<close> and with \<^verbatim>\<open>%d\<close>; None: nothing was converted.\<close>

definition scan_sign :: "string \<Rightarrow> bool \<times> string" where
  "scan_sign s =
     (case dropWhile isspace_c s of
        [] \<Rightarrow> (False, [])
      | c # t \<Rightarrow> if c = CHR ''-'' then (True, t) else if c = CHR ''+'' then (False, t) else (False, c # t))"

definition sscanf_llx :: "string \<Rightarrow> u64 option" where
  "sscanf_llx s =
     (let (neg, u) = scan_sign s;
          d = (case u of
                 z # x # h \<Rightarrow> if z = CHR ''0'' \<and> (x = CHR ''x'' \<or> x = CHR ''X'') then h else u
               | _ \<Rightarrow> u);
          v = fst (read_digits 16 0 d)
      in if d = [] \<or> digit_val (hd d) = None then None
         else if 2 ^ 64 \<le> v then Some (- 1)
         else Some (if neg then - of_nat v else of_nat v))"

definition sscanf_d :: "string \<Rightarrow> int option" where
  "sscanf_d s =
     (let (neg, d) = scan_sign s;
          v = int (fst (read_digits 10 0 d))
      in if d = [] \<or> \<not> isdigit_c (hd d) then None
         else Some (to_int32 (if neg then max (- (2 ^ 63)) (- v) else min (2 ^ 63 - 1) v)))"

text \<open>
  One conversion %u inside a format: the value and the rest of the input. The number is
  read as \<^verbatim>\<open>unsigned long\<close>, clamped at its maximum, and stored in 32 bits.
\<close>

definition scan_u :: "string \<Rightarrow> (u32 \<times> string) option" where
  "scan_u s =
     (let (neg, d) = scan_sign s;
          (v, rest) = read_digits 10 0 d
      in if d = [] \<or> \<not> isdigit_c (hd d) then None
         else Some (word_of_int (if 2 ^ 64 \<le> v then 2 ^ 64 - 1 else if neg then - int v else int v), rest))"

text \<open>A literal character of the format.\<close>

definition scan_char :: "char \<Rightarrow> string \<Rightarrow> string option" where
  "scan_char c s = (case s of [] \<Rightarrow> None | x # t \<Rightarrow> if x = c then Some t else None)"

section \<open>Numbers in base 16 and 10\<close>

definition hex_digit :: "nat \<Rightarrow> char" where
  "hex_digit d = ''0123456789abcdef'' ! d"

primrec hex_digits :: "nat \<Rightarrow> nat \<Rightarrow> string" where
  "hex_digits 0 n = []"
| "hex_digits (Suc k) n = hex_digit (n div 16 ^ k mod 16) # hex_digits k n"

lemma hex_digit_facts:
  "list_all (\<lambda>c. \<not> isspace_c c \<and> c \<notin> {CHR ''-'', CHR ''+'', CHR ''x'', CHR ''X''}) ''0123456789abcdef''"
  "list_all2 (\<lambda>c d. digit_val c = Some d) ''0123456789abcdef'' [0 ..< 16]"
  by (simp_all add: isspace_c_def char_code_def digit_val_def isdigit_c_def upt_conv_Cons)

lemma digit_val_hex: "d < 16 \<Longrightarrow> digit_val (hex_digit d) = Some d"
  using list_all2_nthD [OF hex_digit_facts(2), of d] by (simp add: hex_digit_def del: upt_rec_numeral)

lemma hex_digit_plain:
  "d < 16 \<Longrightarrow> \<not> isspace_c (hex_digit d) \<and> hex_digit d \<notin> {CHR ''-'', CHR ''+'', CHR ''x'', CHR ''X''}"
  using hex_digit_facts(1) unfolding list_all_length hex_digit_def by simp

lemma read_hex_digits:
  "read_digits 16 acc (hex_digits k n @ s) = read_digits 16 (acc * 16 ^ k + n mod 16 ^ k) s"
proof (induction k arbitrary: acc)
  case 0
  show ?case by simp
next
  case (Suc k)
  have "n mod 16 ^ Suc k = 16 ^ k * (n div 16 ^ k mod 16) + n mod 16 ^ k"
    using mod_mult2_eq [of n "16 ^ k" 16] by (simp add: mult.commute)
  then show ?case by (simp add: digit_val_hex Suc.IH algebra_simps)
qed

text \<open>Decimal output of \<^verbatim>\<open>printf\<close>.\<close>

fun dec_str :: "nat \<Rightarrow> string" where
  "dec_str n = (if n < 10 then [hex_digit n] else dec_str (n div 10) @ [hex_digit (n mod 10)])"

declare dec_str.simps [simp del]

lemma isdigit_hex: "d < 10 \<Longrightarrow> isdigit_c (hex_digit d)"
  using digit_val_hex [of d] by (auto simp: digit_val_def split: if_splits)

lemma read_digits_append_nat:
  "read_digits 10 acc (dec_str n @ s) = read_digits 10 (acc * 10 ^ length (dec_str n) + n) s"
proof (induction n arbitrary: acc s rule: dec_str.induct)
  case (1 n)
  show ?case
  proof (cases "n < 10")
    case True
    then show ?thesis by (simp add: dec_str.simps [of n] digit_val_hex)
  next
    case False
    then have "read_digits 10 acc (dec_str n @ s) =
        read_digits 10 (acc * 10 ^ length (dec_str (n div 10)) + n div 10) (hex_digit (n mod 10) # s)"
      using 1 [of acc "hex_digit (n mod 10) # s"] by (simp add: dec_str.simps [of n])
    also have "\<dots> = read_digits 10 ((acc * 10 ^ length (dec_str (n div 10)) + n div 10) * 10 + n mod 10) s"
      by (simp add: digit_val_hex)
    finally show ?thesis
      using False by (simp add: dec_str.simps [of n] algebra_simps)
  qed
qed

lemma dec_str_hd: "\<exists>d t. dec_str n = hex_digit d # t \<and> d < 10"
proof (induction n rule: dec_str.induct)
  case (1 n)
  then show ?case by (cases "n < 10") (auto simp: dec_str.simps [of n])
qed

text \<open>A number that was printed is read back, up to the character that follows it.\<close>

lemma scan_u_dec:
  assumes "n < 2 ^ 32" and "s = [] \<or> digit_val (hd s) = None"
  shows "scan_u (dec_str n @ s) = Some (word_of_nat n, s)"
proof -
  obtain d t where d: "dec_str n = hex_digit d # t" "d < 10" using dec_str_hd by blast
  then have "scan_sign (dec_str n @ s) = (False, dec_str n @ s)"
    using hex_digit_plain [of d] by (simp add: scan_sign_def)
  moreover have "read_digits 10 0 (dec_str n @ s) = (n, s)"
    using read_digits_append_nat [of 0 n s] assms(2) by (cases s) auto
  ultimately show ?thesis
    using assms(1) d isdigit_hex [of d] by (simp add: scan_u_def)
qed

end
