(* ===== verification/Caps.thy ===== *)
theory Caps imports Scanf begin

text \<open>
  firejail/caps.c and \<^verbatim>\<open>set_caps\<close> of sandbox.c: the capability bounding set of a sandbox. The set
  is the 64-bit word the kernel prints as CapBnd. prctl(PR_CAPBSET_DROP) is a
  parameter; the locale \<open>bounding_set\<close> states what a privileged process gets from it.
\<close>

section \<open>Names\<close>

text \<open>\<open>CAP\<close> is the value of a macro of linux/capability.h, None if the header lacks it.\<close>

definition caps_entries :: "(string \<times> string) list" where
  "caps_entries =
    [(''chown'', ''CAP_CHOWN''), (''dac_override'', ''CAP_DAC_OVERRIDE''),
     (''dac_read_search'', ''CAP_DAC_READ_SEARCH''), (''fowner'', ''CAP_FOWNER''),
     (''fsetid'', ''CAP_FSETID''), (''kill'', ''CAP_KILL''), (''setgid'', ''CAP_SETGID''),
     (''setuid'', ''CAP_SETUID''), (''setpcap'', ''CAP_SETPCAP''),
     (''linux_immutable'', ''CAP_LINUX_IMMUTABLE''), (''net_bind_service'', ''CAP_NET_BIND_SERVICE''),
     (''net_broadcast'', ''CAP_NET_BROADCAST''), (''net_admin'', ''CAP_NET_ADMIN''),
     (''net_raw'', ''CAP_NET_RAW''), (''ipc_lock'', ''CAP_IPC_LOCK''), (''ipc_owner'', ''CAP_IPC_OWNER''),
     (''sys_module'', ''CAP_SYS_MODULE''), (''sys_rawio'', ''CAP_SYS_RAWIO''),
     (''sys_chroot'', ''CAP_SYS_CHROOT''), (''sys_ptrace'', ''CAP_SYS_PTRACE''),
     (''sys_pacct'', ''CAP_SYS_PACCT''), (''sys_admin'', ''CAP_SYS_ADMIN''),
     (''sys_boot'', ''CAP_SYS_BOOT''), (''sys_nice'', ''CAP_SYS_NICE''),
     (''sys_resource'', ''CAP_SYS_RESOURCE''), (''sys_time'', ''CAP_SYS_TIME''),
     (''sys_tty_config'', ''CAP_SYS_TTY_CONFIG''), (''mknod'', ''CAP_MKNOD''), (''lease'', ''CAP_LEASE''),
     (''audit_write'', ''CAP_AUDIT_WRITE''), (''audit_control'', ''CAP_AUDIT_CONTROL''),
     (''setfcap'', ''CAP_SETFCAP''), (''mac_override'', ''CAP_MAC_OVERRIDE''),
     (''mac_admin'', ''CAP_MAC_ADMIN''), (''syslog'', ''CAP_SYSLOG''), (''wake_alarm'', ''CAP_WAKE_ALARM'')]"

text \<open>The last entries have a number of their own for older headers.\<close>

definition caps_numbered :: "(string \<times> string \<times> nat) list" where
  "caps_numbered =
    [(''block_suspend'', ''CAP_BLOCK_SUSPEND'', 36), (''audit_read'', ''CAP_AUDIT_READ'', 37),
     (''perfmon'', ''CAP_PERFMON'', 38), (''bpf'', ''CAP_BPF'', 39),
     (''checkpoint_restore'', ''CAP_CHECKPOINT_RESTORE'', 40)]"

definition capslist :: "(string \<Rightarrow> nat option) \<Rightarrow> (string \<times> nat) list" where
  "capslist CAP =
     concat (map (\<lambda>(name, macro). case CAP macro of None \<Rightarrow> [] | Some nr \<Rightarrow> [(name, nr)]) caps_entries) @
     map (\<lambda>(name, macro, nr). (name, case CAP macro of None \<Rightarrow> nr | Some n \<Rightarrow> n)) caps_numbered"

text \<open>None stands for the return value -1.\<close>

definition caps_find_name :: "(string \<Rightarrow> nat option) \<Rightarrow> string \<Rightarrow> nat option" where
  "caps_find_name CAP name = find_by (\<lambda>s. name = s) (capslist CAP)"

section \<open>Lists\<close>

datatype caps_error =
    EmptyCapsList
  | CapNotFound string
  | CapbsetDrop
  | CannotDropCaps
  | CannotReadStatus

text \<open>
  The walk over the copy of the list: \<open>start\<close> is the text since the last comma. Characters that
  are not allowed in a name are not rejected by the loop, only by the table.
\<close>

fun caps_walk ::
    "(string \<Rightarrow> nat option) \<Rightarrow> (nat \<Rightarrow> 's \<Rightarrow> 's) \<Rightarrow> string \<Rightarrow> string \<Rightarrow> 's \<Rightarrow> caps_error + 's" where
  "caps_walk CAP callback start [] st =
     (if start = [] then Inr st
      else case caps_find_name CAP start of None \<Rightarrow> Inl (CapNotFound start) | Some nr \<Rightarrow> Inr (callback nr st))"
| "caps_walk CAP callback start (c # ptr) st =
     (if c = CHR '','' then
        (case caps_find_name CAP start of
           None \<Rightarrow> Inl (CapNotFound start)
         | Some nr \<Rightarrow> caps_walk CAP callback [] ptr (callback nr st))
      else caps_walk CAP callback (start @ [c]) ptr st)"

definition caps_check_list ::
    "(string \<Rightarrow> nat option) \<Rightarrow> (nat \<Rightarrow> 's \<Rightarrow> 's) \<Rightarrow> string option \<Rightarrow> 's \<Rightarrow> caps_error + 's" where
  "caps_check_list CAP callback clist st =
     (case clist of
        None \<Rightarrow> Inl EmptyCapsList
      | Some l \<Rightarrow> if l = [] then Inl EmptyCapsList else caps_walk CAP callback [] l st)"

section \<open>Dropping\<close>

datatype drop_result = DropOk | DropEinval | DropFailed

type_synonym prctl_drop = "nat \<Rightarrow> u64 \<Rightarrow> drop_result \<times> u64"

definition drop_or_exit :: "prctl_drop \<Rightarrow> nat \<Rightarrow> u64 \<Rightarrow> caps_error + u64" where
  "drop_or_exit prctl cap b =
     (case prctl cap b of
        (DropFailed, b') \<Rightarrow> Inl CapbsetDrop
      | (code, b') \<Rightarrow> Inr b')"

definition caps_drop_all :: "prctl_drop \<Rightarrow> u64 \<Rightarrow> caps_error + u64" where
  "caps_drop_all prctl b = fold_res (drop_or_exit prctl) [0 ..< 64] b"

text \<open>The loop carries the mask, which is shifted in every round.\<close>

definition caps_set_step :: "prctl_drop \<Rightarrow> u64 \<Rightarrow> nat \<Rightarrow> u64 \<times> u64 \<Rightarrow> caps_error + u64 \<times> u64" where
  "caps_set_step prctl caps i s =
     (case s of (msk, b) \<Rightarrow>
        bind_res (if msk AND caps = 0 then drop_or_exit prctl i b else Inr b)
          (\<lambda>b'. Inr (push_bit 1 msk, b')))"

definition caps_set :: "prctl_drop \<Rightarrow> u64 \<Rightarrow> u64 \<Rightarrow> caps_error + u64" where
  "caps_set prctl caps b =
     bind_res (fold_res (caps_set_step prctl caps) [0 ..< 64] (1, b)) (\<lambda>(msk, b'). Inr b')"

definition caps_set_bit :: "nat \<Rightarrow> u64 \<Rightarrow> u64" where
  "caps_set_bit nr filt = filt OR push_bit nr 1"

definition caps_reset_bit :: "nat \<Rightarrow> u64 \<Rightarrow> u64" where
  "caps_reset_bit nr filt = filt AND NOT (push_bit nr 1)"

definition caps_drop_list ::
    "prctl_drop \<Rightarrow> (string \<Rightarrow> nat option) \<Rightarrow> string option \<Rightarrow> u64 \<Rightarrow> caps_error + u64" where
  "caps_drop_list prctl CAP clist b =
     bind_res (caps_check_list CAP caps_reset_bit clist (0 - 1)) (\<lambda>filt. caps_set prctl filt b)"

definition caps_keep_list ::
    "prctl_drop \<Rightarrow> (string \<Rightarrow> nat option) \<Rightarrow> string option \<Rightarrow> u64 \<Rightarrow> caps_error + u64" where
  "caps_keep_list prctl CAP clist b =
     bind_res (caps_check_list CAP caps_set_bit clist 0) (\<lambda>filt. caps_set prctl filt b)"

text \<open>\<open>the\<close> marks a macro the source uses without \<^verbatim>\<open>#ifdef\<close>.\<close>

definition default_drops :: "(string \<Rightarrow> nat option) \<Rightarrow> nat list" where
  "default_drops CAP =
     map (\<lambda>m. the (CAP m)) [''CAP_SYS_MODULE'', ''CAP_SYS_RAWIO'', ''CAP_SYS_BOOT'', ''CAP_SYS_NICE'', ''CAP_SYS_TTY_CONFIG''] @
     (case CAP ''CAP_SYSLOG'' of None \<Rightarrow> [] | Some n \<Rightarrow> [n]) @
     map (\<lambda>m. the (CAP m)) [''CAP_MKNOD'', ''CAP_SYS_ADMIN'']"

definition caps_default_filter :: "prctl_drop \<Rightarrow> (string \<Rightarrow> nat option) \<Rightarrow> u64 \<Rightarrow> caps_error + u64" where
  "caps_default_filter prctl CAP b =
     fold_res (\<lambda>cap b. case prctl cap b of (DropOk, b') \<Rightarrow> Inr b' | _ \<Rightarrow> Inl CannotDropCaps) (default_drops CAP) b"

definition caps_drop_dac_override ::
    "prctl_drop \<Rightarrow> (string \<Rightarrow> nat option) \<Rightarrow> int \<Rightarrow> bool \<Rightarrow> u64 \<Rightarrow> u64" where
  "caps_drop_dac_override prctl CAP uid noprofile b =
     (if uid = 0 \<and> \<not> noprofile
      then snd (prctl (the (CAP ''CAP_DAC_READ_SEARCH'')) (snd (prctl (the (CAP ''CAP_DAC_OVERRIDE'')) b)))
      else b)"

record caps_args =
  arg_caps_drop_all :: bool
  arg_caps_drop :: bool
  arg_caps_keep :: bool
  arg_caps_default_filter :: bool
  arg_caps_list :: "string option"

definition set_caps ::
    "prctl_drop \<Rightarrow> (string \<Rightarrow> nat option) \<Rightarrow> int \<Rightarrow> bool \<Rightarrow> caps_args \<Rightarrow> u64 \<Rightarrow> caps_error + u64" where
  "set_caps prctl CAP uid noprofile args b =
     bind_res
       (if arg_caps_drop_all args then caps_drop_all prctl b
        else if arg_caps_drop args then caps_drop_list prctl CAP (arg_caps_list args) b
        else if arg_caps_keep args then caps_keep_list prctl CAP (arg_caps_list args) b
        else if arg_caps_default_filter args then caps_default_filter prctl CAP b
        else Inr b)
       (\<lambda>b'. Inr (if arg_caps_keep args then b' else caps_drop_dac_override prctl CAP uid noprofile b'))"

text \<open>The options of the command line and of a profile, which verify a list when they read it.\<close>

datatype caps_option = CapsDefault | CapsDropAll | CapsDrop string | CapsKeep string

definition caps_option_step ::
    "(string \<Rightarrow> nat option) \<Rightarrow> caps_option \<Rightarrow> caps_args \<Rightarrow> caps_error + caps_args" where
  "caps_option_step CAP opt args =
     (case opt of
        CapsDefault \<Rightarrow> Inr (args\<lparr>arg_caps_default_filter := True\<rparr>)
      | CapsDropAll \<Rightarrow> Inr (args\<lparr>arg_caps_drop_all := True\<rparr>)
      | CapsDrop l \<Rightarrow>
          bind_res (caps_check_list CAP (\<lambda>nr u. u) (Some l) ())
            (\<lambda>_. Inr (args\<lparr>arg_caps_drop := True, arg_caps_list := Some l\<rparr>))
      | CapsKeep l \<Rightarrow>
          bind_res (caps_check_list CAP (\<lambda>nr u. u) (Some l) ())
            (\<lambda>_. Inr (args\<lparr>arg_caps_keep := True, arg_caps_list := Some l\<rparr>)))"

section \<open>Joining\<close>

record join_state =
  apply_caps :: bool
  join_caps :: u64
  arg_nonewprivs :: bool

text \<open>\<^verbatim>\<open>extract_caps\<close> of join.c on the lines of \<^verbatim>\<open>/proc/<pid>/status\<close>.\<close>

definition extract_caps_line :: "string \<Rightarrow> join_state \<Rightarrow> caps_error + join_state" where
  "extract_caps_line buf st =
     (if take 7 buf = ''CapBnd:'' then
        (case sscanf_llx (drop 7 buf) of
           None \<Rightarrow> Inl CannotReadStatus
         | Some v \<Rightarrow> Inr (st\<lparr>apply_caps := True, join_caps := v\<rparr>))
      else if take 11 buf = ''NoNewPrivs:'' then
        (case sscanf_d (drop 11 buf) of
           None \<Rightarrow> Inl CannotReadStatus
         | Some v \<Rightarrow> Inr (if v \<noteq> 0 then st\<lparr>arg_nonewprivs := True\<rparr> else st))
      else Inr st)"

definition extract_caps :: "string list \<Rightarrow> join_state \<Rightarrow> caps_error + join_state" where
  "extract_caps lines st = fold_res extract_caps_line lines st"

text \<open>The capabilities a joining process is left with.\<close>

definition join_set_caps :: "prctl_drop \<Rightarrow> join_state \<Rightarrow> u64 \<Rightarrow> caps_error + u64" where
  "join_set_caps prctl st b = (if apply_caps st then caps_set prctl (join_caps st) b else Inr b)"

section \<open>What a list names\<close>

text \<open>The pieces between commas; a comma at the end adds no piece.\<close>

definition caps_segments :: "string \<Rightarrow> string list" where
  "caps_segments l =
     (let ss = split_on (CHR '','') l in if last ss = [] then butlast ss else ss)"

definition caps_numbers :: "(string \<Rightarrow> nat option) \<Rightarrow> string \<Rightarrow> nat list option" where
  "caps_numbers CAP l =
     (if l = [] \<or> (\<exists>w \<in> set (caps_segments l). caps_find_name CAP w = None) then None
      else Some (map (\<lambda>w. the (caps_find_name CAP w)) (caps_segments l)))"

lemma caps_segments_simps:
  assumes "CHR '','' \<notin> set start"
  shows "caps_segments start = (if start = [] then [] else [start])"
    and "caps_segments (start @ CHR '','' # l) = start # caps_segments l"
  using assms by (simp_all add: caps_segments_def split_on_free split_on_append Let_def)

lemma caps_walk_segments:
  "CHR '','' \<notin> set start \<Longrightarrow>
   caps_walk CAP cb start l st =
     fold_res (\<lambda>w st. case caps_find_name CAP w of None \<Rightarrow> Inl (CapNotFound w) | Some nr \<Rightarrow> Inr (cb nr st))
       (caps_segments (start @ l)) st"
proof (induction CAP cb start l st rule: caps_walk.induct)
  case (1 CAP callback start st)
  then show ?case by (simp add: caps_segments_simps split: option.split)
next
  case (2 CAP callback start c ptr st)
  show ?case
  proof (cases "c = CHR '',''")
    case True
    with 2 show ?thesis by (simp add: caps_segments_simps split: option.split)
  next
    case False
    with 2 show ?thesis by simp
  qed
qed

lemma fold_res_find:
  "fold_res (\<lambda>w st. case f w of None \<Rightarrow> Inl (g w) | Some n \<Rightarrow> Inr (cb n st)) ws st =
     (case find (\<lambda>w. f w = None) ws of
        Some w \<Rightarrow> Inl (g w)
      | None \<Rightarrow> Inr (fold cb (map (\<lambda>w. the (f w)) ws) st))"
  by (induction ws arbitrary: st) (auto split: option.split)

lemma caps_check_list_Some:
  "caps_numbers CAP l = Some ns \<Longrightarrow> caps_check_list CAP cb (Some l) st = Inr (fold cb ns st)"
  by (auto simp: caps_numbers_def caps_check_list_def caps_walk_segments fold_res_find find_None_iff
      split: if_splits option.splits dest!: find_Some_iff [THEN iffD1])

lemma caps_check_list_None:
  "caps_numbers CAP l = None \<Longrightarrow> \<exists>e. caps_check_list CAP cb (Some l) st = Inl e"
  by (auto simp: caps_numbers_def caps_check_list_def caps_walk_segments fold_res_find find_None_iff
      split: if_splits option.splits)

lemma bit_fold_set: "bit (fold caps_set_bit ns w) c \<longleftrightarrow> bit w c \<or> c < 64 \<and> c \<in> set ns"
  by (induction ns arbitrary: w) (auto simp: caps_set_bit_def bit_simps)

lemma bit_fold_reset: "bit (fold caps_reset_bit ns w) c \<longleftrightarrow> bit w c \<and> c \<notin> set ns"
proof (induction ns arbitrary: w)
  case Nil
  show ?case by simp
next
  case (Cons n ns)
  have "bit (caps_reset_bit n w) c \<longleftrightarrow> bit w c \<and> c \<noteq> n"
    by (auto simp: caps_reset_bit_def bit_simps dest: bit_imp_le_length)
  with Cons show ?case by auto
qed

lemma mask_clear: "2 ^ i AND caps = 0 \<longleftrightarrow> \<not> bit caps i" for caps :: u64
  by (subst and.commute) (rule and_exp_eq_0_iff_not_bit)

lemma bit_u64_less: "bit b c \<Longrightarrow> c < 64" for b :: u64
  using bit_imp_le_length [of b c] by simp

section \<open>The line the kernel prints\<close>

text \<open>proc(5): the mask is printed with sixteen hexadecimal digits.\<close>

definition capbnd_line :: "u64 \<Rightarrow> string" where
  "capbnd_line b = ''CapBnd:'' @ [CHR 0x09] @ hex_digits 16 (unat b) @ [CHR 0x0A]"

lemma sscanf_capbnd: "sscanf_llx (CHR 0x09 # hex_digits 16 (unat b) @ [CHR 0x0A]) = Some b"
proof -
  have n: "unat b < 16 ^ 16" using unsigned_less [of b] by simp
  have tab: "isspace_c (CHR 0x09)" by (simp add: isspace_c_def char_code_def)
  let ?n = "unat b"
  define d where "d = hex_digits 16 ?n @ [CHR 0x0A]"
  have "hex_digits 16 = hex_digits (Suc (Suc 14))" by simp
  then have d: "d = hex_digit (?n div 16 ^ Suc 14 mod 16) # hex_digit (?n div 16 ^ 14 mod 16) #
      hex_digits 14 ?n @ [CHR 0x0A]"
    by (simp only: d_def hex_digits.simps append_Cons)
  have "scan_sign (CHR 0x09 # d) = (False, d)"
    using hex_digit_plain [of "?n div 16 ^ Suc 14 mod 16"]
    by (simp add: scan_sign_def d tab)
  moreover have "fst (read_digits 16 0 d) = unat b"
    using n by (simp add: d_def read_hex_digits digit_val_def isdigit_c_def char_code_def)
  moreover have "digit_val (hd d) \<noteq> None" "d \<noteq> []"
    by (simp_all add: d digit_val_hex)
  moreover have "(case d of z # x # h \<Rightarrow> if z = CHR ''0'' \<and> (x = CHR ''x'' \<or> x = CHR ''X'') then h else d
      | _ \<Rightarrow> d) = d"
    using hex_digit_plain [of "?n div 16 ^ 14 mod 16"] by (simp add: d)
  ultimately show ?thesis
    using n by (simp add: sscanf_llx_def Let_def flip: d_def)
qed

section \<open>The kernel\<close>

locale bounding_set =
  fixes prctl :: prctl_drop
    and supported :: "nat \<Rightarrow> bool"
  assumes drop_supported: "supported c \<Longrightarrow> prctl c b = (DropOk, b AND NOT (push_bit c 1))"
    and drop_unsupported: "\<not> supported c \<Longrightarrow> prctl c b = (DropEinval, b)"
begin

lemma drop_or_exit_bits:
  "\<exists>b'. drop_or_exit prctl i b = Inr b' \<and> (\<forall>c. bit b' c \<longleftrightarrow> bit b c \<and> \<not> (supported i \<and> c = i))"
  by (cases "supported i")
     (auto simp: drop_or_exit_def drop_supported drop_unsupported bit_simps dest: bit_imp_le_length)

lemma caps_set_loop:
  "j \<le> 64 \<Longrightarrow> \<exists>b'. fold_res (caps_set_step prctl caps) [0 ..< j] (1, b) = Inr (push_bit j 1, b') \<and>
     (\<forall>c. bit b' c \<longleftrightarrow> bit b c \<and> \<not> (c < j \<and> supported c \<and> \<not> bit caps c))"
proof (induction j)
  case 0
  show ?case by simp
next
  case (Suc j)
  then obtain b' where b': "fold_res (caps_set_step prctl caps) [0 ..< j] (1, b) = Inr (push_bit j 1, b')"
      "\<forall>c. bit b' c \<longleftrightarrow> bit b c \<and> \<not> (c < j \<and> supported c \<and> \<not> bit caps c)"
    by auto
  obtain b'' where b'': "drop_or_exit prctl j b' = Inr b''"
      "\<forall>c. bit b'' c \<longleftrightarrow> bit b' c \<and> \<not> (supported j \<and> c = j)"
    using drop_or_exit_bits by blast
  have "caps_set_step prctl caps j (push_bit j 1, b') =
      Inr (push_bit (Suc j) 1, if bit caps j then b' else b'')"
    using Suc.prems by (simp add: caps_set_step_def mask_clear b''(1))
  then show ?case
    using b' b''(2) by (auto simp: fold_res_append less_Suc_eq)
qed

lemma caps_set_bits:
  "\<exists>b'. caps_set prctl caps b = Inr b' \<and>
     (\<forall>c. bit b' c \<longleftrightarrow> bit b c \<and> \<not> (supported c \<and> \<not> bit caps c))"
proof -
  obtain b' where "fold_res (caps_set_step prctl caps) [0 ..< 64] (1, b) = Inr (push_bit 64 1, b')"
      and b': "\<forall>c. bit b' c \<longleftrightarrow> bit b c \<and> \<not> (c < 64 \<and> supported c \<and> \<not> bit caps c)"
    using caps_set_loop [of 64 caps b] by (auto simp del: upt_rec_numeral)
  then have "caps_set prctl caps b = Inr b'" by (simp add: caps_set_def del: upt_rec_numeral)
  then show ?thesis using b' bit_u64_less by blast
qed

lemma caps_drop_all_bits:
  "\<exists>b'. caps_drop_all prctl b = Inr b' \<and> (\<forall>c. bit b' c \<longleftrightarrow> bit b c \<and> \<not> supported c)"
proof -
  have "\<exists>b'. fold_res (drop_or_exit prctl) [0 ..< j] b = Inr b' \<and>
      (\<forall>c. bit b' c \<longleftrightarrow> bit b c \<and> \<not> (c < j \<and> supported c))" for j
  proof (induction j)
    case (Suc j)
    then obtain b' where "fold_res (drop_or_exit prctl) [0 ..< j] b = Inr b'"
        "\<forall>c. bit b' c \<longleftrightarrow> bit b c \<and> \<not> (c < j \<and> supported c)"
      by blast
    then show ?case
      using drop_or_exit_bits [of j b'] by (auto simp: fold_res_append less_Suc_eq)
  qed simp
  from this [of 64] show ?thesis
    unfolding caps_drop_all_def using bit_u64_less by blast
qed

end

text \<open>A kernel with the capabilities 0 to \<open>last_cap\<close>.\<close>

definition capbset_drop :: "nat \<Rightarrow> prctl_drop" where
  "capbset_drop last_cap c b =
     (if c \<le> last_cap then (DropOk, b AND NOT (push_bit c 1)) else (DropEinval, b))"

interpretation linux: bounding_set "capbset_drop 40" "\<lambda>c. c \<le> 40"
  by unfold_locales (simp_all add: capbset_drop_def)

definition linux_cap :: "string \<Rightarrow> nat option" where
  "linux_cap = map_of (zip (map snd caps_entries @ map (fst \<circ> snd) caps_numbered) [0 ..< 41])"

section \<open>Properties\<close>

text \<open>A capability list is read piece by piece: it is refused when it is empty or at its first
  piece that is no known name, and otherwise the callback runs for the number of each piece in order. A comma at
  the end of the list is accepted, an empty piece anywhere else is not.\<close>

lemma caps_check_list_pieces:
  "caps_check_list CAP callback (Some l) st =
     (if l = [] then Inl EmptyCapsList
      else case find (\<lambda>w. caps_find_name CAP w = None) (caps_segments l) of
        Some w \<Rightarrow> Inl (CapNotFound w)
      | None \<Rightarrow> Inr (fold callback (map (\<lambda>w. the (caps_find_name CAP w)) (caps_segments l)) st))"
  by (simp add: caps_check_list_def caps_walk_segments fold_res_find)

context bounding_set
begin

lemma caps_list_bits:
  assumes "caps_numbers CAP l = Some ns"
  shows "\<exists>b'. caps_drop_list prctl CAP (Some l) b = Inr b' \<and> (\<forall>c. bit b' c \<longleftrightarrow> bit b c \<and> \<not> (supported c \<and> c \<in> set ns))"
    and "\<exists>b'. caps_keep_list prctl CAP (Some l) b = Inr b' \<and> (\<forall>c. bit b' c \<longleftrightarrow> bit b c \<and> \<not> (supported c \<and> c \<notin> set ns))"
proof -
  obtain d where d: "caps_set prctl (fold caps_reset_bit ns (0 - 1)) b = Inr d"
      "\<forall>c. bit d c \<longleftrightarrow> bit b c \<and> \<not> (supported c \<and> \<not> bit (fold caps_reset_bit ns (0 - 1) :: u64) c)"
    using caps_set_bits by blast
  obtain k where k: "caps_set prctl (fold caps_set_bit ns 0) b = Inr k"
      "\<forall>c. bit k c \<longleftrightarrow> bit b c \<and> \<not> (supported c \<and> \<not> bit (fold caps_set_bit ns 0) c)"
    using caps_set_bits by blast
  have "bit d c \<longleftrightarrow> bit b c \<and> \<not> (supported c \<and> c \<in> set ns)" for c
    using d(2) bit_u64_less [of b c] by (auto simp: bit_fold_reset)
  then show "\<exists>b'. caps_drop_list prctl CAP (Some l) b = Inr b' \<and> (\<forall>c. bit b' c \<longleftrightarrow> bit b c \<and> \<not> (supported c \<and> c \<in> set ns))"
    using d(1) by (simp add: caps_drop_list_def caps_check_list_Some [OF assms])
  have "bit k c \<longleftrightarrow> bit b c \<and> \<not> (supported c \<and> c \<notin> set ns)" for c
    using k(2) bit_u64_less [of b c] by (auto simp: bit_fold_set)
  then show "\<exists>b'. caps_keep_list prctl CAP (Some l) b = Inr b' \<and> (\<forall>c. bit b' c \<longleftrightarrow> bit b c \<and> \<not> (supported c \<and> c \<notin> set ns))"
    using k(1) by (simp add: caps_keep_list_def caps_check_list_Some [OF assms])
qed

end

text \<open>C14. A drop list removes exactly the listed capabilities from the bounding set and a keep list
  removes exactly the others, as far as the kernel supports them.\<close>

theorem caps_lists_policy:
  assumes "bounding_set prctl supported" and "caps_numbers CAP l = Some ns"
  shows "(\<exists>b'. caps_drop_list prctl CAP (Some l) b = Inr b' \<and>
      (\<forall>c. bit b' c \<longleftrightarrow> bit b c \<and> \<not> (supported c \<and> c \<in> set ns))) \<and>
    (\<exists>b'. caps_keep_list prctl CAP (Some l) b = Inr b' \<and>
      (\<forall>c. bit b' c \<longleftrightarrow> bit b c \<and> \<not> (supported c \<and> c \<notin> set ns)))"
  by (intro conjI bounding_set.caps_list_bits [OF assms])

lemma linux_numbers:
  "caps_numbers linux_cap ''net_admin,chown'' = Some [12, 0]"
  "caps_numbers linux_cap ''net_raw'' = Some [13]"
  by code_simp+

theorem caps_lists_policy_witness:
  "(\<exists>b'. caps_drop_list (capbset_drop 40) linux_cap (Some ''net_admin,chown'') 0x1FFFFFFFFFF = Inr b' \<and>
      (\<forall>c. bit b' c \<longleftrightarrow> bit (0x1FFFFFFFFFF :: u64) c \<and> \<not> (c \<le> 40 \<and> c \<in> {12, 0}))) \<and>
    (\<exists>b'. caps_keep_list (capbset_drop 40) linux_cap (Some ''net_admin,chown'') 0x1FFFFFFFFFF = Inr b' \<and>
      (\<forall>c. bit b' c \<longleftrightarrow> bit (0x1FFFFFFFFFF :: u64) c \<and> \<not> (c \<le> 40 \<and> c \<notin> {12, 0})))"
  using caps_lists_policy [OF linux.bounding_set_axioms linux_numbers(1), of "0x1FFFFFFFFFF"]
  unfolding list.set .

text \<open>C40. When both options are given, the list of the last one is used with the action of the first: after
  \<^verbatim>\<open>--caps.drop=l1 --caps.keep=l2\<close> the sandbox drops the capabilities of \<open>l2\<close>, which the user
  asked to keep, and keeps all others.\<close>

theorem caps_drop_then_keep:
  assumes "bounding_set prctl supported" and "caps_numbers CAP l1 = Some ns1"
    and "caps_numbers CAP l2 = Some ns2" and "\<not> arg_caps_drop_all args"
  shows "\<exists>args' b'. fold_res (caps_option_step CAP) [CapsDrop l1, CapsKeep l2] args = Inr args' \<and>
    set_caps prctl CAP uid noprofile args' b = Inr b' \<and>
    (\<forall>c. bit b' c \<longleftrightarrow> bit b c \<and> \<not> (supported c \<and> c \<in> set ns2))"
  using bounding_set.caps_list_bits(1) [OF assms(1,3), of b] assms(4)
  by (auto simp: caps_option_step_def caps_check_list_Some [OF assms(2)] caps_check_list_Some [OF assms(3)] set_caps_def)

definition no_caps_args :: caps_args where
  "no_caps_args = \<lparr>arg_caps_drop_all = False, arg_caps_drop = False, arg_caps_keep = False,
     arg_caps_default_filter = False, arg_caps_list = None\<rparr>"

theorem caps_drop_then_keep_witness:
  "\<exists>args' b'. fold_res (caps_option_step linux_cap) [CapsDrop ''net_admin,chown'', CapsKeep ''net_raw''] no_caps_args = Inr args' \<and>
    set_caps (capbset_drop 40) linux_cap 1000 False args' 0x1FFFFFFFFFF = Inr b' \<and>
    (\<forall>c. bit b' c \<longleftrightarrow> bit (0x1FFFFFFFFFF :: u64) c \<and> \<not> (c \<le> 40 \<and> c \<in> {13}))"
  using caps_drop_then_keep [OF linux.bounding_set_axioms linux_numbers, of no_caps_args 1000 False "0x1FFFFFFFFFF"]
  unfolding list.set by (simp add: no_caps_args_def)

text \<open>What the options ask to drop: the first of them in the order of the code; None if its list is not accepted.\<close>

definition default_caps :: "(string \<Rightarrow> nat option) \<Rightarrow> nat set" where
  "default_caps CAP = {c. \<exists>m \<in> {''CAP_SYS_MODULE'', ''CAP_SYS_RAWIO'', ''CAP_SYS_BOOT'', ''CAP_SYS_NICE'',
     ''CAP_SYS_TTY_CONFIG'', ''CAP_SYSLOG'', ''CAP_MKNOD'', ''CAP_SYS_ADMIN''}. CAP m = Some c}"

definition asked :: "(string \<Rightarrow> nat option) \<Rightarrow> caps_args \<Rightarrow> nat set option" where
  "asked CAP args =
     (let listed = Option.bind (arg_caps_list args) (caps_numbers CAP)
      in if arg_caps_drop_all args then Some UNIV
         else if arg_caps_drop args then map_option set listed
         else if arg_caps_keep args then map_option (\<lambda>ns. - set ns) listed
         else if arg_caps_default_filter args then Some (default_caps CAP)
         else Some {})"

text \<open>The macros the source uses without a test are defined.\<close>

definition caps_header :: "(string \<Rightarrow> nat option) \<Rightarrow> bool" where
  "caps_header CAP \<longleftrightarrow> (\<forall>m \<in> {''CAP_SYS_MODULE'', ''CAP_SYS_RAWIO'', ''CAP_SYS_BOOT'', ''CAP_SYS_NICE'',
     ''CAP_SYS_TTY_CONFIG'', ''CAP_MKNOD'', ''CAP_SYS_ADMIN'', ''CAP_DAC_OVERRIDE'', ''CAP_DAC_READ_SEARCH''}. CAP m \<noteq> None)"

definition dac_caps :: "(string \<Rightarrow> nat option) \<Rightarrow> int \<Rightarrow> bool \<Rightarrow> caps_args \<Rightarrow> nat set" where
  "dac_caps CAP uid noprofile args =
     (if uid = 0 \<and> \<not> noprofile \<and> \<not> arg_caps_keep args
      then {c. CAP ''CAP_DAC_OVERRIDE'' = Some c \<or> CAP ''CAP_DAC_READ_SEARCH'' = Some c} else {})"

lemma default_drops_set: "caps_header CAP \<Longrightarrow> set (default_drops CAP) = default_caps CAP"
  by (auto simp: caps_header_def default_drops_def default_caps_def split: option.split)

context bounding_set
begin

lemma prctl_bits: "bit (snd (prctl i b)) c \<longleftrightarrow> bit b c \<and> \<not> (supported i \<and> c = i)"
  by (cases "supported i") (auto simp: drop_supported drop_unsupported bit_simps dest: bit_imp_le_length)

lemma drop_each_bits:
  assumes "\<forall>c \<in> set cs. supported c"
  shows "\<exists>b'. fold_res (\<lambda>cap b. case prctl cap b of (DropOk, b') \<Rightarrow> Inr b' | _ \<Rightarrow> Inl CannotDropCaps) cs b = Inr b' \<and>
    (\<forall>c. bit b' c \<longleftrightarrow> bit b c \<and> c \<notin> set cs)"
  using assms
proof (induction cs arbitrary: b)
  case (Cons i cs)
  from Cons.IH [of "b AND NOT (push_bit i 1)"] Cons.prems show ?case
    using prctl_bits [of i b] by (auto simp: drop_supported)
qed simp

lemma drop_each_fails:
  assumes "\<exists>c \<in> set cs. \<not> supported c"
  shows "fold_res (\<lambda>cap b. case prctl cap b of (DropOk, b') \<Rightarrow> Inr b' | _ \<Rightarrow> Inl CannotDropCaps) cs b = Inl CannotDropCaps"
  using assms
proof (induction cs arbitrary: b)
  case (Cons i cs)
  then show ?case by (cases "supported i") (auto simp: drop_supported drop_unsupported)
qed simp

lemma dac_bits:
  assumes "caps_header CAP"
  shows "bit (if arg_caps_keep args then b else caps_drop_dac_override prctl CAP uid noprofile b) c \<longleftrightarrow>
    bit b c \<and> \<not> (supported c \<and> c \<in> dac_caps CAP uid noprofile args)"
  using assms by (auto simp: caps_drop_dac_override_def dac_caps_def caps_header_def prctl_bits)

lemma asked_bits:
  assumes "asked CAP args = Some ds" and "caps_header CAP"
    and "\<not> (arg_caps_drop_all args \<or> arg_caps_drop args \<or> arg_caps_keep args) \<longrightarrow> (\<forall>c \<in> ds. supported c)"
  shows "\<exists>b'. (if arg_caps_drop_all args then caps_drop_all prctl b
        else if arg_caps_drop args then caps_drop_list prctl CAP (arg_caps_list args) b
        else if arg_caps_keep args then caps_keep_list prctl CAP (arg_caps_list args) b
        else if arg_caps_default_filter args then caps_default_filter prctl CAP b
        else Inr b) = Inr b' \<and> (\<forall>c. bit b' c \<longleftrightarrow> bit b c \<and> \<not> (supported c \<and> c \<in> ds))"
proof -
  have lists: "\<exists>l. arg_caps_list args = Some l \<and> caps_numbers CAP l = Some ns"
    if "Option.bind (arg_caps_list args) (caps_numbers CAP) = Some ns" for ns
    using that by (cases "arg_caps_list args") auto
  have policy: "bounding_set prctl supported" by (rule bounding_set_axioms)
  consider "arg_caps_drop_all args" "ds = UNIV"
    | ns where "\<not> arg_caps_drop_all args" "arg_caps_drop args"
        "Option.bind (arg_caps_list args) (caps_numbers CAP) = Some ns" "ds = set ns"
    | ns where "\<not> arg_caps_drop_all args" "\<not> arg_caps_drop args" "arg_caps_keep args"
        "Option.bind (arg_caps_list args) (caps_numbers CAP) = Some ns" "ds = - set ns"
    | "\<not> arg_caps_drop_all args" "\<not> arg_caps_drop args" "\<not> arg_caps_keep args" "arg_caps_default_filter args"
        "ds = default_caps CAP"
    | "\<not> arg_caps_drop_all args" "\<not> arg_caps_drop args" "\<not> arg_caps_keep args" "\<not> arg_caps_default_filter args" "ds = {}"
    using assms(1) unfolding asked_def Let_def by (auto split: if_splits)
  then show ?thesis
  proof cases
    case 1
    then show ?thesis using caps_drop_all_bits [of b] by simp
  next
    case 2
    with lists show ?thesis using caps_list_bits(1) by fastforce
  next
    case 3
    with lists show ?thesis using caps_list_bits(2) by fastforce
  next
    case 4
    then show ?thesis
      using drop_each_bits [of "default_drops CAP" b] assms(2,3)
      by (auto simp: caps_default_filter_def default_drops_set)
  qed auto
qed

end

text \<open>C13. The bounding set after the set-up is exactly the one before without the supported capabilities of the
  first given option in the order of the code (all of them for \<^verbatim>\<open>--caps.drop=all\<close>, the listed ones for
  \<^verbatim>\<open>--caps.drop\<close>, all but the listed ones for \<^verbatim>\<open>--caps.keep\<close>, the documented eight for \<^verbatim>\<open>--caps\<close>) and, for a sandbox
  of root with a profile and without \<^verbatim>\<open>--caps.keep\<close>, without the two capabilities that override file permissions. The
  set-up fails exactly when the list is not accepted or when one of the eight is not supported by the kernel.\<close>

theorem set_caps_policy:
  assumes "bounding_set prctl supported" and "caps_header CAP"
  shows "case asked CAP args of
      None \<Rightarrow> \<exists>e. set_caps prctl CAP uid noprofile args b = Inl e
    | Some ds \<Rightarrow>
        if (arg_caps_drop_all args \<or> arg_caps_drop args \<or> arg_caps_keep args) \<or> ds \<subseteq> {c. supported c}
        then \<exists>b'. set_caps prctl CAP uid noprofile args b = Inr b' \<and>
          (\<forall>c. bit b' c \<longleftrightarrow> bit b c \<and> \<not> (supported c \<and> c \<in> ds \<union> dac_caps CAP uid noprofile args))
        else set_caps prctl CAP uid noprofile args b = Inl CannotDropCaps"
proof (cases "asked CAP args")
  case None
  then have "arg_caps_drop args \<or> arg_caps_keep args" "\<not> arg_caps_drop_all args"
    and "Option.bind (arg_caps_list args) (caps_numbers CAP) = None"
    by (auto simp: asked_def Let_def split: if_splits)
  moreover have "\<exists>e. caps_check_list CAP cb (arg_caps_list args) w = Inl e" for cb and w :: u64
    using calculation(3) caps_check_list_None [of CAP _ cb w]
    by (cases "arg_caps_list args") (auto simp: caps_check_list_def [of _ _ None])
  then obtain e e' where "caps_check_list CAP caps_reset_bit (arg_caps_list args) (0 - 1) = Inl e"
      "caps_check_list CAP caps_set_bit (arg_caps_list args) 0 = Inl e'"
    by metis
  ultimately have "\<exists>e. set_caps prctl CAP uid noprofile args b = Inl e"
    by (auto simp: set_caps_def caps_drop_list_def caps_keep_list_def)
  with None show ?thesis by simp
next
  case (Some ds)
  show ?thesis
  proof (cases "(arg_caps_drop_all args \<or> arg_caps_drop args \<or> arg_caps_keep args) \<or> ds \<subseteq> {c. supported c}")
    case True
    obtain b1 where b1: "(if arg_caps_drop_all args then caps_drop_all prctl b
        else if arg_caps_drop args then caps_drop_list prctl CAP (arg_caps_list args) b
        else if arg_caps_keep args then caps_keep_list prctl CAP (arg_caps_list args) b
        else if arg_caps_default_filter args then caps_default_filter prctl CAP b
        else Inr b) = Inr b1" "\<forall>c. bit b1 c \<longleftrightarrow> bit b c \<and> \<not> (supported c \<and> c \<in> ds)"
      using bounding_set.asked_bits [OF assms(1) Some assms(2)] True by blast
    from b1(2) bounding_set.dac_bits [OF assms, of args b1 uid noprofile] Some True show ?thesis
      unfolding set_caps_def b1(1) by auto
  next
    case False
    then have "arg_caps_default_filter args" "\<exists>c \<in> set (default_drops CAP). \<not> supported c"
      using Some default_drops_set [OF assms(2)] by (auto simp: asked_def Let_def split: if_splits)
    then have "set_caps prctl CAP uid noprofile args b = Inl CannotDropCaps"
      using False bounding_set.drop_each_fails [OF assms(1)] by (simp add: set_caps_def caps_default_filter_def)
    with Some False show ?thesis by simp
  qed
qed

theorem set_caps_policy_witness:
  "\<exists>b'. set_caps (capbset_drop 40) linux_cap 0 False
       (no_caps_args\<lparr>arg_caps_drop := True, arg_caps_list := Some ''net_admin,chown''\<rparr>) 0x1FFFFFFFFFF = Inr b' \<and>
     (\<forall>c. bit b' c \<longleftrightarrow> bit (0x1FFFFFFFFFF :: u64) c \<and> \<not> (c \<le> 40 \<and> c \<in> {12, 0} \<union> {1, 2}))"
proof -
  let ?args = "no_caps_args\<lparr>arg_caps_drop := True, arg_caps_list := Some ''net_admin,chown''\<rparr>"
  have header: "caps_header linux_cap" unfolding caps_header_def by code_simp
  have dac: "linux_cap ''CAP_DAC_OVERRIDE'' = Some 1" "linux_cap ''CAP_DAC_READ_SEARCH'' = Some 2" by code_simp+
  have "asked linux_cap ?args = Some {12, 0}" by (simp add: asked_def no_caps_args_def linux_numbers)
  moreover have "dac_caps linux_cap 0 False ?args = {1, 2}" by (auto simp: dac_caps_def no_caps_args_def dac)
  ultimately show ?thesis
    using set_caps_policy [OF linux.bounding_set_axioms header, where args = ?args and uid = 0 and noprofile = False and b = "0x1FFFFFFFFFF"]
    by (simp add: no_caps_args_def)
qed

text \<open>C15. A process that joins a sandbox reads the bounding set back from the status
  file exactly as the kernel printed it, and afterwards holds no supported capability the sandbox lacks.\<close>

theorem join_caps_bounded:
  assumes "bounding_set prctl supported"
    and "\<forall>l \<in> set (pre @ post). take 7 l \<noteq> ''CapBnd:'' \<and>
      (take 11 l = ''NoNewPrivs:'' \<longrightarrow> sscanf_d (drop 11 l) \<noteq> None)"
  shows "\<exists>st b'. extract_caps (pre @ capbnd_line b # post) st0 = Inr st \<and> apply_caps st \<and> join_caps st = b \<and>
    join_set_caps prctl st b0 = Inr b' \<and> (\<forall>c. bit b' c \<longleftrightarrow> bit b0 c \<and> (supported c \<longrightarrow> bit b c))"
proof -
  have skip: "\<exists>st'. fold_res extract_caps_line ls st = Inr st' \<and> apply_caps st' = apply_caps st \<and>
      join_caps st' = join_caps st" if "\<forall>l \<in> set ls. take 7 l \<noteq> ''CapBnd:'' \<and>
      (take 11 l = ''NoNewPrivs:'' \<longrightarrow> sscanf_d (drop 11 l) \<noteq> None)" for ls st
    using that
  proof (induction ls arbitrary: st)
    case (Cons l ls)
    have "\<exists>st'. extract_caps_line l st = Inr st' \<and> apply_caps st' = apply_caps st \<and> join_caps st' = join_caps st"
      using Cons.prems by (cases "take 11 l = ''NoNewPrivs:''") (auto simp: extract_caps_line_def)
    then obtain st' where "extract_caps_line l st = Inr st'" "apply_caps st' = apply_caps st" "join_caps st' = join_caps st"
      by blast
    with Cons.IH [of st'] Cons.prems show ?case by auto
  qed simp
  obtain st1 where st1: "fold_res extract_caps_line pre st0 = Inr st1"
    using skip [of pre st0] assms(2) by auto
  obtain st2 where st2: "fold_res extract_caps_line post (st1\<lparr>apply_caps := True, join_caps := b\<rparr>) = Inr st2"
      "apply_caps st2" "join_caps st2 = b"
    using skip [of post "st1\<lparr>apply_caps := True, join_caps := b\<rparr>"] assms(2) by auto
  have "extract_caps_line (capbnd_line b) st1 = Inr (st1\<lparr>apply_caps := True, join_caps := b\<rparr>)"
    using sscanf_capbnd [of b] by (simp add: extract_caps_line_def capbnd_line_def)
  with st1 st2 have "extract_caps (pre @ capbnd_line b # post) st0 = Inr st2"
    by (simp add: extract_caps_def fold_res_append)
  moreover obtain b' where "caps_set prctl b b0 = Inr b'"
      "\<forall>c. bit b' c \<longleftrightarrow> bit b0 c \<and> \<not> (supported c \<and> \<not> bit b c)"
    using bounding_set.caps_set_bits [OF assms(1)] by blast
  ultimately show ?thesis using st2 by (auto simp: join_set_caps_def)
qed

theorem join_caps_bounded_witness:
  "\<exists>st b'. extract_caps ([''Name:'' @ [CHR 0x09] @ ''sh''] @ capbnd_line 0x3000 # [''NoNewPrivs: 1''])
      \<lparr>apply_caps = False, join_caps = 0, arg_nonewprivs = False\<rparr> = Inr st \<and> apply_caps st \<and> join_caps st = 0x3000 \<and>
    join_set_caps (capbset_drop 40) st 0x1FFFFFFFFFF = Inr b' \<and>
    (\<forall>c. bit b' c \<longleftrightarrow> bit (0x1FFFFFFFFFF :: u64) c \<and> (c \<le> 40 \<longrightarrow> bit (0x3000 :: u64) c))"
  by (rule join_caps_bounded [OF linux.bounding_set_axioms])
     (simp add: sscanf_d_def scan_sign_def isspace_c_def isdigit_c_def char_code_def)

end
