(* ===== verification/Sbox.thy ===== *)
theory Sbox imports Seccomp_Mdwx Caps begin

text \<open>
  firejail/sbox.c: how the helper programs (fseccomp, fnet, ...) are started. The
  flags select a capability set, a fixed seccomp filter and a user; the program must belong to
  root, and a failing helper ends the sandbox.
\<close>

definition SBOX_ROOT :: u32 where "SBOX_ROOT = 0x001"
definition SBOX_USER :: u32 where "SBOX_USER = 0x002"
definition SBOX_SECCOMP :: u32 where "SBOX_SECCOMP = 0x004"
definition SBOX_CAPS_NONE :: u32 where "SBOX_CAPS_NONE = 0x008"
definition SBOX_CAPS_NETWORK :: u32 where "SBOX_CAPS_NETWORK = 0x010"
definition SBOX_ALLOW_STDIN :: u32 where "SBOX_ALLOW_STDIN = 0x020"
definition SBOX_STDIN_FROM_FILE :: u32 where "SBOX_STDIN_FROM_FILE = 0x040"
definition SBOX_CAPS_HIDEPID :: u32 where "SBOX_CAPS_HIDEPID = 0x080"
definition SBOX_CAPS_NET_SERVICE :: u32 where "SBOX_CAPS_NET_SERVICE = 0x100"
definition SBOX_KEEP_FDS :: u32 where "SBOX_KEEP_FDS = 0x200"

lemmas SBOX_defs = SBOX_ROOT_def SBOX_USER_def SBOX_SECCOMP_def SBOX_CAPS_NONE_def SBOX_CAPS_NETWORK_def
  SBOX_ALLOW_STDIN_def SBOX_STDIN_FROM_FILE_def SBOX_CAPS_HIDEPID_def SBOX_CAPS_NET_SERVICE_def
  SBOX_KEEP_FDS_def

definition flag_set :: "u32 \<Rightarrow> u32 \<Rightarrow> bool" where
  "flag_set filtermask flag \<longleftrightarrow> filtermask AND flag \<noteq> 0"

section \<open>The environment\<close>

definition sbox_environment ::
    "string option \<Rightarrow> bool \<Rightarrow> bool \<Rightarrow> string option \<Rightarrow> string list" where
  "sbox_environment cl arg_quiet arg_debug action =
     (case cl of None \<Rightarrow> [] | Some v \<Rightarrow> [''FIREJAIL_FILE_COPY_LIMIT='' @ v]) @
     (if arg_quiet then [''FIREJAIL_QUIET=yes''] else []) @
     (if arg_debug then [''FIREJAIL_DEBUG=yes''] else []) @
     (case action of None \<Rightarrow> [] | Some v \<Rightarrow> [''FIREJAIL_SECCOMP_ERROR_ACTION='' @ v]) @
     [''FIREJAIL_PLUGIN='']"

text \<open>\<^verbatim>\<open>getenv\<close> in the helper.\<close>

definition getenv :: "string list \<Rightarrow> string \<Rightarrow> string option" where
  "getenv env name =
     map_option (drop (length name + 1)) (find (\<lambda>e. take (length name + 1) e = name @ ''='') env)"

text \<open>The error action reaches the helper unchanged, whatever else is passed.\<close>

lemma sbox_passes_error_action:
  "getenv (sbox_environment cl q d action) ''FIREJAIL_SECCOMP_ERROR_ACTION'' = action"
  by (simp add: getenv_def sbox_environment_def split: option.split)

section \<open>Capabilities\<close>

definition sbox_caps_mask :: "(string \<Rightarrow> nat option) \<Rightarrow> u32 \<Rightarrow> u64" where
  "sbox_caps_mask CAP filtermask =
     (let cap = (\<lambda>m. push_bit (the (CAP m)) (1 :: u64));
          set1 = (if flag_set filtermask SBOX_CAPS_NETWORK
                  then 0 OR cap ''CAP_NET_ADMIN'' OR cap ''CAP_NET_RAW'' else 0);
          set2 = (if flag_set filtermask SBOX_CAPS_HIDEPID
                  then set1 OR cap ''CAP_SYS_PTRACE'' OR cap ''CAP_SYS_PACCT'' else set1)
      in if flag_set filtermask SBOX_CAPS_NET_SERVICE
         then set2 OR cap ''CAP_NET_BIND_SERVICE'' OR cap ''CAP_NET_BROADCAST'' else set2)"

definition sbox_caps ::
    "prctl_drop \<Rightarrow> (string \<Rightarrow> nat option) \<Rightarrow> u32 \<Rightarrow> u64 \<Rightarrow> caps_error + u64" where
  "sbox_caps prctl CAP filtermask b =
     (if flag_set filtermask SBOX_CAPS_NONE then caps_drop_all prctl b
      else let set = sbox_caps_mask CAP filtermask in
        if set \<noteq> 0 then caps_set prctl set b else Inr b)"

section \<open>The seccomp filter\<close>

definition sbox_calls :: "string list" where
  "sbox_calls =
    [''mount'', ''umount'', ''umount2'', ''fsopen'', ''fsconfig'', ''fsmount'', ''move_mount'', ''fspick'',
     ''open_tree'', ''ptrace'', ''process_vm_readv'', ''process_vm_writev'', ''kexec_file_load'',
     ''kexec_load'', ''name_to_handle_at'', ''open_by_handle_at'', ''init_module'', ''finit_module'',
     ''create_module'', ''delete_module'', ''iopl'', ''ioperm'', ''ioprio_set'', ''ni_syscall'',
     ''swapon'', ''swapoff'', ''syslog'', ''personality'']"

text \<open>\<open>a\<close> is \<^verbatim>\<open>arg_seccomp_error_action\<close> of the firejail process.\<close>

definition sbox_filter :: "platform \<Rightarrow> u32 \<Rightarrow> sock_filter list" where
  "sbox_filter P a =
     VALIDATE_ARCHITECTURE P @ [EXAMINE_SYSCALL] @ (if def_x86_64 P then HANDLE_X32 a else []) @
     concat (map (\<lambda>n. ifdef (sys_nr P n) (BLACKLIST a)) sbox_calls) @ [RETURN_ALLOW]"

section \<open>Running\<close>

datatype sbox_error =
    NotARootFile
  | WorldWritable
  | NoUserFlag
  | HelperFailed int

definition S_IWOTH :: u32 where "S_IWOTH = 2"

text \<open>The checks before \<^verbatim>\<open>fexecve\<close>; the assertion fails without a user flag.\<close>

definition sbox_check :: "u32 \<Rightarrow> int \<Rightarrow> int \<Rightarrow> u32 \<Rightarrow> sbox_error + unit" where
  "sbox_check filtermask st_uid st_gid st_mode =
     (if \<not> flag_set filtermask SBOX_USER \<and> \<not> flag_set filtermask SBOX_ROOT then Inl NoUserFlag
      else if st_uid \<noteq> 0 \<and> st_gid \<noteq> 0 then Inl NotARootFile
      else if st_mode AND S_IWOTH \<noteq> 0 then Inl WorldWritable
      else Inr ())"

datatype wait_status = Exited int | Signaled int | Stopped

text \<open>\<^verbatim>\<open>sbox_run_v\<close>: the parent returns only if the helper did not fail.\<close>

definition sbox_run_v :: "wait_status \<Rightarrow> sbox_error + wait_status" where
  "sbox_run_v status =
     (case status of
        Signaled s \<Rightarrow> Inl (HelperFailed 1)
      | Exited n \<Rightarrow> if n \<noteq> 0 then Inl (HelperFailed 1) else Inr status
      | Stopped \<Rightarrow> Inr status)"

section \<open>The filter as a policy\<close>

definition sbox_numbers :: "platform \<Rightarrow> u32 set" where
  "sbox_numbers P = {nr. \<exists>n \<in> set sbox_calls. sys_nr P n = Some nr}"

definition sbox_rules :: "platform \<Rightarrow> u32 \<Rightarrow> rule list" where
  "sbox_rules P a = concat (map (\<lambda>n. case sys_nr P n of None \<Rightarrow> [] | Some nr \<Rightarrow> [(nr, a)]) sbox_calls)"

lemma sbox_filter_rules: "sbox_filter P a = blacklist_filter P True a (sbox_rules P a)"
proof -
  have "concat (map (\<lambda>n. ifdef (sys_nr P n) (BLACKLIST a)) ns) =
      rules_code (concat (map (\<lambda>n. case sys_nr P n of None \<Rightarrow> [] | Some nr \<Rightarrow> [(nr, a)]) ns))" for ns
    by (induction ns) (auto simp: macro_rules split: option.split)
  then show ?thesis
    by (simp add: sbox_filter_def blacklist_filter_def init_code_eq sbox_rules_def)
qed

lemma map_of_sbox: "map_of (sbox_rules P a) k = (if k \<in> sbox_numbers P then Some a else None)"
proof -
  have "map_of (concat (map (\<lambda>n. case sys_nr P n of None \<Rightarrow> [] | Some nr \<Rightarrow> [(nr, a)]) ns)) k =
      (if \<exists>n \<in> set ns. sys_nr P n = Some k then Some a else None)" for ns
    by (induction ns) (auto split: option.split)
  then show ?thesis by (simp add: sbox_rules_def sbox_numbers_def)
qed

text \<open>C19. The filter of the helper programs answers each of its 28 calls that exist on the platform,
  and x32 calls, with the error action of the firejail process, and allows everything else.\<close>

theorem sbox_filter_policy:
  assumes "bpf_machine exec"
  shows "exec (data_word P d) (sbox_filter P a) 0 =
    Some (guarded P True a d (if sd_nr d \<in> sbox_numbers P then a else SECCOMP_RET_ALLOW))"
  by (simp add: sbox_filter_rules bpf_machine.exec_blacklist_filter [OF assms] verdict_def map_of_sbox)

text \<open>The action field of a verdict, without its data.\<close>

definition action_of :: "u32 \<Rightarrow> u32" where
  "action_of v = v AND 0xffff0000"

text \<open>C39. firejail keeps its error action as a bare errno value (\<^verbatim>\<open>EPERM\<close> by default) without
  \<^verbatim>\<open>SECCOMP_RET_ERRNO\<close>. In the filter of the helpers the action field of that verdict is zero, so a
  refused call kills the helper instead of failing with the errno.\<close>

theorem sbox_errno_kills:
  assumes "bpf_machine exec" and "sd_arch d = ARCH_NR P" and "sd_nr d \<in> sbox_numbers P"
    and "0 \<le> errno" and "errno < 4096"
  shows "map_option action_of (exec (data_word P d) (sbox_filter P (u32_of_int errno)) 0) =
    Some SECCOMP_RET_KILL"
proof -
  have high: "(0xffff0000 :: u32) = NOT (mask 16)" by (simp add: mask_eq_exp_minus_1)
  have "take_bit 16 (u32_of_int errno) = u32_of_int errno"
    using assms(4,5) by (simp add: take_bit_int_eq_self take_bit_of_int)
  then have "u32_of_int errno = u32_of_int errno AND mask 16" by (simp add: take_bit_eq_mask)
  then have "action_of (u32_of_int errno) = 0"
    unfolding action_of_def high by (metis and.assoc and_zero_eq bit.conj_cancel_right)
  then show ?thesis
    using assms(2,3)
    by (simp add: sbox_filter_rules bpf_machine.exec_blacklist_filter [OF assms(1)] verdict_def map_of_sbox
        guarded_def SECCOMP_RET_KILL_def)
qed

lemma linux_mount_sbox: "165 \<in> sbox_numbers linux_x86_64"
proof -
  have "(''mount'', 165) \<in> set syscall_x86_64"
    by (simp add: syscall_x86_64_def syscall_x86_64_1_def syscall_x86_64_2_def syscall_x86_64_3_def)
  then have "sys_nr linux_x86_64 ''mount'' = Some 165"
    using syscall_x86_64_distinct_names by (simp add: sys_nr_def)
  then show ?thesis by (force simp: sbox_numbers_def sbox_calls_def)
qed

theorem sbox_filter_policy_witness:
  "bpf_exec (data_word linux_x86_64 \<lparr>sd_nr = 165, sd_arch = 0xC000003E, sd_ip = 0, sd_args = (\<lambda>_. 0)\<rparr>)
     (sbox_filter linux_x86_64 0x50001) 0 = Some 0x50001"
  by (subst sbox_filter_policy [OF vm.bpf_machine_axioms])
     (simp add: guarded_def linux_mount_sbox X32_SYSCALL_BIT_def)

theorem sbox_errno_kills_witness:
  "map_option action_of
     (bpf_exec (data_word linux_x86_64 \<lparr>sd_nr = 165, sd_arch = 0xC000003E, sd_ip = 0, sd_args = (\<lambda>_. 0)\<rparr>)
       (sbox_filter linux_x86_64 (u32_of_int 1)) 0) = Some SECCOMP_RET_KILL"
  by (rule sbox_errno_kills [OF vm.bpf_machine_axioms]) (simp_all add: linux_mount_sbox)

end
