(* ===== verification/Network.thy ===== *)
theory Network imports Scanf begin

text \<open>
  The IPv4 helpers of include/common.h and the network configuration of
  firejail/network_main.c. What the code asks the system (is there a bridge, the address
  of an interface, the host's default gateway) is the record \<open>net_env\<close>.
\<close>

section \<open>Addresses (include/common.h)\<close>

fun mask2bits_loop :: "nat \<Rightarrow> u32 \<Rightarrow> u32 \<Rightarrow> u8 \<Rightarrow> u8" where
  "mask2bits_loop 0 tmp msk rv = rv"
| "mask2bits_loop (Suc n) tmp msk rv =
     (if tmp AND msk \<noteq> 0 then mask2bits_loop n (drop_bit 1 tmp) msk (rv + 1) else rv)"

definition mask2bits :: "u32 \<Rightarrow> u8" where
  "mask2bits msk = mask2bits_loop 32 0x80000000 msk 0"

text \<open>The common part of the formats of \<^verbatim>\<open>atoip\<close> and \<^verbatim>\<open>atocidr\<close>.\<close>

definition scan_quad :: "string \<Rightarrow> ((u32 \<times> u32 \<times> u32 \<times> u32) \<times> string) option" where
  "scan_quad s =
     Option.bind (scan_u s) (\<lambda>(a, s1). Option.bind (scan_char (CHR ''.'') s1) (\<lambda>s2.
     Option.bind (scan_u s2) (\<lambda>(b, s3). Option.bind (scan_char (CHR ''.'') s3) (\<lambda>s4.
     Option.bind (scan_u s4) (\<lambda>(c, s5). Option.bind (scan_char (CHR ''.'') s5) (\<lambda>s6.
     Option.bind (scan_u s6) (\<lambda>(d, s7). Some ((a, b, c, d), s7))))))))"

definition quad_ip :: "u32 \<times> u32 \<times> u32 \<times> u32 \<Rightarrow> u32" where
  "quad_ip q = (case q of (a, b, c, d) \<Rightarrow> a * 0x1000000 + b * 0x10000 + c * 0x100 + d)"

definition quad_ok :: "u32 \<times> u32 \<times> u32 \<times> u32 \<Rightarrow> bool" where
  "quad_ok q = (case q of (a, b, c, d) \<Rightarrow> \<not> (255 < a \<or> 255 < b \<or> 255 < c \<or> 255 < d))"

definition atoip :: "string \<Rightarrow> u32 option" where
  "atoip str =
     (case scan_quad str of
        None \<Rightarrow> None
      | Some (q, rest) \<Rightarrow> if quad_ok q then Some (quad_ip q) else None)"

fun cidr_mask_loop :: "nat \<Rightarrow> u32 \<Rightarrow> u32 \<Rightarrow> u32" where
  "cidr_mask_loop 0 tmp msk = msk"
| "cidr_mask_loop (Suc n) tmp msk = cidr_mask_loop n (drop_bit 1 tmp) (msk OR tmp)"

definition atocidr :: "string \<Rightarrow> (u32 \<times> u32) option" where
  "atocidr str =
     (case Option.bind (scan_quad str) (\<lambda>(q, s). Option.bind (scan_char (CHR ''/'') s) (\<lambda>s1.
             Option.bind (scan_u s1) (\<lambda>(e, s2). Some (q, e)))) of
        None \<Rightarrow> None
      | Some (q, e) \<Rightarrow>
          if quad_ok q \<and> \<not> 32 < e then Some (quad_ip q, cidr_mask_loop (unat e) 0x80000000 0) else None)"

text \<open>\<^verbatim>\<open>PRINT_IP\<close> with the format %d.%d.%d.%d.\<close>

definition print_ip :: "u32 \<Rightarrow> string" where
  "print_ip a =
     dec_str (unat (drop_bit 24 a AND 0xFF)) @ ''.'' @ dec_str (unat (drop_bit 16 a AND 0xFF)) @ ''.'' @
     dec_str (unat (drop_bit 8 a AND 0xFF)) @ ''.'' @ dec_str (unat (a AND 0xFF))"

datatype netrange_error = NotInRange | NetworkAddress

text \<open>None: the address is fine.\<close>

definition in_netrange :: "u32 \<Rightarrow> u32 \<Rightarrow> u32 \<Rightarrow> netrange_error option" where
  "in_netrange ip ifip ifmask =
     (if ip AND ifmask \<noteq> ifip AND ifmask then Some NotInRange
      else if ip AND ifmask = ip then Some NetworkAddress
      else if ip OR NOT ifmask = ip then Some NetworkAddress
      else None)"

definition mac_not_zero :: "u8 list \<Rightarrow> bool" where
  "mac_not_zero mac = list_ex (\<lambda>b. b \<noteq> 0) mac"

section \<open>Bridges (network_main.c)\<close>

record Bridge =
  br_dev :: string
  br_ip :: u32
  br_mask :: u32
  br_mtu :: int
  br_devsandbox :: string
  br_ipsandbox :: u32
  br_iprange_start :: u32
  br_iprange_end :: u32
  br_arg_ip_none :: bool
  br_macvlan :: bool
  br_configured :: bool
  br_veth_name :: "string option"
  br_masksandbox :: u32
  br_ip6sandbox :: "string option"
  br_macsandbox :: "u8 list"
  br_arg_ip6_dhcp :: bool

record net_env =
  is_bridge :: "string \<Rightarrow> bool"
  if_exists :: "string \<Rightarrow> bool"
  if_addr :: "string \<Rightarrow> (u32 \<times> u32 \<times> int option) option"
  host_gw :: u32
  own_pid :: nat

datatype net_error =
    NoDevice
  | SmallNetwork
  | RangeNotInNetwork
  | BadIpRange
  | IpNotInRange netrange_error
  | IpInUse
  | AllInUse
  | AssertFailed
  | DivisionByZero
  | GatewayNotInRange
  | GatewayWithoutNetwork
  | NetNone

text \<open>The option \<^verbatim>\<open>--iprange=first,second\<close>.\<close>

definition set_iprange :: "string \<Rightarrow> Bridge \<Rightarrow> net_error + Bridge" where
  "set_iprange arg br =
     (if br_iprange_start br \<noteq> 0 \<or> br_iprange_end br \<noteq> 0 then Inl BadIpRange
      else case strchr_cut (CHR '','') arg of
        (firstip, None) \<Rightarrow> Inl BadIpRange
      | (firstip, Some secondip) \<Rightarrow>
          (case (atoip firstip, atoip secondip) of
             (Some s, Some e) \<Rightarrow>
               if e \<le> s then Inl BadIpRange else Inr (br\<lparr>br_iprange_start := s, br_iprange_end := e\<rparr>)
           | _ \<Rightarrow> Inl BadIpRange))"

definition read_interface :: "net_env \<Rightarrow> Bridge \<Rightarrow> Bridge" where
  "read_interface E br =
     (let br1 = (case if_addr E (br_dev br) of
                   None \<Rightarrow> br
                 | Some (ip, msk, mtu) \<Rightarrow>
                     br\<lparr>br_ip := ip, br_mask := msk,
                        br_mtu := (case mtu of None \<Rightarrow> br_mtu br | Some m \<Rightarrow> m)\<rparr>)
      in if br_mtu br \<noteq> 0 then br1\<lparr>br_mtu := br_mtu br\<rparr> else br1)"

definition net_configure_bridge :: "net_env \<Rightarrow> u32 \<Rightarrow> Bridge \<Rightarrow> net_error + Bridge" where
  "net_configure_bridge E defaultgw br =
     bind_res
       (if is_bridge E (br_dev br) then Inr (br\<lparr>br_macvlan := False\<rparr>)
        else if if_exists E (br_dev br)
          then Inr (br\<lparr>br_macvlan := True, br_devsandbox := br_devsandbox br @ ''-'' @ dec_str (own_pid E)\<rparr>)
        else Inl NoDevice)
       (\<lambda>br0. let br1 = read_interface E br0; no_ip = br1\<lparr>br_arg_ip_none := True\<rparr>;
                  check = (\<lambda>b. if br_iprange_start b \<noteq> 0 \<and> in_netrange (br_iprange_start b) (br_ip b) (br_mask b) \<noteq> None \<or>
                                  br_iprange_end b \<noteq> 0 \<and> in_netrange (br_iprange_end b) (br_ip b) (br_mask b) \<noteq> None
                               then Inl RangeNotInNetwork else Inr b)
              in if br_mask br1 \<noteq> 0 \<and> NOT (br_mask br1) + 1 < 4 then Inl SmallNetwork
                 else if br_mask br1 = 0 then Inr no_ip
                 else if br_ip br1 = 0 \<and> br_ipsandbox br1 \<noteq> 0
                   then check (br1\<lparr>br_ip := br_ipsandbox br1 AND br_mask br1\<rparr>)
                 else if br_ip br1 = 0 \<and> defaultgw \<noteq> 0
                   then check (br1\<lparr>br_ip := defaultgw AND br_mask br1\<rparr>)
                 else if br_ip br1 = 0 then Inr no_ip
                 else check br1)"

text \<open>The four bridges of the configuration, in order.\<close>

definition check_default_gw :: "Bridge list \<Rightarrow> u32 \<Rightarrow> net_error + unit" where
  "check_default_gw brs defaultgw =
     (if list_ex (\<lambda>b. br_configured b \<and> in_netrange defaultgw (br_ip b) (br_mask b) = None) brs
      then Inr () else Inl GatewayNotInRange)"

definition configure_bridges :: "net_env \<Rightarrow> u32 \<Rightarrow> Bridge list \<Rightarrow> net_error + Bridge list" where
  "configure_bridges E defaultgw brs =
     collect (\<lambda>b. if br_configured b
                  then bind_res (net_configure_bridge E defaultgw b) (\<lambda>b'. Inr [b'])
                  else Inr [b]) brs"

text \<open>
  \<^verbatim>\<open>net_check_cfg\<close>: the configured bridges and the default gateway. \<open>ifs\<close> is the number of
  configured interfaces, \<open>nonetwork\<close> is \<^verbatim>\<open>--net=none\<close>.
\<close>

definition net_check_cfg ::
    "net_env \<Rightarrow> nat \<Rightarrow> bool \<Rightarrow> u32 \<Rightarrow> Bridge list \<Rightarrow> net_error + Bridge list \<times> u32" where
  "net_check_cfg E ifs nonetwork defaultgw brs =
     bind_res (configure_bridges E defaultgw brs) (\<lambda>brs'.
       let net_configured = length (filter br_configured brs') in
       if defaultgw \<noteq> 0 \<and> net_configured = 0 \<and> ifs = 0 then Inl GatewayWithoutNetwork
       else if net_configured = 0 then Inr (brs', defaultgw)
       else if nonetwork then Inl NetNone
       else if \<not> br_configured (hd brs') then Inl AssertFailed
       else if defaultgw \<noteq> 0 then bind_res (check_default_gw brs' defaultgw) (\<lambda>_. Inr (brs', defaultgw))
       else if br_arg_ip_none (hd brs') then Inr (brs', defaultgw)
       else if \<not> br_macvlan (hd brs') then Inr (brs', br_ip (hd brs'))
       else if in_netrange (host_gw E) (br_ip (hd brs')) (br_mask (hd brs')) \<noteq> None then Inr (brs', 0)
       else Inr (brs', host_gw E))"

section \<open>Prefix masks\<close>

text \<open>The mask of a network whose host part has \<open>k\<close> bits.\<close>

abbreviation net_mask :: "nat \<Rightarrow> u32" where
  "net_mask k \<equiv> NOT (mask k)"

definition net_base :: "nat \<Rightarrow> u32 \<Rightarrow> nat" where
  "net_base k ip = unat ip div 2 ^ k * 2 ^ k"

lemma and_net_mask: "unat (ip AND net_mask k) = net_base k ip"
proof -
  have "ip AND NOT (mask k) = push_bit k (drop_bit k ip)" for ip :: u32
    by (rule bit_eqI) (auto simp: bit_simps)
  then have "unat (ip AND net_mask k) = take_bit 32 (push_bit k (drop_bit k (unat ip)))"
    using take_bit_nat_eq_self [of "unat ip" 32] unsigned_less [of ip, where 'a = nat]
    by (simp add: unsigned_push_bit_eq unsigned_drop_bit_eq)
  also have "\<dots> = push_bit k (drop_bit k (unat ip))"
  proof (rule take_bit_nat_eq_self)
    have "push_bit k (drop_bit k (unat ip)) \<le> unat ip"
      by (simp add: push_bit_eq_mult drop_bit_eq_div)
    then show "push_bit k (drop_bit k (unat ip)) < 2 ^ 32"
      using unsigned_less [of ip, where 'a = nat] by simp
  qed
  finally show ?thesis by (simp add: net_base_def push_bit_eq_mult drop_bit_eq_div)
qed

lemma or_host_mask:
  fixes ip :: u32
  assumes "k \<le> 32"
  shows "ip OR mask k = ip \<longleftrightarrow> unat ip mod 2 ^ k = 2 ^ k - 1"
proof -
  have "ip OR mask k = ip \<longleftrightarrow> take_bit k ip = mask k"
    by (auto simp: bit_eq_iff bit_simps)
  also have "\<dots> \<longleftrightarrow> unat (take_bit k ip) = unat (mask k :: u32)"
    by (rule word_unat_eq_iff)
  also have "unat (take_bit k ip) = unat ip mod 2 ^ k"
    by (simp add: unsigned_take_bit_eq flip: take_bit_eq_mod)
  also have "unat (mask k :: u32) = 2 ^ k - 1"
  proof -
    have "uint (mask k :: u32) = mask k" using assms by (simp add: uint_mask_eq min_def)
    then have "int (unat (mask k :: u32)) = 2 ^ k - 1" by (simp flip: mask_eq_exp_minus_1)
    then show ?thesis by (simp add: of_nat_diff flip: of_nat_eq_iff [where 'a = int])
  qed
  finally show ?thesis .
qed

lemma in_netrange_iff:
  assumes "k \<le> 32"
  shows "in_netrange x ip (net_mask k) = None \<longleftrightarrow>
    net_base k ip < unat x \<and> unat x < net_base k ip + (2 ^ k - 1)"
proof -
  let ?n = "unat x" and ?N = "2 ^ k :: nat"
  have x: "?n = net_base k x + ?n mod ?N" by (simp add: net_base_def div_mult_mod_eq)
  have "x AND net_mask k = ip AND net_mask k \<longleftrightarrow> net_base k x = net_base k ip"
    by (simp add: word_unat_eq_iff and_net_mask)
  moreover have "x AND net_mask k = x \<longleftrightarrow> ?n mod ?N = 0"
    unfolding word_unat_eq_iff and_net_mask using x by linarith
  moreover have "x OR NOT (net_mask k) = x \<longleftrightarrow> ?n mod ?N = ?N - 1"
    using or_host_mask [OF assms] by simp
  ultimately have iff: "in_netrange x ip (net_mask k) = None \<longleftrightarrow>
      net_base k x = net_base k ip \<and> ?n mod ?N \<noteq> 0 \<and> ?n mod ?N \<noteq> ?N - 1"
    by (auto simp: in_netrange_def)
  have lt: "?n mod ?N < ?N" by simp
  show ?thesis
  proof
    assume "in_netrange x ip (net_mask k) = None"
    with iff x lt show "net_base k ip < ?n \<and> ?n < net_base k ip + (?N - 1)" by linarith
  next
    assume range: "net_base k ip < ?n \<and> ?n < net_base k ip + (?N - 1)"
    then have "?n div ?N = unat ip div ?N"
      by (intro div_nat_eqI) (auto simp: net_base_def algebra_simps)
    then have "net_base k x = net_base k ip" by (simp add: net_base_def)
    with iff x range show "in_netrange x ip (net_mask k) = None" by linarith
  qed
qed

section \<open>Reading what was printed\<close>

lemma byte_unat:
  "unat (drop_bit j a AND 0xFF) = unat a div 2 ^ j mod 256" "unat (a AND 0xFF) = unat a mod 256" for a :: u32
proof -
  have ff: "(0xFF :: u32) = mask 8" by (simp add: mask_eq_exp_minus_1)
  have byte: "unat (w AND 0xFF) = unat w mod 256" for w :: u32
    unfolding ff take_bit_eq_mask [symmetric] unsigned_take_bit_eq by (simp add: take_bit_eq_mod)
  have unat_drop: "unat (drop_bit j a) = drop_bit j (unat a)"
    using take_bit_nat_eq_self [of "unat a" 32] unsigned_less [of a, where 'a = nat]
    by (simp add: unsigned_drop_bit_eq)
  show "unat (a AND 0xFF) = unat a mod 256" by (rule byte)
  show "unat (drop_bit j a AND 0xFF) = unat a div 2 ^ j mod 256"
    unfolding byte unat_drop by (simp add: drop_bit_eq_div)
qed

definition ip_quad :: "u32 \<Rightarrow> u32 \<times> u32 \<times> u32 \<times> u32" where
  "ip_quad a = (drop_bit 24 a AND 0xFF, drop_bit 16 a AND 0xFF, drop_bit 8 a AND 0xFF, a AND 0xFF)"

lemma quad_ip_quad: "quad_ip (ip_quad a) = a" "quad_ok (ip_quad a)"
proof -
  let ?n = "unat a"
  have lt: "?n < 4294967296" using unsigned_less [of a, where 'a = nat] by simp
  have bytes: "?n div 16777216 mod 256 = unat (drop_bit 24 a AND 0xFF)"
      "?n div 65536 mod 256 = unat (drop_bit 16 a AND 0xFF)"
      "?n div 256 mod 256 = unat (drop_bit 8 a AND 0xFF)" "?n mod 256 = unat (a AND 0xFF)"
    using byte_unat(1) [of 24 a] byte_unat(1) [of 16 a] byte_unat(1) [of 8 a] byte_unat(2) [of a] by simp_all
  have "?n div 16777216 mod 256 = ?n div 16777216" using lt by simp
  moreover have "?n div 256 * 256 + ?n mod 256 = ?n" by (rule div_mult_mod_eq)
  moreover have "?n div 65536 * 256 + ?n div 256 mod 256 = ?n div 256"
    using div_mult_mod_eq [of "?n div 256" 256] by (simp add: div_mult2_eq [symmetric])
  moreover have "?n div 16777216 * 256 + ?n div 65536 mod 256 = ?n div 65536"
    using div_mult_mod_eq [of "?n div 65536" 256] by (simp add: div_mult2_eq [symmetric])
  ultimately have "?n = ?n div 16777216 mod 256 * 0x1000000 + ?n div 65536 mod 256 * 0x10000 +
      ?n div 256 mod 256 * 0x100 + ?n mod 256"
    by linarith
  then have "a = word_of_nat (?n div 16777216 mod 256 * 0x1000000 + ?n div 65536 mod 256 * 0x10000 +
      ?n div 256 mod 256 * 0x100 + ?n mod 256)"
    using arg_cong [of _ _ "word_of_nat :: nat \<Rightarrow> u32"] by fastforce
  also have "\<dots> = quad_ip (ip_quad a)"
    by (simp add: quad_ip_def ip_quad_def bytes)
  finally show "quad_ip (ip_quad a) = a" by simp
  have "w AND 0xFF \<le> 255" for w :: u32
    unfolding word_le_nat_alt using byte_unat(2) [of w] by simp
  then show "quad_ok (ip_quad a)" by (simp add: quad_ok_def ip_quad_def not_less)
qed

lemma scan_print_ip:
  assumes "s = [] \<or> digit_val (hd s) = None"
  shows "scan_quad (print_ip a @ s) = Some (ip_quad a, s)"
proof -
  have small: "unat (w AND 0xFF) < 4294967296" for w :: u32
    using unsigned_less [of "w AND 0xFF", where 'a = nat] by simp
  have dot: "digit_val (CHR ''.'') = None" by (simp add: digit_val_def isdigit_c_def char_code_def)
  show ?thesis
    using assms
    by (simp add: scan_quad_def print_ip_def scan_u_dec small dot scan_char_def ip_quad_def)
qed

lemma cidr_masks:
  "list_all (\<lambda>n. cidr_mask_loop n 0x80000000 0 = net_mask (32 - n) \<and>
     mask2bits (net_mask (32 - n)) = word_of_nat n) [0 ..< 33]"
  by code_simp

text \<open>C20. An address that was printed is read back unchanged, also with a prefix length behind it: the
  mask then has that many leading ones, and \<^verbatim>\<open>mask2bits\<close> counts them.\<close>

theorem ip_roundtrip:
  "atoip (print_ip a) = Some a \<and>
   (n \<le> 32 \<longrightarrow> atocidr (print_ip a @ ''/'' @ dec_str n) = Some (a, net_mask (32 - n)) \<and>
     mask2bits (net_mask (32 - n)) = word_of_nat n)"
proof -
  have slash: "digit_val (CHR ''/'') = None" by (simp add: digit_val_def isdigit_c_def char_code_def)
  have "atocidr (print_ip a @ ''/'' @ dec_str n) = Some (a, net_mask (32 - n)) \<and>
      mask2bits (net_mask (32 - n)) = word_of_nat n" if n: "n \<le> 32"
  proof -
    have "cidr_mask_loop n 0x80000000 0 = net_mask (32 - n) \<and> mask2bits (net_mask (32 - n)) = word_of_nat n"
      using cidr_masks n by (simp add: list_all_iff del: upt_rec_numeral)
    moreover have "scan_u (dec_str n) = Some (word_of_nat n, [])"
      using scan_u_dec [of n "[]"] n by simp
    moreover have "unat (word_of_nat n :: u32) = n" and "\<not> 32 < (word_of_nat n :: u32)"
      using n by (simp_all add: unat_of_nat word_less_nat_alt)
    ultimately show ?thesis
      using scan_print_ip [of "''/'' @ dec_str n" a] slash
      by (simp add: atocidr_def scan_char_def quad_ip_quad)
  qed
  then show ?thesis
    using scan_print_ip [of "[]" a] by (simp add: atoip_def quad_ip_quad)
qed

theorem ip_roundtrip_witness:
  "atoip (print_ip 0xC0A80101) = Some 0xC0A80101 \<and>
   atocidr (print_ip 0xC0A80101 @ ''/'' @ dec_str 24) = Some (0xC0A80101, net_mask 8) \<and>
   mask2bits (net_mask 8) = 24"
  using ip_roundtrip [of "0xC0A80101" 24] by simp

end
