(* ===== verification/Arp.thy ===== *)
theory Arp imports Network "HOL-Library.Monad_Syntax" begin

text \<open>
  The choice of an address in firejail/arp.c and the calls of it in network_main.c and sandbox.c.
  \<open>busy\<close> is the answer of \<^verbatim>\<open>arp_check\<close> for an address, \<open>rnd n\<close> the value of the n-th call
  of \<^verbatim>\<open>rand\<close>. A result None is a loop that does not end.
\<close>

section \<open>Choosing an address\<close>

definition host_range :: "u32 \<Rightarrow> u32" where
  "host_range ifmask = NOT ifmask + 1"

text \<open>At most ten tries; the result is the candidate and the number of values used.\<close>

fun arp_tries ::
    "(nat \<Rightarrow> u32) \<Rightarrow> u32 \<Rightarrow> u32 \<Rightarrow> u32 \<Rightarrow> u32 \<Rightarrow> nat \<Rightarrow> nat \<Rightarrow> u32 option \<times> nat" where
  "arp_tries rnd ifip gw start rng 0 n = (None, n)"
| "arp_tries rnd ifip gw start rng (Suc i) n =
     (let dest = start + rnd n mod rng in
      if dest = ifip \<or> dest = gw then arp_tries rnd ifip gw start rng i (Suc n)
      else (Some dest, Suc n))"

definition arp_random ::
    "(u32 \<Rightarrow> bool) \<Rightarrow> (nat \<Rightarrow> u32) \<Rightarrow> u32 \<Rightarrow> Bridge \<Rightarrow> nat \<Rightarrow> net_error + u32 \<times> nat" where
  "arp_random busy rnd gw br n =
     (let ifip = br_ip br; ifmask = br_mask br; rng = host_range ifmask in
      if ifip = 0 \<or> ifmask = 0 then Inl AssertFailed
      else if rng < 4 then Inr (0, n)
      else
        let both = br_iprange_start br \<noteq> 0 \<and> br_iprange_end br \<noteq> 0;
            start = (if both then br_iprange_start br else (ifip AND ifmask) + 1);
            rng' = (if both then br_iprange_end br - br_iprange_start br else rng - 2)
        in if rng' = 0 then Inl DivisionByZero
           else case arp_tries rnd ifip gw start rng' 10 n of
             (None, n') \<Rightarrow> Inr (0, n')
           | (Some dest, n') \<Rightarrow> Inr (if busy dest then 0 else dest, n'))"

partial_function (option) arp_scan ::
    "(u32 \<Rightarrow> bool) \<Rightarrow> u32 \<Rightarrow> u32 \<Rightarrow> u32 \<Rightarrow> u32 \<Rightarrow> u32 option" where
  "arp_scan busy ifip gw final dest =
     (if dest \<le> final then
        (if dest = ifip \<or> dest = gw then arp_scan busy ifip gw final (dest + 1)
         else if \<not> busy dest then Some dest
         else arp_scan busy ifip gw final (dest + 1))
      else Some 0)"

definition arp_sequential ::
    "(u32 \<Rightarrow> bool) \<Rightarrow> u32 \<Rightarrow> Bridge \<Rightarrow> (net_error + u32) option" where
  "arp_sequential busy gw br =
     (let ifip = br_ip br; ifmask = br_mask br; rng = host_range ifmask in
      if ifip = 0 \<or> ifmask = 0 then Some (Inl AssertFailed)
      else if rng < 4 then Some (Inr 0)
      else
        let dest = (if br_iprange_start br \<noteq> 0 then br_iprange_start br else (ifip AND ifmask) + 1);
            final = (if br_iprange_end br \<noteq> 0 then br_iprange_end br else dest + (rng - 2) - 1)
        in map_option Inr (arp_scan busy ifip gw final dest))"

definition arp_assign ::
    "(u32 \<Rightarrow> bool) \<Rightarrow> (nat \<Rightarrow> u32) \<Rightarrow> u32 \<Rightarrow> Bridge \<Rightarrow> (net_error + u32) option" where
  "arp_assign busy rnd gw br =
     (case bind_res (arp_random busy rnd gw br 0)
             (\<lambda>(ip, n). if ip \<noteq> 0 then Inr ip
                        else bind_res (arp_random busy rnd gw br n) (\<lambda>(ip, n). Inr ip)) of
        Inl e \<Rightarrow> Some (Inl e)
      | Inr ip \<Rightarrow>
          if ip \<noteq> 0 then Some (Inr ip)
          else map_option (\<lambda>r. bind_res r (\<lambda>ip. if ip = 0 then Inl AllInUse else Inr ip))
                 (arp_sequential busy gw br))"

section \<open>The callers\<close>

text \<open>\<^verbatim>\<open>net_configure_sandbox_ip\<close> of network_main.c.\<close>

definition net_configure_sandbox_ip ::
    "(u32 \<Rightarrow> bool) \<Rightarrow> (nat \<Rightarrow> u32) \<Rightarrow> u32 \<Rightarrow> Bridge \<Rightarrow> (net_error + Bridge) option" where
  "net_configure_sandbox_ip busy rnd gw br =
     (if \<not> br_configured br then Some (Inr br)
      else if br_arg_ip_none br then Some (Inr (br\<lparr>br_ipsandbox := 0\<rparr>))
      else if br_ipsandbox br \<noteq> 0 then
        (case in_netrange (br_ipsandbox br) (br_ip br) (br_mask br) of
           Some e \<Rightarrow> Some (Inl (IpNotInRange e))
         | None \<Rightarrow> if busy (br_ipsandbox br) then Some (Inl IpInUse) else Some (Inr br))
      else map_option (\<lambda>r. bind_res r (\<lambda>ip. Inr (br\<lparr>br_ipsandbox := ip\<rparr>))) (arp_assign busy rnd gw br))"

section \<open>The scan\<close>

lemma arp_scan_returns:
  assumes "final < - 1"
  shows "\<exists>r. arp_scan busy ifip gw final dest = Some r"
proof (induction "unat (final + 1 - dest)" arbitrary: dest rule: less_induct)
  case less
  show ?case
  proof (cases "dest \<le> final")
    case False
    then show ?thesis by (subst arp_scan.simps) simp
  next
    case True
    have "unat (final + 1 - (dest + 1)) < unat (final + 1 - dest)"
      using True assms by unat_arith
    then obtain r where "arp_scan busy ifip gw final (dest + 1) = Some r" using less by blast
    then show ?thesis by (subst arp_scan.simps) auto
  qed
qed

text \<open>A scan up to the last 32-bit address wraps around.\<close>

lemma arp_scan_wraps:
  assumes "\<not> (x = ifip \<or> x = gw \<or> busy x)"
  shows "\<exists>r. arp_scan busy ifip gw (- 1) dest = Some r"
proof (induction "unat (x - dest)" arbitrary: dest rule: less_induct)
  case less
  have top: "dest \<le> - 1" by (simp add: word_order.extremum)
  show ?case
  proof (cases "dest = x")
    case True
    then show ?thesis using assms top by (subst arp_scan.simps) simp
  next
    case False
    then have "unat (x - (dest + 1)) < unat (x - dest)" by unat_arith
    then obtain r where "arp_scan busy ifip gw (- 1) (dest + 1) = Some r" using less by blast
    then show ?thesis using top by (subst arp_scan.simps) auto
  qed
qed

lemma arp_scan_loops:
  assumes "arp_scan busy ifip gw final dest = Some r"
  shows "final = - 1 \<longrightarrow> (\<exists>x. \<not> (x = ifip \<or> x = gw \<or> busy x))"
  using assms
proof (rule arp_scan.raw_induct [rotated], intro impI)
  fix scan busy and ifip gw final dest r :: u32
  assume IH: "\<And>busy ifip gw final dest r. scan busy ifip gw final dest = Some r \<Longrightarrow>
      final = - 1 \<longrightarrow> (\<exists>x. \<not> (x = ifip \<or> x = gw \<or> busy x))"
    and body: "(if dest \<le> final then
        (if dest = ifip \<or> dest = gw then scan busy ifip gw final (dest + 1)
         else if \<not> busy dest then Some dest else scan busy ifip gw final (dest + 1)) else Some 0) = Some r"
    and top: "final = - 1"
  have "dest \<le> final" using top by (simp add: word_order.extremum)
  with body consider "scan busy ifip gw final (dest + 1) = Some r" | "\<not> (dest = ifip \<or> dest = gw \<or> busy dest)"
    by (auto split: if_splits)
  then show "\<exists>x. \<not> (x = ifip \<or> x = gw \<or> busy x)" using IH top by cases blast+
qed

lemma arp_scan_first:
  assumes "final < - 1" and "dest \<noteq> 0" and "arp_scan busy ifip gw final dest = Some r"
  shows "(r \<noteq> 0 \<longrightarrow> dest \<le> r \<and> r \<le> final \<and> r \<noteq> ifip \<and> r \<noteq> gw \<and> \<not> busy r) \<and>
    (\<forall>x. dest \<le> x \<longrightarrow> x \<le> final \<longrightarrow> (r \<noteq> 0 \<longrightarrow> x < r) \<longrightarrow> x = ifip \<or> x = gw \<or> busy x)"
  using assms(2,3)
proof (induction "unat (final + 1 - dest)" arbitrary: dest rule: less_induct)
  case less
  show ?case
  proof (cases "dest \<le> final")
    case False
    with less.prems show ?thesis by (subst (asm) arp_scan.simps) auto
  next
    case True
    have dec: "unat (final + 1 - (dest + 1)) < unat (final + 1 - dest)"
      using True assms(1) by unat_arith
    have le: "dest \<le> dest + 1" and pos: "dest + 1 \<noteq> 0"
      using True assms(1) by unat_arith+
    have succ: "x = dest \<or> dest + 1 \<le> x" if "dest \<le> x" for x
      using that True assms(1) by unat_arith
    show ?thesis
    proof (cases "dest = ifip \<or> dest = gw \<or> busy dest")
      case False
      with True less.prems show ?thesis by (subst (asm) arp_scan.simps) auto
    next
      case skip: True
      with True less.prems have "arp_scan busy ifip gw final (dest + 1) = Some r"
        by (subst (asm) arp_scan.simps) (auto split: if_splits)
      note IH = less.hyps [OF dec pos this]
      have "dest \<le> r \<and> r \<le> final \<and> r \<noteq> ifip \<and> r \<noteq> gw \<and> \<not> busy r" if "r \<noteq> 0"
        using IH that le order_trans [OF le] by simp
      moreover have "x = ifip \<or> x = gw \<or> busy x"
        if "dest \<le> x" and "x \<le> final" and "r \<noteq> 0 \<longrightarrow> x < r" for x
        using succ [OF that(1)] IH that(2,3) skip by auto
      ultimately show ?thesis by simp
    qed
  qed
qed

section \<open>Addresses of a configured bridge\<close>

text \<open>
  What the configuration guarantees: a prefix mask with at least two host addresses,
  and range limits inside the network.
\<close>

definition bridge_ok :: "nat \<Rightarrow> Bridge \<Rightarrow> bool" where
  "bridge_ok k br \<longleftrightarrow>
     2 \<le> k \<and> k < 32 \<and> br_mask br = net_mask k \<and> br_ip br \<noteq> 0 \<and>
     (br_iprange_start br \<noteq> 0 \<longrightarrow> in_netrange (br_iprange_start br) (br_ip br) (br_mask br) = None) \<and>
     (br_iprange_end br \<noteq> 0 \<longrightarrow> in_netrange (br_iprange_end br) (br_ip br) (br_mask br) = None) \<and>
     (br_iprange_start br = 0 \<and> br_iprange_end br = 0 \<or>
      br_iprange_start br \<noteq> 0 \<and> br_iprange_start br < br_iprange_end br)"

definition usable :: "(u32 \<Rightarrow> bool) \<Rightarrow> u32 \<Rightarrow> Bridge \<Rightarrow> u32 \<Rightarrow> bool" where
  "usable busy gw br ip \<longleftrightarrow>
     in_netrange ip (br_ip br) (br_mask br) = None \<and> ip \<noteq> br_ip br \<and> ip \<noteq> gw \<and> \<not> busy ip"

text \<open>The addresses the options allow.\<close>

definition candidate :: "Bridge \<Rightarrow> u32 \<Rightarrow> bool" where
  "candidate br x \<longleftrightarrow>
     in_netrange x (br_ip br) (br_mask br) = None \<and> br_iprange_start br \<le> x \<and>
     (br_iprange_end br = 0 \<or> x \<le> br_iprange_end br)"

lemma host_range_mask: "k < 32 \<Longrightarrow> host_range (net_mask k) = 2 ^ k"
  by (simp add: host_range_def mask_eq_exp_minus_1)

lemma pow_k: "k < 32 \<Longrightarrow> unat (2 ^ k :: u32) = 2 ^ k"
proof -
  assume k: "k < 32"
  have "(2 ^ k :: nat) < 2 ^ 32" using k by (rule power_strict_increasing) simp
  then have "unat (word_of_nat (2 ^ k) :: u32) = 2 ^ k"
    by (simp only: unsigned_of_nat) (simp add: take_bit_nat_eq_self k)
  then show ?thesis by simp
qed

lemma net_base_top: "k < 32 \<Longrightarrow> net_base k ip + 2 ^ k \<le> 2 ^ 32"
proof -
  assume k: "k < 32"
  have "unat ip < 2 ^ 32" using unsigned_less [of ip, where 'a = nat] by simp
  then have "unat ip div 2 ^ k < 2 ^ (32 - k)"
    using k by (simp add: less_mult_imp_div_less flip: power_add)
  then have "(unat ip div 2 ^ k + 1) * 2 ^ k \<le> 2 ^ (32 - k) * 2 ^ k"
    by (intro mult_right_mono) simp_all
  with k show ?thesis by (simp add: net_base_def algebra_simps flip: power_add)
qed

lemma netrange_convex:
  assumes "k \<le> 32" and "in_netrange a ip (net_mask k) = None" and "in_netrange b ip (net_mask k) = None"
    and "a \<le> x" and "x \<le> b"
  shows "in_netrange x ip (net_mask k) = None"
  using assms by (auto simp: in_netrange_iff word_le_nat_alt)

text \<open>The first and the last host address.\<close>

lemma first_host:
  assumes "2 \<le> k" and "k < 32"
  shows "in_netrange ((ip AND net_mask k) + 1) ip (net_mask k) = None"
    and "unat ((ip AND net_mask k) + 1) = net_base k ip + 1"
proof -
  have four: "(4 :: nat) \<le> 2 ^ k" using power_increasing [OF assms(1), of "2 :: nat"] by simp
  have "net_base k ip + 1 < 2 ^ 32" using net_base_top [OF assms(2), of ip] four by linarith
  then show first: "unat ((ip AND net_mask k) + 1) = net_base k ip + 1"
    by (simp add: unat_word_ariths and_net_mask)
  show "in_netrange ((ip AND net_mask k) + 1) ip (net_mask k) = None"
    using assms four by (simp add: in_netrange_iff first)
qed

lemma last_host:
  assumes "2 \<le> k" and "k < 32" and "unat dest = net_base k ip + 1"
  shows "unat (dest + (2 ^ k - 2) - 1) = net_base k ip + (2 ^ k - 2)"
    and "in_netrange (dest + (2 ^ k - 2) - 1) ip (net_mask k) = None"
proof -
  have four: "(4 :: nat) \<le> 2 ^ k" using power_increasing [OF assms(1), of "2 :: nat"] by simp
  have "unat (2 ^ k - 2 :: u32) = 2 ^ k - 2"
    using four by (subst unat_sub) (simp_all add: word_le_nat_alt pow_k assms(2))
  moreover have "net_base k ip + 2 ^ k \<le> 2 ^ 32" by (rule net_base_top [OF assms(2)])
  ultimately have sum: "unat (dest + (2 ^ k - 2)) = net_base k ip + (2 ^ k - 1)"
    using four assms(3) by (subst unat_add_lem [THEN iffD1]) simp_all
  then show l: "unat (dest + (2 ^ k - 2) - 1) = net_base k ip + (2 ^ k - 2)"
    using four by (subst unat_sub) (simp_all add: word_le_nat_alt)
  show "in_netrange (dest + (2 ^ k - 2) - 1) ip (net_mask k) = None"
    unfolding in_netrange_iff [OF less_imp_le [OF assms(2)]] l using four by linarith
qed

lemma arp_tries_result:
  "arp_tries rnd ifip gw start rng i n = (Some dest, n') \<Longrightarrow>
     dest \<noteq> ifip \<and> dest \<noteq> gw \<and> (\<exists>m. dest = start + rnd m mod rng)"
  by (induction rnd ifip gw start rng i n rule: arp_tries.induct) (auto simp: Let_def split: if_splits)

text \<open>An offset below \<open>rng\<close> does not leave the interval of \<open>rng\<close> addresses from \<open>start\<close>.\<close>

lemma offset_in_range:
  fixes start :: u32
  assumes "unat start + unat rng \<le> 2 ^ 32" and "rng \<noteq> 0"
  shows "start \<le> start + r mod rng" and "unat (start + r mod rng) < unat start + unat rng"
proof -
  have "unat (r mod rng) < unat rng"
    using assms(2) by (simp add: unat_mod word_neq_0_conv [symmetric] unat_gt_0)
  then have "unat (start + r mod rng) = unat start + unat (r mod rng)"
    using assms(1) by (subst unat_add_lem [THEN iffD1]) simp_all
  with \<open>unat (r mod rng) < unat rng\<close> show "start \<le> start + r mod rng"
    and "unat (start + r mod rng) < unat start + unat rng"
    by (simp_all add: word_le_nat_alt)
qed

lemma four_le: "2 \<le> k \<Longrightarrow> (4 :: nat) \<le> 2 ^ k"
  using power_increasing [of 2 k "2 :: nat"] by simp

lemma iprange_inside:
  assumes "k < 32" and "s < e" and "in_netrange s ip (net_mask k) = None" and "in_netrange e ip (net_mask k) = None"
  shows "e - s \<noteq> 0" and "in_netrange (s + r mod (e - s)) ip (net_mask k) = None"
    and "s \<le> s + r mod (e - s) \<and> s + r mod (e - s) \<le> e"
proof -
  have d: "unat (e - s) = unat e - unat s" using assms(2) by (subst unat_sub) auto
  have lt: "unat s < unat e" using assms(2) by (simp add: word_less_nat_alt)
  show nz: "e - s \<noteq> 0" using assms(2) by auto
  have "unat s + unat (e - s) \<le> 2 ^ 32"
    using d lt unsigned_less [of e, where 'a = nat] by simp
  note off = offset_in_range [OF this nz, of r]
  have le: "s + r mod (e - s) \<le> e" using off(2) d lt unfolding word_le_nat_alt by linarith
  from netrange_convex [OF _ assms(3,4) off(1) this] assms(1)
  show "in_netrange (s + r mod (e - s)) ip (net_mask k) = None" by simp
  show "s \<le> s + r mod (e - s) \<and> s + r mod (e - s) \<le> e" using off(1) le by simp
qed

lemma hosts_inside:
  assumes "2 \<le> k" and "k < 32"
  shows "(2 ^ k - 2 :: u32) \<noteq> 0"
    and "in_netrange ((ip AND net_mask k) + 1 + r mod (2 ^ k - 2)) ip (net_mask k) = None"
proof -
  note four = four_le [OF assms(1)]
  have rng: "unat (2 ^ k - 2 :: u32) = 2 ^ k - 2"
    using four by (subst unat_sub) (simp_all add: word_le_nat_alt pow_k assms(2))
  then have pos: "0 < unat (2 ^ k - 2 :: u32)" using four by linarith
  then show nz: "(2 ^ k - 2 :: u32) \<noteq> 0" by (simp only: unat_gt_0 not_False_eq_True)
  let ?s = "(ip AND net_mask k) + 1"
  note s = first_host(2) [OF assms, of ip]
  have "unat ?s + unat (2 ^ k - 2 :: u32) \<le> 2 ^ 32"
    unfolding s rng using net_base_top [OF assms(2), of ip] four by linarith
  note off = offset_in_range [OF this nz, of r]
  show "in_netrange (?s + r mod (2 ^ k - 2)) ip (net_mask k) = None"
    unfolding in_netrange_iff [OF less_imp_le [OF assms(2)]]
    using off four unfolding s rng word_le_nat_alt by linarith
qed

lemma arp_random_usable:
  assumes "bridge_ok k br"
  shows "\<exists>ip n'. arp_random busy rnd gw br n = Inr (ip, n') \<and> (ip \<noteq> 0 \<longrightarrow> candidate br ip \<and> usable busy gw br ip)"
proof -
  note ok = assms [unfolded bridge_ok_def]
  have k: "2 \<le> k" "k < 32" and msk: "br_mask br = net_mask k" using ok by simp_all
  define both where "both = (br_iprange_start br \<noteq> 0 \<and> br_iprange_end br \<noteq> 0)"
  define start where "start = (if both then br_iprange_start br else (br_ip br AND net_mask k) + 1)"
  define rng where "rng = (if both then br_iprange_end br - br_iprange_start br else 2 ^ k - 2)"
  have inside: "rng \<noteq> 0 \<and> candidate br (start + r mod rng)" for r
  proof (cases both)
    case True
    with ok have "br_iprange_start br < br_iprange_end br"
        "in_netrange (br_iprange_start br) (br_ip br) (net_mask k) = None"
        "in_netrange (br_iprange_end br) (br_ip br) (net_mask k) = None"
      by (auto simp: both_def)
    from iprange_inside [OF k(2) this] True show ?thesis by (simp add: start_def rng_def candidate_def msk)
  next
    case False
    then have "br_iprange_start br = 0" "br_iprange_end br = 0" using ok by (auto simp: both_def)
    with False show ?thesis using hosts_inside [OF k] by (simp add: start_def rng_def candidate_def msk)
  qed
  obtain c n' where tries: "arp_tries rnd (br_ip br) gw start rng 10 n = (c, n')" by fastforce
  have big: "\<not> (2 ^ k :: u32) < 4"
    using four_le [OF k(1)] by (simp add: word_less_nat_alt pow_k k(2))
  have "bit (net_mask k) 31" using k(2) by (simp add: bit_simps)
  then have nz: "net_mask k \<noteq> 0" by auto
  have "arp_random busy rnd gw br n =
      (case c of None \<Rightarrow> Inr (0, n') | Some dest \<Rightarrow> Inr (if busy dest then 0 else dest, n'))"
    using ok big inside tries nz
    unfolding arp_random_def Let_def msk host_range_mask [OF k(2)] both_def [symmetric]
      start_def [symmetric] rng_def [symmetric]
    by (simp split: option.split)
  then show ?thesis
    using arp_tries_result [of rnd "br_ip br" gw start rng 10 n _ n'] tries inside
    by (cases c) (auto simp: usable_def candidate_def)
qed

lemma scan_bounds:
  assumes "bridge_ok k br"
    and "dest = (if br_iprange_start br \<noteq> 0 then br_iprange_start br else (br_ip br AND br_mask br) + 1)"
    and "final = (if br_iprange_end br \<noteq> 0 then br_iprange_end br else dest + (host_range (br_mask br) - 2) - 1)"
  shows "in_netrange dest (br_ip br) (net_mask k) = None" and "in_netrange final (br_ip br) (net_mask k) = None"
    and "candidate br x \<Longrightarrow> dest \<le> x \<and> x \<le> final"
proof -
  note ok = assms(1) [unfolded bridge_ok_def]
  have k: "2 \<le> k" "k < 32" and msk: "br_mask br = net_mask k" using ok by simp_all
  note host = first_host [OF k, of "br_ip br"]
  show "in_netrange dest (br_ip br) (net_mask k) = None"
    using ok host(1) by (simp add: assms(2) msk)
  have start: "br_iprange_start br = 0" if "br_iprange_end br = 0" using ok that by auto
  have top: "unat final = net_base k (br_ip br) + (2 ^ k - 2) \<and> in_netrange final (br_ip br) (net_mask k) = None"
    if "br_iprange_end br = 0"
    using last_host [OF k host(2)] start [OF that] that
    by (simp add: assms(2,3) msk host_range_mask [OF k(2)])
  then show "in_netrange final (br_ip br) (net_mask k) = None"
    using ok by (cases "br_iprange_end br = 0") (simp_all add: assms(3) msk)
  assume x: "candidate br x"
  then have rng: "net_base k (br_ip br) < unat x" "unat x < net_base k (br_ip br) + (2 ^ k - 1)"
    using k(2) by (simp_all add: candidate_def msk in_netrange_iff)
  have "dest \<le> x"
    using x host(2) rng(1) by (cases "br_iprange_start br = 0") (simp_all add: assms(2) msk candidate_def word_le_nat_alt)
  moreover have "x \<le> final"
  proof (cases "br_iprange_end br = 0")
    case True
    from top [OF True] rng(2) show ?thesis unfolding word_le_nat_alt by linarith
  next
    case False
    with x show ?thesis by (simp add: assms(3) candidate_def)
  qed
  ultimately show "dest \<le> x \<and> x \<le> final" by simp
qed

lemma arp_sequential_usable:
  assumes "bridge_ok k br"
  shows "\<exists>r. arp_sequential busy gw br = Some (Inr r) \<and> (r \<noteq> 0 \<longrightarrow> candidate br r \<and> usable busy gw br r) \<and>
    (r = 0 \<longrightarrow> (\<forall>x. candidate br x \<longrightarrow> \<not> usable busy gw br x))"
proof -
  note ok = assms [unfolded bridge_ok_def]
  have k: "2 \<le> k" "k < 32" and msk: "br_mask br = net_mask k" using ok by simp_all
  define dest where "dest = (if br_iprange_start br \<noteq> 0 then br_iprange_start br else (br_ip br AND br_mask br) + 1)"
  define final where "final = (if br_iprange_end br \<noteq> 0 then br_iprange_end br
    else dest + (host_range (br_mask br) - 2) - 1)"
  note bounds = scan_bounds [OF assms dest_def final_def]
  have "unat final < 2 ^ 32 - 1"
    using bounds(2) net_base_top [OF k(2), of "br_ip br"] k(2) unfolding in_netrange_iff [OF less_imp_le [OF k(2)]]
    by linarith
  then have final: "final < - 1" by (simp add: word_less_nat_alt unsigned_minus_1_eq_mask mask_eq_exp_minus_1)
  have dest: "dest \<noteq> 0"
    using bounds(1) unfolding in_netrange_iff [OF less_imp_le [OF k(2)]] by auto
  obtain r where r: "arp_scan busy (br_ip br) gw final dest = Some r"
    using arp_scan_returns [OF final] by blast
  note first = arp_scan_first [OF final dest r]
  have "usable busy gw br r" if "r \<noteq> 0"
    using first that netrange_convex [OF _ bounds(1,2), of r] k(2) by (simp add: usable_def msk)
  moreover have "candidate br r" if "r \<noteq> 0"
    using ok
  proof (cases "br_iprange_start br = 0")
    case True
    then show ?thesis using first that netrange_convex [OF _ bounds(1,2), of r] k(2) ok by (simp add: candidate_def msk)
  next
    case False
    with ok have "br_iprange_end br \<noteq> 0" by auto
    with False show ?thesis using first that netrange_convex [OF _ bounds(1,2), of r] k(2)
      by (simp add: candidate_def msk dest_def final_def)
  qed
  moreover have "\<not> usable busy gw br x" if "r = 0" and "candidate br x" for x
    using first bounds(3) [OF that(2)] that(1) by (auto simp: usable_def)
  moreover have "arp_sequential busy gw br = Some (Inr r)"
  proof -
    have "bit (net_mask k) 31" using k(2) by (simp add: bit_simps)
    then have "br_mask br \<noteq> 0" by (auto simp: msk)
    moreover have "\<not> host_range (br_mask br) < 4"
      using four_le [OF k(1)] by (simp add: msk host_range_mask [OF k(2)] word_less_nat_alt pow_k k(2))
    ultimately show ?thesis
      using ok r unfolding arp_sequential_def Let_def dest_def [symmetric] final_def [symmetric] by simp
  qed
  ultimately show ?thesis by blast
qed

lemma arp_assign_usable:
  assumes "bridge_ok k br"
  shows "\<exists>r. arp_assign busy rnd gw br = Some r \<and>
    (case r of Inl e \<Rightarrow> e = AllInUse \<and> (\<forall>x. candidate br x \<longrightarrow> \<not> usable busy gw br x)
     | Inr ip \<Rightarrow> ip \<noteq> 0 \<and> candidate br ip \<and> usable busy gw br ip)"
proof -
  obtain ip1 n1 where 1: "arp_random busy rnd gw br 0 = Inr (ip1, n1)" "ip1 \<noteq> 0 \<longrightarrow> candidate br ip1 \<and> usable busy gw br ip1"
    using arp_random_usable [OF assms] by blast
  obtain ip2 n2 where 2: "arp_random busy rnd gw br n1 = Inr (ip2, n2)" "ip2 \<noteq> 0 \<longrightarrow> candidate br ip2 \<and> usable busy gw br ip2"
    using arp_random_usable [OF assms] by blast
  obtain ip3 where 3: "arp_sequential busy gw br = Some (Inr ip3)" "ip3 \<noteq> 0 \<longrightarrow> candidate br ip3 \<and> usable busy gw br ip3"
      "ip3 = 0 \<longrightarrow> (\<forall>x. candidate br x \<longrightarrow> \<not> usable busy gw br x)"
    using arp_sequential_usable [OF assms] by blast
  show ?thesis using 1 2 3 by (auto simp: arp_assign_def)
qed

section \<open>Properties\<close>

lemma configured_bridge_ok:
  assumes "net_configure_bridge E gw br0 = Inr br" and "\<not> br_arg_ip_none br"
    and "br_mask br = net_mask k" and "k \<le> 32" and "br_ip br \<noteq> 0"
    and "br_iprange_start br = 0 \<and> br_iprange_end br = 0 \<or>
      br_iprange_start br \<noteq> 0 \<and> br_iprange_start br < br_iprange_end br"
  shows "bridge_ok k br"
proof -
  have "br_mask br \<noteq> 0" "\<not> NOT (br_mask br) + 1 < 4"
      "br_iprange_start br \<noteq> 0 \<longrightarrow> in_netrange (br_iprange_start br) (br_ip br) (br_mask br) = None"
      "br_iprange_end br \<noteq> 0 \<longrightarrow> in_netrange (br_iprange_end br) (br_ip br) (br_mask br) = None"
    using assms(1,2)
    by (auto simp: net_configure_bridge_def bind_res_Inr Let_def split: if_splits)
  moreover from this(1) have "k < 32"
    using assms(3,4) by (cases "k = 32") (auto simp: mask_eq_exp_minus_1)
  moreover from this calculation(2) have "2 \<le> k"
    using assms(3) host_range_mask [of k] pow_k [of k]
    by (cases k; cases "k - 1") (auto simp: host_range_def word_less_nat_alt)
  ultimately show ?thesis using assms by (simp add: bridge_ok_def)
qed

text \<open>C27. The sequential scan fails to end in one case only: its last address is 255.255.255.255, so that the
  unsigned counter never exceeds it, and no 32-bit address at all is left to take.\<close>

theorem arp_scan_ends:
  "arp_scan busy ifip gw final dest = None \<longleftrightarrow> final = - 1 \<and> (\<forall>x. x = ifip \<or> x = gw \<or> busy x)"
proof (cases "final = - 1")
  case True
  then show ?thesis
    using arp_scan_loops [of busy ifip gw final dest] arp_scan_wraps [of _ ifip gw busy dest]
    by (cases "arp_scan busy ifip gw final dest") auto
next
  case False
  then have "final < - 1" by (simp add: word_order.not_eq_extremum)
  then show ?thesis using arp_scan_returns [of final busy ifip gw dest] False by auto
qed

text \<open>A configured bridge of the checked configuration went through \<^verbatim>\<open>net_configure_bridge\<close> with the gateway of the options.\<close>

lemma checked_bridge:
  assumes "net_check_cfg E ifs nonetwork gw0 brs0 = Inr (brs, gw)" and "br \<in> set brs" and "br_configured br"
  shows "\<exists>br0 \<in> set brs0. net_configure_bridge E gw0 br0 = Inr br"
proof -
  let ?f = "\<lambda>b. if br_configured b then bind_res (net_configure_bridge E gw0 b) (\<lambda>b'. Inr [b']) else Inr [b]"
  have brs: "collect ?f brs0 = Inr brs"
    using assms(1) by (auto simp: net_check_cfg_def configure_bridges_def bind_res_Inr Let_def split: if_splits)
  from collect_InrD [OF this] assms(2) obtain b where b: "b \<in> set brs0" "br \<in> set (projr (?f b))" "?f b = Inr (projr (?f b))"
    by auto
  then obtain l where "?f b = Inr l" "br \<in> set l" by metis
  with assms(3) have "net_configure_bridge E gw0 b = Inr br" by (auto simp: bind_res_Inr split: if_splits)
  with b(1) show ?thesis ..
qed

text \<open>C17. After the network configuration was checked, with the gateway of the options or the one chosen then,
  every bridge that is to get an address from the search gets one if there is one: the search always ends, either with an address
  of the network and of the range of \<^verbatim>\<open>--iprange\<close> that is free, is not the network or broadcast address, not the
  interface and not the gateway, or with the error message, and then no such address exists. The network mask is a
  prefix mask, the interface address is not zero, and a range is given by two ascending addresses other than zero.\<close>

theorem sandbox_ip_assigned:
  assumes "net_check_cfg E ifs nonetwork gw0 brs0 = Inr (brs, gw)" and "br \<in> set brs" and "br_configured br"
    and "\<not> br_arg_ip_none br" and "br_ipsandbox br = 0" and "br_mask br = net_mask k" and "k \<le> 32" and "br_ip br \<noteq> 0"
    and "br_iprange_start br = 0 \<and> br_iprange_end br = 0 \<or>
      br_iprange_start br \<noteq> 0 \<and> br_iprange_start br < br_iprange_end br"
  shows "\<exists>r. net_configure_sandbox_ip busy rnd gw br = Some r \<and>
    (case r of Inl e \<Rightarrow> e = AllInUse \<and> (\<forall>x. candidate br x \<longrightarrow> \<not> usable busy gw br x)
     | Inr br' \<Rightarrow> br_ipsandbox br' \<noteq> 0 \<and> candidate br (br_ipsandbox br') \<and> usable busy gw br (br_ipsandbox br') \<and>
         br' = br\<lparr>br_ipsandbox := br_ipsandbox br'\<rparr>)"
proof -
  obtain br0 where "net_configure_bridge E gw0 br0 = Inr br" using checked_bridge [OF assms(1-3)] by blast
  from configured_bridge_ok [OF this assms(4,6-9)] obtain r where "arp_assign busy rnd gw br = Some r"
    "case r of Inl e \<Rightarrow> e = AllInUse \<and> (\<forall>x. candidate br x \<longrightarrow> \<not> usable busy gw br x)
     | Inr ip \<Rightarrow> ip \<noteq> 0 \<and> candidate br ip \<and> usable busy gw br ip"
    using arp_assign_usable by blast
  then show ?thesis
    using assms(3-5) by (cases r) (auto simp: net_configure_sandbox_ip_def)
qed

definition example_bridge :: Bridge where
  "example_bridge = \<lparr>br_dev = ''br0'', br_ip = 0, br_mask = 0, br_mtu = 0, br_devsandbox = ''eth0'', br_ipsandbox = 0,
     br_iprange_start = 0, br_iprange_end = 0, br_arg_ip_none = False, br_macvlan = False, br_configured = True,
     br_veth_name = None, br_masksandbox = 0, br_ip6sandbox = None, br_macsandbox = replicate 6 0, br_arg_ip6_dhcp = False\<rparr>"

definition example_env :: net_env where
  "example_env = \<lparr>is_bridge = (\<lambda>d. d = ''br0''), if_exists = (\<lambda>d. True),
     if_addr = (\<lambda>d. Some (0x0A0A1401, 0xFFFFFF00, Some 1500)), host_gw = 0, own_pid = 7\<rparr>"

theorem sandbox_ip_assigned_witness:
  "let br = example_bridge\<lparr>br_ip := 0x0A0A1401, br_mask := 0xFFFFFF00, br_mtu := 1500,
         br_iprange_start := 0x0A0A1405, br_iprange_end := 0x0A0A1420\<rparr>
   in net_check_cfg example_env 0 False 0 [example_bridge\<lparr>br_iprange_start := 0x0A0A1405, br_iprange_end := 0x0A0A1420\<rparr>] =
        Inr ([br], 0x0A0A1401) \<and>
      (\<exists>r. net_configure_sandbox_ip (\<lambda>ip. ip < 0x0A0A1410) (\<lambda>n. 0) 0x0A0A1401 br = Some r \<and>
        (case r of Inl e \<Rightarrow> e = AllInUse \<and>
           (\<forall>x. candidate br x \<longrightarrow> \<not> usable (\<lambda>ip. ip < 0x0A0A1410) 0x0A0A1401 br x)
         | Inr br' \<Rightarrow> br_ipsandbox br' \<noteq> 0 \<and> candidate br (br_ipsandbox br') \<and>
             usable (\<lambda>ip. ip < 0x0A0A1410) 0x0A0A1401 br (br_ipsandbox br') \<and>
             br' = br\<lparr>br_ipsandbox := br_ipsandbox br'\<rparr>))"
proof -
  let ?opts = "example_bridge\<lparr>br_iprange_start := 0x0A0A1405, br_iprange_end := 0x0A0A1420\<rparr>"
  let ?br = "example_bridge\<lparr>br_ip := 0x0A0A1401, br_mask := 0xFFFFFF00, br_mtu := 1500,
         br_iprange_start := 0x0A0A1405, br_iprange_end := 0x0A0A1420\<rparr>"
  have conf: "net_check_cfg example_env 0 False 0 [?opts] = Inr ([?br], 0x0A0A1401)"
    by (simp add: net_check_cfg_def configure_bridges_def net_configure_bridge_def example_env_def example_bridge_def
        read_interface_def in_netrange_def Let_def)
  show ?thesis
    unfolding Let_def
    by (rule conjI [OF conf], rule sandbox_ip_assigned [OF conf, where k = 8])
       (simp_all add: example_bridge_def mask_eq_exp_minus_1)
qed

end
