(* ===== verification/Radix.thy ===== *)
theory Radix imports Network begin

text \<open>
  fnettrace/radix.c: the tree that maps IPv4 prefixes to names. A node owns its
  children, so the tree is a value; the static \<^verbatim>\<open>head\<close> and \<^verbatim>\<open>radix_nodes\<close> are the record
  \<open>radix\<close>. The specification of a tree is the name it holds at each path of bits.
\<close>

section \<open>The tree\<close>

datatype RNode = RNode (rn_zero: "RNode option") (rn_one: "RNode option") (rn_name: "string option") (rn_pkts: u32)

record radix =
  radix_head :: "RNode option"
  radix_nodes :: int

definition empty_node :: RNode where
  "empty_node = RNode None None None 0"

text \<open>The child a node gets: an existing one is kept, a new one carries the name.\<close>

definition addOne :: "RNode \<Rightarrow> string option \<Rightarrow> RNode" where
  "addOne ptr name = (case rn_one ptr of Some c \<Rightarrow> c | None \<Rightarrow> RNode None None name 0)"

definition addZero :: "RNode \<Rightarrow> string option \<Rightarrow> RNode" where
  "addZero ptr name = (case rn_zero ptr of Some c \<Rightarrow> c | None \<Rightarrow> RNode None None name 0)"

definition set_one :: "RNode \<Rightarrow> RNode \<Rightarrow> RNode" where
  "set_one ptr c = RNode (rn_zero ptr) (Some c) (rn_name ptr) (rn_pkts ptr)"

definition set_zero :: "RNode \<Rightarrow> RNode \<Rightarrow> RNode" where
  "set_zero ptr c = RNode (Some c) (rn_one ptr) (rn_name ptr) (rn_pkts ptr)"

definition set_name :: "RNode \<Rightarrow> string option \<Rightarrow> RNode" where
  "set_name ptr name =
     (if name \<noteq> None \<and> rn_name ptr = None
      then RNode (rn_zero ptr) (rn_one ptr) name (rn_pkts ptr) else ptr)"

fun radix_add_loop ::
    "nat \<Rightarrow> u32 \<Rightarrow> u32 \<Rightarrow> u32 \<Rightarrow> u32 \<Rightarrow> string option \<Rightarrow> RNode \<Rightarrow> RNode" where
  "radix_add_loop 0 m lastm ip msk name ptr = set_name ptr name"
| "radix_add_loop (Suc i) m lastm ip msk name ptr =
     (if m AND msk = 0 then set_name ptr name
      else
        let lastm' = lastm OR m;
            nm = (if lastm' = msk then name else None)
        in if m AND ip \<noteq> 0
           then set_one ptr (radix_add_loop i (drop_bit 1 m) lastm' ip msk name (addOne ptr nm))
           else set_zero ptr (radix_add_loop i (drop_bit 1 m) lastm' ip msk name (addZero ptr nm)))"

text \<open>The path of the node the loop ends at, True for the child \<^verbatim>\<open>one\<close>; it stands for the returned pointer.\<close>

primrec radix_add_path :: "nat \<Rightarrow> u32 \<Rightarrow> u32 \<Rightarrow> u32 \<Rightarrow> bool list" where
  "radix_add_path 0 m ip msk = []"
| "radix_add_path (Suc i) m ip msk =
     (if m AND msk = 0 then [] else (m AND ip \<noteq> 0) # radix_add_path i (drop_bit 1 m) ip msk)"

definition radix_add :: "u32 \<Rightarrow> u32 \<Rightarrow> string option \<Rightarrow> radix \<Rightarrow> radix \<times> bool list" where
  "radix_add ip msk name R =
     (let head = (case radix_head R of None \<Rightarrow> empty_node | Some h \<Rightarrow> h)
      in (\<lparr>radix_head = Some (radix_add_loop 32 0x80000000 0 ip msk name head),
           radix_nodes = radix_nodes R + 1\<rparr>, radix_add_path 32 0x80000000 ip msk))"

fun radix_match_loop :: "nat \<Rightarrow> u32 \<Rightarrow> u32 \<Rightarrow> RNode \<Rightarrow> RNode option \<Rightarrow> RNode option" where
  "radix_match_loop 0 m ip ptr rv = rv"
| "radix_match_loop (Suc i) m ip ptr rv =
     (case (if m AND ip \<noteq> 0 then rn_one ptr else rn_zero ptr) of
        None \<Rightarrow> rv
      | Some c \<Rightarrow> radix_match_loop i (drop_bit 1 m) ip c (if rn_name c \<noteq> None then Some c else rv))"

definition radix_longest_prefix_match :: "u32 \<Rightarrow> radix \<Rightarrow> RNode option" where
  "radix_longest_prefix_match ip R =
     (case radix_head R of None \<Rightarrow> None | Some h \<Rightarrow> radix_match_loop 32 0x80000000 ip h None)"

section \<open>Squashing and clearing\<close>

definition is_leaf :: "RNode \<Rightarrow> bool" where
  "is_leaf n \<longleftrightarrow> rn_zero n = None \<and> rn_one n = None"

text \<open>The new subtree and the number of merged pairs.\<close>

fun squash :: "RNode \<Rightarrow> RNode \<times> int" where
  "squash (RNode z e nm pk) =
     (case (z, e) of
        (Some zc, Some oc) \<Rightarrow>
          if nm = None \<and> rn_name zc \<noteq> None \<and> rn_name zc = rn_name oc \<and> is_leaf zc \<and> is_leaf oc
          then (RNode None None (rn_name oc) pk, 1)
          else let (zc', a) = squash zc; (oc', b) = squash oc in (RNode (Some zc') (Some oc') nm pk, a + b)
      | (Some zc, None) \<Rightarrow> let (zc', a) = squash zc in (RNode (Some zc') None nm pk, a)
      | (None, Some oc) \<Rightarrow> let (oc', b) = squash oc in (RNode None (Some oc') nm pk, b)
      | (None, None) \<Rightarrow> (RNode None None nm pk, 0))"

declare squash.simps [simp del]

definition squash_opt :: "RNode option \<Rightarrow> RNode option \<times> int" where
  "squash_opt t = (case t of None \<Rightarrow> (None, 0) | Some n \<Rightarrow> let (n', k) = squash n in (Some n', k))"

text \<open>The head itself is not squashed.\<close>

definition radix_squash :: "radix \<Rightarrow> radix" where
  "radix_squash R =
     (case radix_head R of
        None \<Rightarrow> R
      | Some h \<Rightarrow>
          let (z, a) = squash_opt (rn_zero h); (e, b) = squash_opt (rn_one h)
          in \<lparr>radix_head = Some (RNode z e (rn_name h) (rn_pkts h)), radix_nodes = radix_nodes R - a - b\<rparr>)"

primrec clear_data :: "RNode \<Rightarrow> RNode" where
  "clear_data (RNode z e nm pk) = RNode (map_option clear_data z) (map_option clear_data e) nm 0"

definition radix_clear_data :: "radix \<Rightarrow> radix" where
  "radix_clear_data R =
     (case radix_head R of
        None \<Rightarrow> R
      | Some h \<Rightarrow> R\<lparr>radix_head := Some (RNode (map_option clear_data (rn_zero h)) (map_option clear_data (rn_one h))
          (rn_name h) (rn_pkts h))\<rparr>)"

section \<open>Names by path\<close>

definition child :: "bool \<Rightarrow> RNode \<Rightarrow> RNode option" where
  "child b t = (if b then rn_one t else rn_zero t)"

fun name_at :: "RNode \<Rightarrow> bool list \<Rightarrow> string option" where
  "name_at t [] = rn_name t"
| "name_at t (b # bs) = (case child b t of None \<Rightarrow> None | Some c \<Rightarrow> name_at c bs)"

text \<open>The bits of an address from bit \<open>n - 1\<close> down to bit \<open>k\<close>.\<close>

definition bits :: "u32 \<Rightarrow> nat \<Rightarrow> nat \<Rightarrow> bool list" where
  "bits ip n k = map (bit ip) (rev [k ..< n])"

text \<open>The mask of round \<open>32 - n\<close> of the loops.\<close>

definition round_mask :: "nat \<Rightarrow> u32" where
  "round_mask n = (case n of 0 \<Rightarrow> 0 | Suc i \<Rightarrow> 2 ^ i)"

lemma bits_simps:
  "bits ip n n = []" "k \<le> n \<Longrightarrow> bits ip (Suc n) k = bit ip n # bits ip n k"
  by (simp_all add: bits_def)

lemma round_mask_step: "n < 32 \<Longrightarrow> drop_bit 1 (round_mask (Suc n)) = round_mask n"
proof (cases n)
  case (Suc i)
  assume "n < 32"
  then have "drop_bit 1 (2 ^ Suc i :: u32) = 2 ^ i"
    using Suc by (intro bit_word_eqI) (auto simp: bit_simps)
  then show ?thesis by (simp add: round_mask_def Suc)
qed (simp add: round_mask_def)

lemma round_mask_bit: "round_mask (Suc n) AND w \<noteq> 0 \<longleftrightarrow> bit w n" for w :: u32
  by (simp add: round_mask_def and_exp_eq_0_iff_not_bit and.commute)

lemma round_mask_top: "0x80000000 = round_mask 32"
  using round_mask_def [of "Suc 31"] by simp

lemma net_mask_step: "n < 32 \<Longrightarrow> net_mask (Suc n) OR round_mask (Suc n) = net_mask n"
  by (rule bit_word_eqI) (auto simp: round_mask_def bit_simps)

lemma net_mask_inj: "n \<le> 32 \<Longrightarrow> k \<le> 32 \<Longrightarrow> net_mask n = net_mask k \<longleftrightarrow> n = k"
proof
  assume le: "n \<le> 32" "k \<le> 32" and masks: "net_mask n = net_mask k"
  have eq: "(n \<le> i) = (k \<le> i)" if "i < 32" for i
    using arg_cong [OF masks, of "\<lambda>w. bit w i"] that by (simp add: bit_simps not_less)
  show "n = k"
  proof (rule ccontr)
    assume "n \<noteq> k"
    then have "n < k \<or> k < n" by linarith
    then show False using eq [of n] eq [of k] le by auto
  qed
qed simp

lemma name_at_fresh: "name_at (RNode None None nm pk) p = (if p = [] then nm else None)"
  by (cases p) (simp_all add: child_def)

lemma name_at_set_name:
  "name_at (set_name t nm) p =
     (if p = [] then (case rn_name t of None \<Rightarrow> nm | Some n \<Rightarrow> Some n) else name_at t p)"
  by (cases p) (auto simp: set_name_def child_def split: option.split)

text \<open>Adding a prefix changes the name at its path only, and only if there was none.\<close>

lemma name_at_add_loop:
  "k \<le> n \<Longrightarrow> n \<le> 32 \<Longrightarrow>
   name_at (radix_add_loop n (round_mask n) (net_mask n) ip (net_mask k) nm t) p =
     (if p = bits ip n k then (case name_at t p of None \<Rightarrow> nm | Some x \<Rightarrow> Some x) else name_at t p)"
proof (induction n arbitrary: t p)
  case 0
  then show ?case by (auto simp: bits_simps name_at_set_name)
next
  case (Suc n)
  show ?case
  proof (cases "k = Suc n")
    case True
    have "\<not> bit (net_mask k) n" using True Suc.prems by (simp add: bit_simps)
    then have "round_mask (Suc n) AND net_mask k = 0" using round_mask_bit by blast
    then show ?thesis by (simp add: True bits_simps name_at_set_name)
  next
    case False
    then have k: "k \<le> n" and n: "n < 32" using Suc.prems by simp_all
    have go: "round_mask (Suc n) AND net_mask k \<noteq> 0"
      using k n by (simp add: round_mask_bit bit_simps)
    have lm: "net_mask (Suc n) OR round_mask (Suc n) = net_mask n" by (rule net_mask_step [OF n])
    have valid: "net_mask n = net_mask k \<longleftrightarrow> bits ip n k = []"
      using net_mask_inj [of n k] k n by (auto simp: bits_def)
    define nm' where "nm' = (if net_mask n = net_mask k then nm else None)"
    have IH: "name_at (radix_add_loop n (round_mask n) (net_mask n) ip (net_mask k) nm t') q =
        (if q = bits ip n k then (case name_at t' q of None \<Rightarrow> nm | Some x \<Rightarrow> Some x) else name_at t' q)" for t' q
      using Suc.IH k n by simp
    let ?loop = "radix_add_loop n (round_mask n) (net_mask n) ip (net_mask k) nm"
    have step: "radix_add_loop (Suc n) (round_mask (Suc n)) (net_mask (Suc n)) ip (net_mask k) nm t =
        (if bit ip n then set_one t (?loop (addOne t nm')) else set_zero t (?loop (addZero t nm')))"
      unfolding radix_add_loop.simps if_not_P [OF go] Let_def lm round_mask_step [OF n] round_mask_bit nm'_def ..
    have fresh: "nm' = (if bits ip n k = [] then nm else None)" unfolding nm'_def valid ..
    show ?thesis
    proof (cases p)
      case Nil
      then show ?thesis unfolding step bits_simps(2) [OF k] by (simp add: set_one_def set_zero_def)
    next
      case (Cons b q)
      define c where "c = (case child (bit ip n) t of None \<Rightarrow> RNode None None nm' 0 | Some c \<Rightarrow> c)"
      have "name_at (if bit ip n then set_one t (?loop (addOne t nm')) else set_zero t (?loop (addZero t nm'))) (b # q) =
          (if b = bit ip n then name_at (?loop c) q else name_at t (b # q))"
        by (simp add: set_one_def set_zero_def c_def child_def addOne_def addZero_def)
      moreover have "name_at c q = (case child (bit ip n) t of None \<Rightarrow> if q = [] then nm' else None | Some c \<Rightarrow> name_at c q)"
        by (simp add: c_def name_at_fresh split: option.split)
      ultimately show ?thesis
        unfolding step bits_simps(2) [OF k] Cons
        by (cases "child (bit ip n) t") (auto simp: IH fresh split: option.splits)
    qed
  qed
qed

text \<open>The match is the named node with the longest non-empty path.\<close>

definition best_match :: "nat \<Rightarrow> u32 \<Rightarrow> RNode \<Rightarrow> RNode option \<Rightarrow> RNode option \<Rightarrow> bool" where
  "best_match n ip t rv res \<longleftrightarrow>
     (\<exists>j c. j < n \<and> res = Some c \<and> rn_name c \<noteq> None \<and> rn_name c = name_at t (bits ip n j) \<and>
        (\<forall>i < j. name_at t (bits ip n i) = None)) \<or>
     ((\<forall>j < n. name_at t (bits ip n j) = None) \<and> res = rv)"

lemma match_loop_best: "n \<le> 32 \<Longrightarrow> best_match n ip t rv (radix_match_loop n (round_mask n) ip t rv)"
proof (induction n arbitrary: t rv)
  case 0
  show ?case by (simp add: best_match_def)
next
  case (Suc n)
  then have n: "n < 32" by simp
  have path: "name_at t (bits ip (Suc n) j) = (case child (bit ip n) t of None \<Rightarrow> None | Some c \<Rightarrow> name_at c (bits ip n j))"
    if "j < Suc n" for j using that by (simp add: bits_simps)
  have step: "radix_match_loop (Suc n) (round_mask (Suc n)) ip t rv =
      (case child (bit ip n) t of None \<Rightarrow> rv
       | Some c \<Rightarrow> radix_match_loop n (round_mask n) ip c (if rn_name c \<noteq> None then Some c else rv))"
    unfolding radix_match_loop.simps round_mask_bit round_mask_step [OF n] child_def ..
  show ?case
  proof (cases "child (bit ip n) t")
    case None
    with step path show ?thesis by (simp add: best_match_def)
  next
    case (Some c)
    let ?rv = "if rn_name c \<noteq> None then Some c else rv"
    let ?res = "radix_match_loop n (round_mask n) ip c ?rv"
    have res: "radix_match_loop (Suc n) (round_mask (Suc n)) ip t rv = ?res"
      unfolding step Some by simp
    have "best_match n ip c ?rv ?res" using Suc.IH n by simp
    then consider (found) j d where "j < n" "?res = Some d" "rn_name d \<noteq> None"
        "rn_name d = name_at c (bits ip n j)" "\<forall>i < j. name_at c (bits ip n i) = None"
      | (none) "\<forall>j < n. name_at c (bits ip n j) = None" "?res = ?rv"
      unfolding best_match_def by blast
    then show ?thesis
    proof cases
      case found
      then show ?thesis
        unfolding res best_match_def using path Some
        by (intro disjI1 exI [of _ j] exI [of _ d]) simp
    next
      case none
      show ?thesis
      proof (cases "rn_name c = None")
        case True
        then show ?thesis
          unfolding res best_match_def using none path Some
          by (intro disjI2) (auto simp: less_Suc_eq bits_simps)
      next
        case False
        then show ?thesis
          unfolding res best_match_def using none path Some
          by (intro disjI1 exI [of _ n] exI [of _ c]) (simp add: bits_simps)
      qed
    qed
  qed
qed

section \<open>Depth\<close>

fun depth_ok :: "nat \<Rightarrow> RNode \<Rightarrow> bool" where
  "depth_ok 0 t = is_leaf t"
| "depth_ok (Suc n) t = (pred_option (depth_ok n) (rn_zero t) \<and> pred_option (depth_ok n) (rn_one t))"

lemma depth_ok_fresh: "depth_ok n (RNode None None nm pk)"
  by (cases n) (simp_all add: is_leaf_def)

lemma depth_ok_set_name: "depth_ok n t \<Longrightarrow> depth_ok n (set_name t nm)"
  by (cases n) (auto simp: set_name_def is_leaf_def)

lemma depth_ok_add_loop: "depth_ok n t \<Longrightarrow> depth_ok n (radix_add_loop n m lastm ip msk nm t)"
proof (induction n arbitrary: t m lastm)
  case 0
  then show ?case using depth_ok_set_name [of 0] by simp
next
  case (Suc n)
  have "depth_ok n (addOne t x)" "depth_ok n (addZero t x)" for x
    using Suc.prems by (auto simp: addOne_def addZero_def depth_ok_fresh split: option.split)
  with Suc show ?case
    using depth_ok_set_name [of "Suc n" t nm] by (simp add: Let_def set_one_def set_zero_def)
qed

lemma squash_Some:
  "fst (squash (RNode z e nm pk)) =
     (case (z, e) of
        (Some zc, Some oc) \<Rightarrow>
          if nm = None \<and> rn_name zc \<noteq> None \<and> rn_name zc = rn_name oc \<and> is_leaf zc \<and> is_leaf oc
          then RNode None None (rn_name oc) pk
          else RNode (Some (fst (squash zc))) (Some (fst (squash oc))) nm pk
      | (z, e) \<Rightarrow> RNode (map_option (fst \<circ> squash) z) (map_option (fst \<circ> squash) e) nm pk)"
  by (auto simp: squash.simps split: option.split prod.split)

lemma squash_leaf: "is_leaf t \<Longrightarrow> fst (squash t) = t"
  by (cases t) (simp add: is_leaf_def squash_Some)

lemma depth_ok_squash: "depth_ok n t \<Longrightarrow> depth_ok n (fst (squash t))"
proof (induction n arbitrary: t)
  case 0
  then show ?case by (simp add: squash_leaf)
next
  case (Suc n)
  obtain z e nm pk where t: "t = RNode z e nm pk" by (cases t)
  show ?case
    using Suc.prems Suc.IH unfolding t squash_Some
    by (cases z; cases e) (simp_all add: depth_ok_fresh)
qed

text \<open>Merging two leaves with the same name does not change the name of any match below.\<close>

abbreviation own :: "RNode \<Rightarrow> RNode option \<Rightarrow> RNode option" where
  "own t rv \<equiv> (if rn_name t \<noteq> None then Some t else rv)"

lemma match_squash:
  "depth_ok n t \<Longrightarrow> map_option rn_name rv = map_option rn_name rv' \<Longrightarrow>
   map_option rn_name (radix_match_loop n m ip (fst (squash t)) (own (fst (squash t)) rv)) =
   map_option rn_name (radix_match_loop n m ip t (own t rv'))"
proof (induction n arbitrary: t m rv rv')
  case 0
  then show ?case by (simp add: squash_leaf)
next
  case (Suc n)
  obtain z e nm pk where t: "t = RNode z e nm pk" by (cases t)
  show ?case
  proof (cases "\<exists>zc oc. z = Some zc \<and> e = Some oc \<and> nm = None \<and> rn_name zc \<noteq> None \<and>
      rn_name zc = rn_name oc \<and> is_leaf zc \<and> is_leaf oc")
    case True
    then obtain zc oc x where zo: "z = Some zc" "e = Some oc" "nm = None" "rn_name zc = Some x" "rn_name oc = Some x"
        "is_leaf zc" "is_leaf oc" by force
    have leaf: "radix_match_loop n m' ip c rv'' = rv''" if "is_leaf c" for c m' rv''
      using that by (cases n) (simp_all add: is_leaf_def)
    show ?thesis unfolding t squash_Some by (simp add: zo leaf)
  next
    case False
    then have sq: "fst (squash (RNode z e nm pk)) = RNode (map_option (fst \<circ> squash) z) (map_option (fst \<circ> squash) e) nm pk"
      unfolding squash_Some by (cases z; cases e) auto
    have eq: "map_option rn_name (own (fst (squash t)) rv) = map_option rn_name (own t rv')"
      using Suc.prems(2) by (simp add: sq t)
    have d: "c \<in> set_option z \<union> set_option e \<Longrightarrow> depth_ok n c" for c
      using Suc.prems(1) by (auto simp: t option.pred_set)
    define c where "c = (if m AND ip \<noteq> 0 then e else z)"
    define r where "r = own (fst (squash t)) rv"
    define r' where "r' = own t rv'"
    have sq_step: "radix_match_loop (Suc n) m ip (fst (squash t)) r =
        (case c of None \<Rightarrow> r
         | Some c \<Rightarrow> radix_match_loop n (drop_bit 1 m) ip (fst (squash c)) (own (fst (squash c)) r))"
      by (cases c) (simp_all add: t sq c_def split: if_splits)
    have step: "radix_match_loop (Suc n) m ip t r' =
        (case c of None \<Rightarrow> r' | Some c \<Rightarrow> radix_match_loop n (drop_bit 1 m) ip c (own c r'))"
      by (cases c) (simp_all add: t c_def split: if_splits)
    have "map_option rn_name (radix_match_loop (Suc n) m ip (fst (squash t)) r) =
        map_option rn_name (radix_match_loop (Suc n) m ip t r')"
    proof (cases c)
      case None
      then show ?thesis unfolding sq_step step using eq by (simp add: r_def r'_def)
    next
      case (Some x)
      then have "depth_ok n x" using d by (simp add: c_def split: if_splits)
      from Suc.IH [OF this, of r r' "drop_bit 1 m"] eq show ?thesis
        unfolding sq_step step Some r_def [symmetric] r'_def [symmetric] by simp
    qed
    then show ?thesis unfolding r_def r'_def .
  qed
qed

section \<open>Reachable trees\<close>

definition radix_init :: radix where
  "radix_init = \<lparr>radix_head = None, radix_nodes = 0\<rparr>"

inductive radix_reach :: "radix \<Rightarrow> bool" where
  init: "radix_reach radix_init"
| add: "radix_reach R \<Longrightarrow> radix_reach (fst (radix_add ip msk name R))"
| squash: "radix_reach R \<Longrightarrow> radix_reach (radix_squash R)"
| clear: "radix_reach R \<Longrightarrow> radix_reach (radix_clear_data R)"

definition radix_ok :: "radix \<Rightarrow> bool" where
  "radix_ok R \<longleftrightarrow> pred_option (depth_ok 32) (radix_head R)"

lemma depth_ok_clear: "depth_ok n t \<Longrightarrow> depth_ok n (clear_data t)"
proof (induction n arbitrary: t)
  case 0
  then show ?case by (cases t) (simp add: is_leaf_def)
next
  case (Suc n)
  then show ?case by (cases t) (auto simp: option.pred_map option.pred_set)
qed

lemma depth_ok_32: "depth_ok 32 h \<longleftrightarrow> pred_option (depth_ok 31) (rn_zero h) \<and> pred_option (depth_ok 31) (rn_one h)"
  using depth_ok.simps(2) [of 31 h] by simp

lemma radix_squash_head:
  "radix_head (radix_squash R) =
     map_option (\<lambda>h. RNode (map_option (fst \<circ> squash) (rn_zero h)) (map_option (fst \<circ> squash) (rn_one h))
       (rn_name h) (rn_pkts h)) (radix_head R)"
proof -
  have "squash_opt x = (map_option (fst \<circ> squash) x, snd (squash_opt x))" for x
    by (auto simp: squash_opt_def split: option.split prod.split)
  then show ?thesis
    by (auto simp: radix_squash_def split: option.split prod.split) (metis fst_conv)+
qed

lemma radix_reach_ok: "radix_reach R \<Longrightarrow> radix_ok R"
proof (induction rule: radix_reach.induct)
  case init
  show ?case by (simp add: radix_init_def radix_ok_def)
next
  case (add R ip msk name)
  have "depth_ok 32 empty_node" by (simp add: empty_node_def depth_ok_fresh)
  with add.IH show ?case
    by (auto simp: radix_ok_def radix_add_def Let_def intro!: depth_ok_add_loop split: option.split)
next
  case (squash R)
  then show ?case
    by (auto simp: radix_ok_def radix_squash_head depth_ok_32 option.pred_map option.pred_set depth_ok_squash)
next
  case (clear R)
  then show ?case
    by (auto simp: radix_ok_def radix_clear_data_def depth_ok_32 option.pred_map option.pred_set depth_ok_clear
        split: option.split)
qed

section \<open>Prefixes\<close>

definition covers :: "u32 \<Rightarrow> nat \<Rightarrow> u32 \<Rightarrow> bool" where
  "covers i k ip \<longleftrightarrow> i AND net_mask k = ip AND net_mask k"

lemma bits_eq_iff: "k \<le> 32 \<Longrightarrow> j \<le> 32 \<Longrightarrow> bits i 32 k = bits ip 32 j \<longleftrightarrow> k = j \<and> covers i k ip"
proof
  assume le: "k \<le> 32" "j \<le> 32" and eq: "bits i 32 k = bits ip 32 j"
  have "length (bits i 32 k) = length (bits ip 32 j)" using eq by simp
  then have kj: "k = j" using le by (simp add: bits_def)
  have "bit i b = bit ip b" if "k \<le> b" "b < 32" for b
    using eq that unfolding kj bits_def rev_map [symmetric] by simp
  then have "i AND net_mask k = ip AND net_mask k"
    by (intro bit_word_eqI) (auto simp: bit_simps)
  with kj show "k = j \<and> covers i k ip" by (simp add: covers_def)
next
  assume le: "k \<le> 32" "j \<le> 32" and kj: "k = j \<and> covers i k ip"
  have "bit i b = bit ip b" if "k \<le> b" "b < 32" for b
  proof -
    have "bit (i AND net_mask k) b = bit (ip AND net_mask k) b"
      using conjunct2 [OF kj, unfolded covers_def] by (rule arg_cong)
    with that show ?thesis by (simp add: bit_simps)
  qed
  then show "bits i 32 k = bits ip 32 j" using kj by (simp add: bits_def)
qed

definition tree_name :: "radix \<Rightarrow> bool list \<Rightarrow> string option" where
  "tree_name R p = (case radix_head R of None \<Rightarrow> None | Some h \<Rightarrow> name_at h p)"

definition add_all :: "(u32 \<times> nat \<times> string) list \<Rightarrow> radix \<Rightarrow> radix" where
  "add_all es R = fold (\<lambda>(i, k, nm) R. fst (radix_add i (net_mask k) (Some nm) R)) es R"

lemma tree_name_add:
  "k \<le> 32 \<Longrightarrow> tree_name (fst (radix_add i (net_mask k) (Some nm) R)) p =
     (if p = bits i 32 k then (case tree_name R p of None \<Rightarrow> Some nm | Some x \<Rightarrow> Some x) else tree_name R p)"
proof -
  assume k: "k \<le> 32"
  have top: "(0 :: u32) = net_mask 32" by (simp add: mask_eq_exp_minus_1)
  have "name_at empty_node q = None" for q by (cases q) (simp_all add: empty_node_def child_def)
  then show ?thesis
    using name_at_add_loop [OF k order_refl, of i "Some nm" _ p]
    by (simp add: tree_name_def radix_add_def Let_def round_mask_top [symmetric] top [symmetric] split: option.split)
qed

lemma tree_name_add_all:
  "\<forall>(i, k, nm) \<in> set es. k \<le> 32 \<Longrightarrow>
   tree_name (add_all es radix_init) = map_of (map (\<lambda>(i, k, nm). (bits i 32 k, nm)) es)"
proof (induction es rule: rev_induct)
  case Nil
  show ?case by (simp add: fun_eq_iff add_all_def tree_name_def radix_init_def)
next
  case (snoc e es)
  obtain i k nm where e: "e = (i, k, nm)" by (cases e)
  have "tree_name (add_all (es @ [e]) radix_init) p =
      (if p = bits i 32 k then (case tree_name (add_all es radix_init) p of None \<Rightarrow> Some nm | Some x \<Rightarrow> Some x)
       else tree_name (add_all es radix_init) p)" for p
    using snoc.prems tree_name_add [of k i nm "add_all es radix_init" p] by (simp add: add_all_def e)
  with snoc show ?case by (auto simp: fun_eq_iff e map_add_def split: option.split)
qed

lemma match_tree_name:
  "(\<exists>j < 32. map_option rn_name (radix_longest_prefix_match ip R) = Some (tree_name R (bits ip 32 j)) \<and>
      tree_name R (bits ip 32 j) \<noteq> None \<and> (\<forall>i < j. tree_name R (bits ip 32 i) = None)) \<or>
   radix_longest_prefix_match ip R = None \<and> (\<forall>j < 32. tree_name R (bits ip 32 j) = None)"
proof (cases "radix_head R")
  case None
  then show ?thesis by (simp add: radix_longest_prefix_match_def tree_name_def)
next
  case (Some h)
  have "radix_longest_prefix_match ip R = radix_match_loop 32 (round_mask 32) ip h None"
    by (simp add: radix_longest_prefix_match_def Some round_mask_top)
  then show ?thesis
    using match_loop_best [of 32 ip h None] by (auto simp: best_match_def tree_name_def Some)
qed

text \<open>A prefix of the list that contains an address leaves a name on the path of the address, and a
  name on the path of an address comes from such a prefix.\<close>

lemma tree_name_covered:
  assumes es: "\<forall>(i, k, nm) \<in> set es. k \<le> 32" and e: "(i, k, nm) \<in> set es" "covers i k ip"
  shows "tree_name (add_all es radix_init) (bits ip 32 k) \<noteq> None"
proof -
  have "k \<le> 32" using es e(1) by blast
  then have "bits i 32 k = bits ip 32 k" using e(2) bits_eq_iff [of k k i ip] by simp
  moreover from e(1) have "(bits i 32 k, nm) \<in> set (map (\<lambda>(i, k, nm). (bits i 32 k, nm)) es)" by force
  ultimately show ?thesis unfolding tree_name_add_all [OF es] map_of_eq_None_iff by force
qed

lemma tree_name_entry:
  assumes es: "\<forall>(i, k, nm) \<in> set es. k \<le> 32"
    and "tree_name (add_all es radix_init) (bits ip 32 j) = Some nm" and "j \<le> 32"
  obtains i where "(i, j, nm) \<in> set es" and "covers i j ip"
proof -
  from map_of_SomeD [OF assms(2) [unfolded tree_name_add_all [OF es]]] obtain i k where
    e: "(i, k, nm) \<in> set es" "bits i 32 k = bits ip 32 j" by auto
  then have "k \<le> 32" using es by blast
  then have "k = j \<and> covers i k ip" using bits_eq_iff [OF _ assms(3)] e(2) by blast
  with e(1) that show ?thesis by blast
qed

text \<open>The returned node is the one at the prefix, so the name found there is the name that was added or an older one.\<close>

lemma radix_add_path_bits:
  "n \<le> 32 \<Longrightarrow> k \<le> 32 \<Longrightarrow> radix_add_path n (round_mask n) ip (net_mask k) = bits ip n k"
proof (induction n)
  case 0
  show ?case by (simp add: bits_def)
next
  case (Suc n)
  have "round_mask (Suc n) AND net_mask k = 0 \<longleftrightarrow> n < k"
    using round_mask_bit [of n "net_mask k"] Suc.prems by (auto simp: bit_simps)
  with Suc show ?case by (auto simp: round_mask_step [unfolded One_nat_def] round_mask_bit bits_simps bits_def)
qed

lemma radix_add_returns:
  assumes "k \<le> 32"
  shows "tree_name (fst (radix_add i (net_mask k) (Some nm) R)) (snd (radix_add i (net_mask k) (Some nm) R)) =
    (case tree_name R (bits i 32 k) of None \<Rightarrow> Some nm | Some x \<Rightarrow> Some x)"
proof -
  have "snd (radix_add i (net_mask k) (Some nm) R) = bits i 32 k"
    using radix_add_path_bits [OF order_refl assms] by (simp add: radix_add_def Let_def round_mask_top)
  with tree_name_add [OF assms, of i nm R "bits i 32 k"] show ?thesis by simp
qed

section \<open>Properties\<close>

text \<open>C16. Looking up an address in a tree filled with prefixes of length 0 to 32 finds the name of a longest prefix
  of length at least 1 that contains the address, and finds nothing exactly when no prefix of length at least 1
  contains it. A prefix of length 0, which the reader of the file accepts and which contains every address, is never
  found. In the statement \<open>k\<close> counts the bits behind the prefix.\<close>

theorem radix_match_longest:
  assumes "\<forall>(i, k, nm) \<in> set es. k \<le> 32"
  shows "case radix_longest_prefix_match ip (add_all es radix_init) of
      None \<Rightarrow> \<forall>(i, k, nm) \<in> set es. covers i k ip \<longrightarrow> k = 32
    | Some node \<Rightarrow> \<exists>i k nm. (i, k, nm) \<in> set es \<and> rn_name node = Some nm \<and> covers i k ip \<and> k < 32 \<and>
        (\<forall>(i', k', nm') \<in> set es. covers i' k' ip \<longrightarrow> k \<le> k')"
proof -
  let ?R = "add_all es radix_init"
  note named = tree_name_covered [OF assms, where ip = ip]
  from match_tree_name [of ip ?R] show ?thesis
  proof (elim disjE exE conjE)
    fix j assume j: "j < 32" "map_option rn_name (radix_longest_prefix_match ip ?R) = Some (tree_name ?R (bits ip 32 j))"
      "tree_name ?R (bits ip 32 j) \<noteq> None" "\<forall>i < j. tree_name ?R (bits ip 32 i) = None"
    from j(3) obtain nm where nm: "tree_name ?R (bits ip 32 j) = Some nm" by blast
    from j(2) [unfolded map_option_eq_Some nm] obtain node where
      node: "radix_longest_prefix_match ip ?R = Some node" "rn_name node = Some nm" by blast
    have least: "j \<le> k'" if e: "(i', k', nm') \<in> set es" "covers i' k' ip" for i' k' nm'
    proof (rule leI, rule notI)
      assume "k' < j"
      with j(4) have "tree_name ?R (bits ip 32 k') = None" by (elim allE impE)
      with named [OF e] show False by contradiction
    qed
    from tree_name_entry [OF assms nm less_imp_le [OF j(1)]] obtain i where i: "(i, j, nm) \<in> set es" "covers i j ip" .
    show ?thesis unfolding node(1) option.case
    proof (intro exI conjI)
      show "\<forall>(i', k', nm') \<in> set es. covers i' k' ip \<longrightarrow> j \<le> k'" by (clarify, rule least)
    qed (fact i node(2) j(1))+
  next
    assume none: "radix_longest_prefix_match ip ?R = None" "\<forall>j < 32. tree_name ?R (bits ip 32 j) = None"
    show ?thesis unfolding none(1) option.case
    proof (clarify)
      fix i k nm assume e: "(i, k, nm) \<in> set es" "covers i k ip"
      then have "k \<le> 32" using assms by blast
      moreover have "\<not> k < 32"
      proof
        assume "k < 32"
        with none(2) have "tree_name ?R (bits ip 32 k) = None" by (elim allE impE)
        with named [OF e] show False by contradiction
      qed
      ultimately show "k = 32" by simp
    qed
  qed
qed

theorem radix_match_longest_witness:
  "let es = [(0x09000000, 24, ''IBM''), (0x09090909, 0, ''Quad9 DNS''), (0x09000000, 24, ''other''), (0, 32, ''any'')];
       R = add_all es radix_init in
   map_option rn_name (radix_longest_prefix_match 0x09090909 R) = Some (Some ''Quad9 DNS'') \<and>
   radix_longest_prefix_match 0x0A000001 R = None \<and>
   (case radix_longest_prefix_match 0x09090909 R of
      None \<Rightarrow> \<forall>(i, k, nm) \<in> set es. covers i k 0x09090909 \<longrightarrow> k = 32
    | Some node \<Rightarrow> \<exists>i k nm. (i, k, nm) \<in> set es \<and> rn_name node = Some nm \<and> covers i k 0x09090909 \<and> k < 32 \<and>
        (\<forall>(i', k', nm') \<in> set es. covers i' k' 0x09090909 \<longrightarrow> k \<le> k'))"
proof -
  let ?es = "[(0x09000000, 24, ''IBM''), (0x09090909, 0, ''Quad9 DNS''), (0x09000000, 24, ''other''), (0, 32, ''any'')]
    :: (u32 \<times> nat \<times> string) list"
  have "map_option rn_name (radix_longest_prefix_match 0x09090909 (add_all ?es radix_init)) = Some (Some ''Quad9 DNS'')"
    by code_simp
  moreover have "radix_longest_prefix_match 0x0A000001 (add_all ?es radix_init) = None"
    by code_simp
  moreover have "case radix_longest_prefix_match 0x09090909 (add_all ?es radix_init) of
      None \<Rightarrow> \<forall>(i, k, nm) \<in> set ?es. covers i k 0x09090909 \<longrightarrow> k = 32
    | Some node \<Rightarrow> \<exists>i k nm. (i, k, nm) \<in> set ?es \<and> rn_name node = Some nm \<and> covers i k 0x09090909 \<and> k < 32 \<and>
        (\<forall>(i', k', nm') \<in> set ?es. covers i' k' 0x09090909 \<longrightarrow> k \<le> k')"
    by (rule radix_match_longest) simp
  ultimately show ?thesis unfolding Let_def by blast
qed

text \<open>C18. Squashing a tree that was built by the operations of the module merges nodes but never changes the
  name found for an address.\<close>

theorem radix_squash_match:
  assumes "radix_reach R"
  shows "map_option rn_name (radix_longest_prefix_match ip (radix_squash R)) =
    map_option rn_name (radix_longest_prefix_match ip R)"
proof (cases "radix_head R")
  case None
  then show ?thesis by (simp add: radix_longest_prefix_match_def radix_squash_def)
next
  case (Some h)
  have d: "pred_option (depth_ok 31) (rn_zero h)" "pred_option (depth_ok 31) (rn_one h)"
    using radix_reach_ok [OF assms] by (simp_all add: radix_ok_def Some depth_ok_32)
  have first: "radix_match_loop 32 m ip t None =
      (case (if m AND ip \<noteq> 0 then rn_one t else rn_zero t) of
        None \<Rightarrow> None | Some c \<Rightarrow> radix_match_loop 31 (drop_bit 1 m) ip c (own c None))" for m t
    using radix_match_loop.simps(2) [of 31 m ip t None] by simp
  have same: "map_option rn_name (radix_match_loop 31 m ip (fst (squash c)) (own (fst (squash c)) None)) =
      map_option rn_name (radix_match_loop 31 m ip c (own c None))" if "depth_ok 31 c" for c m
    by (rule match_squash [OF that]) simp
  show ?thesis
    unfolding radix_longest_prefix_match_def radix_squash_head Some option.map option.case first
    using d same by (cases "rn_zero h"; cases "rn_one h") simp_all
qed

theorem radix_squash_match_witness:
  "let R = add_all [(0x0A000000, 8, ''a''), (0x0A000100, 8, ''a'')] radix_init in
   radix_nodes (radix_squash R) = 1 \<and>
   map_option rn_name (radix_longest_prefix_match 0x0A000177 (radix_squash R)) =
     map_option rn_name (radix_longest_prefix_match 0x0A000177 R)"
proof -
  let ?R = "add_all [(0x0A000000, 8, ''a''), (0x0A000100, 8, ''a'')] radix_init"
  have "radix_reach ?R" by (simp add: add_all_def radix_reach.intros)
  moreover have "radix_nodes (radix_squash ?R) = 1" by code_simp
  ultimately show ?thesis using radix_squash_match [of ?R "0x0A000177"] by (simp add: Let_def)
qed

end
