(* ===== verification/Cmdline.thy ===== *)
theory Cmdline imports Prelude begin

text \<open>
  firejail/cmdline.c: the command line handed to the user's shell. The text is written into a buffer
  whose size \<^verbatim>\<open>cmdline_length\<close> computes in a pass of its own; \<^verbatim>\<open>quote_cmdline\<close> moves its write pointer
  back by one when it continues a run of single quotes. The reference for the result is the word splitting of
  a POSIX shell, \<open>sh_words\<close>.
\<close>

section \<open>The two passes\<close>

abbreviation SQ :: char where "SQ \<equiv> CHR 0x27"
abbreviation DQ :: char where "DQ \<equiv> CHR 0x22"

text \<open>The loop over the characters of an argument: the count, \<^verbatim>\<open>in_quotes\<close> and the previous character.\<close>

fun length_char :: "bool \<Rightarrow> char \<Rightarrow> nat \<times> bool \<times> char option \<Rightarrow> nat \<times> bool \<times> char option" where
  "length_char want_extra_quotes c (len, in_quotes, prev) =
     (if c = SQ then
        (let len1 = (if in_quotes then len + 1 else len);
             len2 = (if prev = Some SQ then len1 + 1 else len1 + 3)
         in (len2, False, Some c))
      else
        (let len1 = (if \<not> in_quotes \<and> want_extra_quotes then len + 1 else len)
         in (len1 + 1, want_extra_quotes \<or> in_quotes, Some c)))"

definition length_arg :: "bool \<Rightarrow> string \<Rightarrow> nat \<Rightarrow> nat" where
  "length_arg want_extra_quotes arg len =
     (case fold (length_char want_extra_quotes) arg (len, False, None) of
        (len1, in_quotes, prev) \<Rightarrow>
          let len2 = (if in_quotes then len1 + 1 else len1);
              len3 = (if arg = [] then len2 + 2 else len2)
          in len3 + 1)"

definition cmdline_count :: "string list \<Rightarrow> bool \<Rightarrow> nat" where
  "cmdline_count args want_extra_quotes = fold (length_arg want_extra_quotes) args 0"

text \<open>The count is kept in an \<^verbatim>\<open>int\<close>.\<close>

definition cmdline_length :: "string list \<Rightarrow> bool \<Rightarrow> int" where
  "cmdline_length args want_extra_quotes = to_int32 (int (cmdline_count args want_extra_quotes))"

text \<open>The text before the write pointer, \<^verbatim>\<open>in_quotes\<close> and the previous character.\<close>

fun quote_char :: "bool \<Rightarrow> char \<Rightarrow> string \<times> bool \<times> char option \<Rightarrow> string \<times> bool \<times> char option" where
  "quote_char want_extra_quotes c (out, in_quotes, prev) =
     (if c = SQ then
        (let out1 = (if in_quotes then out @ [SQ] else out);
             out2 = (if prev = Some SQ then butlast out1 @ [SQ, DQ] else out1 @ [DQ, SQ, DQ])
         in (out2, False, Some c))
      else
        (let out1 = (if \<not> in_quotes \<and> want_extra_quotes then out @ [SQ] else out)
         in (out1 @ [c], want_extra_quotes \<or> in_quotes, Some c)))"

definition quote_arg :: "bool \<Rightarrow> string \<Rightarrow> string \<Rightarrow> string" where
  "quote_arg want_extra_quotes arg out =
     (case fold (quote_char want_extra_quotes) arg (out, False, None) of
        (out1, in_quotes, prev) \<Rightarrow>
          let out2 = (if in_quotes then out1 @ [SQ] else out1);
              out3 = (if arg = [] then out2 @ [SQ, SQ] else out2)
          in out3 @ '' '')"

definition quote_cmdline :: "string list \<Rightarrow> bool \<Rightarrow> string" where
  "quote_cmdline args want_extra_quotes = fold (quote_arg want_extra_quotes) args []"

section \<open>The callers\<close>

datatype cmdline_error =
    NoProgram
  | E2BIG
  | BufferOverflow

text \<open>\<^verbatim>\<open>ARG_MAX\<close> of linux/limits.h.\<close>

definition LINUX_ARG_MAX :: int where "LINUX_ARG_MAX = 131072"

text \<open>Writing a string and its terminating NUL into an allocated buffer.\<close>

definition write_buffer :: "int \<Rightarrow> string \<Rightarrow> cmdline_error + string" where
  "write_buffer sz s = (if int (length s) < sz then Inr s else Inl BufferOverflow)"

definition build_cmdline :: "string list \<Rightarrow> int \<Rightarrow> bool \<Rightarrow> cmdline_error + string" where
  "build_cmdline argv index want_extra_quotes =
     (if index = -1 then Inl NoProgram
      else
        let args = drop (nat index) argv;
            len = cmdline_length args want_extra_quotes
        in if LINUX_ARG_MAX < len then Inl E2BIG
           else write_buffer (len + 1) (quote_cmdline args want_extra_quotes))"

definition apprun_path :: string where
  "apprun_path = ''/run/firejail/appimage/AppRun''"

definition build_appimage_cmdline :: "string list \<Rightarrow> int \<Rightarrow> bool \<Rightarrow> cmdline_error + string" where
  "build_appimage_cmdline argv index want_extra_quotes =
     (if index = -1 then Inl NoProgram
      else
        let args = drop (nat index) argv;
            len1 = cmdline_length args want_extra_quotes;
            len2 = cmdline_length (take 1 args) want_extra_quotes;
            len3 = cmdline_length [apprun_path] want_extra_quotes;
            len4 = (len1 - len2 + len3) + 1
        in if LINUX_ARG_MAX < len4 then Inl E2BIG
           else bind_res (write_buffer (len1 + len3 + 1) (quote_cmdline args want_extra_quotes))
                  (\<lambda>tmp. Inr ([SQ] @ apprun_path @ [SQ] @ '' '' @ drop (nat len2) tmp)))"

section \<open>Word splitting of the shell\<close>

text \<open>
  The part of POSIX shell token recognition (XCU 2.2 and 2.3) a quoted line needs: blanks separate
  words, single quotes keep every character, double quotes keep every character but the
  ones that start an expansion or an escape. A line with any other special character outside of quotes is not
  in the domain of the function.
\<close>

datatype sh_mode = Plain | Single | Double

type_synonym sh_state = "sh_mode \<times> string option \<times> string list"

definition word_of :: "string option \<Rightarrow> string" where
  "word_of cur = (case cur of None \<Rightarrow> [] | Some w \<Rightarrow> w)"

definition sh_literal :: "char \<Rightarrow> bool" where
  "sh_literal c \<longleftrightarrow> isalnum_c c \<or> c \<in> set ''_-./:,+@''"

fun sh_char :: "char \<Rightarrow> sh_state \<Rightarrow> sh_state option" where
  "sh_char c (Plain, cur, ws) =
     (if c = SQ then Some (Single, Some (word_of cur), ws)
      else if c = DQ then Some (Double, Some (word_of cur), ws)
      else if c = CHR '' '' \<or> c = CHR 0x09 then
        Some (Plain, None, case cur of None \<Rightarrow> ws | Some w \<Rightarrow> ws @ [w])
      else if sh_literal c then Some (Plain, Some (word_of cur @ [c]), ws)
      else None)"
| "sh_char c (Single, cur, ws) =
     (if c = SQ then Some (Plain, cur, ws) else Some (Single, Some (word_of cur @ [c]), ws))"
| "sh_char c (Double, cur, ws) =
     (if c = DQ then Some (Plain, cur, ws)
      else if c = CHR ''$'' \<or> c = CHR 0x60 \<or> c = CHR 0x5C then None
      else Some (Double, Some (word_of cur @ [c]), ws))"

primrec sh_run :: "string \<Rightarrow> sh_state \<Rightarrow> sh_state option" where
  "sh_run [] st = Some st"
| "sh_run (c # s) st = (case sh_char c st of None \<Rightarrow> None | Some st' \<Rightarrow> sh_run s st')"

definition sh_words :: "string \<Rightarrow> string list option" where
  "sh_words line =
     (case sh_run line (Plain, None, []) of
        Some (Plain, None, ws) \<Rightarrow> Some ws
      | Some (Plain, Some w, ws) \<Rightarrow> Some (ws @ [w])
      | _ \<Rightarrow> None)"

lemma sh_run_append:
  "sh_run (s @ t) st = (case sh_run s st of None \<Rightarrow> None | Some st' \<Rightarrow> sh_run t st')"
  by (induction s arbitrary: st) (auto split: option.split)

section \<open>The passes agree\<close>

text \<open>The second pass writes as many characters as the first one counts.\<close>

fun same_state :: "nat \<times> bool \<times> char option \<Rightarrow> string \<times> bool \<times> char option \<Rightarrow> bool" where
  "same_state (len, q, p) (out, q', p') \<longleftrightarrow>
     len = length out \<and> q = q' \<and> p = p' \<and> (p = Some SQ \<longrightarrow> \<not> q \<and> out \<noteq> [])"

lemma same_state_char: "same_state L Q \<Longrightarrow> same_state (length_char w c L) (quote_char w c Q)"
  by (cases L; cases Q) (auto simp: Let_def)

lemma same_state_arg: "same_state L Q \<Longrightarrow> same_state (fold (length_char w) xs L) (fold (quote_char w) xs Q)"
  by (induction xs arbitrary: L Q) (simp_all add: same_state_char)

lemma length_quote_arg: "length (quote_arg w arg out) = length_arg w arg (length out)"
  using same_state_arg [of "(length out, False, None)" "(out, False, None)" w arg]
  by (auto simp: quote_arg_def length_arg_def Let_def split: prod.splits)

lemma length_quote_args: "length (fold (quote_arg w) args out) = fold (length_arg w) args (length out)"
  by (induction args arbitrary: out) (simp_all add: length_quote_arg)

lemma length_quote_cmdline: "length (quote_cmdline args w) = cmdline_count args w"
  using length_quote_args [of w args "[]"] by (simp add: quote_cmdline_def cmdline_count_def)

text \<open>A character takes at most four characters, an argument two quotes and a space.\<close>

definition cmdline_bound :: "string list \<Rightarrow> nat" where
  "cmdline_bound args = sum_list (map (\<lambda>a. 4 * length a + 3) args)"

lemma cmdline_bound_drop: "cmdline_bound (drop n args) \<le> cmdline_bound args"
  using append_take_drop_id [of n args] by (metis cmdline_bound_def le_add2 map_append sum_list_append)

lemma length_char_bound:
  "fst (fold (length_char w) xs (len, q, p)) + (if fst (snd (fold (length_char w) xs (len, q, p))) then 1 else 0)
    \<le> len + (if q then 1 else 0) + 4 * length xs"
proof (induction xs arbitrary: len q p)
  case (Cons c xs)
  obtain len' q' p' where s: "length_char w c (len, q, p) = (len', q', p')" by (metis prod_cases3)
  then have "len' + (if q' then 1 else 0) \<le> len + (if q then 1 else 0) + 4"
    by (auto simp: Let_def split: if_splits)
  with Cons [of len' q' p'] s show ?case by (simp del: length_char.simps)
qed simp

lemma length_arg_bound: "length_arg w arg len \<le> len + (4 * length arg + 3)"
  using length_char_bound [of w arg len False None]
  by (auto simp: length_arg_def Let_def split: prod.splits)

lemma length_args_bound: "fold (length_arg w) args len \<le> len + cmdline_bound args"
proof (induction args arbitrary: len)
  case (Cons a args)
  from Cons [of "length_arg w a len"] length_arg_bound [of w a len] show ?case
    by (simp add: cmdline_bound_def)
qed (simp add: cmdline_bound_def)

lemma cmdline_length_exact:
  assumes "cmdline_bound args < 2 ^ 31"
  shows "cmdline_length args w = int (length (quote_cmdline args w))"
proof -
  have "cmdline_count args w < 2 ^ 31"
    using length_args_bound [of w args 0] assms by (simp add: cmdline_count_def)
  then have "int (cmdline_count args w) < 2 ^ 31" by simp
  then show ?thesis by (simp add: cmdline_length_def length_quote_cmdline to_int32_id)
qed

section \<open>Reading the line back\<close>

text \<open>
  While an argument is written, reading the text so far gives the characters written so far. After a
  single quote the text ends with the closing double quote the next one may take back.
\<close>

definition reads :: "string \<Rightarrow> string list \<Rightarrow> sh_mode \<Rightarrow> string option \<Rightarrow> bool" where
  "reads out ws m cur \<longleftrightarrow> sh_run out (Plain, None, []) = Some (m, cur, ws)"

lemma reads_snoc: "reads out ws m cur \<Longrightarrow> sh_char c (m, cur, ws) = Some (m', cur', ws') \<Longrightarrow> reads (out @ [c]) ws' m' cur'"
  by (simp add: reads_def sh_run_append)

fun arg_inv :: "string list \<Rightarrow> string \<Rightarrow> string \<times> bool \<times> char option \<Rightarrow> bool" where
  "arg_inv ws xs (out, q, prev) \<longleftrightarrow>
     reads out ws (if q then Single else Plain) (if xs = [] then None else Some xs) \<and>
     (q \<longrightarrow> xs \<noteq> []) \<and>
     (prev = Some SQ \<longrightarrow> \<not> q \<and> xs \<noteq> [] \<and> (\<exists>out'. out = out' @ [DQ] \<and> reads out' ws Double (Some xs)))"

lemma reads_run:
  "reads out ws m cur \<Longrightarrow> sh_run s (m, cur, ws) = Some (m', cur', ws') \<Longrightarrow> reads (out @ s) ws' m' cur'"
  by (simp add: reads_def sh_run_append)

lemma word_of_simps [simp]: "word_of None = []" "word_of (Some w) = w"
  by (simp_all add: word_of_def)

lemma arg_inv_char: "arg_inv ws xs Q \<Longrightarrow> arg_inv ws (xs @ [c]) (quote_char True c Q)"
proof -
  assume inv: "arg_inv ws xs Q"
  obtain out q prev where Q: "Q = (out, q, prev)" by (cases Q)
  have out: "reads out ws (if q then Single else Plain) (if xs = [] then None else Some xs)" using inv Q by simp
  show ?thesis
  proof (cases "c = SQ")
    case False
    have "reads (out @ (if q then [c] else [SQ, c])) ws Single (Some (xs @ [c]))"
      using False inv Q by (intro reads_run [OF out]) auto
    with False Q show ?thesis by (auto simp: Let_def)
  next
    case True
    show ?thesis
    proof (cases "prev = Some SQ")
      case True
      with inv Q obtain out' where o: "out = out' @ [DQ]" "reads out' ws Double (Some xs)" "\<not> q" by auto
      have "reads (out' @ [SQ]) ws Double (Some (xs @ [SQ]))" using o(2) by (rule reads_snoc) simp
      moreover from this have "reads (out' @ [SQ, DQ]) ws Plain (Some (xs @ [SQ]))"
        using reads_snoc [of "out' @ [SQ]"] by fastforce
      ultimately show ?thesis using True \<open>c = SQ\<close> o Q by (auto simp: Let_def)
    next
      case False
      let ?o = "if q then out @ [SQ] else out"
      have "reads ?o ws Plain (if xs = [] then None else Some xs)"
        using out inv Q by (auto intro: reads_snoc)
      then have "reads (?o @ [DQ, SQ]) ws Double (Some (xs @ [SQ]))"
        by (rule reads_run) simp
      moreover from this have "reads (?o @ [DQ, SQ, DQ]) ws Plain (Some (xs @ [SQ]))"
        using reads_snoc [of "?o @ [DQ, SQ]"] by fastforce
      ultimately show ?thesis using False \<open>c = SQ\<close> Q by (auto simp: Let_def)
    qed
  qed
qed

lemma arg_inv_arg: "arg_inv ws xs Q \<Longrightarrow> arg_inv ws (xs @ ys) (fold (quote_char True) ys Q)"
proof (induction ys arbitrary: xs Q)
  case (Cons y ys)
  from Cons.IH [OF arg_inv_char [OF Cons.prems]] show ?case by (simp del: quote_char.simps arg_inv.simps)
qed simp

lemma reads_quote_arg:
  assumes "reads out ws Plain None"
  shows "reads (quote_arg True arg out) (ws @ [arg]) Plain None"
proof -
  obtain out1 q prev where f: "fold (quote_char True) arg (out, False, None) = (out1, q, prev)" by (metis prod_cases3)
  have "arg_inv ws [] (out, False, None)" using assms by simp
  from arg_inv_arg [OF this, of arg] have inv: "arg_inv ws arg (out1, q, prev)" by (simp add: f del: arg_inv.simps)
  let ?tail = "(if q then [SQ] else []) @ (if arg = [] then [SQ, SQ] else []) @ '' ''"
  have "reads out1 ws (if q then Single else Plain) (if arg = [] then None else Some arg)" using inv by simp
  from reads_run [OF this] have "reads (out1 @ ?tail) (ws @ [arg]) Plain None" using inv by auto
  then show ?thesis by (auto simp: quote_arg_def f Let_def split: if_splits)
qed

lemma reads_quote_args:
  "reads out ws Plain None \<Longrightarrow> reads (fold (quote_arg True) args out) (ws @ args) Plain None"
proof (induction args arbitrary: out ws)
  case (Cons a args)
  from Cons.IH [OF reads_quote_arg [OF Cons.prems]] show ?case by simp
qed simp

lemma reads_sh_words: "reads out ws Plain None \<Longrightarrow> sh_words out = Some ws"
  by (simp add: reads_def sh_words_def)

lemma reads_quote_cmdline: "reads (quote_cmdline args True) args Plain None"
  using reads_quote_args [of "[]" "[]" args] by (simp add: quote_cmdline_def reads_def)

text \<open>What is written for an argument does not depend on the text before it.\<close>

lemma quote_char_shift:
  assumes "p = Some SQ \<Longrightarrow> out \<noteq> []"
  shows "quote_char w c (b @ out, q, p) = apfst ((@) b) (quote_char w c (out, q, p))"
    and "fst (quote_char w c (out, q, p)) \<noteq> []"
  using assms by (auto simp: Let_def butlast_append)

lemma quote_chars_shift:
  "(p = Some SQ \<Longrightarrow> out \<noteq> []) \<Longrightarrow>
    fold (quote_char w) xs (b @ out, q, p) = apfst ((@) b) (fold (quote_char w) xs (out, q, p))"
proof (induction xs arbitrary: out q p)
  case (Cons c xs)
  obtain out' q' p' where s: "quote_char w c (out, q, p) = (out', q', p')" by (metis prod_cases3)
  have "out' \<noteq> []" using quote_char_shift(2) [of p out w c q] Cons.prems s by simp
  then show ?case using quote_char_shift(1) [of p out w c b q] Cons.prems s Cons.IH [of p' out' q']
    by (simp del: quote_char.simps)
qed simp

lemma quote_arg_shift: "quote_arg w arg out = out @ quote_arg w arg []"
  using quote_chars_shift [of None "[]" w arg out False]
  by (auto simp: quote_arg_def Let_def split: prod.splits)

lemma quote_args_shift: "fold (quote_arg w) args out = out @ fold (quote_arg w) args []"
proof (induction args arbitrary: out)
  case (Cons a args)
  show ?case using Cons [of "quote_arg w a out"] Cons [of "quote_arg w a []"] quote_arg_shift [of w a out] by simp
qed simp

lemma quote_cmdline_Cons: "quote_cmdline (a # args) w = quote_cmdline [a] w @ quote_cmdline args w"
  using quote_args_shift [of w args "quote_arg w a []"] by (simp add: quote_cmdline_def)

lemma quote_apprun: "quote_cmdline [apprun_path] True = [SQ] @ apprun_path @ [SQ] @ '' ''"
  by (simp add: quote_cmdline_def quote_arg_def apprun_path_def)

section \<open>Properties\<close>

text \<open>C21. For arguments whose total size is far below the \<^verbatim>\<open>int\<close> range the two builders never write past their
  buffers. They refuse a line longer than \<^verbatim>\<open>ARG_MAX\<close>; otherwise the shell reads the
  arguments back, with the program replaced by AppRun for an AppImage.\<close>

theorem build_cmdline_safe:
  assumes "cmdline_bound argv < 2 ^ 30" and "0 \<le> index" and "nat index < length argv"
  shows "let args = drop (nat index) argv; args' = apprun_path # tl args in
    (case build_cmdline argv index True of
       Inl e \<Rightarrow> e = E2BIG \<and> LINUX_ARG_MAX < int (length (quote_cmdline args True))
     | Inr line \<Rightarrow> sh_words line = Some args) \<and>
    (case build_appimage_cmdline argv index True of
       Inl e \<Rightarrow> e = E2BIG \<and> LINUX_ARG_MAX \<le> int (length (quote_cmdline args' True))
     | Inr line \<Rightarrow> sh_words line = Some args')"
proof -
  obtain a rest where args: "drop (nat index) argv = a # rest"
    using assms(3) by (metis Cons_nth_drop_Suc)
  have bound: "cmdline_bound (a # rest) < 2 ^ 30"
    using assms(1) cmdline_bound_drop [of "nat index" argv] args by simp
  then have len: "cmdline_length (a # rest) True = int (length (quote_cmdline (a # rest) True))"
      "cmdline_length [a] True = int (length (quote_cmdline [a] True))"
      "cmdline_length [apprun_path] True = int (length (quote_cmdline [apprun_path] True))"
    by (auto intro!: cmdline_length_exact simp: cmdline_bound_def apprun_path_def)
  note words = reads_sh_words [OF reads_quote_cmdline]
  have app: "[SQ] @ apprun_path @ [SQ] @ '' '' @ quote_cmdline rest True = quote_cmdline (apprun_path # rest) True"
    unfolding quote_cmdline_Cons [of apprun_path rest] quote_apprun by simp
  have tmp: "drop (length (quote_cmdline [a] True)) (quote_cmdline (a # rest) True) = quote_cmdline rest True"
    unfolding quote_cmdline_Cons [of a rest] by simp
  have "build_cmdline argv index True =
      (if LINUX_ARG_MAX < int (length (quote_cmdline (a # rest) True)) then Inl E2BIG else Inr (quote_cmdline (a # rest) True))"
    using assms(2) by (simp add: build_cmdline_def args len write_buffer_def Let_def)
  moreover have "build_appimage_cmdline argv index True =
      (if LINUX_ARG_MAX \<le> int (length (quote_cmdline (apprun_path # rest) True)) then Inl E2BIG
       else Inr (quote_cmdline (apprun_path # rest) True))"
    using assms(2) 
    by (simp add: build_appimage_cmdline_def args len write_buffer_def Let_def tmp app [symmetric]
        quote_cmdline_Cons [of a rest] quote_cmdline_Cons [of apprun_path rest] quote_apprun del: append.simps)
  ultimately show ?thesis by (simp add: args words split: sum.split)
qed

theorem build_cmdline_safe_witness:
  "let argv = [''firejail'', ''echo'', ''it'' @ [SQ, SQ] @ ''s $HOME'', []] in
   case (build_cmdline argv 1 True, build_appimage_cmdline argv 1 True) of
     (Inr line, Inr line') \<Rightarrow> sh_words line = Some (tl argv) \<and> sh_words line' = Some (apprun_path # drop 2 argv)
   | _ \<Rightarrow> False"
proof -
  let ?argv = "[''firejail'', ''echo'', ''it'' @ [SQ, SQ] @ ''s $HOME'', []]"
  have "cmdline_bound ?argv < 2 ^ 30" by (simp add: cmdline_bound_def)
  note safe = build_cmdline_safe [of ?argv 1, OF this, simplified Let_def]
  have "length (quote_cmdline (tl ?argv) True) = 28" and "length (quote_cmdline (apprun_path # drop 2 ?argv) True) = 53"
    by (simp_all add: quote_cmdline_def quote_arg_def apprun_path_def)
  then show ?thesis using safe by (simp add: Let_def LINUX_ARG_MAX_def split: sum.splits)
qed

end
