(* ===== verification/Env.thy ===== *)
theory Env imports Prelude begin

text \<open>
  firejail/env.c and the first steps of \<^verbatim>\<open>main\<close>: the environment is stashed in a list of
  operations, the privileged process runs with a whitelist of variables, and the sandboxed program gets all of
  them back. The environment of the C library is a map; \<^verbatim>\<open>setenv\<close> fails on an empty name and
  on a name with an equals sign, where \<^verbatim>\<open>unsetenv\<close> does nothing (POSIX).
\<close>

section \<open>The list of operations\<close>

datatype ENV_OP = SETENV | RMENV

record Env =
  env_name :: string
  env_value :: string
  env_op :: ENV_OP

datatype env_error =
    InvalidEnvSetting
  | SetenvFailed
  | ValueTooLong
  | TooManyVariables
  | InvalidArgv
  | TooManyArguments
  | ArgumentTooLong

type_synonym environ = "string \<rightharpoonup> string"

definition env_add :: "Env \<Rightarrow> Env list \<Rightarrow> Env list" where
  "env_add env envlist = envlist @ [env]"

text \<open>The value field of a removal is not used.\<close>

definition env_store :: "string \<Rightarrow> ENV_OP \<Rightarrow> Env list \<Rightarrow> env_error + Env list" where
  "env_store str op envlist =
     (if str = [] then Inl InvalidEnvSetting
      else case op of
        SETENV \<Rightarrow>
          (case strchr_cut (CHR ''='') str of
             (name, None) \<Rightarrow> Inl InvalidEnvSetting
           | (name, Some value) \<Rightarrow> Inr (env_add \<lparr>env_name = name, env_value = value, env_op = SETENV\<rparr> envlist))
      | RMENV \<Rightarrow> Inr (env_add \<lparr>env_name = str, env_value = [], env_op = RMENV\<rparr> envlist))"

definition env_store_name_val :: "string \<Rightarrow> string \<Rightarrow> ENV_OP \<Rightarrow> Env list \<Rightarrow> env_error + Env list" where
  "env_store_name_val name val op envlist =
     (if name = [] then Inl InvalidEnvSetting
      else Inr (env_add \<lparr>env_name = name, env_value = (if op = SETENV then val else []), env_op = op\<rparr> envlist))"

text \<open>The lines of the files in \<^verbatim>\<open>~/.config/ibus/bus\<close>, as read by \<^verbatim>\<open>fgets\<close>.\<close>

definition env_ibus_line :: "string \<Rightarrow> Env list \<Rightarrow> env_error + Env list" where
  "env_ibus_line buf envlist =
     (if take 5 buf \<noteq> ''IBUS_'' then Inr envlist
      else if CHR ''='' \<notin> set buf then Inr envlist
      else env_store (fst (strchr_cut (CHR 0x0A) buf)) SETENV envlist)"

section \<open>Applying and reading\<close>

definition name_ok :: "string \<Rightarrow> bool" where
  "name_ok name \<longleftrightarrow> name \<noteq> [] \<and> CHR ''='' \<notin> set name"

definition setenv :: "string \<Rightarrow> string \<Rightarrow> environ \<Rightarrow> env_error + environ" where
  "setenv name value m = (if name_ok name then Inr (m(name \<mapsto> value)) else Inl SetenvFailed)"

definition unsetenv :: "string \<Rightarrow> environ \<Rightarrow> environ" where
  "unsetenv name m = (if name_ok name then m(name := None) else m)"

definition env_apply :: "Env \<Rightarrow> environ \<Rightarrow> env_error + environ" where
  "env_apply env m =
     (case env_op env of
        SETENV \<Rightarrow> setenv (env_name env) (env_value env) m
      | RMENV \<Rightarrow> Inr (unsetenv (env_name env) m))"

definition env_apply_all :: "Env list \<Rightarrow> environ \<Rightarrow> env_error + environ" where
  "env_apply_all envlist m = fold_res env_apply envlist m"

definition env_get_step :: "string \<Rightarrow> Env \<Rightarrow> string option \<Rightarrow> string option" where
  "env_get_step name env r =
     (if env_name env = name
      then (case env_op env of SETENV \<Rightarrow> Some (env_value env) | RMENV \<Rightarrow> None) else r)"

definition env_get :: "Env list \<Rightarrow> string \<Rightarrow> string option" where
  "env_get envlist name = fold (env_get_step name) envlist None"

text \<open>The two values of \<^verbatim>\<open>PROMPT_COMMAND\<close>.\<close>

definition prompt_command :: "bool \<Rightarrow> string" where
  "prompt_command set_prompt =
     (if set_prompt
      then ''export PS1='' @ [CHR 0x22] @ [CHR 0x5C] @ ''['' @ [CHR 0x5C] @ ''e[1;32m'' @ [CHR 0x5C] @ '']['' @
           [CHR 0x5C] @ ''u@'' @ [CHR 0x5C] @ ''h '' @ [CHR 0x5C] @ ''W]'' @ [CHR 0x5C] @ ''$'' @
           [CHR 0x5C] @ ''['' @ [CHR 0x5C] @ ''e[0m'' @ [CHR 0x5C] @ ''] '' @ [CHR 0x22]
      else '':'')"

definition env_defaults :: "string \<Rightarrow> bool \<Rightarrow> bool \<Rightarrow> Env list \<Rightarrow> env_error + Env list" where
  "env_defaults usershell cfg_prompt quiet envlist =
     bind_res (env_store_name_val ''QT_X11_NO_MITSHM'' ''1'' SETENV envlist) (\<lambda>l1.
     bind_res (env_store_name_val ''QML_DISABLE_DISK_CACHE'' ''1'' SETENV l1) (\<lambda>l2.
     bind_res (env_store_name_val ''container'' ''firejail'' SETENV l2) (\<lambda>l3.
     bind_res (env_store_name_val ''SHELL'' usershell SETENV l3) (\<lambda>l4.
     bind_res (env_store_name_val ''KDE_FORK_SLAVES'' ''1'' SETENV l4) (\<lambda>l5.
     let set_prompt = (cfg_prompt \<or> env_get l5 ''FIREJAIL_PROMPT'' = Some ''yes'')
     in bind_res (env_store_name_val ''PROMPT_COMMAND'' (prompt_command set_prompt) SETENV l5) (\<lambda>l6.
        if quiet then env_store_name_val ''FIREJAIL_QUIET'' ''yes'' SETENV l6 else Inr l6))))))"

definition env_whitelist :: "string list" where
  "env_whitelist = [''LANG'', ''LANGUAGE'', ''LC_MESSAGES'', ''DISPLAY'']"

definition env_whitelist_sbox :: "string list" where
  "env_whitelist_sbox =
     [''FIREJAIL_DEBUG'', ''FIREJAIL_FILE_COPY_LIMIT'', ''FIREJAIL_PLUGIN'', ''FIREJAIL_QUIET'',
      ''FIREJAIL_SECCOMP_ERROR_ACTION'', ''FIREJAIL_TEST_ARGUMENTS'', ''FIREJAIL_TRACEFILE'']"

definition env_apply_listed :: "string list \<Rightarrow> nat \<Rightarrow> Env \<Rightarrow> environ \<Rightarrow> env_error + environ" where
  "env_apply_listed wl env_max_len env m =
     (case env_op env of
        SETENV \<Rightarrow>
          if env_name env \<in> set wl then
            (if env_max_len \<le> length (env_name env) + length (env_value env) then Inl ValueTooLong
             else setenv (env_name env) (env_value env) m)
          else Inr m
      | RMENV \<Rightarrow> Inr (unsetenv (env_name env) m))"

definition env_apply_list :: "string list \<Rightarrow> nat \<Rightarrow> Env list \<Rightarrow> environ \<Rightarrow> env_error + environ" where
  "env_apply_list wl env_max_len envlist m = fold_res (env_apply_listed wl env_max_len) envlist m"

definition hard_path :: string where
  "hard_path = ''/usr/local/bin:/usr/bin:/bin:/usr/local/sbin:/usr/sbin:/sbin''"

definition env_apply_whitelist :: "nat \<Rightarrow> Env list \<Rightarrow> env_error + environ" where
  "env_apply_whitelist env_max_len envlist =
     bind_res (env_apply_list env_whitelist env_max_len envlist Map.empty) (setenv ''PATH'' hard_path)"

definition env_apply_whitelist_sbox :: "nat \<Rightarrow> Env list \<Rightarrow> env_error + environ" where
  "env_apply_whitelist_sbox env_max_len envlist =
     bind_res (env_apply_whitelist env_max_len envlist)
       (env_apply_list env_whitelist_sbox env_max_len envlist)"

section \<open>The start of the program\<close>

record main_env =
  arg_quiet :: bool
  arg_debug :: bool
  envlist :: "Env list"
  process_env :: environ

text \<open>
  What \<^verbatim>\<open>checkcfg\<close> takes from firejail.config at this point: the last quiet-by-default, the settings
  file-copy-limit in the order of the file, and the limits.
\<close>

record start_cfg =
  quiet_by_default :: "bool option"
  file_copy_limits :: "string list"
  arg_max_count :: nat
  arg_max_len :: nat
  env_max_count :: nat
  env_max_len :: nat

text \<open>\<^verbatim>\<open>check_arg\<close>: the index of an option among the ones before the program, 0 if it is not there.\<close>

fun check_arg_from :: "nat \<Rightarrow> string \<Rightarrow> bool \<Rightarrow> string list \<Rightarrow> nat" where
  "check_arg_from i argument strict [] = 0"
| "check_arg_from i argument strict (a # args) =
     (if (if strict then a = argument else take (length argument) a = argument) then i
      else if a = ''--'' \<or> take 2 a \<noteq> ''--'' then 0
      else check_arg_from (Suc i) argument strict args)"

definition check_arg :: "string list \<Rightarrow> string \<Rightarrow> bool \<Rightarrow> nat" where
  "check_arg argv argument strict = check_arg_from 1 argument strict (tl argv)"

text \<open>
  \<^verbatim>\<open>main\<close> from the check of \<^verbatim>\<open>argv\<close> to the whitelist; \<open>C\<close> is what \<^verbatim>\<open>checkcfg\<close> read.
\<close>

definition main_environment :: "start_cfg \<Rightarrow> string list \<Rightarrow> string list \<Rightarrow> env_error + main_env" where
  "main_environment C argv envp =
     (if argv = [] \<or> hd argv = [] then Inl InvalidArgv
      else
        let quiet = (check_arg argv ''--quiet'' True \<noteq> 0 \<or> env_get [] ''FIREJAIL_QUIET'' = Some ''yes'');
            debug = (check_arg argv ''--debug'' True \<noteq> 0);
            quiet = (if debug then False else quiet)
        in bind_res (fold_res (\<lambda>v. env_store_name_val ''FIREJAIL_FILE_COPY_LIMIT'' v SETENV) (file_copy_limits C) []) (\<lambda>l0.
           let quiet = (case quiet_by_default C of None \<Rightarrow> quiet | Some q \<Rightarrow> q)
           in if arg_max_count C \<le> length argv then Inl TooManyArguments
              else if list_ex (\<lambda>a. arg_max_len C \<le> length a) argv then Inl ArgumentTooLong
              else bind_res (fold_res (\<lambda>s. env_store s SETENV) (take (env_max_count C) envp) l0) (\<lambda>l.
                if env_max_count C \<le> length envp then Inl TooManyVariables
                else bind_res (env_apply_whitelist (env_max_len C) l) (\<lambda>m.
                  Inr \<lparr>arg_quiet = quiet, arg_debug = debug, envlist = l, process_env = m\<rparr>))))"

text \<open>
  The environment \<^verbatim>\<open>start_application\<close> gives the program: the defaults are appended to the list, unless the
  program runs without a sandbox, and the whole list is applied.
\<close>

definition start_environment ::
    "bool \<Rightarrow> string \<Rightarrow> bool \<Rightarrow> bool \<Rightarrow> Env list \<Rightarrow> environ \<Rightarrow> env_error + environ" where
  "start_environment no_sandbox usershell cfg_prompt quiet l m =
     bind_res (if no_sandbox then Inr l else env_defaults usershell cfg_prompt quiet l)
       (\<lambda>l'. env_apply_all l' m)"

section \<open>Reading back\<close>

lemma env_apply_result:
  assumes "fold_res env_apply es m = Inr m'" and "name_ok name"
  shows "m' name = (if \<exists>e \<in> set es. env_name e = name then env_get es name else m name)"
  using assms(1)
proof (induction es arbitrary: m' rule: rev_induct)
  case (snoc e es)
  then obtain m1 where m1: "fold_res env_apply es m = Inr m1" "env_apply e m1 = Inr m'"
    by (auto simp: fold_res_append split: sum.splits)
  show ?case using snoc.IH [OF m1(1)] m1(2) assms(2)
    by (auto simp: env_apply_def setenv_def unsetenv_def env_get_def env_get_step_def split: ENV_OP.splits if_splits)
qed simp

lemma env_apply_listed_result:
  assumes "fold_res (env_apply_listed wl n) es Map.empty = Inr m" and "\<forall>w \<in> set wl. name_ok w"
  shows "m name = (if name \<in> set wl then env_get es name else None) \<and>
    (\<forall>v. m name = Some v \<longrightarrow> length name + length v < n)"
  using assms(1)
proof (induction es arbitrary: m rule: rev_induct)
  case (snoc e es)
  then obtain m1 where m1: "fold_res (env_apply_listed wl n) es Map.empty = Inr m1" "env_apply_listed wl n e m1 = Inr m"
    by (auto simp: fold_res_append split: sum.splits)
  show ?case using snoc.IH [OF m1(1)] m1(2) assms(2)
    by (auto simp: env_apply_listed_def setenv_def unsetenv_def env_get_def env_get_step_def split: ENV_OP.splits if_splits)
qed (simp add: env_get_def)

text \<open>The variables of the environment the program was started with; a later entry wins.\<close>

definition variables :: "string list \<Rightarrow> environ" where
  "variables envp = map_of (rev (map (\<lambda>s. (fst (strchr_cut (CHR ''='') s), the (snd (strchr_cut (CHR ''='') s)))) envp))"

definition limit_entries :: "string list \<Rightarrow> string list" where
  "limit_entries limits = map (\<lambda>v. ''FIREJAIL_FILE_COPY_LIMIT='' @ v) limits"

text \<open>The variables the sandbox sets itself.\<close>

definition default_variables :: "string \<Rightarrow> bool \<Rightarrow> bool \<Rightarrow> environ" where
  "default_variables usershell set_prompt quiet =
     [''QT_X11_NO_MITSHM'' \<mapsto> ''1'', ''QML_DISABLE_DISK_CACHE'' \<mapsto> ''1'', ''container'' \<mapsto> ''firejail'',
      ''SHELL'' \<mapsto> usershell, ''KDE_FORK_SLAVES'' \<mapsto> ''1'', ''PROMPT_COMMAND'' \<mapsto> prompt_command set_prompt] ++
     (if quiet then [''FIREJAIL_QUIET'' \<mapsto> ''yes''] else Map.empty)"

text \<open>A variable after the operations of a list.\<close>

definition updated :: "Env list \<Rightarrow> string \<Rightarrow> string option \<Rightarrow> string option" where
  "updated ops name v = (if \<exists>e \<in> set ops. env_name e = name then env_get ops name else v)"

lemma env_get_append:
  "env_get (l @ ops) name = updated ops name (env_get l name)"
  by (induction ops rule: rev_induct)
     (auto simp: updated_def env_get_def env_get_step_def split: ENV_OP.splits)

lemma env_store_all:
  assumes "fold_res (\<lambda>s. env_store s SETENV) envp l0 = Inr l"
  shows "env_get l name = (case variables envp name of None \<Rightarrow> env_get l0 name | Some v \<Rightarrow> Some v) \<and>
    ((\<exists>e \<in> set l. env_name e = name) \<longleftrightarrow> (\<exists>e \<in> set l0. env_name e = name) \<or> variables envp name \<noteq> None)"
  using assms
proof (induction envp arbitrary: l rule: rev_induct)
  case (snoc s envp)
  then obtain l1 where l1: "fold_res (\<lambda>s. env_store s SETENV) envp l0 = Inr l1" "env_store s SETENV l1 = Inr l"
    by (auto simp: fold_res_append split: sum.splits)
  obtain n v where cut: "strchr_cut (CHR ''='') s = (n, Some v)" "l = l1 @ [\<lparr>env_name = n, env_value = v, env_op = SETENV\<rparr>]"
    using l1(2) by (auto simp: env_store_def env_add_def split: if_splits prod.splits option.splits)
  show ?case using snoc.IH [OF l1(1)] cut
    by (auto simp: variables_def env_get_def env_get_step_def split: option.splits)
qed (simp add: variables_def)

lemma stored_variables:
  assumes "fold_res (\<lambda>s. env_store s SETENV) envp [] = Inr l"
  shows "env_get l name = variables envp name" "(\<exists>e \<in> set l. env_name e = name) \<longleftrightarrow> variables envp name \<noteq> None"
  using env_store_all [OF assms, of name] by (auto simp: env_get_def split: option.splits)

lemma limit_entries_store:
  "fold_res (\<lambda>v. env_store_name_val ''FIREJAIL_FILE_COPY_LIMIT'' v SETENV) limits l =
    fold_res (\<lambda>s. env_store s SETENV) (limit_entries limits) l"
proof -
  have "strchr_cut (CHR ''='') (''FIREJAIL_FILE_COPY_LIMIT'' @ CHR ''='' # v) = (''FIREJAIL_FILE_COPY_LIMIT'', Some v)" for v
    by (rule strchr_cut_append) simp
  then show ?thesis
    by (induction limits arbitrary: l)
       (simp_all add: limit_entries_def env_store_name_val_def env_store_def)
qed

lemma main_environment_steps:
  assumes "main_environment C argv envp = Inr s"
  shows "fold_res (\<lambda>s. env_store s SETENV) (limit_entries (file_copy_limits C) @ envp) [] = Inr (envlist s)"
    and "env_apply_whitelist (env_max_len C) (envlist s) = Inr (process_env s)"
    and "arg_quiet s = (case quiet_by_default C of Some q \<Rightarrow> q
      | None \<Rightarrow> check_arg argv ''--quiet'' True \<noteq> 0 \<and> check_arg argv ''--debug'' True = 0)"
  using assms
  by (auto simp: main_environment_def Let_def limit_entries_store bind_res_Inr fold_res_append env_get_def
      split: if_splits option.splits)

lemma env_defaults_list:
  "\<exists>ops. env_defaults usershell prompt quiet l = Inr (l @ ops) \<and>
    (\<forall>name v. updated ops name v =
      (case default_variables usershell (prompt \<or> env_get l ''FIREJAIL_PROMPT'' = Some ''yes'') quiet name of
         Some d \<Rightarrow> Some d | None \<Rightarrow> v))"
  by (auto simp: env_defaults_def env_store_name_val_def env_add_def Let_def default_variables_def updated_def
      env_get_def env_get_step_def split: option.splits)

lemma start_environment_result:
  assumes "start_environment no_sandbox usershell prompt quiet l m0 = Inr m" and "name_ok name"
  shows "m name =
    (case (if no_sandbox then None
           else default_variables usershell (prompt \<or> env_get l ''FIREJAIL_PROMPT'' = Some ''yes'') quiet name) of
       Some d \<Rightarrow> Some d | None \<Rightarrow> updated l name (m0 name))"
proof -
  obtain ops where ops: "env_defaults usershell prompt quiet l = Inr (l @ ops)"
    "\<And>v. updated ops name v = (case default_variables usershell (prompt \<or> env_get l ''FIREJAIL_PROMPT'' = Some ''yes'') quiet name of
         Some d \<Rightarrow> Some d | None \<Rightarrow> v)"
    using env_defaults_list [of usershell prompt quiet l] by blast
  define l' where "l' = (if no_sandbox then l else l @ ops)"
  have "env_apply_all l' m0 = Inr m"
    using assms(1) ops(1) by (auto simp: start_environment_def l'_def)
  from env_apply_result [OF this [unfolded env_apply_all_def] assms(2)]
  have "m name = updated l' name (m0 name)" by (simp add: updated_def)
  moreover have "updated (l @ ops) name v = updated ops name (updated l name v)" for v
    by (auto simp: updated_def env_get_append)
  ultimately show ?thesis using ops(2) by (simp add: l'_def)
qed

lemma whitelist_result:
  assumes "env_apply_whitelist mx l = Inr m"
  shows "m name = (if name = ''PATH'' then Some hard_path else if name \<in> set env_whitelist then env_get l name else None)"
    and "name \<in> set env_whitelist \<Longrightarrow> m name = Some v \<Longrightarrow> length name + length v < mx"
proof -
  obtain m1 where m1: "env_apply_list env_whitelist mx l Map.empty = Inr m1" "m = m1(''PATH'' \<mapsto> hard_path)"
    using assms by (auto simp: env_apply_whitelist_def bind_res_Inr setenv_def split: if_splits)
  have ok: "\<forall>w \<in> set env_whitelist. name_ok w" by (simp add: env_whitelist_def name_ok_def)
  note r = env_apply_listed_result [OF m1(1) [unfolded env_apply_list_def] ok, of name]
  show "m name = (if name = ''PATH'' then Some hard_path else if name \<in> set env_whitelist then env_get l name else None)"
    using r m1(2) by simp
  show "name \<in> set env_whitelist \<Longrightarrow> m name = Some v \<Longrightarrow> length name + length v < mx"
    using r m1(2) by (auto simp: env_whitelist_def)
qed

text \<open>
  The manual says that \<^verbatim>\<open>FIREJAIL_QUIET=yes\<close> has the effect of \<^verbatim>\<open>--quiet\<close>, but the variable is looked up
  before the environment is stashed: only the options and the configuration count.
\<close>

lemma quiet_variable_ignored:
  "main_environment C argv envp = Inr s \<Longrightarrow> arg_quiet s = (case quiet_by_default C of Some q \<Rightarrow> q
     | None \<Rightarrow> check_arg argv ''--quiet'' True \<noteq> 0 \<and> check_arg argv ''--debug'' True = 0)"
  by (rule main_environment_steps(3))

section \<open>Properties\<close>

text \<open>C22. The privileged process runs with a fixed search path and with no variable of the caller but the four of the
  whitelist, each shorter than the configured limit. When the program is started, after the options and profiles
  added their operations \<open>ops\<close> to the list, it gets the variables the sandbox sets (shell, container, prompt and the
  others of \<^verbatim>\<open>env_defaults\<close>) with the values of the sandbox, unless it runs without one; every other variable is what
  the last operation of the options made of it, and one no option touched has the last value the caller
  gave it, where an unset search path becomes the fixed one.\<close>

theorem environment_whitelisted_and_restored:
  assumes "main_environment C argv envp = Inr s"
    and "start_environment no_sandbox usershell prompt quiet (envlist s @ ops) (process_env s) = Inr m" and "name_ok name"
  shows "let caller = variables (limit_entries (file_copy_limits C) @ envp);
             set_prompt = (prompt \<or> updated ops ''FIREJAIL_PROMPT'' (caller ''FIREJAIL_PROMPT'') = Some ''yes'')
    in process_env s name =
         (if name = ''PATH'' then Some hard_path else if name \<in> set env_whitelist then caller name else None) \<and>
       (name \<in> set env_whitelist \<longrightarrow> (\<forall>v. process_env s name = Some v \<longrightarrow> length name + length v < env_max_len C)) \<and>
       m name =
         (case (if no_sandbox then None else default_variables usershell set_prompt quiet name) of
            Some d \<Rightarrow> Some d
          | None \<Rightarrow> updated ops name (case caller name of Some v \<Rightarrow> Some v
              | None \<Rightarrow> if name = ''PATH'' then Some hard_path else None))"
proof -
  note steps = main_environment_steps [OF assms(1)]
  note get = stored_variables [OF steps(1)]
  let ?caller = "variables (limit_entries (file_copy_limits C) @ envp)"
  have white: "process_env s name =
      (if name = ''PATH'' then Some hard_path else if name \<in> set env_whitelist then ?caller name else None)"
    using whitelist_result(1) [OF steps(2), of name] get(1) by simp
  have "updated (envlist s @ ops) name (process_env s name) =
      updated ops name (case ?caller name of Some v \<Rightarrow> Some v | None \<Rightarrow> process_env s name)"
    using get [of name] by (auto simp: updated_def env_get_append split: option.split)
  also have "\<dots> = updated ops name (case ?caller name of Some v \<Rightarrow> Some v
      | None \<Rightarrow> if name = ''PATH'' then Some hard_path else None)"
    by (subst white) (auto split: option.split)
  finally have "updated (envlist s @ ops) name (process_env s name) =
    updated ops name (case ?caller name of Some v \<Rightarrow> Some v | None \<Rightarrow> if name = ''PATH'' then Some hard_path else None)" .
  note m = start_environment_result [OF assms(2,3), unfolded this env_get_append get(1)]
  show ?thesis
    unfolding Let_def by (intro conjI white m impI allI whitelist_result(2) [OF steps(2)])
qed

theorem environment_whitelisted_and_restored_witness:
  "let C = \<lparr>quiet_by_default = None, file_copy_limits = [''500''], arg_max_count = 128, arg_max_len = 4128,
         env_max_count = 256, env_max_len = 4128\<rparr>;
       envp = [''LD_PRELOAD=x.so'', ''LANG=C'', ''PATH=/opt/bin'', ''SHELL=/bin/zsh''];
       ops = [\<lparr>env_name = ''PATH'', env_value = [], env_op = RMENV\<rparr>]
   in \<exists>s m. main_environment C [''firejail'', ''prog''] envp = Inr s \<and>
     start_environment False ''/bin/bash'' False False (envlist s @ ops) (process_env s) = Inr m \<and>
     process_env s ''LD_PRELOAD'' = None \<and> m ''LD_PRELOAD'' = Some ''x.so'' \<and>
     m ''SHELL'' = Some ''/bin/bash'' \<and> m ''PATH'' = None"
proof -
  let ?C = "\<lparr>quiet_by_default = None, file_copy_limits = [''500''], arg_max_count = 128, arg_max_len = 4128,
         env_max_count = 256, env_max_len = 4128\<rparr>"
  let ?envp = "[''LD_PRELOAD=x.so'', ''LANG=C'', ''PATH=/opt/bin'', ''SHELL=/bin/zsh'']"
  let ?ops = "[\<lparr>env_name = ''PATH'', env_value = [], env_op = RMENV\<rparr>]"
  note defs = main_environment_def Let_def env_store_def env_store_name_val_def strchr_cut_def env_add_def
    env_apply_whitelist_def env_apply_list_def env_apply_listed_def env_whitelist_def setenv_def unsetenv_def name_ok_def
    start_environment_def env_defaults_def env_apply_all_def env_apply_def
  obtain s where s: "main_environment ?C [''firejail'', ''prog''] ?envp = Inr s"
    by (simp add: defs)
  then obtain m where m: "start_environment False ''/bin/bash'' False False (envlist s @ ?ops) (process_env s) = Inr m"
    by (auto simp: defs)
  have "variables (''FIREJAIL_FILE_COPY_LIMIT=500'' # ?envp) = [''FIREJAIL_FILE_COPY_LIMIT'' \<mapsto> ''500'',
      ''LD_PRELOAD'' \<mapsto> ''x.so'', ''LANG'' \<mapsto> ''C'', ''PATH'' \<mapsto> ''/opt/bin'', ''SHELL'' \<mapsto> ''/bin/zsh'']"
    by (auto simp: variables_def strchr_cut_def fun_eq_iff)
  note eval = this limit_entries_def env_whitelist_def default_variables_def updated_def env_get_def env_get_step_def name_ok_def
  have "process_env s ''LD_PRELOAD'' = None \<and> m ''LD_PRELOAD'' = Some ''x.so''"
    using environment_whitelisted_and_restored [OF s m, of "''LD_PRELOAD''"] by (simp add: eval)
  moreover have "m ''SHELL'' = Some ''/bin/bash''"
    using environment_whitelisted_and_restored [OF s m, of "''SHELL''"] by (simp add: eval)
  moreover have "m ''PATH'' = None"
    using environment_whitelisted_and_restored [OF s m, of "''PATH''"] by (simp add: eval)
  ultimately show ?thesis using s m unfolding Let_def by blast
qed

end
