(* ===== verification/Profile_Lists.thy ===== *)
theory Profile_Lists imports Prelude begin

text \<open>
  The comma separated lists of firejail/profile.c (protocols, namespaces, system calls and file
  descriptors), edited by later options: \<^verbatim>\<open>profile_list_normalize\<close>, \<^verbatim>\<open>profile_list_compress\<close> and
  \<^verbatim>\<open>profile_list_augment\<close>. The compression works on an array of pointers into the text, where a
  NULL pointer is a removed item; its specification is a sequence of edits of an ordered set.
\<close>

section \<open>The operations\<close>

abbreviation comma :: char where "comma \<equiv> CHR '',''"

function normalize_loop :: "string \<Rightarrow> string" where
  "normalize_loop [] = []"
| "normalize_loop (c # s) =
     (if c = comma then
        (let s' = dropWhile (\<lambda>x. x = comma) s in if s' = [] then [] else c # normalize_loop s')
      else c # normalize_loop s)"
  by pat_completeness auto

termination normalize_loop
  by (relation "measure length") (auto simp: le_imp_less_Suc length_dropWhile_le)

definition profile_list_normalize :: "string \<Rightarrow> string" where
  "profile_list_normalize l = normalize_loop (dropWhile (\<lambda>x. x = comma) l)"

text \<open>The array \<^verbatim>\<open>in\<close>: \<open>None\<close> is the NULL pointer. The loops over the items before \<open>i\<close>.\<close>

type_synonym item_array = "string option list"

definition included :: "string \<Rightarrow> nat \<Rightarrow> item_array \<Rightarrow> bool" where
  "included item i arr \<longleftrightarrow> Some item \<in> set (take i arr)"

definition remove_first :: "string \<Rightarrow> nat \<Rightarrow> item_array \<Rightarrow> item_array" where
  "remove_first item i arr =
     (if included item i arr
      then arr[length (takeWhile (\<lambda>x. x \<noteq> Some item) arr) := None] else arr)"

definition add_item :: "string \<Rightarrow> nat \<Rightarrow> item_array \<Rightarrow> item_array" where
  "add_item item i arr =
     (if item = [] then arr[i := None]
      else if included item i arr then arr[i := None] else arr)"

definition compress_item :: "nat \<Rightarrow> item_array \<Rightarrow> item_array" where
  "compress_item i arr =
     (case the (arr ! i) of
        [] \<Rightarrow> add_item [] i arr
      | c # item \<Rightarrow>
          if c = CHR ''-'' then remove_first item i (arr[i := None])
          else if c = CHR ''+'' then add_item item i (arr[i := Some item])
          else if c = CHR ''='' then
            replicate i None @ drop i (arr[i := if item = [] then None else Some item])
          else add_item (c # item) i arr)"

text \<open>Copying back: a comma before every item but the first one written.\<close>

definition copy_item :: "string option \<Rightarrow> string \<Rightarrow> string" where
  "copy_item x out =
     (case x of None \<Rightarrow> out | Some item \<Rightarrow> (if out \<noteq> [] then out @ [comma] else out) @ item)"

definition profile_list_compress :: "string \<Rightarrow> string" where
  "profile_list_compress l =
     (let arr = map Some (split_on comma (profile_list_normalize l));
          arr' = fold compress_item [0..<length arr] arr
      in fold copy_item arr' [])"

datatype list_error = ListTooLong

definition MAX_LIST :: nat where "MAX_LIST = 16384"

definition profile_list_augment :: "string \<Rightarrow> string option \<Rightarrow> list_error + string option" where
  "profile_list_augment items l =
     (let l' = profile_list_compress ((case l of None \<Rightarrow> [] | Some s \<Rightarrow> s) @ [comma] @ items)
      in if MAX_LIST < length l' then Inl ListTooLong else Inr (Some l'))"

section \<open>Specification\<close>

text \<open>The edits a list of items makes to an ordered set.\<close>

definition list_insert :: "string \<Rightarrow> string list \<Rightarrow> string list" where
  "list_insert item S = (if item = [] \<or> item \<in> set S then S else S @ [item])"

definition list_edit :: "string \<Rightarrow> string list \<Rightarrow> string list" where
  "list_edit item S =
     (case item of
        [] \<Rightarrow> S
      | c # name \<Rightarrow>
          if c = CHR ''-'' then filter (\<lambda>x. x \<noteq> name) S
          else if c = CHR ''+'' then list_insert name S
          else if c = CHR ''='' then (if name = [] then [] else [name])
          else list_insert item S)"

definition list_edits :: "string list \<Rightarrow> string list \<Rightarrow> string list" where
  "list_edits items S = fold list_edit items S"

section \<open>Normalising\<close>

lemma strtok_all_skip: "strtok_all d (dropWhile (\<lambda>x. x = d) s) = strtok_all d s"
  by (induction s) (auto simp: strtok_all_def)

lemma strtok_all_sep [simp]: "strtok_all d (d # s) = strtok_all d s"
  by (simp add: strtok_all_def)

lemma split_on_hd: "hd (split_on d s) = [] \<longleftrightarrow> s = [] \<or> hd s = d"
  by (cases s) (auto split: list.split)

lemma strtok_all_Cons:
  assumes "c \<noteq> d"
  shows "strtok_all d (c # s) =
    (if s = [] \<or> hd s = d then [c] # strtok_all d s
     else (c # hd (strtok_all d s)) # tl (strtok_all d s))"
proof -
  obtain p ps where p: "split_on d s = p # ps" by (cases "split_on d s") auto
  then have "p = [] \<longleftrightarrow> s = [] \<or> hd s = d" using split_on_hd [of d s] by simp
  then show ?thesis using assms p by (auto simp: strtok_all_def)
qed

lemma strtok_all_not_Nil: "s \<noteq> [] \<Longrightarrow> hd s \<noteq> d \<Longrightarrow> strtok_all d s \<noteq> []"
  by (cases s) (auto simp: strtok_all_Cons)

lemma normalize_loop_tokens:
  "normalize_loop s =
    (if strtok_all comma s = [] then []
     else (if hd s = comma then [comma] else []) @ join_on comma (strtok_all comma s))"
proof (induction s rule: normalize_loop.induct)
  case 1
  then show ?case by simp
next
  case (2 c s)
  show ?case
  proof (cases "c = comma")
    case True
    let ?s' = "dropWhile (\<lambda>x. x = comma) s"
    have tok: "strtok_all comma ?s' = strtok_all comma s" by (rule strtok_all_skip)
    show ?thesis
    proof (cases "?s' = []")
      case nil: True
      with tok have "strtok_all comma s = []" by simp
      with nil True show ?thesis by simp
    next
      case False
      then have "hd ?s' \<noteq> comma" using hd_dropWhile [of "\<lambda>x. x = comma" s] by simp
      with 2(1) [OF True refl False] False True tok strtok_all_not_Nil [of ?s' comma] show ?thesis by simp
    qed
  next
    case False
    then show ?thesis using 2(2) [OF False] strtok_all_not_Nil [of s comma]
      by (cases "strtok_all comma s"; cases "tl (strtok_all comma s)") (auto simp: strtok_all_Cons)
  qed
qed

lemma profile_list_normalize_tokens: "profile_list_normalize l = join_on comma (strtok_all comma l)"
proof -
  let ?s = "dropWhile (\<lambda>x. x = comma) l"
  show ?thesis
  proof (cases "?s = []")
    case True
    have "strtok_all comma l = strtok_all comma ?s" by (rule strtok_all_skip [symmetric])
    also have "\<dots> = []" unfolding True by simp
    finally have "strtok_all comma l = []" .
    then show ?thesis unfolding profile_list_normalize_def True by simp
  next
    case False
    then have "hd ?s \<noteq> comma" by (rule hd_dropWhile)
    then show ?thesis
      unfolding profile_list_normalize_def normalize_loop_tokens [of ?s] strtok_all_skip by simp
  qed
qed

section \<open>Compressing\<close>

text \<open>The items before \<open>i\<close> that are still in the array.\<close>

definition kept :: "nat \<Rightarrow> item_array \<Rightarrow> string list" where
  "kept i arr = map the (filter (\<lambda>x. x \<noteq> None) (take i arr))"

lemma set_kept: "x \<in> set (kept i arr) \<longleftrightarrow> included x i arr"
  by (force simp: kept_def included_def)

lemma kept_Suc:
  "i < length arr \<Longrightarrow> kept (Suc i) arr = kept i arr @ (case arr ! i of None \<Rightarrow> [] | Some x \<Rightarrow> [x])"
  by (simp add: kept_def take_Suc_conv_app_nth split: option.split)

lemma kept_update [simp]: "i \<le> j \<Longrightarrow> kept i (arr[j := v]) = kept i arr"
  by (simp add: kept_def)

lemma included_update [simp]: "i \<le> j \<Longrightarrow> included x i (arr[j := v]) = included x i arr"
  by (simp add: included_def)

lemma first_before:
  assumes "included x i arr"
  shows "length (takeWhile (\<lambda>y. y \<noteq> Some x) arr) < i"
proof -
  have "takeWhile (\<lambda>y. y \<noteq> Some x) arr = takeWhile (\<lambda>y. y \<noteq> Some x) (take i arr)"
    using assms takeWhile_append1 [of "Some x" "take i arr" "\<lambda>y. y \<noteq> Some x" "drop i arr"]
    by (simp add: included_def)
  moreover have "z \<in> set ys \<Longrightarrow> length (takeWhile (\<lambda>y. y \<noteq> z) ys) < length ys" for z :: "string option" and ys
    by (induction ys) auto
  from this [of "Some x" "take i arr"] assms
  have "length (takeWhile (\<lambda>y. y \<noteq> Some x) (take i arr)) < length (take i arr)" by (simp add: included_def)
  ultimately show ?thesis by simp
qed

lemma remove_first_frame:
  "length (remove_first x i arr) = length arr" "i \<le> k \<Longrightarrow> remove_first x i arr ! k = arr ! k"
  "i \<le> k \<Longrightarrow> drop k (remove_first x i arr) = drop k arr"
  using first_before [of x i arr] by (auto simp: remove_first_def)

lemma kept_remove_first:
  assumes "distinct (kept i arr)"
  shows "kept i (remove_first x i arr) = filter (\<lambda>y. y \<noteq> x) (kept i arr)"
proof (cases "included x i arr")
  case False
  then have "\<forall>y \<in> set (kept i arr). y \<noteq> x" using set_kept by metis
  with False show ?thesis by (simp add: remove_first_def)
next
  case True
  then obtain us vs where t: "take i arr = us @ Some x # vs" "Some x \<notin> set us"
    unfolding included_def using split_list_first by fastforce
  have arr: "arr = us @ Some x # vs @ drop i arr"
    using t(1) append_take_drop_id [of i arr] by simp
  then have tw: "takeWhile (\<lambda>y. y \<noteq> Some x) arr = us"
    using t(2) by (metis (mono_tags, lifting) takeWhile_append2 takeWhile.simps(2) append_Nil2)
  have len: "length us < i" using arg_cong [OF t(1), of length] by simp
  then have upd: "take i (remove_first x i arr) = us @ None # vs"
    using True t(1) by (simp add: remove_first_def tw take_update_swap)
  have k: "kept i arr = map the (filter (\<lambda>y. y \<noteq> None) us) @ x # map the (filter (\<lambda>y. y \<noteq> None) vs)"
    by (simp add: kept_def t(1))
  then have "\<forall>y \<in> set (map the (filter (\<lambda>y. y \<noteq> None) us) @ map the (filter (\<lambda>y. y \<noteq> None) vs)). y \<noteq> x"
    using assms by auto
  then have "filter (\<lambda>y. y \<noteq> x) (kept i arr) =
      map the (filter (\<lambda>y. y \<noteq> None) us) @ map the (filter (\<lambda>y. y \<noteq> None) vs)"
    unfolding k by (simp add: filter_id_conv)
  then show ?thesis by (simp add: kept_def upd)
qed

text \<open>One step of the loop is one edit; the items not yet reached stay.\<close>

lemma compress_item_edit:
  assumes i: "i < length arr" and item: "arr ! i = Some item" and d: "distinct (kept i arr)"
  shows "kept (Suc i) (compress_item i arr) = list_edit item (kept i arr)"
    and "length (compress_item i arr) = length arr"
    and "drop (Suc i) (compress_item i arr) = drop (Suc i) arr"
proof -
  have k: "kept (Suc i) arr' = kept i arr' @ (case arr' ! i of None \<Rightarrow> [] | Some x \<Rightarrow> [x])"
    if "length arr' = length arr" for arr' using that i by (simp add: kept_Suc)
  show "kept (Suc i) (compress_item i arr) = list_edit item (kept i arr)"
  proof (cases item)
    case Nil
    with item i show ?thesis by (simp add: compress_item_def add_item_def list_edit_def k)
  next
    case (Cons c name)
    have cleared: "kept i (replicate i None @ drop i ys) = []" "(replicate i None @ drop i ys) ! i = ys ! i"
      if "length ys = length arr" for ys using that i by (simp_all add: kept_def nth_append)
    from Cons item i d show ?thesis
      by (simp add: compress_item_def add_item_def list_edit_def list_insert_def k cleared remove_first_frame
          kept_remove_first set_kept)
  qed
  show "length (compress_item i arr) = length arr" "drop (Suc i) (compress_item i arr) = drop (Suc i) arr"
    using item i
    by (auto simp: compress_item_def add_item_def remove_first_frame split: list.split)
qed

lemma distinct_list_edit: "distinct S \<Longrightarrow> distinct (list_edit item S)"
  by (auto simp: list_edit_def list_insert_def split: list.split)

lemma list_edit_not_Nil: "[] \<notin> set S \<Longrightarrow> [] \<notin> set (list_edit item S)"
  by (auto simp: list_edit_def list_insert_def split: list.split)

lemma compress_items:
  assumes "arr = map Some items" and "n \<le> length items"
  defines "arr' \<equiv> fold compress_item [0..<n] arr"
  shows "kept n arr' = list_edits (take n items) [] \<and> distinct (kept n arr') \<and>
    length arr' = length arr \<and> drop n arr' = drop n arr"
  using assms(2) unfolding arr'_def
proof (induction n)
  case 0
  then show ?case by (simp add: kept_def list_edits_def)
next
  case (Suc n)
  let ?a = "fold compress_item [0..<n] arr"
  have IHs: "kept n ?a = list_edits (take n items) [] \<and> distinct (kept n ?a) \<and> length ?a = length arr \<and> drop n ?a = drop n arr"
    by (rule Suc.IH) (use Suc.prems in simp)
  then have IH: "kept n ?a = list_edits (take n items) []" "distinct (kept n ?a)" "length ?a = length arr" "drop n ?a = drop n arr"
    by blast+
  have n: "n < length ?a" using IH(3) Suc.prems assms(1) by simp
  then have "?a ! n = Some (items ! n)"
    using IH(3,4) Suc.prems assms(1) by (metis Suc_le_lessD hd_drop_conv_nth length_map nth_map)
  note step = compress_item_edit [OF n this IH(2)]
  have "drop (Suc n) ?a = drop (Suc n) arr" using IH(4) by (metis drop_drop plus_1_eq_Suc add.commute)
  then show ?case using step IH Suc.prems
    by (simp add: take_Suc_conv_app_nth list_edits_def distinct_list_edit)
qed

lemma join_on_Nil: "(\<forall>w \<in> set ws. w \<noteq> []) \<Longrightarrow> join_on d ws = [] \<longleftrightarrow> ws = []"
  by (induction d ws rule: join_on.induct) auto

lemma copy_item_simps:
  "copy_item None out = out" "copy_item (Some x) out = (if out \<noteq> [] then out @ [comma] else out) @ x"
  by (simp_all add: copy_item_def)

lemma copy_back:
  "(\<forall>x. Some x \<in> set arr \<longrightarrow> x \<noteq> []) \<Longrightarrow>
    fold copy_item arr [] = join_on comma (map the (filter (\<lambda>x. x \<noteq> None) arr))"
proof (induction arr rule: rev_induct)
  case (snoc x arr)
  let ?ws = "map the (filter (\<lambda>x. x \<noteq> None) arr)"
  have "\<forall>w \<in> set ?ws. w \<noteq> []" using snoc.prems by force
  then have nil: "join_on comma ?ws = [] \<longleftrightarrow> ?ws = []" by (rule join_on_Nil)
  have IH: "fold copy_item arr [] = join_on comma ?ws" using snoc by simp
  show ?case
  proof (cases x)
    case None
    then show ?thesis using IH by (simp add: copy_item_simps)
  next
    case (Some y)
    then show ?thesis using IH nil join_on_snoc [of ?ws comma y]
      by (cases "?ws = []") (simp_all add: copy_item_simps del: map_is_Nil_conv)
  qed
qed simp

lemma list_edits_append: "list_edits (xs @ ys) S = list_edits ys (list_edits xs S)"
  by (simp add: list_edits_def)

lemma list_edits_inv: "distinct S \<Longrightarrow> [] \<notin> set S \<Longrightarrow> distinct (list_edits items S) \<and> [] \<notin> set (list_edits items S)"
  unfolding list_edits_def
  by (induction items arbitrary: S) (simp_all add: distinct_list_edit list_edit_not_Nil)

lemma split_on_join:
  "ws \<noteq> [] \<Longrightarrow> (\<And>w. w \<in> set ws \<Longrightarrow> d \<notin> set w) \<Longrightarrow> split_on d (join_on d ws) = ws"
  by (induction d ws rule: join_on.induct) (auto simp: split_on_free split_on_append)

lemma list_edits_split: "list_edits (split_on comma (join_on comma (strtok_all comma l))) [] = list_edits (strtok_all comma l) []"
proof (cases "strtok_all comma l = []")
  case True
  then show ?thesis by (simp add: list_edits_def list_edit_def)
next
  case False
  then show ?thesis using strtok_all_pieces [of _ comma l] by (subst split_on_join) auto
qed

text \<open>Compressing a list is editing an ordered set: the items, taken in order, add, remove or
  replace, and what is left is written with single commas.\<close>

lemma profile_list_compress_edits:
  "profile_list_compress l = join_on comma (list_edits (strtok_all comma l) [])"
proof -
  let ?items = "split_on comma (profile_list_normalize l)"
  let ?arr = "fold compress_item [0..<length ?items] (map Some ?items)"
  have c: "kept (length ?items) ?arr = list_edits ?items []" "length ?arr = length ?items"
    using compress_items [of "map Some ?items" ?items "length ?items"] by simp_all
  then have k: "map the (filter (\<lambda>x. x \<noteq> None) ?arr) = list_edits ?items []" by (simp add: kept_def)
  moreover have "\<forall>x. Some x \<in> set ?arr \<longrightarrow> x \<noteq> []"
  proof (clarify)
    assume "Some [] \<in> set ?arr"
    then have "[] \<in> set (map the (filter (\<lambda>x. x \<noteq> None) ?arr))" by force
    then show False using list_edits_inv [of "[]" ?items] unfolding k by simp
  qed
  ultimately show ?thesis
    using copy_back [of ?arr] list_edits_split [of l]
    by (simp add: profile_list_compress_def Let_def profile_list_normalize_tokens)
qed

section \<open>Augmenting\<close>

text \<open>
  An item is plain if it does not start with an operator. A token is plain if the item it leaves
  in the list is; \<^verbatim>\<open>+-x\<close> is not.
\<close>

definition plain_item :: "string \<Rightarrow> bool" where
  "plain_item x \<longleftrightarrow> x \<noteq> [] \<and> hd x \<notin> set ''-+=''"

definition plain_list :: "string \<Rightarrow> bool" where
  "plain_list l \<longleftrightarrow> (\<forall>t \<in> set (strtok_all comma l). hd t \<in> set ''+='' \<longrightarrow> tl t = [] \<or> plain_item (tl t))"

definition list_ok :: "string list \<Rightarrow> bool" where
  "list_ok S \<longleftrightarrow> distinct S \<and> (\<forall>x \<in> set S. plain_item x \<and> comma \<notin> set x)"

lemma list_ok_Nil [simp]: "list_ok []"
  by (simp add: list_ok_def)

lemma list_ok_edit:
  assumes "list_ok S" and "t \<noteq> []" "comma \<notin> set t" "hd t \<in> set ''+='' \<longrightarrow> tl t = [] \<or> plain_item (tl t)"
  shows "list_ok (list_edit t S)"
  using assms by (cases t) (auto simp: list_ok_def list_edit_def list_insert_def plain_item_def)

lemma list_ok_edits:
  assumes "list_ok S" and "plain_list l"
  shows "list_ok (list_edits (strtok_all comma l) S)"
  unfolding list_edits_def
proof (rule fold_invariant [where I = list_ok])
  fix t S' assume t: "t \<in> set (strtok_all comma l)" and "list_ok S'"
  have "hd t \<in> set ''+='' \<longrightarrow> tl t = [] \<or> plain_item (tl t)" using assms(2) t unfolding plain_list_def by (rule bspec)
  with \<open>list_ok S'\<close> strtok_all_pieces [OF t] show "list_ok (list_edit t S')" by (blast intro: list_ok_edit)
qed (fact assms(1))

lemma list_edits_ok: "list_ok S \<Longrightarrow> list_edits S [] = S"
proof (induction S rule: rev_induct)
  case (snoc x S)
  have "list_edit x S = S @ [x]"
    using snoc.prems by (cases x) (auto simp: list_ok_def plain_item_def list_edit_def list_insert_def)
  with snoc show ?case by (simp add: list_edits_def list_ok_def)
qed (simp add: list_edits_def)

lemma split_on_sep: "split_on d (s @ d # t) = split_on d s @ split_on d t"
  by (induction s) (auto split: list.split)

lemma strtok_all_sep_append: "strtok_all d (s @ d # t) = strtok_all d s @ strtok_all d t"
  by (simp add: strtok_all_def split_on_sep)

lemma augment_ok:
  assumes "list_ok S"
  shows "profile_list_augment items (Some (join_on comma S)) =
    (let l = join_on comma (list_edits (strtok_all comma items) S)
     in if MAX_LIST < length l then Inl ListTooLong else Inr (Some l))"
proof -
  have "strtok_all comma (join_on comma S) = S"
    by (rule strtok_all_join) (use assms in \<open>auto simp: list_ok_def plain_item_def\<close>)
  then show ?thesis
    using list_edits_ok [OF assms]
    by (simp add: profile_list_augment_def profile_list_compress_edits strtok_all_sep_append list_edits_append)
qed

text \<open>The set after the first \<open>k\<close> options.\<close>

definition edited :: "string list \<Rightarrow> nat \<Rightarrow> string list \<Rightarrow> string list" where
  "edited ls k S = list_edits (concat (map (strtok_all comma) (take k ls))) S"

lemma edited_Cons: "edited (l # ls) (Suc k) S = edited ls k (list_edits (strtok_all comma l) S)"
  by (simp add: edited_def list_edits_append)

lemma augment_list:
  assumes "\<forall>l \<in> set ls. plain_list l" and "list_ok S"
  shows "fold_res profile_list_augment ls (Some (join_on comma S)) =
      (if \<exists>k < length ls. MAX_LIST < length (join_on comma (edited ls (Suc k) S)) then Inl ListTooLong
       else Inr (Some (join_on comma (edited ls (length ls) S))))"
  using assms
proof (induction ls arbitrary: S)
  case Nil
  then show ?case by (simp add: edited_def list_edits_def)
next
  case (Cons l ls)
  let ?S = "list_edits (strtok_all comma l) S"
  have "list_ok ?S" using Cons.prems by (simp add: list_ok_edits)
  from Cons.IH [OF _ this] Cons.prems(1) show ?case
    by (simp add: augment_ok [OF Cons.prems(2)] Let_def edited_Cons Ex_less_Suc2)
       (simp add: edited_def list_edits_def)
qed

lemma list_ok_edited: "\<forall>l \<in> set ls. plain_list l \<Longrightarrow> list_ok S \<Longrightarrow> list_ok (edited ls k S)"
proof (induction ls arbitrary: k S)
  case (Cons l ls)
  show ?case
  proof (cases k)
    case 0
    then show ?thesis using Cons.prems by (simp add: edited_def list_edits_def)
  next
    case (Suc n)
    then show ?thesis using Cons by (simp add: edited_Cons list_ok_edits)
  qed
qed (simp add: edited_def list_edits_def)

lemma augmented_Some:
  assumes "fold_res profile_list_augment ls l0 = Inr l" and "ls \<noteq> []"
  shows "\<exists>r. l = Some r"
  using assms
proof (induction ls arbitrary: l0)
  case (Cons x ls)
  then show ?case by (cases "ls = []") (auto simp: profile_list_augment_def Let_def split: sum.splits if_splits)
qed simp

text \<open>Reading the list of all options back gives the edited set.\<close>

lemma augmented_tokens:
  assumes "\<forall>l \<in> set ls. plain_list l" and "ls \<noteq> []" and "fold_res profile_list_augment ls None = Inr (Some r)"
  shows "strtok_all comma r = edited ls (length ls) [] \<and> distinct (edited ls (length ls) [])"
proof -
  have "fold_res profile_list_augment ls None = fold_res profile_list_augment ls (Some (join_on comma []))"
    using assms(2) by (cases ls) (simp_all add: profile_list_augment_def)
  with assms(1,3) have "r = join_on comma (edited ls (length ls) [])"
    using augment_list [of ls "[]"] by (simp split: if_splits)
  moreover have "list_ok (edited ls (length ls) [])" using assms(1) by (simp add: list_ok_edited)
  ultimately show ?thesis
    using strtok_all_join [of "edited ls (length ls) []" comma] by (auto simp: list_ok_def plain_item_def)
qed

text \<open>C23. Successive options accumulate: each one edits the ordered set the earlier ones built, by the
  rules add, remove and replace, and the process ends when a list grows beyond the limit.\<close>

theorem profile_list_augment_accumulates:
  assumes "\<forall>l \<in> set (l # ls). plain_list l"
  shows "fold_res profile_list_augment (l # ls) None =
      (if \<exists>k \<le> length ls. MAX_LIST < length (join_on comma (edited (l # ls) (Suc k) [])) then Inl ListTooLong
       else Inr (Some (join_on comma (edited (l # ls) (Suc (length ls)) []))))"
proof -
  have "fold_res profile_list_augment (l # ls) None = fold_res profile_list_augment (l # ls) (Some (join_on comma []))"
    by (simp add: profile_list_augment_def)
  then show ?thesis using augment_list [OF assms list_ok_Nil] by (simp add: less_Suc_eq_le)
qed

theorem profile_list_augment_accumulates_witness:
  "fold_res profile_list_augment [''unix,inet,,inet6'', ''-inet,netlink'', ''inet,unix''] None =
     Inr (Some ''unix,inet6,netlink,inet'')"
proof -
  let ?ls = "[''unix,inet,,inet6'', ''-inet,netlink'', ''inet,unix'']"
  have "\<forall>l \<in> set ?ls. plain_list l"
    by (auto simp: plain_list_def plain_item_def strtok_all_def)
  note acc = profile_list_augment_accumulates [OF this]
  have e: "edited ?ls (Suc 0) [] = [''unix'', ''inet'', ''inet6'']"
      "edited ?ls (Suc (Suc 0)) [] = [''unix'', ''inet6'', ''netlink'']"
      "edited ?ls (Suc (Suc (Suc 0))) [] = [''unix'', ''inet6'', ''netlink'', ''inet'']"
    by (simp_all add: edited_def list_edits_def list_edit_def list_insert_def strtok_all_def)
  have "\<not> MAX_LIST < length (join_on comma (edited ?ls (Suc k) []))" if "k \<le> Suc (Suc 0)" for k
  proof -
    from that consider "k = 0" | "k = Suc 0" | "k = Suc (Suc 0)" by linarith
    then show ?thesis by cases (simp_all only: e, simp_all add: MAX_LIST_def)
  qed
  then show ?thesis using acc e(3) by simp
qed

end
