(* ===== verification/Mountinfo.thy ===== *)
theory Mountinfo imports Scanf "HOL-Library.Sublist" begin

text \<open>
  firejail/mountinfo.c: reading \<^verbatim>\<open>/proc/self/mountinfo\<close> and collecting the mount points below a
  directory, which the remount code walks over. The lines of the file come from the kernel: their documented format
  (proc(5)) is \<open>mount_line\<close>, with the octal escapes of \<open>mangle\<close>.
\<close>

section \<open>Parsing\<close>

record MountData =
  mountid :: int
  fsname :: string
  mnt_dir :: string
  fstype :: string

datatype mount_error =
    BadEscape
  | BadLine
  | NoLine

definition is_octal :: "char \<Rightarrow> bool" where
  "is_octal c \<longleftrightarrow> 48 \<le> char_code c \<and> char_code c \<le> 55"

text \<open>The assertions fail on a character that is no octal digit, the terminating NUL included.\<close>

definition read_oct :: "string \<Rightarrow> mount_error + char" where
  "read_oct s =
     (case s of
        e # a # b # c # _ \<Rightarrow>
          if e = CHR 0x5C \<and> is_octal a \<and> is_octal b \<and> is_octal c
          then Inr (char_of ((char_code a - 48) * 64 + (char_code b - 48) * 8 + (char_code c - 48)))
          else Inl BadEscape
      | _ \<Rightarrow> Inl BadEscape)"

function unmangle_loop :: "string \<Rightarrow> mount_error + string" where
  "unmangle_loop [] = Inr []"
| "unmangle_loop (r # s) =
     (if r = CHR 0x5C
      then bind_res (read_oct (r # s)) (\<lambda>c. bind_res (unmangle_loop (drop 3 s)) (\<lambda>t. Inr (c # t)))
      else bind_res (unmangle_loop s) (\<lambda>t. Inr (r # t)))"
  by pat_completeness auto

termination unmangle_loop
  by (relation "measure length") auto

text \<open>The result as a C string ends at its first NUL.\<close>

definition unmangle_path :: "string \<Rightarrow> mount_error + string" where
  "unmangle_path path = bind_res (unmangle_loop path) (\<lambda>t. Inr (takeWhile (\<lambda>c. c \<noteq> CHR 0x00) t))"

text \<open>One call of \<^verbatim>\<open>strtok\<close>: the token and the text after its delimiter.\<close>

definition strtok_step :: "char \<Rightarrow> string \<Rightarrow> (string \<times> string) option" where
  "strtok_step d s =
     (let s' = dropWhile (\<lambda>c. c = d) s in
      if s' = [] then None
      else Some (takeWhile (\<lambda>c. c \<noteq> d) s', drop 1 (dropWhile (\<lambda>c. c \<noteq> d) s')))"

definition atoi :: "string \<Rightarrow> int" where
  "atoi s = (case sscanf_d s of None \<Rightarrow> 0 | Some v \<Rightarrow> v)"

text \<open>The loop over the fields 2 to 5.\<close>

fun read_fields :: "nat \<Rightarrow> string option \<Rightarrow> string \<Rightarrow> string option \<times> string option \<times> string" where
  "read_fields 0 fs rest = (fs, None, rest)"
| "read_fields (Suc n) fs rest =
     (case strtok_step (CHR '' '') rest of
        None \<Rightarrow> (fs, None, [])
      | Some (tok, rest') \<Rightarrow>
          if n = 0 then (fs, Some tok, rest')
          else read_fields n (if n = 1 then Some tok else fs) rest')"

definition parse_line :: "string \<Rightarrow> mount_error + MountData" where
  "parse_line line =
     (case strtok_step (CHR '' '') line of
        None \<Rightarrow> Inl BadLine
      | Some (idtok, rest) \<Rightarrow>
          let mid = atoi idtok; (fs, d, rest1) = read_fields 4 None rest in
          case strtok_step (CHR ''-'') rest1 of
            None \<Rightarrow> Inl BadLine
          | Some (_, rest2) \<Rightarrow>
              (case strtok_step (CHR '' '') rest2 of
                 None \<Rightarrow> Inl BadLine
               | Some (typ, _) \<Rightarrow>
                   (case (fs, d) of
                      (Some fs', Some d') \<Rightarrow>
                        if mid < 0 then Inl BadLine
                        else bind_res (unmangle_path fs') (\<lambda>f. bind_res (unmangle_path d') (\<lambda>dd.
                          Inr \<lparr>mountid = mid, fsname = f, mnt_dir = dd, fstype = typ\<rparr>))
                    | _ \<Rightarrow> Inl BadLine)))"

section \<open>Walking over the file\<close>

definition get_last_mount :: "string list \<Rightarrow> mount_error + MountData" where
  "get_last_mount lines = (if lines = [] then Inl NoLine else parse_line (last lines))"

fun find_mount :: "int \<Rightarrow> string list \<Rightarrow> mount_error + string list option" where
  "find_mount mid [] = Inr None"
| "find_mount mid (line # lines) =
     bind_res (parse_line line) (\<lambda>m. if mountid m = mid then Inr (Some lines) else find_mount mid lines)"

definition inside :: "string \<Rightarrow> string \<Rightarrow> bool" where
  "inside path d \<longleftrightarrow>
     take (length path) d = path \<and> length path < length d \<and> d ! length path = CHR ''/''"

text \<open>The array: its allocated size and the entries written.\<close>

definition add_mount :: "string \<Rightarrow> string \<Rightarrow> nat \<times> string list \<Rightarrow> mount_error + nat \<times> string list" where
  "add_mount path line st =
     bind_res (parse_line line) (\<lambda>m.
       Inr (if inside path (mnt_dir m)
            then (if length (snd st) = fst st then fst st * 2 else fst st, snd st @ [mnt_dir m])
            else st))"

definition build_mount_array :: "int \<Rightarrow> string \<Rightarrow> string list \<Rightarrow> mount_error + (nat \<times> string list) option" where
  "build_mount_array mid path lines =
     bind_res (find_mount mid lines) (\<lambda>r.
       case r of
         None \<Rightarrow> Inr None
       | Some rest \<Rightarrow>
           bind_res (fold_res (add_mount path) rest (32, [path])) (\<lambda>(sz, rv).
             Inr (Some (if length rv = sz then sz + 1 else sz, rv))))"

section \<open>The kernel's format\<close>

definition oct3 :: "char \<Rightarrow> string" where
  "oct3 c = [hex_digit (char_code c div 64), hex_digit (char_code c div 8 mod 8), hex_digit (char_code c mod 8)]"

definition mangle :: "char set \<Rightarrow> string \<Rightarrow> string" where
  "mangle esc p = concat (map (\<lambda>c. if c \<in> esc then CHR 0x5C # oct3 c else [c]) p)"

record mount_entry =
  me_id :: nat
  me_parent :: nat
  me_dev :: string
  me_root :: string
  me_dir :: string
  me_opts :: "string list"
  me_type :: string
  me_tail :: string

definition mount_line :: "char set \<Rightarrow> mount_entry \<Rightarrow> string" where
  "mount_line esc e =
     join_on (CHR '' '')
       ([dec_str (me_id e), dec_str (me_parent e), me_dev e, mangle esc (me_root e), mangle esc (me_dir e)] @
        me_opts e @ [''-'', me_type e, me_tail e])"

definition word_ok :: "string \<Rightarrow> bool" where
  "word_ok w \<longleftrightarrow> w \<noteq> [] \<and> CHR '' '' \<notin> set w"

definition entry_ok :: "mount_entry \<Rightarrow> bool" where
  "entry_ok e \<longleftrightarrow>
     me_id e < 2 ^ 31 \<and> word_ok (me_dev e) \<and> me_root e \<noteq> [] \<and> me_dir e \<noteq> [] \<and>
     CHR 0x00 \<notin> set (me_root e) \<and> CHR 0x00 \<notin> set (me_dir e) \<and>
     me_opts e \<noteq> [] \<and> (\<forall>w \<in> set (me_opts e). word_ok w \<and> CHR ''-'' \<notin> set w) \<and> word_ok (me_type e)"

definition entry_data :: "mount_entry \<Rightarrow> MountData" where
  "entry_data e = \<lparr>mountid = int (me_id e), fsname = me_root e, mnt_dir = me_dir e, fstype = me_type e\<rparr>"

section \<open>Escapes\<close>

lemma char_code_digit: "d < 10 \<Longrightarrow> char_code (hex_digit d) = d + 48"
proof -
  assume d: "d < 10"
  from isdigit_hex [OF d] have "48 \<le> char_code (hex_digit d)" by (simp add: isdigit_c_def)
  moreover from digit_val_hex [of d] d isdigit_hex [OF d] have "char_code (hex_digit d) - 48 = d" by (simp add: digit_val_def)
  ultimately show ?thesis by simp
qed

lemma char_code_less: "char_code c < 256"
  using nat_of_char_less_256 by (simp add: char_code_def)

lemma read_oct_oct3: "read_oct (CHR 0x5C # oct3 c @ s) = Inr c"
proof -
  have "char_code c div 64 \<le> 7" "char_code c div 8 mod 8 \<le> 7" "char_code c mod 8 \<le> 7"
    using char_code_less [of c] by (auto simp: less_Suc_eq_le [symmetric])
  moreover have "char_code c div 64 * 64 + char_code c div 8 mod 8 * 8 + char_code c mod 8 = char_code c"
  proof -
    have "char_code c div 64 = char_code c div 8 div 8" using div_mult2_eq [of "char_code c" 8 8] by simp
    then show ?thesis using div_mult_mod_eq [of "char_code c" 8] div_mult_mod_eq [of "char_code c div 8" 8] by linarith
  qed
  ultimately show ?thesis
    by (simp add: read_oct_def oct3_def is_octal_def char_code_digit) (simp add: char_code_def)
qed

lemma unmangle_mangle: "CHR 0x5C \<in> esc \<Longrightarrow> unmangle_loop (mangle esc p) = Inr p"
proof (induction p)
  case (Cons c p)
  then have IH: "unmangle_loop (mangle esc p) = Inr p" by simp
  have drop: "drop 3 (oct3 c) = []" "length (oct3 c) = 3" by (simp_all add: oct3_def)
  show ?case
  proof (cases "c \<in> esc")
    case True
    then have "mangle esc (c # p) = CHR 0x5C # oct3 c @ mangle esc p" by (simp add: mangle_def)
    then show ?thesis by (simp add: read_oct_oct3 drop IH)
  next
    case False
    then have "mangle esc (c # p) = c # mangle esc p" "c \<noteq> CHR 0x5C" using Cons.prems by (auto simp: mangle_def)
    then show ?thesis by (simp add: IH)
  qed
qed (simp add: mangle_def)

lemma unmangle_path_mangle:
  assumes "CHR 0x5C \<in> esc" and "CHR 0x00 \<notin> set p"
  shows "unmangle_path (mangle esc p) = Inr p"
proof -
  have "takeWhile (\<lambda>c. c \<noteq> CHR 0x00) p = p" using assms(2) by (auto simp: takeWhile_eq_all_conv)
  then show ?thesis by (simp add: unmangle_path_def unmangle_mangle [OF assms(1)])
qed

section \<open>Lines\<close>

lemma strtok_step_word:
  assumes "w \<noteq> []" and "d \<notin> set w"
  shows "strtok_step d (w @ d # s) = Some (w, s)"
proof -
  have "dropWhile (\<lambda>c. c = d) (w @ d # s) = w @ d # s" using assms by (cases w) auto
  moreover have "takeWhile (\<lambda>c. c \<noteq> d) (w @ d # s) = w" "dropWhile (\<lambda>c. c \<noteq> d) (w @ d # s) = d # s"
    using assms(2) by (auto simp: takeWhile_append dropWhile_append)
  ultimately show ?thesis by (simp add: strtok_step_def)
qed

lemma strtok_step_skip: "strtok_step d (d # s) = strtok_step d s"
  by (simp add: strtok_step_def)

lemma dec_str_word: "word_ok (dec_str n)"
proof -
  have "c \<in> set (dec_str n) \<Longrightarrow> \<not> isspace_c c" for c
  proof (induction n rule: dec_str.induct)
    case (1 n)
    then show ?case using hex_digit_plain [of n] hex_digit_plain [of "n mod 10", OF order.strict_trans [OF mod_less_divisor]]
      by (cases "n < 10") (auto simp: dec_str.simps [of n])
  qed
  moreover have "isspace_c (CHR '' '')" by (simp add: isspace_c_def char_code_def)
  moreover have "dec_str n \<noteq> []" by (subst dec_str.simps) simp
  ultimately show ?thesis unfolding word_ok_def by blast
qed

lemma atoi_dec: "n < 2 ^ 31 \<Longrightarrow> atoi (dec_str n) = int n"
proof -
  assume n: "n < 2 ^ 31"
  obtain d t where d: "dec_str n = hex_digit d # t" "d < 10" using dec_str_hd by blast
  then have "scan_sign (dec_str n) = (False, dec_str n)" using hex_digit_plain [of d] by (simp add: scan_sign_def)
  moreover have "fst (read_digits 10 0 (dec_str n)) = n" using read_digits_append_nat [of 0 n "[]"] by simp
  moreover have "to_int32 (min (2 ^ 63 - 1) (int n)) = int n" using n by (subst to_int32_id) auto
  ultimately show ?thesis using d isdigit_hex [of d] by (simp add: atoi_def sscanf_d_def)
qed

lemma mangle_word:
  assumes "CHR '' '' \<in> esc" and "p \<noteq> []"
  shows "word_ok (mangle esc p)"
proof -
  have "hex_digit d \<noteq> CHR '' ''" if "d < 16" for d
    using hex_digit_plain [OF that] by (auto simp: isspace_c_def char_code_def)
  moreover have "char_code c div 64 < 16" "char_code c div 8 mod 8 < 16" "char_code c mod 8 < 16" for c
    using char_code_less [of c] by simp_all
  ultimately have "CHR '' '' \<notin> set (oct3 c)" for c unfolding oct3_def by fastforce
  then show ?thesis using assms by (cases p) (auto simp: word_ok_def mangle_def)
qed

lemma join_on_Cons: "ws \<noteq> [] \<Longrightarrow> join_on d (w # ws) = w @ d # join_on d ws"
  by (cases ws) auto

lemma read_fields_words:
  assumes "\<forall>w \<in> {a, b, c, e}. word_ok w"
  shows "read_fields 4 None (a @ CHR '' '' # b @ CHR '' '' # c @ CHR '' '' # e @ CHR '' '' # s) = (Some c, Some e, s)"
  using assms by (simp add: eval_nat_numeral strtok_step_word word_ok_def)

lemma join_on_append: "xs \<noteq> [] \<Longrightarrow> ys \<noteq> [] \<Longrightarrow> join_on d (xs @ ys) = join_on d xs @ d # join_on d ys"
  by (induction d xs rule: join_on.induct) (auto simp: join_on_Cons)

lemma set_join_on: "set (join_on d ws) \<subseteq> insert d (\<Union> (set ` set ws))"
  by (induction d ws rule: join_on.induct) auto

lemma parse_mount_line:
  assumes esc: "{CHR '' '', CHR 0x5C} \<subseteq> esc" and e: "entry_ok e"
  shows "parse_line (mount_line esc e) = Inr (entry_data e)"
proof -
  let ?fields = "join_on (CHR '' '') (me_opts e)"
  let ?rest = "?fields @ CHR '' '' # CHR ''-'' # CHR '' '' # me_type e @ CHR '' '' # me_tail e"
  have opts: "me_opts e \<noteq> []" "\<forall>w \<in> set (me_opts e). word_ok w \<and> CHR ''-'' \<notin> set w" using e by (auto simp: entry_ok_def)
  have line: "mount_line esc e = dec_str (me_id e) @ CHR '' '' # dec_str (me_parent e) @ CHR '' '' # me_dev e @ CHR '' '' #
      mangle esc (me_root e) @ CHR '' '' # mangle esc (me_dir e) @ CHR '' '' # ?rest"
    using opts(1) by (simp add: mount_line_def join_on_Cons join_on_append)
  have "CHR ''-'' \<notin> set ?fields" using set_join_on [of "CHR '' ''" "me_opts e"] opts(2) by auto
  then have dash: "strtok_step (CHR ''-'') ?rest = Some (?fields @ '' '', CHR '' '' # me_type e @ CHR '' '' # me_tail e)"
    using strtok_step_word [of "?fields @ '' ''" "CHR ''-''"] by simp
  have words: "word_ok (mangle esc (me_root e))" "word_ok (mangle esc (me_dir e))" "word_ok (me_dev e)" "word_ok (me_type e)"
    using esc e mangle_word [of esc] by (auto simp: entry_ok_def)
  have fields: "read_fields 4 None (dec_str (me_parent e) @ CHR '' '' # me_dev e @ CHR '' '' #
      mangle esc (me_root e) @ CHR '' '' # mangle esc (me_dir e) @ CHR '' '' # ?rest) =
      (Some (mangle esc (me_root e)), Some (mangle esc (me_dir e)), ?rest)"
    using words dec_str_word by (intro read_fields_words) auto
  show ?thesis
    using words esc e unfolding parse_line_def line
    by (simp add: strtok_step_word strtok_step_skip dec_str_word [unfolded word_ok_def] fields dash word_ok_def
        atoi_dec unmangle_path_mangle entry_ok_def entry_data_def)
qed

section \<open>The array\<close>

lemma inside_prefix: "inside path d \<longleftrightarrow> prefix (path @ ''/'') d"
proof
  assume d: "inside path d"
  then have "d = path @ drop (length path) d" by (metis append_take_drop_id inside_def)
  moreover have "drop (length path) d = CHR ''/'' # drop (Suc (length path)) d"
    using d by (simp add: inside_def Cons_nth_drop_Suc [symmetric])
  ultimately show "prefix (path @ ''/'') d" by (metis append_Cons append_Nil append_assoc prefixI)
qed (auto simp: inside_def prefix_def)

lemma find_mount_lines:
  assumes "{CHR '' '', CHR 0x5C} \<subseteq> esc" and "\<forall>e \<in> set es. entry_ok e"
  shows "find_mount mid (map (mount_line esc) es) =
    Inr (case dropWhile (\<lambda>e. int (me_id e) \<noteq> mid) es of [] \<Rightarrow> None | _ # below \<Rightarrow> Some (map (mount_line esc) below))"
  using assms(2) by (induction es) (simp_all add: parse_mount_line [OF assms(1)] entry_data_def)

lemma add_mount_lines:
  assumes "{CHR '' '', CHR 0x5C} \<subseteq> esc" and "\<forall>e \<in> set es. entry_ok e" and "0 < sz" "length rv \<le> sz"
  shows "\<exists>sz'. fold_res (add_mount path) (map (mount_line esc) es) (sz, rv) =
    Inr (sz', rv @ filter (inside path) (map me_dir es)) \<and> length (rv @ filter (inside path) (map me_dir es)) \<le> sz'"
  using assms(2-)
proof (induction es arbitrary: sz rv)
  case (Cons e es)
  let ?sz = "if inside path (me_dir e) \<and> length rv = sz then sz * 2 else sz"
  let ?rv = "rv @ (if inside path (me_dir e) then [me_dir e] else [])"
  have "add_mount path (mount_line esc e) (sz, rv) = Inr (?sz, ?rv)"
    using Cons.prems(1) by (simp add: add_mount_def parse_mount_line [OF assms(1)] entry_data_def)
  moreover have "0 < ?sz" "length ?rv \<le> ?sz" using Cons.prems by auto
  ultimately show ?case using Cons.IH [of ?sz ?rv] Cons.prems(1) by auto
qed simp

section \<open>Paths and their components\<close>

definition canonical :: "string \<Rightarrow> bool" where
  "canonical d \<longleftrightarrow> d = CHR ''/'' # join_on (CHR ''/'') (strtok_all (CHR ''/'') d)"

definition strictly_below :: "string \<Rightarrow> string \<Rightarrow> bool" where
  "strictly_below path d \<longleftrightarrow> strict_prefix (strtok_all (CHR ''/'') path) (strtok_all (CHR ''/'') d)"

lemma strtok_all_concat: "strtok_all d (s @ d # t) = strtok_all d s @ strtok_all d t"
proof -
  have "split_on d (s @ d # t) = split_on d s @ split_on d t"
  proof (induction s)
    case (Cons c s)
    then show ?case by (cases "split_on d s") auto
  qed simp
  then show ?thesis by (simp add: strtok_all_def)
qed

lemma below_components:
  assumes "canonical path" and "canonical d" and "path \<noteq> ''/''"
  shows "prefix (path @ ''/'') d \<longleftrightarrow> strictly_below path d"
proof
  let ?c = "strtok_all (CHR ''/'')"
  assume "prefix (path @ ''/'') d"
  then obtain z where z: "d = path @ CHR ''/'' # z" by (auto simp: prefix_def)
  then have "?c d = ?c path @ ?c z" by (simp add: strtok_all_concat)
  moreover from this have "?c z \<noteq> []" using assms(1,2) z by (auto simp: canonical_def)
  ultimately show "strictly_below path d" by (simp add: strictly_below_def strict_prefix_def)
next
  let ?c = "strtok_all (CHR ''/'')"
  assume "strictly_below path d"
  then obtain ys where ys: "?c d = ?c path @ ys" "ys \<noteq> []"
    by (auto simp: strictly_below_def strict_prefix_def prefix_def)
  have "?c path \<noteq> []" using assms(1,3) by (auto simp: canonical_def)
  then have "d = path @ CHR ''/'' # join_on (CHR ''/'') ys"
    using assms(1,2) ys by (metis append_Cons canonical_def join_on_append)
  then show "prefix (path @ ''/'') d" by simp
qed

lemma below_root:
  assumes "canonical d"
  shows "\<not> prefix (''/'' @ ''/'') d"
proof
  assume "prefix (''/'' @ ''/'') d"
  then obtain z where "d = CHR ''/'' # CHR ''/'' # z" by (auto simp: prefix_def)
  with assms have z: "join_on (CHR ''/'') (strtok_all (CHR ''/'') d) = CHR ''/'' # z" by (simp add: canonical_def)
  then obtain w ws where w: "strtok_all (CHR ''/'') d = w # ws" by (cases "strtok_all (CHR ''/'') d") auto
  then have "w \<noteq> []" "CHR ''/'' \<notin> set w" using strtok_all_pieces [of w "CHR ''/''" d] by auto
  with z w show False by (cases ws; cases w) (auto simp: join_on_Cons)
qed

text \<open>C25. The array for a mount with a given number holds the directory itself and, in the order of the file, every later
  mount point strictly below it in the directory tree, whatever spaces, backslashes or other escaped characters the paths
  contain; it always has room for the terminating NULL. The one exception is the root directory, although
  everything is below it and the remount code means to support it: its array never holds another mount point,
  because the comparison asks for a second slash. A number that does not occur gives no array.\<close>

theorem build_mount_array_below:
  assumes "{CHR '' '', CHR 0x5C} \<subseteq> esc" and "\<forall>e \<in> set es. entry_ok e \<and> canonical (me_dir e)" and "canonical path"
  shows "case dropWhile (\<lambda>e. int (me_id e) \<noteq> mid) es of
      [] \<Rightarrow> build_mount_array mid path (map (mount_line esc) es) = Inr None
    | _ # below \<Rightarrow>
        let rv = path # (if path = ''/'' then [] else filter (strictly_below path) (map me_dir below)) in
        \<exists>sz. build_mount_array mid path (map (mount_line esc) es) = Inr (Some (sz, rv)) \<and> length rv < sz"
proof (cases "dropWhile (\<lambda>e. int (me_id e) \<noteq> mid) es")
  case Nil
  have "\<forall>e \<in> set es. entry_ok e" using assms(2) by blast
  from find_mount_lines [OF assms(1) this] show ?thesis unfolding build_mount_array_def Nil by (simp add: Nil)
next
  case (Cons e below)
  then have "set below \<subseteq> set es" by (metis set_dropWhileD set_subset_Cons subset_code(1) subset_trans)
  then have ok: "\<forall>e \<in> set below. entry_ok e" "\<forall>e \<in> set below. canonical (me_dir e)" "\<forall>e \<in> set es. entry_ok e"
    using assms(2) by blast+
  let ?rv = "path # (if path = ''/'' then [] else filter (strictly_below path) (map me_dir below))"
  have "filter (inside path) (map me_dir below) = tl ?rv"
    using ok(2) below_root below_components [OF assms(3)]
    by (auto simp: inside_prefix intro!: filter_cong filter_False)
  with add_mount_lines [OF assms(1) ok(1), of 32 "[path]" path] obtain sz where
    "fold_res (add_mount path) (map (mount_line esc) below) (32, [path]) = Inr (sz, ?rv)" "length ?rv \<le> sz"
    by auto
  then show ?thesis by (simp add: build_mount_array_def find_mount_lines [OF assms(1) ok(3)] Cons)
qed

theorem build_mount_array_below_witness:
  "let esc = {CHR '' '', CHR 0x09, CHR 0x0A, CHR 0x5C};
       e = (\<lambda>i d. \<lparr>me_id = i, me_parent = 1, me_dev = ''8:1'', me_root = ''/'', me_dir = d,
         me_opts = [''rw,relatime'', ''shared:1''], me_type = ''ext4'', me_tail = ''/dev/sda1 rw''\<rparr>);
       lines = map (mount_line esc)
         [e 20 ''/'', e 21 ''/home'', e 22 ''/home/my disk'', e 23 ''/homes'', e 24 ''/home/b'']
   in (\<exists>sz. build_mount_array 21 ''/home'' lines = Inr (Some (sz, [''/home'', ''/home/my disk'', ''/home/b'']))) \<and>
      (\<exists>sz. build_mount_array 20 ''/'' lines = Inr (Some (sz, [''/''])))"
proof -
  let ?esc = "{CHR '' '', CHR 0x09, CHR 0x0A, CHR 0x5C}"
  let ?e = "\<lambda>i d. \<lparr>me_id = i, me_parent = 1, me_dev = ''8:1'', me_root = ''/'', me_dir = d,
    me_opts = [''rw,relatime'', ''shared:1''], me_type = ''ext4'', me_tail = ''/dev/sda1 rw''\<rparr>"
  let ?es = "[?e 20 ''/'', ?e 21 ''/home'', ?e 22 ''/home/my disk'', ?e 23 ''/homes'', ?e 24 ''/home/b'']"
  have ok: "\<forall>e \<in> set ?es. entry_ok e \<and> canonical (me_dir e)"
    by (simp add: entry_ok_def word_ok_def canonical_def strtok_all_def)
  have path: "canonical ''/home''" "canonical ''/''" by (simp_all add: canonical_def strtok_all_def)
  note below = strictly_below_def strtok_all_def strict_prefix_def
  from build_mount_array_below [OF _ ok path(1), of ?esc 21] build_mount_array_below [OF _ ok path(2), of ?esc 20]
  show ?thesis by (auto simp: Let_def below)
qed

end
