(* ===== verification/Ftee.thy ===== *)
theory Ftee imports Prelude begin

text \<open>
  ftee/main.c: the program that copies the output of the sandbox into a log file and rotates the log. The files are a
  map from names to contents. Whether a call of \<^verbatim>\<open>unlink\<close>, \<^verbatim>\<open>rename\<close> or \<^verbatim>\<open>fopen\<close> succeeds and how much of a write
  reaches the file is up to the kernel: the outcomes of the calls are a parameter. A failed
  \<^verbatim>\<open>unlink\<close> or \<^verbatim>\<open>rename\<close> is only reported, a failed \<^verbatim>\<open>fopen\<close> ends the program, a short write goes unnoticed.
  The copy to the standard output is not modelled.
\<close>

section \<open>Rotation\<close>

type_synonym log_files = "string \<rightharpoonup> string"

text \<open>The success of the system calls and the number of characters written, by the number of the call.\<close>

record ftee_io =
  sys_ok :: "nat \<Rightarrow> bool"
  sys_written :: "nat \<Rightarrow> nat"

record ftee_state =
  log_fs :: log_files
  out_fp :: bool
  out_cnt :: nat
  sys_calls :: nat

definition out_max :: nat where "out_max = 500 * 1024"

definition log_name :: "string \<Rightarrow> char \<Rightarrow> string" where
  "log_name fname c = fname @ [CHR ''.'', c]"

text \<open>\<^verbatim>\<open>unlink\<close> and \<^verbatim>\<open>rename\<close>, both guarded by \<^verbatim>\<open>stat\<close>.\<close>

definition unlink_file :: "ftee_io \<Rightarrow> string \<Rightarrow> ftee_state \<Rightarrow> ftee_state" where
  "unlink_file io a st =
     (if log_fs st a \<noteq> None then
        st\<lparr>log_fs := (if sys_ok io (sys_calls st) then (log_fs st)(a := None) else log_fs st),
           sys_calls := Suc (sys_calls st)\<rparr>
      else st)"

definition move_file :: "ftee_io \<Rightarrow> string \<Rightarrow> string \<Rightarrow> ftee_state \<Rightarrow> ftee_state" where
  "move_file io a b st =
     (if log_fs st a \<noteq> None then
        st\<lparr>log_fs := (if sys_ok io (sys_calls st) then (log_fs st)(b := log_fs st a, a := None) else log_fs st),
           sys_calls := Suc (sys_calls st)\<rparr>
      else st)"

definition log_rotate :: "ftee_io \<Rightarrow> string \<Rightarrow> ftee_state \<Rightarrow> ftee_state" where
  "log_rotate io fname st =
     (let n = log_name fname;
          st1 = unlink_file io (n (CHR ''5'')) st;
          st2 = move_file io (n (CHR ''4'')) (n (CHR ''5'')) st1;
          st3 = move_file io (n (CHR ''3'')) (n (CHR ''4'')) st2;
          st4 = move_file io (n (CHR ''2'')) (n (CHR ''3'')) st3;
          st5 = move_file io (n (CHR ''1'')) (n (CHR ''2'')) st4
      in move_file io fname (n (CHR ''1'')) (st5\<lparr>out_fp := False\<rparr>))"

text \<open>\<^verbatim>\<open>fopen(fname, "w")\<close> truncates; when it fails the program exits in the state on the left.\<close>

definition open_log :: "ftee_io \<Rightarrow> string \<Rightarrow> nat \<Rightarrow> ftee_state \<Rightarrow> ftee_state + ftee_state" where
  "open_log io fname cnt st =
     (let st' = st\<lparr>sys_calls := Suc (sys_calls st)\<rparr> in
      if sys_ok io (sys_calls st)
      then Inr (st'\<lparr>log_fs := (log_fs st)(fname \<mapsto> []), out_fp := True, out_cnt := cnt\<rparr>)
      else Inl (st'\<lparr>out_fp := False\<rparr>))"

definition append_log :: "ftee_io \<Rightarrow> string \<Rightarrow> string \<Rightarrow> ftee_state \<Rightarrow> ftee_state" where
  "append_log io str fname st =
     st\<lparr>log_fs := (log_fs st)(fname \<mapsto> the (log_fs st fname) @ take (sys_written io (sys_calls st)) str),
        sys_calls := Suc (sys_calls st)\<rparr>"

definition log_write :: "ftee_io \<Rightarrow> string \<Rightarrow> string \<Rightarrow> ftee_state \<Rightarrow> ftee_state + ftee_state" where
  "log_write io fname str st =
     bind_res (if \<not> out_fp st then open_log io fname 0 st else Inr st) (\<lambda>st1.
       let st2 = st1\<lparr>out_cnt := out_cnt st1 + length str\<rparr>
       in bind_res (if out_max \<le> out_cnt st2 then open_log io fname (length str) (log_rotate io fname st2) else Inr st2)
            (\<lambda>st3. Inr (append_log io str fname st3)))"

definition log_close :: "ftee_state \<Rightarrow> ftee_state" where
  "log_close st = st\<lparr>out_fp := False\<rparr>"

section \<open>The main function\<close>

text \<open>What \<^verbatim>\<open>stat\<close> and \<^verbatim>\<open>lstat\<close> tell about the output file, and whether it can be opened for appending.\<close>

record log_target =
  target_link :: bool
  target_dir :: bool
  target_stat :: "(nat \<times> nat \<times> nat) option"
  target_append :: bool

datatype ftee_exit = Finished | Usage | NoFileName | InvalidOutputFile | CannotOpenLog

primrec has_dotdot :: "string \<Rightarrow> bool" where
  "has_dotdot [] \<longleftrightarrow> False"
| "has_dotdot (c # s) \<longleftrightarrow> take 2 (c # s) = ''..'' \<or> has_dotdot s"

definition target_valid :: "nat \<Rightarrow> nat \<Rightarrow> string \<Rightarrow> log_target \<Rightarrow> bool" where
  "target_valid uid gid fname t \<longleftrightarrow>
     \<not> (has_dotdot fname \<or> target_link t \<or> target_dir t) \<and>
     (case target_stat t of None \<Rightarrow> True | Some (st_uid, st_gid, st_nlink) \<Rightarrow>
        st_uid = uid \<and> st_gid = gid \<and> st_nlink = 1) \<and>
     target_append t"

text \<open>Opening for appending creates a missing file.\<close>

definition create_log :: "string \<Rightarrow> log_files \<Rightarrow> log_files" where
  "create_log fname fs = fs(fname := (case fs fname of None \<Rightarrow> Some [] | Some s \<Rightarrow> Some s))"

text \<open>
  The chunks are the results of \<^verbatim>\<open>read\<close> until the end of the input; the result is how the program ended and the files
  it left behind.
\<close>

definition ftee_main ::
    "ftee_io \<Rightarrow> nat \<Rightarrow> nat \<Rightarrow> string list \<Rightarrow> log_target \<Rightarrow> string list \<Rightarrow> log_files \<Rightarrow> ftee_exit \<times> log_files" where
  "ftee_main io uid gid argv t chunks fs =
     (if length argv < 2 then (NoFileName, fs)
      else
        let fname = argv ! 1 in
        if fname = ''--help'' then (Usage, fs)
        else if \<not> target_valid uid gid fname t then (InvalidOutputFile, fs)
        else
          let st = log_rotate io fname \<lparr>log_fs = create_log fname fs, out_fp = False, out_cnt = 0, sys_calls = 0\<rparr>
          in case fold_res (log_write io fname) chunks st of
               Inl st' \<Rightarrow> (CannotOpenLog, log_fs st')
             | Inr st' \<Rightarrow> (Finished, log_fs (log_close st')))"

section \<open>Segments\<close>

text \<open>The log files, newest first.\<close>

definition log_names :: "string \<Rightarrow> string list" where
  "log_names fname = fname # map (log_name fname) ''12345''"

abbreviation segments :: "string \<Rightarrow> log_files \<Rightarrow> string option list" where
  "segments fname fs \<equiv> map fs (log_names fname)"

text \<open>
  The output cut into groups of chunks, oldest first: every group fits into a file, and none could take the first chunk of
  the next one.
\<close>

definition packed :: "string list list \<Rightarrow> bool" where
  "packed G \<longleftrightarrow>
     (\<forall>g \<in> set G. g \<noteq> [] \<and> length (concat g) < out_max) \<and>
     (\<forall>i. Suc i < length G \<longrightarrow> out_max \<le> length (concat (G ! i)) + length (hd (G ! Suc i)))"

text \<open>The kernel completes every call, for writes of up to the size of the buffer.\<close>

definition io_ok :: "ftee_io \<Rightarrow> bool" where
  "io_ok io \<longleftrightarrow> (\<forall>n. sys_ok io n) \<and> (\<forall>n. 512 \<le> sys_written io n)"

lemma log_names_unfold:
  "log_names fname = [fname, log_name fname (CHR ''1''), log_name fname (CHR ''2''), log_name fname (CHR ''3''),
     log_name fname (CHR ''4''), log_name fname (CHR ''5'')]"
  by (simp add: log_names_def)

lemma log_name_eq [simp]:
  "log_name fname a = log_name fname b \<longleftrightarrow> a = b" "log_name fname a \<noteq> fname" "fname \<noteq> log_name fname a"
  by (simp_all add: log_name_def)

lemma log_names_distinct: "distinct (log_names fname)"
  by (simp add: log_names_def)

text \<open>The five moves for any six different names.\<close>

lemma move_file_apply:
  "io_ok io \<Longrightarrow> a \<noteq> b \<Longrightarrow> log_fs st b = None \<Longrightarrow>
    log_fs (move_file io a b st) x = (if x = b then log_fs st a else if x = a then None else log_fs st x)"
  by (auto simp: move_file_def io_ok_def)

lemma unlink_file_apply: "io_ok io \<Longrightarrow> log_fs (unlink_file io a st) x = (if x = a then None else log_fs st x)"
  by (auto simp: unlink_file_def io_ok_def)

lemma move_chain:
  fixes st :: ftee_state
  assumes "io_ok io" and "distinct [n0, n1, n2, n3, n4, n5]"
  defines "st1 \<equiv> unlink_file io n5 st"
  defines "st2 \<equiv> move_file io n4 n5 st1"
  defines "st3 \<equiv> move_file io n3 n4 st2"
  defines "st4 \<equiv> move_file io n2 n3 st3"
  defines "st5 \<equiv> move_file io n1 n2 st4"
  shows "log_fs (move_file io n0 n1 (st5\<lparr>out_fp := False\<rparr>)) x =
    (if x = n0 then None else if x = n1 then log_fs st n0 else if x = n2 then log_fs st n1 else if x = n3 then log_fs st n2
     else if x = n4 then log_fs st n3 else if x = n5 then log_fs st n4 else log_fs st x)"
proof -
  note mv = move_file_apply [OF assms(1)]
  have 1: "log_fs st1 x = (if x = n5 then None else log_fs st x)" for x
    unfolding st1_def by (rule unlink_file_apply [OF assms(1)])
  have 2: "log_fs st2 x = (if x = n5 then log_fs st n4 else if x = n4 then None else log_fs st x)" for x
    using assms(2) unfolding st2_def by (subst mv) (auto simp: 1)
  have 3: "log_fs st3 x = (if x = n4 then log_fs st2 n3 else if x = n3 then None else log_fs st2 x)" for x
    using assms(2) unfolding st3_def by (intro mv) (auto simp: 2)
  have 4: "log_fs st4 x = (if x = n3 then log_fs st3 n2 else if x = n2 then None else log_fs st3 x)" for x
    using assms(2) unfolding st4_def by (intro mv) (auto simp: 3)
  have 5: "log_fs st5 x = (if x = n2 then log_fs st4 n1 else if x = n1 then None else log_fs st4 x)" for x
    using assms(2) unfolding st5_def by (intro mv) (auto simp: 4)
  have "log_fs (move_file io n0 n1 (st5\<lparr>out_fp := False\<rparr>)) x =
      (if x = n1 then log_fs st5 n0 else if x = n0 then None else log_fs st5 x)"
    using assms(2) by (subst mv) (auto simp: 5)
  then show ?thesis using assms(2) by (auto simp: 5 4 3 2)
qed

lemma segments_rotate:
  assumes "io_ok io"
  shows "segments fname (log_fs (log_rotate io fname st)) = None # butlast (segments fname (log_fs st))"
  unfolding log_rotate_def Let_def
  using move_chain [OF assms log_names_distinct [of fname, unfolded log_names_unfold]]
  by (simp add: log_names_unfold)

section \<open>Other files\<close>

text \<open>Whatever fails, no other file changes.\<close>

lemma move_file_frame:
  "f \<noteq> a \<Longrightarrow> f \<noteq> b \<Longrightarrow> log_fs (move_file io a b st) f = log_fs st f"
  "f \<noteq> a \<Longrightarrow> log_fs (unlink_file io a st) f = log_fs st f"
  by (simp_all add: move_file_def unlink_file_def)

lemma rotate_frame: "f \<notin> set (log_names fname) \<Longrightarrow> log_fs (log_rotate io fname st) f = log_fs st f"
  by (simp add: log_rotate_def Let_def move_file_frame log_names_unfold)

lemma log_write_frame:
  assumes "f \<notin> set (log_names fname)"
  shows "log_fs (case log_write io fname c st of Inl s \<Rightarrow> s | Inr s \<Rightarrow> s) f = log_fs st f"
proof -
  have "f \<noteq> fname" using assms by (auto simp: log_names_def)
  then show ?thesis
    using rotate_frame [OF assms]
    by (auto simp: log_write_def bind_res_def Let_def append_log_def open_log_def split: sum.split if_splits)
qed

lemma log_writes_frame:
  assumes "f \<notin> set (log_names fname)"
  shows "log_fs (case fold_res (log_write io fname) cs st of Inl s \<Rightarrow> s | Inr s \<Rightarrow> s) f = log_fs st f"
proof (induction cs arbitrary: st)
  case (Cons c cs)
  then show ?case using log_write_frame [OF assms, of io c st] by (cases "log_write io fname c st") auto
qed simp

lemma ftee_main_frame:
  assumes "f \<notin> set (log_names fname)"
  shows "snd (ftee_main io uid gid (prog # fname # args) t cs fs) f = fs f"
proof -
  let ?st = "log_rotate io fname \<lparr>log_fs = create_log fname fs, out_fp = False, out_cnt = 0, sys_calls = 0\<rparr>"
  have "log_fs ?st f = fs f" using assms rotate_frame [OF assms] by (auto simp: create_log_def log_names_def)
  then show ?thesis using log_writes_frame [OF assms, of io cs ?st]
    by (auto simp: ftee_main_def Let_def log_close_def split: sum.split sum.splits)
qed

section \<open>Writing\<close>

lemma packed_snoc:
  "packed (G @ [g]) \<longleftrightarrow> packed G \<and> g \<noteq> [] \<and> length (concat g) < out_max \<and>
    (G \<noteq> [] \<longrightarrow> out_max \<le> length (concat (last G)) + length (hd g))"
proof -
  have "(\<forall>i. Suc i < length (G @ [g]) \<longrightarrow> out_max \<le> length (concat ((G @ [g]) ! i)) + length (hd ((G @ [g]) ! Suc i))) \<longleftrightarrow>
    (\<forall>i. Suc i < length G \<longrightarrow> out_max \<le> length (concat (G ! i)) + length (hd (G ! Suc i))) \<and>
    (G \<noteq> [] \<longrightarrow> out_max \<le> length (concat (last G)) + length (hd g))" (is "?l \<longleftrightarrow> ?r")
  proof
    assume l: ?l
    have "out_max \<le> length (concat (last G)) + length (hd g)" if "G \<noteq> []"
      using l [THEN spec, of "length G - 1"] that by (simp add: nth_append last_conv_nth)
    moreover have "out_max \<le> length (concat (G ! i)) + length (hd (G ! Suc i))" if "Suc i < length G" for i
      using l [THEN spec, of i] that by (simp add: nth_append)
    ultimately show ?r by blast
  next
    assume r: ?r
    have "out_max \<le> length (concat ((G @ [g]) ! i)) + length (hd ((G @ [g]) ! Suc i))" if "i < length G" for i
    proof (cases "Suc i < length G")
      case False
      then have "i = length G - 1" "G \<noteq> []" "Suc i = length G" using that by auto
      then show ?thesis using r that by (simp add: nth_append last_conv_nth)
    qed (use r in \<open>simp add: nth_append\<close>)
    then show ?l by simp
  qed
  then show ?thesis by (auto simp: packed_def)
qed

text \<open>The log after a run of writes: the packed output in front of the older segments.\<close>

definition log_inv :: "string \<Rightarrow> log_files \<Rightarrow> string list list \<Rightarrow> ftee_state \<Rightarrow> bool" where
  "log_inv fname fs G st \<longleftrightarrow>
     out_fp st \<and> G \<noteq> [] \<and> packed G \<and> out_cnt st = length (concat (last G)) \<and>
     segments fname (log_fs st) = take 6 (rev (map (\<lambda>g. Some (concat g)) G) @ segments fname fs)"

lemma segments_upd: "segments fname (fs(fname \<mapsto> s)) = Some s # tl (segments fname fs)"
  by (simp add: log_names_unfold)

lemma length_log_names: "length (log_names fname) = 6"
  by (simp add: log_names_def)

lemma push_six: "6 \<le> length xs \<Longrightarrow> x # butlast (take 6 xs) = take 6 (x # xs)"
  by (simp add: butlast_take take_Cons')

lemma log_current:
  assumes "log_inv fname fs (G @ [g]) st"
  shows "log_fs st fname = Some (concat g)"
proof -
  have "hd (segments fname (log_fs st)) = Some (concat g)" using assms by (simp add: log_inv_def)
  then show ?thesis by (simp add: log_names_def)
qed

lemma append_log_ok:
  "io_ok io \<Longrightarrow> length c \<le> 512 \<Longrightarrow> append_log io c fname st =
    st\<lparr>log_fs := (log_fs st)(fname \<mapsto> the (log_fs st fname) @ c), sys_calls := Suc (sys_calls st)\<rparr>"
  by (simp add: append_log_def io_ok_def order.trans)

lemma open_log_ok:
  "io_ok io \<Longrightarrow> open_log io fname n st =
    Inr (st\<lparr>sys_calls := Suc (sys_calls st), log_fs := (log_fs st)(fname \<mapsto> []), out_fp := True, out_cnt := n\<rparr>)"
  by (simp add: open_log_def io_ok_def Let_def)

lemma log_write_packs:
  assumes io: "io_ok io" and c: "length c \<le> 512" and inv: "log_inv fname fs G st"
  shows "\<exists>G' st'. log_write io fname c st = Inr st' \<and> log_inv fname fs G' st' \<and> concat G' = concat G @ [c]"
proof -
  obtain H g where G: "G = H @ [g]" using inv by (cases G rule: rev_exhaust) (auto simp: log_inv_def)
  note cur = log_current [OF inv [unfolded G]]
  have st: "out_fp st" "out_cnt st = length (concat g)" "packed (H @ [g])"
    "segments fname (log_fs st) = take 6 (rev (map (\<lambda>g. Some (concat g)) G) @ segments fname fs)"
    using inv G by (auto simp: log_inv_def)
  have small: "length c < out_max" using c by (simp add: out_max_def)
  show ?thesis
  proof (cases "out_max \<le> length (concat g) + length c")
    case False
    have "log_write io fname c st = Inr (st\<lparr>out_cnt := length (concat g) + length c,
        log_fs := (log_fs st)(fname \<mapsto> concat g @ c), sys_calls := Suc (sys_calls st)\<rparr>)" (is "_ = Inr ?st'")
      using False st(1,2) cur by (simp add: log_write_def Let_def append_log_ok [OF io c])
    moreover have "log_inv fname fs (H @ [g @ [c]]) ?st'"
      using False st G by (simp add: log_inv_def packed_snoc segments_upd)
    ultimately show ?thesis using G by auto
  next
    case True
    let ?r = "log_rotate io fname (st\<lparr>out_cnt := length (concat g) + length c\<rparr>)"
    have wr: "log_write io fname c st = Inr (?r\<lparr>sys_calls := Suc (Suc (sys_calls ?r)),
        log_fs := (log_fs ?r)(fname \<mapsto> c), out_fp := True, out_cnt := length c\<rparr>)" (is "_ = Inr ?st'")
      using True st(1,2) by (simp add: log_write_def Let_def append_log_ok [OF io c] open_log_ok [OF io])
    have "segments fname (log_fs ?st') = take 6 (rev (map (\<lambda>g. Some (concat g)) (G @ [[c]])) @ segments fname fs)"
      using push_six [of "rev (map (\<lambda>g. Some (concat g)) G) @ segments fname fs" "Some c"]
      by (simp add: segments_upd segments_rotate [OF io] st(4) length_log_names)
    moreover have "packed (G @ [[c]])" using True st(3) small G by (subst packed_snoc) simp
    ultimately have "log_inv fname fs (G @ [[c]]) ?st'" by (simp add: log_inv_def)
    with wr show ?thesis by auto
  qed
qed

lemma log_writes_pack:
  assumes "io_ok io" and "\<forall>c \<in> set cs. length c \<le> 512" and "log_inv fname fs G st"
  shows "\<exists>G' st'. fold_res (log_write io fname) cs st = Inr st' \<and> log_inv fname fs G' st' \<and> concat G' = concat G @ cs"
  using assms(2,3)
proof (induction cs arbitrary: G st)
  case (Cons c cs)
  then obtain G1 st1 where 1: "log_write io fname c st = Inr st1" "log_inv fname fs G1 st1" "concat G1 = concat G @ [c]"
    using log_write_packs [OF assms(1)] by (metis list.set_intros(1))
  from Cons.IH [OF _ 1(2)] Cons.prems(1) 1 show ?case by auto
qed auto

lemma first_write:
  assumes io: "io_ok io" and c: "length c \<le> 512"
  shows "\<exists>st'. log_write io fname c (log_rotate io fname \<lparr>log_fs = fs, out_fp = False, out_cnt = 0, sys_calls = n\<rparr>) =
    Inr st' \<and> log_inv fname fs [[c]] st'"
proof -
  let ?r = "log_rotate io fname \<lparr>log_fs = fs, out_fp = False, out_cnt = 0, sys_calls = n\<rparr>"
  have small: "length c < out_max" using c by (simp add: out_max_def)
  have "\<not> out_fp ?r" unfolding log_rotate_def Let_def by (subst move_file_def) simp
  then have "log_write io fname c ?r = Inr (?r\<lparr>sys_calls := Suc (Suc (sys_calls ?r)),
      log_fs := (log_fs ?r)(fname \<mapsto> c), out_fp := True, out_cnt := length c\<rparr>)" (is "_ = Inr ?st'")
    using small by (simp add: log_write_def Let_def append_log_ok [OF io c] open_log_ok [OF io])
  moreover have "log_inv fname fs [[c]] ?st'"
    using small push_six [of "segments fname fs" "Some c"]
    by (simp add: log_inv_def packed_def segments_upd segments_rotate [OF io] length_log_names)
  ultimately show ?thesis by blast
qed

text \<open>C26. When the system calls succeed, the output is kept as consecutive segments: every one stays below the size limit
  and is as long as the limit allows, a new one being started only for a chunk that would reach it. The
  log file holds the newest one, the five numbered files the ones before it, continued by the
  segments of earlier runs; only what is older is lost. Whatever calls fail, no other file is touched.\<close>

theorem ftee_keeps_segments:
  assumes "target_valid uid gid fname t" and "fname \<noteq> ''--help''" and "\<forall>c \<in> set cs. length c \<le> 512" and "cs \<noteq> []"
  shows "(io_ok io \<longrightarrow> (\<exists>G. concat G = cs \<and> packed G \<and>
      fst (ftee_main io uid gid (prog # fname # args) t cs fs) = Finished \<and>
      segments fname (snd (ftee_main io uid gid (prog # fname # args) t cs fs)) =
        take 6 (rev (map (\<lambda>g. Some (concat g)) G) @ segments fname (create_log fname fs)))) \<and>
    (\<forall>f. f \<notin> set (log_names fname) \<longrightarrow> snd (ftee_main io uid gid (prog # fname # args) t cs fs) f = fs f)"
proof (intro conjI impI allI)
  assume io: "io_ok io"
  obtain c cs' where cs: "cs = c # cs'" using assms(4) by (cases cs) auto
  have small: "length c \<le> 512" "\<forall>c \<in> set cs'. length c \<le> 512" using assms(3) cs by auto
  let ?fs = "create_log fname fs"
  obtain st1 where st1: "log_write io fname c
      (log_rotate io fname \<lparr>log_fs = ?fs, out_fp = False, out_cnt = 0, sys_calls = 0\<rparr>) = Inr st1" "log_inv fname ?fs [[c]] st1"
    using first_write [OF io small(1)] by blast
  obtain G st where st: "fold_res (log_write io fname) cs' st1 = Inr st" "log_inv fname ?fs G st" "concat G = c # cs'"
    using log_writes_pack [OF io small(2) st1(2)] by auto
  have "ftee_main io uid gid (prog # fname # args) t cs fs = (Finished, log_fs st)"
    using assms(1,2) st1(1) st(1) cs by (simp add: ftee_main_def Let_def log_close_def)
  then show "\<exists>G. concat G = cs \<and> packed G \<and> fst (ftee_main io uid gid (prog # fname # args) t cs fs) = Finished \<and>
      segments fname (snd (ftee_main io uid gid (prog # fname # args) t cs fs)) =
        take 6 (rev (map (\<lambda>g. Some (concat g)) G) @ segments fname ?fs)"
    using st(2,3) cs by (auto simp: log_inv_def)
qed (rule ftee_main_frame)

theorem ftee_keeps_segments_witness:
  "let t = \<lparr>target_link = False, target_dir = False, target_stat = Some (1000, 1000, 1), target_append = True\<rparr>;
       io = \<lparr>sys_ok = (\<lambda>n. True), sys_written = (\<lambda>n. 512)\<rparr>;
       r = ftee_main io 1000 1000 [''ftee'', ''out''] t [''ab'', ''cd''] [''out'' \<mapsto> ''old'', ''x'' \<mapsto> ''y'']
   in (\<exists>G. concat G = [''ab'', ''cd''] \<and> packed G \<and>
        segments ''out'' (snd r) = take 6 (rev (map (\<lambda>g. Some (concat g)) G) @ [Some ''old'', None, None, None, None, None])) \<and>
      snd r ''x'' = Some ''y''"
proof -
  let ?t = "\<lparr>target_link = False, target_dir = False, target_stat = Some (1000, 1000, 1), target_append = True\<rparr>"
  let ?io = "\<lparr>sys_ok = (\<lambda>n. True), sys_written = (\<lambda>n. 512)\<rparr>"
  let ?fs = "[''out'' \<mapsto> ''old'', ''x'' \<mapsto> ''y''] :: log_files"
  have valid: "target_valid 1000 1000 ''out'' ?t" by (simp add: target_valid_def)
  have old: "segments ''out'' (create_log ''out'' ?fs) = [Some ''old'', None, None, None, None, None]"
    by (simp add: create_log_def log_names_unfold log_name_def)
  have io: "io_ok ?io" by (simp add: io_ok_def)
  have x: "''x'' \<notin> set (log_names ''out'')" by (simp add: log_names_unfold log_name_def)
  note main = ftee_keeps_segments [OF valid, of "[''ab'', ''cd'']" ?io "''ftee''" "[]" ?fs, unfolded old]
  have small: "\<forall>c \<in> set [''ab'', ''cd'']. length c \<le> 512" "[''ab'', ''cd''] \<noteq> []" "''out'' \<noteq> ''--help''" by simp_all
  show ?thesis
    unfolding Let_def
    using main [OF small(3,1,2), THEN conjunct1, THEN mp, OF io]
      main [OF small(3,1,2), THEN conjunct2, THEN spec, THEN mp, OF x] by auto
qed

end
