(* ===== verification/Util.thy ===== *)
theory Util imports Scanf begin

text \<open>
  String functions of firejail/util.c and lib/common.c that options, profiles and file names go
  through: path simplification, line clean-up, names of sandboxes and commands, sizes, rejection of control and shell
  characters.
\<close>

section \<open>Paths\<close>

abbreviation slash :: char where "slash \<equiv> CHR ''/''"
abbreviation dot :: char where "dot \<equiv> CHR ''.''"

text \<open>The text from \<^verbatim>\<open>path[i]\<close> on; the inner loop of \<^verbatim>\<open>clean_pathname\<close> moves \<^verbatim>\<open>i\<close> forward.\<close>

fun skip_slashes :: "string \<Rightarrow> string" where
  "skip_slashes (c # d # s) =
     (if d = slash \<or> (d = dot \<and> s \<noteq> [] \<and> hd s = slash) then skip_slashes (d # s) else c # d # s)"
| "skip_slashes s = s"

lemma length_skip_slashes: "length (skip_slashes p) \<le> length p"
  by (induction p rule: skip_slashes.induct) auto

lemma skip_slashes_not_Nil [simp]: "skip_slashes p = [] \<longleftrightarrow> p = []"
  by (induction p rule: skip_slashes.induct) auto

function clean_loop :: "string \<Rightarrow> string" where
  "clean_loop [] = []"
| "clean_loop (c # s) =
     (let p = (if c = slash then skip_slashes (c # s) else c # s) in hd p # clean_loop (tl p))"
  by pat_completeness auto

termination clean_loop
proof (relation "measure length", simp)
  fix c s p assume "p = (if c = slash then skip_slashes (c # s) else c # s)"
  then have "length p \<le> length (c # s)" and "p \<noteq> []" using length_skip_slashes [of "c # s"] by auto
  then show "(tl p, c # s) \<in> measure length" by (cases p) auto
qed

text \<open>A trailing dot and a trailing slash are removed at the end.\<close>

definition trim_end :: "string \<Rightarrow> string" where
  "trim_end rv =
     (let rv1 = (if 1 < length rv \<and> rv ! (length rv - 1) = dot \<and> rv ! (length rv - 2) = slash then butlast rv else rv)
      in if 1 < length rv1 \<and> rv1 ! (length rv1 - 1) = slash then butlast rv1 else rv1)"

definition clean_pathname :: "string \<Rightarrow> string" where
  "clean_pathname path = trim_end (clean_loop path)"

text \<open>The names on a path, without empty ones and single dots.\<close>

definition trivial :: "string \<Rightarrow> bool" where
  "trivial w \<longleftrightarrow> w = [] \<or> w = ''.''"

definition components :: "string \<Rightarrow> string list" where
  "components path = filter (\<lambda>w. \<not> trivial w) (split_on slash path)"

definition gnu_basename :: "string \<Rightarrow> string" where
  "gnu_basename path = last (split_on slash path)"

section \<open>Lines\<close>

definition blank :: "char \<Rightarrow> bool" where
  "blank c \<longleftrightarrow> c = CHR '' '' \<or> c = CHR 0x09"

definition eol :: "char \<Rightarrow> bool" where
  "eol c \<longleftrightarrow> c = CHR 0x0A \<or> c = CHR 0x0D"

text \<open>The automaton of \<^verbatim>\<open>line_remove_spaces\<close>; the flag is state 1.\<close>

function remove_loop :: "bool \<Rightarrow> string \<Rightarrow> string" where
  "remove_loop st [] = []"
| "remove_loop False (c # s) =
     (if eol c then [] else if \<not> blank c then c # remove_loop False s else CHR '' '' # remove_loop True s)"
| "remove_loop True (c # s) =
     (if eol c then [] else if blank c then remove_loop True s else remove_loop False (c # s))"
  by pat_completeness auto

termination remove_loop
  by (relation "measure (\<lambda>(st, s). 2 * length s + (if st then 1 else 0))") auto

definition line_remove_spaces :: "string \<Rightarrow> string option" where
  "line_remove_spaces buf =
     (if buf = [] then None
      else
        let rv = remove_loop False (dropWhile blank buf)
        in Some (if rv \<noteq> [] \<and> last rv = CHR '' '' then butlast rv else rv))"

text \<open>The words of a line.\<close>

function words :: "string \<Rightarrow> string list" where
  "words s = (let s' = dropWhile blank s in
     if s' = [] then [] else takeWhile (\<lambda>c. \<not> blank c) s' # words (dropWhile (\<lambda>c. \<not> blank c) s'))"
  by pat_completeness auto

termination words
proof (relation "measure length", simp)
  fix s s' assume s': "s' = dropWhile blank s" "s' \<noteq> []"
  then have "\<not> blank (hd s')" by (metis hd_dropWhile)
  then have "length (dropWhile (\<lambda>c. \<not> blank c) s') < length s'"
    using s'(2) by (cases s') (auto simp: le_imp_less_Suc length_dropWhile_le)
  also have "\<dots> \<le> length s" using s'(1) by (simp add: length_dropWhile_le)
  finally show "(dropWhile (\<lambda>c. \<not> blank c) s', s) \<in> measure length" by simp
qed

declare words.simps [simp del]

definition split_comma :: "string \<Rightarrow> string \<times> string option" where
  "split_comma str =
     (case strchr_cut (CHR '','') str of
        (a, None) \<Rightarrow> (a, None)
      | (a, Some b) \<Rightarrow> (a, if b = [] then None else Some b))"

section \<open>Numbers\<close>

text \<open>False: the message is printed and the process ends.\<close>

definition check_unsigned :: "string \<Rightarrow> bool" where
  "check_unsigned str = list_all isdigit_c (takeWhile (\<lambda>c. \<not> blank c) str)"

definition toupper_c :: "char \<Rightarrow> char" where
  "toupper_c c = (if islower_c c then char_of (char_code c - 32) else c)"

text \<open>\<^verbatim>\<open>sscanf\<close> with \<^verbatim>\<open>%llu\<close>; the variable keeps 0 if nothing is converted.\<close>

definition scan_llu :: "string \<Rightarrow> u64" where
  "scan_llu s =
     (let (neg, d) = scan_sign s; v = fst (read_digits 10 0 d)
      in if d = [] \<or> \<not> isdigit_c (hd d) then 0
         else if 2 ^ 64 \<le> v then - 1 else if neg then - of_nat v else of_nat v)"

text \<open>An empty argument is read before its start; the result is then not determined.\<close>

definition parse_arg_size :: "string \<Rightarrow> u64 option" where
  "parse_arg_size str =
     (if str = [] then None
      else
        let result = scan_llu str;
            suffix = toupper_c (last str);
            unit_given = (suffix = CHR ''K'' \<or> suffix = CHR ''M'' \<or> suffix = CHR ''G'');
            digits = (if unit_given then butlast str else str)
        in Some (if \<not> list_all isdigit_c digits then 0
                 else if isdigit_c suffix then result
                 else if suffix = CHR ''K'' then result * 1024
                 else if suffix = CHR ''M'' then result * (1024 * 1024)
                 else if suffix = CHR ''G'' then result * (1024 * 1024 * 1024)
                 else 0))"

section \<open>Names\<close>

definition name_char :: "char \<Rightarrow> bool" where
  "name_char c \<longleftrightarrow> c = CHR ''-'' \<or> c = dot \<or> c = CHR ''_'' \<or> isalnum_c c"

text \<open>The loop over the characters after the first: \<open>None\<close> is the return inside the loop.\<close>

fun name_loop :: "bool \<Rightarrow> string \<Rightarrow> bool option" where
  "name_loop only_numbers [] = Some only_numbers"
| "name_loop only_numbers (c # s) =
     (if c = CHR ''-'' \<or> c = dot \<or> c = CHR ''_'' then name_loop False s
      else if \<not> isalnum_c c then None
      else name_loop (only_numbers \<and> isdigit_c c) s)"

definition invalid_name :: "string \<Rightarrow> bool" where
  "invalid_name name =
     (if 253 < length name then True
      else case name of
        [] \<Rightarrow> True
      | c # s \<Rightarrow>
          if \<not> isalnum_c c then True
          else case name_loop (isdigit_c c) s of
            None \<Rightarrow> True
          | Some only_numbers \<Rightarrow> \<not> isalnum_c (last name) \<or> only_numbers)"

text \<open>The program name of a command; \<open>None\<close>: the process ends.\<close>

definition extract_command_name :: "string \<Rightarrow> string option" where
  "extract_command_name arg =
     (let base = gnu_basename arg in
      if slash \<in> set arg \<and> base = [] then None else Some (takeWhile (\<lambda>c. \<not> blank c) base))"

section \<open>Control and shell characters\<close>

definition iscntrl_c :: "char \<Rightarrow> bool" where
  "iscntrl_c c \<longleftrightarrow> char_code c < 32 \<or> char_code c = 127"

definition replace_cntrl_chars :: "string \<Rightarrow> char \<Rightarrow> string" where
  "replace_cntrl_chars str c = map (\<lambda>x. if iscntrl_c x then c else x) str"

definition has_cntrl_chars :: "string \<Rightarrow> bool" where
  "has_cntrl_chars str = list_ex iscntrl_c str"

definition escapes :: "(char \<times> char) list" where
  "escapes =
     [(CHR 0x08, CHR ''b''), (CHR 0x07, CHR ''a''), (CHR 0x1B, CHR ''e''), (CHR 0x0C, CHR ''f''), (CHR 0x0A, CHR ''n''),
      (CHR 0x0D, CHR ''r''), (CHR 0x09, CHR ''t''), (CHR 0x0B, CHR ''v''), (CHR 0x22, CHR 0x22), (CHR 0x27, CHR 0x27),
      (CHR ''?'', CHR ''?''), (CHR 0x5C, CHR 0x5C)]"

definition escape_char :: "char \<Rightarrow> string" where
  "escape_char c =
     (if iscntrl_c c then CHR 0x5C # (case map_of escapes c of None \<Rightarrow> [] | Some e \<Rightarrow> [e]) else [c])"

definition escape_size :: "string \<Rightarrow> nat" where
  "escape_size str = length str + length (filter (\<lambda>c. c \<in> fst ` set escapes) str) + 1"

definition escape_cntrl_chars :: "string \<Rightarrow> string" where
  "escape_cntrl_chars str = concat (map escape_char str)"

definition METACHARS :: string where
  "METACHARS = ''!'' @ [CHR 0x22] @ ''#$%&'' @ [CHR 0x27] @ '',;<>'' @ [CHR 0x5C] @ ''^'' @ [CHR 0x60] @ ''{|}''"

definition GLOBCHARS :: string where
  "GLOBCHARS = ''*?[]''"

text \<open>False: the file name is refused.\<close>

definition reject_meta_chars :: "string \<Rightarrow> bool \<Rightarrow> bool" where
  "reject_meta_chars fname globbing \<longleftrightarrow>
     \<not> has_cntrl_chars fname \<and>
     list_all (\<lambda>c. c \<notin> set (if globbing then METACHARS else METACHARS @ GLOBCHARS)) fname"

section \<open>Simplified paths\<close>

abbreviation path_of :: "string list \<Rightarrow> string" where
  "path_of ws \<equiv> concat (map (\<lambda>w. slash # w) ws)"

lemma clean_loop_copy: "slash \<notin> set w \<Longrightarrow> clean_loop (w @ s) = w @ clean_loop s"
  by (induction w) (auto simp: Let_def)

lemma skip_trivial: "trivial w \<Longrightarrow> skip_slashes (slash # w @ slash # s) = skip_slashes (slash # s)"
  by (auto simp: trivial_def)

lemma skip_name:
  assumes "\<not> trivial w" and "slash \<notin> set w"
  shows "skip_slashes (slash # w @ s) = slash # w @ s"
  using assms by (cases w; cases "tl w") (auto simp: trivial_def neq_Nil_conv)

lemma skip_last: "slash \<notin> set w \<Longrightarrow> skip_slashes (slash # w) = slash # w"
  by (cases w; cases "tl w") auto

lemma clean_loop_names:
  "\<forall>w \<in> set (ws @ [v]). slash \<notin> set w \<Longrightarrow>
    clean_loop (path_of (ws @ [v])) = path_of (filter (\<lambda>w. \<not> trivial w) ws @ [v])"
proof (induction ws)
  case Nil
  then show ?case using clean_loop_copy [of v "[]"] by (simp add: Let_def skip_last)
next
  case (Cons w ws)
  let ?p = "path_of (ws @ [v])"
  obtain s where s: "?p = slash # s" by (cases ws) auto
  have IH: "clean_loop ?p = path_of (filter (\<lambda>w. \<not> trivial w) ws @ [v])" using Cons by simp
  have w: "slash \<notin> set w" using Cons.prems by simp
  show ?case
  proof (cases "trivial w")
    case True
    then have "clean_loop (slash # w @ ?p) = clean_loop ?p" unfolding s by (simp add: skip_trivial)
    with IH True show ?thesis by simp
  next
    case False
    then have "clean_loop (slash # w @ ?p) = slash # w @ clean_loop ?p"
      using w by (simp add: skip_name clean_loop_copy Let_def)
    with IH False show ?thesis by simp
  qed
qed

lemma path_of_split: "path_of (split_on slash s) = slash # s"
  by (induction s) (auto split: list.split)

lemma path_of_join: "ws \<noteq> [] \<Longrightarrow> path_of ws = slash # join_on slash ws"
  by (induction slash ws rule: join_on.induct) auto

lemma trim_end_slash: "trim_end (p @ [slash]) = (if p = [] then [slash] else p)"
  by (auto simp: trim_end_def nth_append butlast_append)

lemma trim_end_dot: "trim_end (p @ [slash, dot]) = (if p = [] then [slash] else p)"
  by (auto simp: trim_end_def nth_append butlast_append Let_def)

lemma trim_end_keep: "z \<noteq> slash \<Longrightarrow> \<not> (z = dot \<and> y = slash) \<Longrightarrow> trim_end (xs @ [y, z]) = xs @ [y, z]"
  by (auto simp: trim_end_def nth_append Let_def)

lemma trim_end_name:
  assumes "\<not> trivial w" and "slash \<notin> set w"
  shows "trim_end (p @ slash # w) = p @ slash # w"
proof (cases w rule: rev_cases)
  case Nil
  then show ?thesis using assms(1) by (simp add: trivial_def)
next
  case (snoc u z)
  show ?thesis
  proof (cases u rule: rev_cases)
    case Nil
    then show ?thesis using assms snoc trim_end_keep [of z slash p] by (auto simp: trivial_def)
  next
    case (snoc u' y)
    with \<open>w = u @ [z]\<close> assms(2) trim_end_keep [of z y "p @ slash # u'"] show ?thesis by auto
  qed
qed

lemma clean_pathname_components:
  assumes "path \<noteq> []" and "hd path = slash"
  shows "clean_pathname path = slash # join_on slash (components path)"
proof -
  obtain s where path: "path = slash # s" using assms by (cases path) auto
  obtain ws v where ss: "split_on slash s = ws @ [v]" by (metis append_butlast_last_id split_on_not_Nil)
  have free: "\<forall>w \<in> set (ws @ [v]). slash \<notin> set w" using split_on_pieces [of _ slash s] by (simp add: ss)
  define C where "C = filter (\<lambda>w. \<not> trivial w) ws"
  have "clean_pathname path = trim_end (clean_loop (path_of (ws @ [v])))"
    using path_of_split [of s] unfolding ss path clean_pathname_def by simp
  then have rv: "clean_pathname path = trim_end (path_of C @ slash # v)"
    unfolding clean_loop_names [OF free] C_def by simp
  have comps: "components path = C @ (if trivial v then [] else [v])"
    by (simp add: components_def path ss trivial_def C_def)
  show ?thesis
  proof (cases "trivial v")
    case True
    then consider "v = []" | "v = ''.''" by (auto simp: trivial_def)
    then have "clean_pathname path = (if C = [] then [slash] else path_of C)"
      unfolding rv by cases (auto simp: trim_end_slash trim_end_dot)
    then show ?thesis using comps True path_of_join [of C] by auto
  next
    case False
    then show ?thesis using rv comps path_of_join [of "C @ [v]"] trim_end_name [of v "path_of C"] free by simp
  qed
qed

lemma components_join:
  assumes "\<forall>w \<in> set ws. \<not> trivial w \<and> slash \<notin> set w"
  shows "components (slash # join_on slash ws) = ws"
proof (cases "ws = []")
  case True
  then show ?thesis by (simp add: components_def trivial_def)
next
  case False
  have "split_on slash (join_on slash ws) = ws" using False assms
    by (induction slash ws rule: join_on.induct) (auto simp: split_on_free split_on_append)
  then show ?thesis using assms by (simp add: components_def trivial_def filter_id_conv)
qed

lemma components_pieces: "\<forall>w \<in> set (components path). \<not> trivial w \<and> slash \<notin> set w"
  using split_on_pieces [of _ slash path] by (auto simp: components_def)

section \<open>Cleaned lines\<close>

lemma remove_loop_word:
  "(\<forall>c \<in> set w. \<not> blank c \<and> \<not> eol c) \<Longrightarrow> remove_loop False (w @ s) = w @ remove_loop False s"
  by (induction w) auto

lemma remove_loop_blanks: "remove_loop True s = remove_loop False (dropWhile blank s)"
proof (induction s)
  case (Cons c s)
  then show ?case by (cases "blank c") (auto simp: blank_def eol_def)
qed simp

definition strip_last :: "string \<Rightarrow> string" where
  "strip_last rv = (if rv \<noteq> [] \<and> last rv = CHR '' '' then butlast rv else rv)"

lemma words_Nil: "words s = [] \<longleftrightarrow> dropWhile blank s = []"
  by (subst words.simps) (simp add: Let_def)

lemma words_word:
  assumes "w \<noteq> []" and "\<forall>c \<in> set w. \<not> blank c" and "s = [] \<or> blank (hd s)"
  shows "words (w @ s) = w # words s"
proof -
  have "dropWhile blank (w @ s) = w @ s" using assms(1,2) by (cases w) auto
  moreover have "takeWhile (\<lambda>c. \<not> blank c) (w @ s) = w" "dropWhile (\<lambda>c. \<not> blank c) (w @ s) = s"
    using assms(2,3) by (cases s; simp add: takeWhile_append dropWhile_append)+
  ultimately show ?thesis using assms(1) by (subst words.simps) (simp add: Let_def)
qed

lemma words_skip: "words (dropWhile blank s) = words s"
  by (subst (1 2) words.simps) simp

text \<open>
  Up to the end of the line, the result is the words of the line separated by single spaces.
\<close>

lemma strip_last_append: "X \<noteq> [] \<Longrightarrow> strip_last (p @ X) = p @ strip_last X"
  by (simp add: strip_last_def butlast_append)

lemma first_word:
  assumes "s \<noteq> []" and "\<not> blank (hd s)"
  obtains w r where "s = w @ r" "w \<noteq> []" "\<forall>c \<in> set w. \<not> blank c" "r = [] \<or> blank (hd r)"
proof
  show "s = takeWhile (\<lambda>c. \<not> blank c) s @ dropWhile (\<lambda>c. \<not> blank c) s" by simp
  show "takeWhile (\<lambda>c. \<not> blank c) s \<noteq> []" using assms by (cases s) auto
  show "\<forall>c \<in> set (takeWhile (\<lambda>c. \<not> blank c) s). \<not> blank c" by (auto dest: set_takeWhileD)
  show "dropWhile (\<lambda>c. \<not> blank c) s = [] \<or> blank (hd (dropWhile (\<lambda>c. \<not> blank c) s))"
    using hd_dropWhile [of "\<lambda>c. \<not> blank c" s] by auto
qed

lemma remove_loop_step:
  assumes "\<forall>c \<in> set w. \<not> blank c \<and> \<not> eol c" and "blank b"
  shows "remove_loop False (w @ b # t) = w @ CHR '' '' # remove_loop False (dropWhile blank t)"
  using assms by (auto simp: remove_loop_word remove_loop_blanks blank_def eol_def)

lemma remove_loop_words:
  assumes "\<forall>c \<in> set s. \<not> eol c" and "s = [] \<or> \<not> blank (hd s)"
  shows "strip_last (remove_loop False s) = join_on (CHR '' '') (words s)"
  using assms
proof (induction "length s" arbitrary: s rule: less_induct)
  case less
  show ?case
  proof (cases "s = []")
    case True
    then show ?thesis by (simp add: strip_last_def words.simps)
  next
    case False
    with less.prems(2) have "\<not> blank (hd s)" by simp
    from first_word [OF False this] obtain w r where
      s: "s = w @ r" and w: "w \<noteq> []" "\<forall>c \<in> set w. \<not> blank c" and r: "r = [] \<or> blank (hd r)" .
    have weol: "\<forall>c \<in> set w. \<not> blank c \<and> \<not> eol c" using w(2) less.prems(1) s by auto
    have words: "words s = w # words r" unfolding s by (rule words_word [OF w r])
    show ?thesis
    proof (cases r)
      case Nil
      have "last w \<noteq> CHR '' ''" using w(2) last_in_set [OF w(1)] by (auto simp: blank_def)
      then show ?thesis
        using words remove_loop_word [OF weol, of "[]"] by (simp add: s Nil strip_last_def words.simps [of "[]"])
    next
      case (Cons b t)
      define t' where "t' = dropWhile blank t"
      have b: "blank b" using r Cons by simp
      have out: "remove_loop False s = w @ CHR '' '' # remove_loop False t'"
        unfolding s Cons t'_def by (rule remove_loop_step [OF weol b])
      have t': "length t' < length s" "set t' \<subseteq> set s" "t' = [] \<or> \<not> blank (hd t')"
        using length_dropWhile_le [of blank t] hd_dropWhile [of blank t] set_dropWhileD [of _ blank t]
        unfolding t'_def s Cons by auto
      have IH: "strip_last (remove_loop False t') = join_on (CHR '' '') (words t')"
        by (rule less.hyps) (use t' less.prems(1) in auto)
      have "words r = words t'" using words_skip [of r] b by (simp add: Cons t'_def)
      with words have wt: "words s = w # words t'" by simp
      show ?thesis
      proof (cases t')
        case Nil
        then show ?thesis using out wt by (simp add: strip_last_def words.simps [of "[]"])
      next
        case (Cons c t'')
        then have c: "\<not> blank c" "\<not> eol c" using t'(2,3) less.prems(1) by auto
        then have "strip_last (remove_loop False s) = (w @ '' '') @ strip_last (remove_loop False t')"
          using strip_last_append [of "remove_loop False t'" "w @ '' ''"] out Cons by simp
        moreover have "words t' \<noteq> []" using c Cons by (simp add: words_Nil)
        ultimately show ?thesis using IH wt by (cases "words t'") simp_all
      qed
    qed
  qed
qed

lemma remove_loop_eol: "remove_loop st s = remove_loop st (takeWhile (\<lambda>c. \<not> eol c) s)"
  by (induction st s rule: remove_loop.induct) auto

lemma line_remove_spaces_words:
  assumes "buf \<noteq> []"
  shows "line_remove_spaces buf = Some (join_on (CHR '' '') (words (takeWhile (\<lambda>c. \<not> eol c) buf)))"
proof -
  let ?s = "takeWhile (\<lambda>c. \<not> eol c) (dropWhile blank buf)"
  have "?s = dropWhile blank (takeWhile (\<lambda>c. \<not> eol c) buf)"
    by (induction buf) (auto simp: blank_def eol_def)
  then have w: "words ?s = words (takeWhile (\<lambda>c. \<not> eol c) buf)" by (simp add: words_skip)
  have "\<forall>c \<in> set ?s. \<not> eol c" by (auto dest: set_takeWhileD)
  moreover have "?s = [] \<or> \<not> blank (hd ?s)"
    by (induction buf) auto
  ultimately have "strip_last (remove_loop False ?s) = join_on (CHR '' '') (words ?s)" by (rule remove_loop_words)
  then show ?thesis
    using assms remove_loop_eol [of False "dropWhile blank buf"] w
    by (simp add: line_remove_spaces_def strip_last_def Let_def)
qed

section \<open>Names and sizes\<close>

lemma name_loop_result:
  "name_loop b s = (if \<forall>c \<in> set s. name_char c then Some (b \<and> (\<forall>c \<in> set s. isdigit_c c)) else None)"
  by (induction s arbitrary: b) (auto simp: name_char_def isdigit_c_def char_code_def isalnum_c_def islower_c_def isupper_c_def)

lemma invalid_name_iff:
  "invalid_name name \<longleftrightarrow>
    \<not> (0 < length name \<and> length name \<le> 253 \<and> isalnum_c (hd name) \<and> isalnum_c (last name) \<and>
       (\<forall>c \<in> set name. name_char c) \<and> (\<exists>c \<in> set name. \<not> isdigit_c c))"
  by (cases name) (auto simp: invalid_name_def name_loop_result name_char_def split: option.splits if_splits)

lemma dec_str_digits: "list_all isdigit_c (dec_str n)"
proof (induction n rule: dec_str.induct)
  case (1 n)
  then show ?case by (cases "n < 10") (simp_all add: dec_str.simps [of n] isdigit_hex)
qed

lemma scan_llu_dec:
  assumes "n < 2 ^ 64" and "s = [] \<or> digit_val (hd s) = None"
  shows "scan_llu (dec_str n @ s) = of_nat n"
proof -
  obtain d t where d: "dec_str n = hex_digit d # t" "d < 10" using dec_str_hd by blast
  then have "scan_sign (dec_str n @ s) = (False, dec_str n @ s)" using hex_digit_plain [of d] by (simp add: scan_sign_def)
  moreover have "read_digits 10 0 (dec_str n @ s) = (n, s)"
    using read_digits_append_nat [of 0 n s] assms(2) by (cases s) auto
  ultimately show ?thesis using assms(1) d isdigit_hex [of d] by (simp add: scan_llu_def)
qed

text \<open>A size with the unit G is a multiple of \<open>2 ^ 30\<close> modulo \<open>2 ^ 64\<close>; a size too big for 64 bits wraps around.\<close>

lemma parse_arg_size_G:
  assumes "n < 2 ^ 64"
  shows "parse_arg_size (dec_str n @ ''G'') = Some (of_nat (n * 2 ^ 30))"
proof -
  have c: "toupper_c (CHR ''G'') = CHR ''G''" "\<not> isdigit_c (CHR ''G'')" "digit_val (CHR ''G'') = None"
    by (simp_all add: toupper_c_def islower_c_def isdigit_c_def digit_val_def char_code_def)
  then have "scan_llu (dec_str n @ ''G'') = of_nat n" using assms by (intro scan_llu_dec) simp_all
  then show ?thesis by (simp add: parse_arg_size_def Let_def c dec_str_digits)
qed

lemma parse_arg_size_wraps: "parse_arg_size (dec_str (2 ^ 34) @ ''G'') = Some 0"
proof -
  have "(of_nat (2 ^ 34 * 2 ^ 30) :: u64) = of_nat (2 ^ 64)" by simp
  also have "\<dots> = 0" by (simp add: of_nat_eq_0_iff)
  finally show ?thesis using parse_arg_size_G [of "2 ^ 34"] by simp
qed

text \<open>The escaped text and its terminator fit the allocated memory.\<close>

lemma escape_fits: "length (escape_cntrl_chars str) < escape_size str"
proof -
  have one: "length (escape_char c) \<le> 1 + (if c \<in> fst ` set escapes then 1 else 0)" for c
    using map_of_SomeD [of escapes c] by (force simp: escape_char_def split: option.split)
  have "length (escape_cntrl_chars str) \<le> length str + length (filter (\<lambda>c. c \<in> fst ` set escapes) str)"
  proof (induction str)
    case (Cons c str)
    with one [of c] show ?case by (cases "c \<in> fst ` set escapes") (simp_all add: escape_cntrl_chars_def)
  qed (simp add: escape_cntrl_chars_def)
  then show ?thesis by (simp add: escape_size_def)
qed

section \<open>Properties\<close>

text \<open>C24. A cleaned absolute path has the names of the original, without empty ones and single dots, in the same
  order and separated by single slashes; cleaning it again changes nothing \<close>

theorem clean_pathname_canonical:
  assumes "path \<noteq> []" and "hd path = slash"
  shows "clean_pathname path = slash # join_on slash (components path) \<and>
    components (clean_pathname path) = components path \<and> clean_pathname (clean_pathname path) = clean_pathname path"
proof -
  have c: "components (slash # join_on slash (components path)) = components path"
    by (rule components_join) (rule components_pieces)
  show ?thesis
    using clean_pathname_components [OF assms] clean_pathname_components [of "slash # join_on slash (components path)"] c
    by simp
qed

theorem clean_pathname_canonical_witness:
  "clean_pathname ''//foo/./bar/..//./'' = ''/foo/bar/..''"
proof -
  have "components ''//foo/./bar/..//./'' = [''foo'', ''bar'', ''..'']"
    by (simp add: components_def trivial_def)
  then show ?thesis using clean_pathname_canonical [of "''//foo/./bar/..//./''"] by simp
qed

end
