(* ===== verification/Spec2Isabelle.thy ===== *)
theory Spec2Isabelle
  imports Seccomp_Load Sbox Arp Radix Cmdline Env Profile_Lists Mountinfo Ftee Util
begin

text \<open>
  A verification development for firejail, a program that runs other programs with fewer rights. The
  paths below are relative to src/src.

  \<^bold>\<open>The program.\<close> \<^verbatim>\<open>firejail\<close> reads options and profiles into global variables, forks a child, builds seccomp
  filters with the helpers \<^verbatim>\<open>fseccomp\<close> and \<^verbatim>\<open>fsec-optimize\<close> (started through \<^verbatim>\<open>sbox.c\<close>), loads them, reduces the
  capability bounding set, configures the network and starts the user's command through a shell. Later
  processes can join the sandbox. The other tools modelled here are \<^verbatim>\<open>ftee\<close> (output log) and the
  prefix tree of \<^verbatim>\<open>fnettrace\<close>.

  \<^bold>\<open>Conventions.\<close> A process exit is the left summand of a result type, with one constructor per
  message or failed assertion; the right summand is the state after a normal return. Files the tools
  exchange are maps from names to contents. Machine integers are words where the code depends on their width. What
  the C headers of a platform define (call numbers, errno values, byte order, architecture) is the
  record \<^typ>\<open>platform\<close>, an argument of the definitions; theorems hold for every
  platform unless they say otherwise, and are instantiated at the x86_64 Linux tables of the sources for their
  witnesses. The kernel's filter interpreter is the locale \<^verbatim>\<open>bpf_machine\<close>: its laws are the
  documented effect of the instructions the filters use, and \<^verbatim>\<open>bpf_exec\<close> interprets it. The kernel's bounding set is
  the locale \<^verbatim>\<open>bounding_set\<close>, interpreted by \<^verbatim>\<open>capbset_drop\<close>.

  \<^bold>\<open>Foundations.\<close>
  \<^item> Prelude: fallible loops, C string functions, conversions. Scanf: the number conversions of scanf and printf.
  \<^item> Platform, Table_Check, Bpf: the platform, sorting-based checks of big tables, instructions,
    the macros of include/seccomp.h and the interpreter.

  \<^bold>\<open>Building filters (fseccomp, fsec-optimize, lib).\<close>
  \<^item> Errno, Syscall_x86_64, Syscall_i386, Syscall_Groups: lib/errno.c, include/syscall_*.h and the group table of
    lib/syscall.c with its conditional compilation.
  \<^item> Seccomp_File, Syscall, Syscall_Lists: the writers of fseccomp/seccomp_file.c, and entry syntax, group
    expansion and list splitting of lib/syscall.c. Group expansion is a recursion that ends because the references
    between groups are ranked.
  \<^item> Seccomp, Seccomp_Policy: the builders of fseccomp/seccomp.c and, for each of them, that the program it
    writes decides every call by a set-based policy; when they fail. Linux_x86_64: the concrete platform.
  \<^item> Seccomp_Mdwx, Namespaces, Secondary, Protocol: the special filters (memory-deny-write-execute,
    restrict-namespaces, secondary architectures, protocol), with their policies and the
    inputs on which the code goes wrong. Filters that look at an argument read its first half, so
    their policies are stated for little-endian platforms, where it is the low one.
  \<^item> Optimizer, Default_Groups: the pass of fsec-optimize keeps every verdict as long as its jumps fit 8 bits,
    which holds for the default filters on every platform, and does not when they do not fit.
  \<^item> Fseccomp_Main: the command dispatch of both tools.

  \<^bold>\<open>The sandbox (firejail).\<close>
  \<^item> Seccomp_Load: firejail/seccomp.c, protocol.c and the seccomp steps of sandbox.c, preproc.c and
    libpostexecseccomp. The option \<^verbatim>\<open>--seccomp=list\<close> leads to programs with the documented policy. A joining
    process loads the same programs, unless an option for 32-bit calls made the set-up rewrite a
    file it had loaded. A loaded program is the content of its file at that time.
  \<^item> Profile_Lists: the lists of profile.c that later options edit, as edits of an ordered set.
  \<^item> Caps: caps.c, the capability options of main.c and the capabilities of join.c, with the exact bounding set
    every option leads to.
  \<^item> Sbox: environment, capabilities and filter of the helpers (sbox.c).
  \<^item> Env: env.c, the start of main and the environment start_application (sandbox.c) gives the program; Cmdline: cmdline.c, with a reference for the shell's word splitting.
  \<^item> Util: string functions of util.c and lib/common.c; clean_pathname keeps exactly the names of a path.
  \<^item> Mountinfo: mountinfo.c. The kernel's documented line format is \<^verbatim>\<open>mount_line\<close>; the mount points found are the
    ones strictly below a directory in the tree of path components, except for the root directory.
  \<^item> Network, Arp: address helpers of include/common.h, bridge configuration (network_main.c) and the
    choice of an address (arp.c). The ARP probe and the random numbers are parameters. The scan is the only loop that may run
    forever; it is a partial function and the theorems say when it returns.

  \<^bold>\<open>Tools.\<close> Radix: fnettrace/radix.c, with the longest-prefix property and squashing. Ftee: ftee/main.c; the
  success of its system calls is a parameter.

  \<^bold>\<open>Bounds.\<close> Buffers of fixed or computed size are part of the model: the 32 instructions of the protocol filter,
  the 8-bit jumps of the optimiser, the 16-bit length of a loaded program, the line buffer of the filter list,
  the command line (below \<open>2 ^ 30\<close> bytes, so that the \<^verbatim>\<open>int\<close> counter does not overflow; the kernel limits
  arguments to far less), the mount array and the list limit.

  \<^bold>\<open>Not modelled.\<close> Code that is a sequence of system calls with no decision of its own to check: mounts and the
  file system view, namespaces, network devices and packets, X11, D-Bus and sound, process control, printing. The profile
  parser and the other options only set variables. The system call tables of other architectures
  have the shape of the two modelled ones. \<^verbatim>\<open>firecfg\<close>, \<^verbatim>\<open>fbuilder\<close>, \<^verbatim>\<open>firemon\<close>, \<^verbatim>\<open>jailcheck\<close> and \<^verbatim>\<open>fcopy\<close> work on the
  file system and on /proc.

  This theory holds the property that spans the option lists, the sandbox set-up and the filter builder.
\<close>

section \<open>From protocol options to the filter\<close>

lemma run_protocol:
  assumes "error_action_of P (seccomp_error_action cfg) = Inr a" and "cfg_protocol cfg = Some r"
    and "protocol_build_filter P (opn RUN_SECCOMP_PROTOCOL) r a = Inr (Some p)"
  shows "sandbox_build_protocol P opn cfg st = Inr (st\<lparr>run_files := (run_files st)(RUN_SECCOMP_PROTOCOL \<mapsto> p)\<rparr>)"
  using assms
  by (simp add: sandbox_build_protocol_def run_fseccomp_def sbox_argv_def fseccomp_def dispatch_command_def write_protocol_def)

text \<open>C10. From the \<^verbatim>\<open>--protocol\<close> options to the filter file, on a little-endian platform: the options build a
  list without repetitions, so the program fits its array of 32 instructions, and of the calls of socket(2) it allows
  those whose first argument is a family the options left in the list and no other, on x86_64 for the native and the
  i386 call alike; other calls pass and x32 calls are refused.\<close>

theorem protocol_options_policy:
  assumes "bpf_machine exec" and "0 < opn RUN_SECCOMP_PROTOCOL" and "sys_nr P ''socket'' = Some s"
    and "error_action_of P (seccomp_error_action cfg) = Inr a"
    and "\<forall>l \<in> set ls. plain_list l" and "fold_res profile_list_augment ls None = Inr (cfg_protocol cfg)"
    and "edited ls (length ls) [] = ts" and "ts \<noteq> []" and "list_all (\<lambda>t. domain_of t \<noteq> None) ts"
    and "\<not> big_endian P"
  shows "\<exists>p st'. sandbox_build_protocol P opn cfg st = Inr st' \<and> run_files st' RUN_SECCOMP_PROTOCOL = Some p \<and>
    length p \<le> 32 \<and> (\<forall>d. exec (data_word P d) p 0 = Some (protocol_verdict P a ts d))"
proof -
  have ls: "ls \<noteq> []" using assms(7,8) by (auto simp: edited_def list_edits_def)
  obtain r where r: "cfg_protocol cfg = Some r" using augmented_Some [OF assms(6) ls] by blast
  have ts: "strtok_all (CHR '','') r = ts" "distinct ts"
    using augmented_tokens [OF assms(5) ls assms(6) [unfolded r]] assms(7) by auto
  obtain p where p: "protocol_build_filter P (opn RUN_SECCOMP_PROTOCOL) r a = Inr (Some p)" "length p \<le> 32"
    "\<forall>d. exec (data_word P d) p 0 = Some (protocol_verdict P a ts d)"
    using protocol_program_policy [OF assms(1-3) ts(1) assms(8) ts(2) assms(9,10)] by blast
  show ?thesis using run_protocol [where opn = opn, OF assms(4) r p(1)] p(2,3) by auto
qed

theorem protocol_options_policy_witness:
  "\<exists>p st'. sandbox_build_protocol linux_x86_64 (\<lambda>_. 3)
       (default_config\<lparr>cfg_protocol := Some ''unix,inet6''\<rparr>) (fresh_state Map.empty) = Inr st' \<and>
     run_files st' RUN_SECCOMP_PROTOCOL = Some p \<and> length p \<le> 32 \<and>
     (\<forall>d. bpf_exec (data_word linux_x86_64 d) p 0 =
       Some (protocol_verdict linux_x86_64 (SECCOMP_RET_ERRNO OR u32_of_int (errno_val linux_x86_64 ''EPERM'')) [''unix'', ''inet6''] d))"
proof -
  let ?cfg = "default_config\<lparr>cfg_protocol := Some ''unix,inet6''\<rparr>" and ?ls = "[''unix,inet,inet6'', ''-inet'']"
  have action: "error_action_of linux_x86_64 (seccomp_error_action ?cfg) = Inr (SECCOMP_RET_ERRNO OR u32_of_int (errno_val linux_x86_64 ''EPERM''))"
    by (simp add: default_config_def error_action_of_def linux_x86_64_simps)
  have plain: "\<forall>l \<in> set ?ls. plain_list l" by (auto simp: plain_list_def plain_item_def strtok_all_def)
  have combined: "fold_res profile_list_augment ?ls None = Inr (cfg_protocol ?cfg)"
    by (simp add: profile_list_augment_def profile_list_compress_edits list_edits_def list_edit_def list_insert_def
        strtok_all_def MAX_LIST_def)
  have edits: "edited ?ls (length ?ls) [] = [''unix'', ''inet6'']"
    by (simp add: edited_def list_edits_def list_edit_def list_insert_def strtok_all_def)
  show ?thesis
    by (rule protocol_options_policy [OF vm.bpf_machine_axioms _ linux_socket action plain combined edits])
       (simp_all add: domain_of_def protocol_def)
qed

end
